(* ===== verification/Installer_Prelude.thy ===== *)
theory Installer_Prelude
  imports Main "HOL-Library.Word" "HOL-Library.AList" "HOL-Library.Sublist"
begin

text \<open>
  Shared vocabulary of the development: the machine-integer types the code uses, the
  \<open>std::string\<close> searches and slices, decimal printing, finite maps kept as association
  lists, and the collections of simplification rules the components fill.

  A \<open>std::string\<close> is a \<^typ>\<open>string\<close> (a list of bytes). A search that may answer
  \<open>std::string::npos\<close> returns an option.
\<close>

named_theorems model_defs
  \<open>defining equations of the model's straight-line operations\<close>

named_theorems string_simps
  \<open>rewrite rules for the string searches and slices\<close>

type_synonym u8 = "8 word"
type_synonym u16 = "16 word"
type_synonym u32 = "32 word"
type_synonym u64 = "64 word"

section \<open>Searching strings\<close>

text \<open>\<open>s.find_last_of(c)\<close> for a single character.\<close>

fun find_last_of :: "char \<Rightarrow> string \<Rightarrow> nat option" where
  "find_last_of c [] = None"
| "find_last_of c (x # xs) =
     (case find_last_of c xs of
        Some i \<Rightarrow> Some (Suc i)
      | None \<Rightarrow> if x = c then Some 0 else None)"

text \<open>\<open>s.find(pat)\<close>: the first occurrence.\<close>

fun find_str :: "string \<Rightarrow> string \<Rightarrow> nat option" where
  "find_str pat [] = (if pat = [] then Some 0 else None)"
| "find_str pat (x # xs) =
     (if prefix pat (x # xs) then Some 0 else map_option Suc (find_str pat xs))"

text \<open>\<open>s.rfind(pat)\<close>: the last occurrence.\<close>

fun rfind_str :: "string \<Rightarrow> string \<Rightarrow> nat option" where
  "rfind_str pat [] = (if pat = [] then Some 0 else None)"
| "rfind_str pat (x # xs) =
     (case rfind_str pat xs of
        Some i \<Rightarrow> Some (Suc i)
      | None \<Rightarrow> if prefix pat (x # xs) then Some 0 else None)"

definition contains_str :: "string \<Rightarrow> string \<Rightarrow> bool" where
  "contains_str pat s = (find_str pat s \<noteq> None)"

text \<open>
  \<open>s.substr(pos, n)\<close> and \<open>s.substr(pos)\<close> for a position within the string. The C++
  function throws \<open>std::out_of_range\<close> for \<open>pos > size()\<close>; \<open>substr_opt\<close> keeps that case
  as \<^const>\<open>None\<close> for the callers whose position the code does not bound.
\<close>

definition substr :: "string \<Rightarrow> nat \<Rightarrow> nat \<Rightarrow> string" where
  "substr s pos n = take n (drop pos s)"

definition substr_from :: "string \<Rightarrow> nat \<Rightarrow> string" where
  "substr_from s pos = drop pos s"

definition substr_opt :: "string \<Rightarrow> nat \<Rightarrow> string option" where
  "substr_opt s pos = (if pos \<le> length s then Some (drop pos s) else None)"

lemma find_last_of_None [string_simps]: "find_last_of c s = None \<longleftrightarrow> c \<notin> set s"
  by (induction s) (auto split: option.splits)

lemma find_last_of_bound: "find_last_of c s = Some i \<Longrightarrow> i < length s"
  by (induction s arbitrary: i) (auto split: option.splits if_splits)

lemma find_last_of_nth: "find_last_of c s = Some i \<Longrightarrow> s ! i = c"
  by (induction s arbitrary: i) (auto split: option.splits if_splits)

lemma find_last_of_last: "find_last_of c s = Some i \<Longrightarrow> c \<notin> set (drop (Suc i) s)"
proof (induction s arbitrary: i)
  case Nil
  then show ?case by simp
next
  case (Cons x xs)
  then show ?case
    by (cases "find_last_of c xs") (auto simp: find_last_of_None split: if_splits)
qed

lemma find_last_of_append [string_simps]:
  "c \<notin> set ys \<Longrightarrow> find_last_of c (xs @ c # ys) = Some (length xs)"
proof (induction xs)
  case Nil
  then have "find_last_of c ys = None" by (simp add: find_last_of_None)
  then show ?case by simp
next
  case (Cons x xs)
  then show ?case by simp
qed

lemma find_str_bound: "find_str pat s = Some i \<Longrightarrow> i + length pat \<le> length s"
  by (induction s arbitrary: i) (auto split: if_splits dest: prefix_length_le)

lemma contains_str_sublist: "contains_str pat s \<longleftrightarrow> sublist pat s"
  unfolding contains_str_def
  by (induction s) (auto simp: sublist_Cons_right)

lemma contains_str_refl [string_simps]: "contains_str s s"
  by (simp add: contains_str_sublist)

lemma contains_str_append_left [string_simps]: "contains_str pat (pat @ s)"
  by (simp add: contains_str_sublist)

lemma rfind_str_bound: "rfind_str pat s = Some i \<Longrightarrow> i + length pat \<le> length s"
  by (induction s arbitrary: i) (auto split: if_splits option.splits dest: prefix_length_le)

section \<open>Decimal printing\<close>

text \<open>\<open>std::to_string\<close> on the integers the code prints.\<close>

fun string_of_nat :: "nat \<Rightarrow> string" where
  "string_of_nat n =
     (if n < 10 then [char_of (48 + n)] else string_of_nat (n div 10) @ [char_of (48 + n mod 10)])"

declare string_of_nat.simps [simp del]

definition string_of_int :: "int \<Rightarrow> string" where
  "string_of_int i = (if i < 0 then CHR ''-'' # string_of_nat (nat (- i)) else string_of_nat (nat i))"

lemma string_of_nat_0 [simp]: "string_of_nat 0 = ''0''"
  by code_simp

lemma string_of_nat_nonempty [simp]: "string_of_nat n \<noteq> []"
  by (subst string_of_nat.simps) simp

lemma string_of_nat_digits:
  "\<forall>c \<in> set (string_of_nat n). (48::nat) \<le> of_char c \<and> of_char c < (58::nat)"
proof (induction n rule: string_of_nat.induct)
  case (1 n)
  then show ?case
    by (subst string_of_nat.simps) auto
qed

section \<open>Finite maps as association lists\<close>

lemma map_of_AList_update [simp]: "map_of (AList.update k v al) = (map_of al)(k \<mapsto> v)"
  by (rule update_conv')

lemma map_of_AList_delete [simp]: "map_of (AList.delete k al) = (map_of al)(k := None)"
  by (rule delete_conv')

lemma map_of_filter_key [simp]:
  "map_of (filter (\<lambda>(k, v). P k) al) k = (if P k then map_of al k else None)"
  by (induction al) auto

end
