(* ===== verification/Installer_World.thy ===== *)
theory Installer_World
  imports Installer_Prelude
begin

text \<open>
  The outside of the program: the POSIX file system the code changes, and the third-party
  code and services it calls.

  The file system is a finite map from absolute paths to nodes. The system calls the code
  makes are written out over it with the failures POSIX documents; every further failure
  (permissions, a full disk, I/O errors) is the answer of \<open>w_fault\<close>, so each error branch
  of the callers can be taken; \<open>w_grant\<close> says how many bytes of a file a single read or write
  moves. A hard link copies the node: the code never writes in place
  to a file that has a second name.

  Everything that is not inside src/ and not part of the language's run time is a field of
  the record \<open>ext\<close> and an argument of the definitions that use it: package verification and
  unpacking, patching, SHA-256, zip and JSON access, the directory helpers of c_utils, the
  parameter service and the system ability manager. Calls that change such a service are
  recorded in the world in the order they are made.
\<close>

section \<open>The file system\<close>

datatype node = Dir nat | Reg nat string

type_synonym fsys = "(string \<times> node) list"

datatype sysop = OpStat | OpMkdir | OpChmod | OpLink | OpUnlink | OpRename | OpOpen
  | OpWrite | OpRmdir | OpMount | OpUmount

record world =
  w_fs :: fsys
  w_fault :: "sysop \<Rightarrow> string \<Rightarrow> bool"
  w_grant :: "string \<Rightarrow> int \<Rightarrow> nat \<Rightarrow> int"
  w_setparams :: "(string \<times> string) list"
  w_reboots :: "string list"
  w_mounts :: "(string \<times> string) list"

definition inside :: "string \<Rightarrow> string \<Rightarrow> bool" where
  "inside d p = (p = d \<or> prefix (d @ ''/'') p)"

definition fs_node :: "fsys \<Rightarrow> string \<Rightarrow> node option" where
  "fs_node fs p =
     (case map_of fs p of
        Some n \<Rightarrow> Some n
      | None \<Rightarrow>
          (if p \<noteq> [] \<and> last p = CHR ''/'' then
             (case map_of fs (butlast p) of Some (Dir m) \<Rightarrow> Some (Dir m) | _ \<Rightarrow> None)
           else None))"

definition is_dir :: "fsys \<Rightarrow> string \<Rightarrow> bool" where
  "is_dir fs p = (case fs_node fs p of Some (Dir _) \<Rightarrow> True | _ \<Rightarrow> False)"

definition is_reg :: "fsys \<Rightarrow> string \<Rightarrow> bool" where
  "is_reg fs p = (case fs_node fs p of Some (Reg _ _) \<Rightarrow> True | _ \<Rightarrow> False)"

definition parent_dir :: "string \<Rightarrow> string option" where
  "parent_dir p =
     (case find_last_of CHR ''/'' p of
        None \<Rightarrow> None
      | Some i \<Rightarrow> if i = 0 then None else Some (take i p))"

definition parent_ok :: "fsys \<Rightarrow> string \<Rightarrow> bool" where
  "parent_ok fs p = (case parent_dir p of None \<Rightarrow> True | Some d \<Rightarrow> is_dir fs d)"

text \<open>Replacing the subtree name \<open>a\<close> by \<open>b\<close>, as a rename of a directory does.\<close>

definition rebase :: "string \<Rightarrow> string \<Rightarrow> string \<Rightarrow> string" where
  "rebase a b p = (if inside a p then b @ drop (length a) p else p)"

definition dir_empty :: "fsys \<Rightarrow> string \<Rightarrow> bool" where
  "dir_empty fs d = (\<not> list_ex (\<lambda>(p, n). prefix (d @ ''/'') p) fs)"

section \<open>System calls\<close>

datatype stat_result = StatOk node | StatNoEnt | StatErr

definition sys_stat :: "world \<Rightarrow> string \<Rightarrow> stat_result" where
  "sys_stat w p =
     (if w_fault w OpStat p then StatErr
      else case fs_node (w_fs w) p of None \<Rightarrow> StatNoEnt | Some n \<Rightarrow> StatOk n)"

definition sys_mkdir :: "string \<Rightarrow> nat \<Rightarrow> world \<Rightarrow> bool \<times> world" where
  "sys_mkdir p mode w =
     (if w_fault w OpMkdir p \<or> fs_node (w_fs w) p \<noteq> None \<or> \<not> parent_ok (w_fs w) p
      then (False, w)
      else (True, w\<lparr>w_fs := AList.update p (Dir mode) (w_fs w)\<rparr>))"

definition sys_chmod :: "string \<Rightarrow> nat \<Rightarrow> world \<Rightarrow> bool \<times> world" where
  "sys_chmod p mode w =
     (if w_fault w OpChmod p then (False, w)
      else case map_of (w_fs w) p of
        None \<Rightarrow> (False, w)
      | Some (Dir _) \<Rightarrow> (True, w\<lparr>w_fs := AList.update p (Dir mode) (w_fs w)\<rparr>)
      | Some (Reg _ c) \<Rightarrow> (True, w\<lparr>w_fs := AList.update p (Reg mode c) (w_fs w)\<rparr>))"

definition sys_link :: "string \<Rightarrow> string \<Rightarrow> world \<Rightarrow> bool \<times> world" where
  "sys_link a b w =
     (if w_fault w OpLink b \<or> fs_node (w_fs w) b \<noteq> None \<or> \<not> parent_ok (w_fs w) b
      then (False, w)
      else case map_of (w_fs w) a of
        Some (Reg m c) \<Rightarrow> (True, w\<lparr>w_fs := AList.update b (Reg m c) (w_fs w)\<rparr>)
      | _ \<Rightarrow> (False, w))"

definition sys_unlink :: "string \<Rightarrow> world \<Rightarrow> bool \<times> world" where
  "sys_unlink p w =
     (if w_fault w OpUnlink p then (False, w)
      else case map_of (w_fs w) p of
        Some (Reg m c) \<Rightarrow> (True, w\<lparr>w_fs := AList.delete p (w_fs w)\<rparr>)
      | _ \<Rightarrow> (False, w))"

text \<open>\<open>rename\<close> of a directory: the target is absent or an empty directory.\<close>

definition sys_rename :: "string \<Rightarrow> string \<Rightarrow> world \<Rightarrow> bool \<times> world" where
  "sys_rename a b w =
     (if w_fault w OpRename a \<or> map_of (w_fs w) a = None \<or> \<not> parent_ok (w_fs w) b
         \<or> inside a b
         \<or> (map_of (w_fs w) b \<noteq> None \<and> \<not> (is_dir (w_fs w) b \<and> dir_empty (w_fs w) b))
      then (False, w)
      else (True, w\<lparr>w_fs := map (\<lambda>(p, n). (rebase a b p, n))
                              (filter (\<lambda>(p, n). \<not> inside b p) (w_fs w))\<rparr>))"

definition sys_rmdir :: "string \<Rightarrow> world \<Rightarrow> bool \<times> world" where
  "sys_rmdir p w =
     (if w_fault w OpRmdir p \<or> \<not> is_dir (w_fs w) p \<or> \<not> dir_empty (w_fs w) p
      then (False, w)
      else (True, w\<lparr>w_fs := AList.delete p (w_fs w)\<rparr>))"

definition read_file :: "world \<Rightarrow> string \<Rightarrow> string option" where
  "read_file w p =
     (if w_fault w OpOpen p then None
      else case map_of (w_fs w) p of Some (Reg _ c) \<Rightarrow> Some c | _ \<Rightarrow> None)"

definition write_file :: "string \<Rightarrow> nat \<Rightarrow> string \<Rightarrow> world \<Rightarrow> world" where
  "write_file p m c w = w\<lparr>w_fs := AList.update p (Reg m c) (w_fs w)\<rparr>"

lemmas sys_defs = sys_stat_def sys_mkdir_def sys_chmod_def sys_link_def sys_unlink_def
  sys_rename_def sys_rmdir_def

section \<open>Third-party code\<close>

record ('j, 'h) ext =
  \<comment> \<open>c_utils\<close>
  x_ForceRemoveDirectory :: "string \<Rightarrow> fsys \<Rightarrow> bool \<times> fsys"
  x_GetDirFiles :: "fsys \<Rightarrow> string \<Rightarrow> string list"
  x_ExtractFilePath :: "string \<Rightarrow> string"
  x_ExtractFileName :: "string \<Rightarrow> string"
  x_PathToRealPath :: "fsys \<Rightarrow> string \<Rightarrow> string option"
  x_IsEmptyFolder :: "fsys \<Rightarrow> string \<Rightarrow> bool"
  x_SaveStringToFile :: "string \<Rightarrow> string \<Rightarrow> bool \<Rightarrow> fsys \<Rightarrow> bool \<times> fsys"
  x_SplitStr :: "string \<Rightarrow> string \<Rightarrow> string list"
  \<comment> \<open>libc's \<open>realpath\<close>, which follows symbolic links\<close>
  x_realpath :: "fsys \<Rightarrow> string \<Rightarrow> string option"
  x_StrToInt :: "string \<Rightarrow> int option"
  \<comment> \<open>updater's utilities\<close>
  x_SplitString :: "string \<Rightarrow> string \<Rightarrow> string list"
  x_ConvertToLong :: "string \<Rightarrow> int option"
  x_ConvertToUnsignedLong :: "string \<Rightarrow> u32 option"
  x_String2Int :: "string \<Rightarrow> int"
  x_GetFilesFromDirectory :: "fsys \<Rightarrow> string \<Rightarrow> int \<times> string list"
  x_IsFileExist :: "fsys \<Rightarrow> string \<Rightarrow> bool"
  x_GetCertName :: string
  x_VerifyPackage :: "fsys \<Rightarrow> string \<Rightarrow> string \<Rightarrow> int"
  x_ExtraPackageDir :: "string \<Rightarrow> string \<Rightarrow> fsys \<Rightarrow> int \<times> fsys"
  x_ApplyPatch :: "string \<Rightarrow> string \<Rightarrow> string \<Rightarrow> fsys \<Rightarrow> int \<times> fsys"
  x_Sha256Hex :: "string \<Rightarrow> string"
  \<comment> \<open>updater's JsonNode\<close>
  x_JsonParse :: "string \<Rightarrow> 'j"
  x_JsonGet :: "'j \<Rightarrow> string \<Rightarrow> 'j"
  x_JsonAsString :: "'j \<Rightarrow> string option"
  x_JsonElems :: "'j \<Rightarrow> 'j list"
  x_JsonKey :: "'j \<Rightarrow> string option"
  \<comment> \<open>minizip\<close>
  x_unzOpen :: "fsys \<Rightarrow> string \<Rightarrow> 'h option"
  x_unzLocateFile :: "'h \<Rightarrow> string \<Rightarrow> int \<times> 'h"
  x_unzGlobalInfo :: "'h \<Rightarrow> int \<times> u64"
  x_unzFilePos :: "'h \<Rightarrow> int \<times> u64"
  x_unzClose :: "'h \<Rightarrow> int"
  x_unzCurrentSize :: "'h \<Rightarrow> int \<times> u64"
  x_unzOpenCurrent :: "'h \<Rightarrow> int \<times> 'h"
  x_unzReadCurrent :: "'h \<Rightarrow> nat \<Rightarrow> int \<times> string \<times> 'h"
  x_unzCloseCurrent :: "'h \<Rightarrow> int \<times> 'h"
  \<comment> \<open>the hvb library and its build switch\<close>
  x_SUPPORT_HVB :: bool
  x_hvb_init_verified_data :: bool
  x_footer_init_desc :: "fsys \<Rightarrow> string \<Rightarrow> int"
  x_num_loaded_certs :: nat
  x_hvb_cert_parser :: int
  x_FsHvbConstructVerityTarget :: "string \<Rightarrow> int"
  x_FsDmCreateDevice :: "string \<Rightarrow> int \<times> string"
  x_FsDmInitDmDev :: "string \<Rightarrow> int"
  x_FsDmRemoveDevice :: "string \<Rightarrow> int"
  \<comment> \<open>parameter service and system ability manager\<close>
  x_GetParameter :: "string \<Rightarrow> int \<times> string"
  x_SetParameter :: "string \<Rightarrow> string \<Rightarrow> int"
  x_SystemParameter :: "string \<Rightarrow> string"
  x_OnDemandSaIds :: "int list option" \<comment> \<open>None: no system ability manager\<close>
  x_CheckSystemAbility :: "int \<Rightarrow> bool"
  \<comment> \<open>the steady clock, in milliseconds since the timer was made\<close>
  x_TimerMs :: int

text \<open>
  What the code relies on of \<open>ForceRemoveDirectory\<close>: it touches nothing outside the
  directory, what it leaves inside is as it was, and when it answers true the whole subtree
  is gone.
\<close>

definition rmdir_contract :: "('j, 'h) ext \<Rightarrow> bool" where
  "rmdir_contract X =
     (\<forall>d fs ok fs'. x_ForceRemoveDirectory X d fs = (ok, fs') \<longrightarrow>
        (\<forall>p. \<not> inside d p \<longrightarrow> map_of fs' p = map_of fs p)
        \<and> (\<forall>p. map_of fs' p = None \<or> map_of fs' p = map_of fs p)
        \<and> (ok \<longrightarrow> (\<forall>p. inside d p \<longrightarrow> map_of fs' p = None)))"

text \<open>The documented meaning of \<open>GetDirFiles\<close>: the regular files below the directory.\<close>

definition dirfiles_contract :: "('j, 'h) ext \<Rightarrow> bool" where
  "dirfiles_contract X =
     (\<forall>d fs. set (x_GetDirFiles X fs d) =
        {p. prefix (d @ ''/'') p \<and> (\<exists>m c. map_of fs p = Some (Reg m c))})"

definition force_remove :: "('j, 'h) ext \<Rightarrow> string \<Rightarrow> world \<Rightarrow> bool \<times> world" where
  "force_remove X d w =
     (case x_ForceRemoveDirectory X d (w_fs w) of (ok, fs') \<Rightarrow> (ok, w\<lparr>w_fs := fs'\<rparr>))"

definition set_parameter :: "('j, 'h) ext \<Rightarrow> string \<Rightarrow> string \<Rightarrow> world \<Rightarrow> int \<times> world" where
  "set_parameter X k v w = (x_SetParameter X k v, w\<lparr>w_setparams := w_setparams w @ [(k, v)]\<rparr>)"

definition do_reboot :: "string \<Rightarrow> world \<Rightarrow> world" where
  "do_reboot cmd w = w\<lparr>w_reboots := w_reboots w @ [cmd]\<rparr>"

lemma inside_refl [simp]: "inside d d"
  by (simp add: inside_def)

lemma inside_child [simp]: "inside d (d @ CHR ''/'' # p)"
  by (simp add: inside_def)

lemma inside_iff: "inside d p \<longleftrightarrow> (\<exists>s. p = d @ s \<and> (s = [] \<or> (\<exists>t. s = CHR ''/'' # t)))"
  by (auto simp: inside_def prefix_def)

text \<open>Two directories neither of which lies in the other share no path.\<close>

lemma inside_apart:
  assumes "inside a p" and "inside b p"
  shows "inside a b \<or> inside b a"
proof -
  from assms obtain s t where p: "p = a @ s" "p = b @ t"
    and s: "s = [] \<or> (\<exists>u. s = CHR ''/'' # u)" and t: "t = [] \<or> (\<exists>u. t = CHR ''/'' # u)"
    unfolding inside_iff by blast
  from p have "a @ s = b @ t" by simp
  then consider us where "a = b @ us" "us @ s = t" | us where "b = a @ us" "us @ t = s"
    by (auto simp: append_eq_append_conv2)
  then show ?thesis
  proof cases
    case 1
    with t s have "us = [] \<or> (\<exists>u. us = CHR ''/'' # u)" by (cases us) auto
    with 1 show ?thesis by (auto simp: inside_iff)
  next
    case 2
    with t s have "us = [] \<or> (\<exists>u. us = CHR ''/'' # u)" by (cases us) auto
    with 2 show ?thesis by (auto simp: inside_iff)
  qed
qed

lemma inside_shift: "inside a p \<Longrightarrow> inside b (b @ drop (length a) p)"
  by (auto simp: inside_iff)

text \<open>What a rename does: the new name shows the old tree, the old name is gone.\<close>

lemma rename_map_of:
  assumes "\<not> inside a b" and "\<not> inside b a"
  shows "map_of (map (\<lambda>(p, n). (rebase a b p, n)) (filter (\<lambda>(p, n). \<not> inside b p) fs)) q =
    (if inside b q then map_of fs (a @ drop (length b) q)
     else if inside a q then None else map_of fs q)"
proof (induction fs)
  case Nil
  then show ?case by simp
next
  case (Cons e fs)
  obtain p n where e: "e = (p, n)" by fastforce
  have apart: "\<not> (inside a r \<and> inside b r)" for r
    using inside_apart assms by blast
  consider "inside b p" | "inside a p" "\<not> inside b p" | "\<not> inside a p" "\<not> inside b p" by blast
  then show ?case
  proof cases
    case 1
    have "a @ drop (length b) q \<noteq> p" if "inside b q"
      using inside_shift[OF that, of a] 1 apart by auto
    with 1 Cons show ?thesis by (auto simp: e)
  next
    case 2
    have "b @ drop (length a) p = q \<longleftrightarrow> inside b q \<and> a @ drop (length b) q = p"
      using 2(1) by (auto simp: inside_iff)
    with 2 Cons show ?thesis by (auto simp: e rebase_def)
  next
    case 3
    have "a @ drop (length b) q \<noteq> p" if "inside b q"
      using inside_shift[OF that, of a] 3 by auto
    with 3 Cons show ?thesis by (auto simp: e rebase_def)
  qed
qed

lemma rmdir_contractD:
  assumes "rmdir_contract X" and "x_ForceRemoveDirectory X d fs = (ok, fs')"
  shows "\<not> inside d p \<Longrightarrow> map_of fs' p = map_of fs p"
    and "map_of fs' p = None \<or> map_of fs' p = map_of fs p"
    and "ok \<Longrightarrow> inside d p \<Longrightarrow> map_of fs' p = None"
  using assms unfolding rmdir_contract_def by blast+

lemma force_remove_split:
  "force_remove X d w = (ok, w') \<longleftrightarrow>
     (\<exists>fs'. x_ForceRemoveDirectory X d (w_fs w) = (ok, fs') \<and> w' = w\<lparr>w_fs := fs'\<rparr>)"
  by (auto simp: force_remove_def split: prod.splits)

lemma force_remove_frame:
  "rmdir_contract X \<Longrightarrow> force_remove X d w = (ok, w') \<Longrightarrow> \<not> inside d p \<Longrightarrow>
     map_of (w_fs w') p = map_of (w_fs w) p"
  by (auto simp: force_remove_split dest: rmdir_contractD(1))

lemma force_remove_gone:
  "rmdir_contract X \<Longrightarrow> force_remove X d w = (True, w') \<Longrightarrow> inside d p \<Longrightarrow>
     map_of (w_fs w') p = None"
  by (auto simp: force_remove_split dest: rmdir_contractD(3))

lemma force_remove_shrinks:
  "rmdir_contract X \<Longrightarrow> force_remove X d w = (ok, w') \<Longrightarrow>
     map_of (w_fs w') p = None \<or> map_of (w_fs w') p = map_of (w_fs w) p"
  by (auto simp: force_remove_split dest: rmdir_contractD(2))

lemma force_remove_more:
  "force_remove X d w = (ok, w') \<Longrightarrow>
     w_fault w' = w_fault w \<and> w_grant w' = w_grant w \<and> w_setparams w' = w_setparams w \<and> w_reboots w' = w_reboots w
     \<and> w_mounts w' = w_mounts w"
  by (auto simp: force_remove_def split: prod.splits)

end
