(* ===== verification/Module_Constants.thy ===== *)
theory Module_Constants
  imports Installer_World
begin

text \<open>
  The constants of module_constants.h and the error codes of module_error_code.h. A
  directory constant is unfolded only where a proof needs its letters; \<open>dir_consts\<close>
  collects them.
\<close>

definition UPDATE_INSTALL_DIR :: string where
  "UPDATE_INSTALL_DIR = ''/data/module_update_package''"

definition UPDATE_ACTIVE_DIR :: string where
  "UPDATE_ACTIVE_DIR = ''/data/module_update/active''"

definition UPDATE_BACKUP_DIR :: string where
  "UPDATE_BACKUP_DIR = ''/data/module_update/backup''"

definition MODULE_PREINSTALL_DIR :: string where
  "MODULE_PREINSTALL_DIR = ''/system/module_update''"

definition MODULE_ROOT_DIR :: string where
  "MODULE_ROOT_DIR = ''/module_update''"

lemmas dir_consts = UPDATE_INSTALL_DIR_def UPDATE_ACTIVE_DIR_def UPDATE_BACKUP_DIR_def
  MODULE_PREINSTALL_DIR_def MODULE_ROOT_DIR_def

definition MODULE_PACKAGE_SUFFIX :: string where "MODULE_PACKAGE_SUFFIX = ''.zip''"
definition HMP_PACKAGE_SUFFIX :: string where "HMP_PACKAGE_SUFFIX = ''.zip''"
definition MODULE_IMAGE_SUFFIX :: string where "MODULE_IMAGE_SUFFIX = ''.img''"
definition HMP_INFO_NAME :: string where "HMP_INFO_NAME = ''module_info.zip''"
definition IMG_FILE_NAME :: string where "IMG_FILE_NAME = ''module.img''"
definition IMG_DIFF_FILE_NAME :: string where "IMG_DIFF_FILE_NAME = ''module.diff''"
definition PACK_INFO_NAME :: string where "PACK_INFO_NAME = ''pack.info''"
definition MODULE_RESULT_PATH :: string where
  "MODULE_RESULT_PATH = ''/data/updater/module_update_result''"
definition MODULE_UPDATE_PARAMS_FILE :: string where
  "MODULE_UPDATE_PARAMS_FILE = ''/data/updater/module_update_params''"

definition SA_ABNORMAL :: string where "SA_ABNORMAL = ''true''"
definition SA_NORMAL :: string where "SA_NORMAL = ''false''"
definition SA_START :: string where "SA_START = ''persist.samgr.moduleupdate.start''"
definition SA_START_PREFIX :: string where "SA_START_PREFIX = ''persist.samgr.moduleupdate''"
definition UNLOAD :: string where "UNLOAD = ''unload''"
definition LOAD_FAIL :: string where "LOAD_FAIL = ''loadfail''"
definition CRASH :: string where "CRASH = ''crash''"
definition BMS_START_INSTALL :: string where
  "BMS_START_INSTALL = ''persist.moduleupdate.bms.scan''"
definition BMS_RESULT_PREFIX :: string where
  "BMS_RESULT_PREFIX = ''persist.moduleupdate.bms.install''"
definition BMS_UPDATE :: string where "BMS_UPDATE = ''update''"
definition BMS_REVERT :: string where "BMS_REVERT = ''revert''"
definition NOTIFY_BMS_REVERT :: string where "NOTIFY_BMS_REVERT = ''revert_bms''"
definition BMS_INSTALL_FAIL :: string where "BMS_INSTALL_FAIL = ''false''"
definition HMP_INCR_PACKAGE_TYPE :: string where "HMP_INCR_PACKAGE_TYPE = ''increment''"
definition BOOT_COMPLETE_PARAM :: string where
  "BOOT_COMPLETE_PARAM = ''bootevent.boot.completed''"
definition BOOT_SUCCESS_VALUE :: string where "BOOT_SUCCESS_VALUE = ''true''"

definition APP_SERIAL_NUMBER :: int where "APP_SERIAL_NUMBER = -1"

definition DIR_MODE :: nat where "DIR_MODE = 488" \<comment> \<open>0750\<close>

text \<open>
  The error codes. The functions return \<open>int32_t\<close>, so a code is its number; the type
  below carries the enumeration, \<open>code\<close> its values.
\<close>

datatype ModuleErrorCode =
    MODULE_UPDATE_SUCCESS
  | ERR_SERVICE_PARA_ERROR
  | ERR_SERVICE_NOT_FOUND
  | ERR_INVALID_PATH
  | ERR_LOWER_VERSION
  | ERR_VERIFY_FAIL
  | ERR_INSTALL_FAIL
  | ERR_UNINSTALL_FAIL
  | ERR_REPORT_STATUS_FAIL
  | ERR_SAMGR_REVERT
  | ERR_BMS_REVERT
  | ERR_RESTORE_PACKAGE_FAIL
  | ERR_DEAL_HVB_INFO_FAIL
  | ERR_BACKUP_FAIL
  | ERR_CREATE_ACTIVE_FAIL
  | ERR_SET_PARAM_FAIL
  | MODULE_UPDATE_FAIL

fun code :: "ModuleErrorCode \<Rightarrow> int" where
  "code MODULE_UPDATE_SUCCESS = 0"
| "code ERR_SERVICE_PARA_ERROR = 1"
| "code ERR_SERVICE_NOT_FOUND = 2"
| "code ERR_INVALID_PATH = 3"
| "code ERR_LOWER_VERSION = 4"
| "code ERR_VERIFY_FAIL = 5"
| "code ERR_INSTALL_FAIL = 6"
| "code ERR_UNINSTALL_FAIL = 7"
| "code ERR_REPORT_STATUS_FAIL = 8"
| "code ERR_SAMGR_REVERT = 9"
| "code ERR_BMS_REVERT = 10"
| "code ERR_RESTORE_PACKAGE_FAIL = 11"
| "code ERR_DEAL_HVB_INFO_FAIL = 12"
| "code ERR_BACKUP_FAIL = 13"
| "code ERR_CREATE_ACTIVE_FAIL = 14"
| "code ERR_SET_PARAM_FAIL = 15"
| "code MODULE_UPDATE_FAIL = 16"

lemma code_inject [simp]: "code a = code b \<longleftrightarrow> a = b"
  by (cases a; cases b) simp_all

text \<open>The directories of a module package (an HMP) by name.\<close>

abbreviation install_path :: "string \<Rightarrow> string" where
  "install_path h \<equiv> UPDATE_INSTALL_DIR @ CHR ''/'' # h"

abbreviation active_path :: "string \<Rightarrow> string" where
  "active_path h \<equiv> UPDATE_ACTIVE_DIR @ CHR ''/'' # h"

abbreviation backup_path :: "string \<Rightarrow> string" where
  "backup_path h \<equiv> UPDATE_BACKUP_DIR @ CHR ''/'' # h"

abbreviation preinstall_path :: "string \<Rightarrow> string" where
  "preinstall_path h \<equiv> MODULE_PREINSTALL_DIR @ CHR ''/'' # h"

text \<open>The trees of two different roots never meet.\<close>

lemma roots_apart:
  "\<not> inside (install_path h) (active_path k @ s)"
  "\<not> inside (install_path h) (backup_path k @ s)"
  "\<not> inside (install_path h) (preinstall_path k @ s)"
  "\<not> inside (active_path h) (install_path k @ s)"
  "\<not> inside (active_path h) (backup_path k @ s)"
  "\<not> inside (active_path h) (preinstall_path k @ s)"
  "\<not> inside (backup_path h) (install_path k @ s)"
  "\<not> inside (backup_path h) (active_path k @ s)"
  "\<not> inside (backup_path h) (preinstall_path k @ s)"
  by (simp_all add: inside_def dir_consts)

lemmas roots_apart0 = roots_apart[where s = "[]", unfolded append_Nil2]

end
