(* ===== verification/Module_Utils.thy ===== *)
theory Module_Utils
  imports Module_Constants
begin

text \<open>
  services/module_update/util/src/module_utils.cpp: path handling, directory helpers, full
  reads and writes at an offset, little-endian decoding, waiting for a file, the queries of
  the parameter service and of the system ability manager. \<open>Revert\<close> and the functions that
  open module files are in the theories Module_Revert and Module_Result.
\<close>

section \<open>Directories and paths\<close>

definition CreateDirIfNeeded :: "string \<Rightarrow> nat \<Rightarrow> world \<Rightarrow> bool \<times> world" where
  "CreateDirIfNeeded fpInfo mode w =
     (case sys_stat w fpInfo of
        StatNoEnt \<Rightarrow>
          (case sys_mkdir fpInfo mode w of
             (False, w1) \<Rightarrow> (False, w1)
           | (True, w1) \<Rightarrow> (True, snd (sys_chmod fpInfo mode w1)))
      | StatErr \<Rightarrow> (False, w)
      | StatOk (Reg _ _) \<Rightarrow> (False, w)
      | StatOk (Dir _) \<Rightarrow> (True, snd (sys_chmod fpInfo mode w)))"

definition CheckPathExists :: "world \<Rightarrow> string \<Rightarrow> bool" where
  "CheckPathExists w path = (case sys_stat w path of StatOk _ \<Rightarrow> True | _ \<Rightarrow> False)"

definition CheckFileSuffix :: "string \<Rightarrow> string \<Rightarrow> bool" where
  "CheckFileSuffix file sfx =
     (case find_last_of CHR ''.'' file of
        None \<Rightarrow> False
      | Some pos \<Rightarrow> substr_from file pos = sfx)"

definition GetFileName :: "string \<Rightarrow> string" where
  "GetFileName file =
     (let startPos = (case find_last_of CHR ''/'' file of None \<Rightarrow> 0 | Some i \<Rightarrow> i + 1);
          endPos = (case find_last_of CHR ''.'' file of
                      None \<Rightarrow> length file
                    | Some e \<Rightarrow> if e \<le> startPos then length file else e)
      in substr file startPos (endPos - startPos))"

definition StartsWith :: "string \<Rightarrow> string \<Rightarrow> bool" where
  "StartsWith str pre = (substr str 0 (length pre) = pre)"

definition PREFIXES :: "string list" where
  "PREFIXES = [UPDATE_INSTALL_DIR, UPDATE_ACTIVE_DIR, UPDATE_BACKUP_DIR, MODULE_PREINSTALL_DIR]"

definition GetHmpName :: "string \<Rightarrow> string" where
  "GetHmpName filePath =
     (case find_last_of CHR ''/'' filePath of
        None \<Rightarrow> []
      | Some endPos \<Rightarrow>
          (let startPos = (case find (\<lambda>iter. StartsWith filePath iter) PREFIXES of
                             None \<Rightarrow> 0 | Some iter \<Rightarrow> length iter + 1)
           in if startPos = 0 \<or> startPos \<ge> endPos then []
              else substr filePath startPos (endPos - startPos)))"

definition GetRealPath :: "('j, 'h) ext \<Rightarrow> world \<Rightarrow> string \<Rightarrow> string" where
  "GetRealPath X w filePath =
     (case x_realpath X (w_fs w) filePath of
        None \<Rightarrow> []
      | Some fpInfo \<Rightarrow> if CheckPathExists w fpInfo then fpInfo else [])"

text \<open>
  The entries of a directory, and \<open>std::filesystem::remove_all\<close> on one of them: the number
  of names removed, or \<open>static_cast<uintmax_t>(-1)\<close> when it fails.
\<close>

definition dir_entries :: "fsys \<Rightarrow> string \<Rightarrow> string list" where
  "dir_entries fs d =
     remdups (filter (\<lambda>p. prefix (d @ ''/'') p \<and> CHR ''/'' \<notin> set (drop (length d + 1) p))
                     (map fst fs))"

definition remove_all :: "string \<Rightarrow> world \<Rightarrow> u64 \<times> world" where
  "remove_all p w =
     (if w_fault w OpUnlink p then (-1, w)
      else (of_nat (length (remdups (filter (inside p) (map fst (w_fs w))))),
            w\<lparr>w_fs := filter (\<lambda>(q, n). \<not> inside p q) (w_fs w)\<rparr>))"

fun remove_entries :: "string list \<Rightarrow> bool \<Rightarrow> world \<Rightarrow> bool \<times> world" where
  "remove_entries [] ret w = (ret, w)"
| "remove_entries (e # es) ret w =
     (case remove_all e w of (n, w1) \<Rightarrow> remove_entries es (if n = 0 then False else ret) w1)"

definition RemoveSpecifiedDir :: "('j, 'h) ext \<Rightarrow> string \<Rightarrow> bool \<Rightarrow> world \<Rightarrow> bool \<times> world" where
  "RemoveSpecifiedDir X fpInfo keepDir w =
     (if \<not> CheckPathExists w fpInfo then (False, w)
      else if \<not> keepDir then force_remove X fpInfo w
      else if \<not> is_dir (w_fs w) fpInfo then (False, w)
      else remove_entries (dir_entries (w_fs w) fpInfo) True w)"

fun first_hmp :: "string list \<Rightarrow> string" where
  "first_hmp [] = []"
| "first_hmp (file # files) =
     (if \<not> CheckFileSuffix file MODULE_PACKAGE_SUFFIX then first_hmp files
      else if GetHmpName file = [] then first_hmp files
      else GetHmpName file)"

definition GetCurrentHmpName :: "('j, 'h) ext \<Rightarrow> world \<Rightarrow> string" where
  "GetCurrentHmpName X w = first_hmp (x_GetDirFiles X (w_fs w) MODULE_PREINSTALL_DIR)"

section \<open>Reading and writing at an offset\<close>

text \<open>
  An open descriptor: the bytes of the file and what the kernel answers to a \<open>pread\<close> or
  \<open>pwrite\<close> of a count at an offset, an error (negative) or how many bytes it is willing to
  move. A negative offset is an error (\<open>EINVAL\<close>); a read never passes the end of the file.
\<close>

record fd =
  fd_bytes :: "u8 list"
  fd_grant :: "int \<Rightarrow> nat \<Rightarrow> int"

definition fd_open :: "world \<Rightarrow> string \<Rightarrow> fd option" where
  "fd_open w path =
     map_option (\<lambda>c. \<lparr>fd_bytes = map of_char c, fd_grant = w_grant w path\<rparr>) (read_file w path)"

definition pread :: "fd \<Rightarrow> nat \<Rightarrow> int \<Rightarrow> u8 list" where
  "pread f count off =
     (if off < 0 then []
      else take (min (nat (fd_grant f off count)) count) (drop (nat off) (fd_bytes f)))"

function ReadFullyAtOffset :: "fd \<Rightarrow> nat \<Rightarrow> int \<Rightarrow> u8 list option" where
  "ReadFullyAtOffset f count off =
     (if count = 0 then Some []
      else let r = pread f count off
           in if r = [] then None
              else map_option (append r)
                     (ReadFullyAtOffset f (count - length r) (off + int (length r))))"
  by pat_completeness auto
termination
  by (relation "measure (\<lambda>(f, count, off). count)") (auto simp: length_greater_0_conv[symmetric] simp del: length_greater_0_conv)

declare ReadFullyAtOffset.simps [simp del]

text \<open>Writing bytes over a file, which grows (with zeros up to the offset) if it must.\<close>

definition overwrite :: "u8 list \<Rightarrow> nat \<Rightarrow> u8 list \<Rightarrow> u8 list" where
  "overwrite bs off ds =
     take off (bs @ replicate (off - length bs) 0) @ ds @ drop (off + length ds) bs"

definition pwrite :: "fd \<Rightarrow> u8 list \<Rightarrow> int \<Rightarrow> nat \<times> fd" where
  "pwrite f ds off =
     (let n = (if off < 0 then 0 else min (nat (fd_grant f off (length ds))) (length ds))
      in (n, if n = 0 then f else f\<lparr>fd_bytes := overwrite (fd_bytes f) (nat off) (take n ds)\<rparr>))"

function WriteFullyAtOffset :: "fd \<Rightarrow> u8 list \<Rightarrow> int \<Rightarrow> bool \<times> fd" where
  "WriteFullyAtOffset f ds off =
     (if ds = [] then (True, f)
      else case pwrite f ds off of
        (n, f1) \<Rightarrow> if n = 0 then (False, f1)
                   else WriteFullyAtOffset f1 (drop n ds) (off + int n))"
  by pat_completeness auto
termination
  by (relation "measure (\<lambda>(f, ds, off). length ds)") (auto simp: pwrite_def Let_def)

declare WriteFullyAtOffset.simps [simp del]

definition ReadLE16 :: "u8 list option \<Rightarrow> u16" where
  "ReadLE16 buff =
     (case buff of
        None \<Rightarrow> 0
      | Some b \<Rightarrow> ucast (b ! 0) + push_bit 8 (ucast (b ! 1)))"

definition ReadLE32 :: "u8 list option \<Rightarrow> u32" where
  "ReadLE32 buff =
     (case buff of
        None \<Rightarrow> 0
      | Some b \<Rightarrow>
          (let low = ReadLE16 (Some b); high = ReadLE16 (Some (drop 2 b))
           in or (push_bit 16 (ucast high)) (ucast low)))"

section \<open>Waiting for a file\<close>

text \<open>
  \<open>clk i\<close> is the age of the timer when the loop tests it for the \<open>i\<close>-th time and
  \<open>there i\<close> whether \<open>stat\<close> then succeeds. \<open>WaitForFile\<close> gives the answer of the loop if it
  takes at most \<open>fuel\<close> rounds.
\<close>

fun WaitForFile :: "nat \<Rightarrow> (nat \<Rightarrow> nat) \<Rightarrow> (nat \<Rightarrow> bool) \<Rightarrow> nat \<Rightarrow> nat \<Rightarrow> bool option" where
  "WaitForFile 0 clk there timeout i = None"
| "WaitForFile (Suc fuel) clk there timeout i =
     (if clk i < timeout then
        (if there i then Some True else WaitForFile fuel clk there timeout (Suc i))
      else Some False)"

section \<open>Queries\<close>

definition IsHotSa :: "('j, 'h) ext \<Rightarrow> int \<Rightarrow> bool" where
  "IsHotSa X saId =
     (case x_OnDemandSaIds X of
        None \<Rightarrow> False
      | Some onDemandSaIds \<Rightarrow> if onDemandSaIds = [] then False else saId \<in> set onDemandSaIds)"

definition IsRunning :: "('j, 'h) ext \<Rightarrow> int \<Rightarrow> bool" where
  "IsRunning X saId =
     (case x_OnDemandSaIds X of None \<Rightarrow> False | Some _ \<Rightarrow> x_CheckSystemAbility X saId)"

definition CheckBootComplete :: "('j, 'h) ext \<Rightarrow> bool" where
  "CheckBootComplete X =
     (case x_GetParameter X BOOT_COMPLETE_PARAM of
        (ret, value) \<Rightarrow> if ret < 0 then False else value = BOOT_SUCCESS_VALUE)"

definition GetDeviceSaSdkVersion :: "('j, 'h) ext \<Rightarrow> string" where
  "GetDeviceSaSdkVersion X = x_SystemParameter X ''const.build.sa_sdk_version''"

definition GetDeviceApiVersion :: "('j, 'h) ext \<Rightarrow> int" where
  "GetDeviceApiVersion X =
     (let apiVersion = x_SystemParameter X ''const.ohos.apiversion''
      in if apiVersion = [] then 0 else x_String2Int X apiVersion)"

section \<open>Weak defaults\<close>

text \<open>The functions a product may replace; these are the definitions of the repository.\<close>

definition RevertImageCert :: "string \<Rightarrow> bool \<Rightarrow> bool" where
  "RevertImageCert hmpName revertMore = True"

definition PrepareFileToDestDir :: "('j, 'h) ext \<Rightarrow> string \<Rightarrow> string \<Rightarrow> world \<Rightarrow> bool \<times> world" where
  "PrepareFileToDestDir X pkgPath outPath w =
     (case x_ExtraPackageDir X pkgPath outPath (w_fs w) of
        (ret, fs') \<Rightarrow> (ret = 0, w\<lparr>w_fs := fs'\<rparr>))"

section \<open>Lemmas: paths\<close>

lemma StartsWith_prefix [string_simps]: "StartsWith str pre \<longleftrightarrow> prefix pre str"
  by (auto simp: StartsWith_def substr_def prefix_def) (metis append_take_drop_id)

lemma PREFIXES_apart:
  assumes "D \<in> set PREFIXES" and "E \<in> set PREFIXES" and "prefix E (D @ CHR ''/'' # s)"
  shows "E = D"
  using assms by (auto simp: PREFIXES_def dir_consts)

lemma find_PREFIXES:
  assumes "D \<in> set PREFIXES"
  shows "find (\<lambda>iter. StartsWith (D @ CHR ''/'' # s) iter) PREFIXES = Some D"
proof -
  have "StartsWith (D @ CHR ''/'' # s) E \<longleftrightarrow> E = D" if "E \<in> set PREFIXES" for E
    using PREFIXES_apart[OF assms that] by (auto simp: StartsWith_prefix)
  with assms show ?thesis
    by (auto simp: PREFIXES_def)
qed

lemma GetFileName_stem:
  assumes "stem \<noteq> []" "CHR ''/'' \<notin> set stem" "CHR ''/'' \<notin> set ex" "CHR ''.'' \<notin> set ex"
  shows "GetFileName (d @ ''/'' @ stem @ ''.'' @ ex) = stem"
proof -
  have "find_last_of CHR ''/'' (d @ CHR ''/'' # (stem @ CHR ''.'' # ex)) = Some (length d)"
    using assms(2,3) by (intro find_last_of_append) auto
  moreover have "find_last_of CHR ''.'' ((d @ CHR ''/'' # stem) @ CHR ''.'' # ex)
      = Some (length d + 1 + length stem)"
    using find_last_of_append[OF assms(4), of "d @ CHR ''/'' # stem"] by simp
  ultimately show ?thesis
    using assms(1) by (simp add: GetFileName_def substr_def Let_def)
qed

lemma CheckFileSuffix_append:
  assumes "CHR ''.'' \<notin> set ex"
  shows "CheckFileSuffix (p @ ''.'' @ ex) sfx \<longleftrightarrow> sfx = ''.'' @ ex"
  using find_last_of_append[OF assms, of p] by (auto simp: CheckFileSuffix_def substr_from_def)

section \<open>Lemmas: full reads and writes\<close>

lemma pread_props:
  "length (pread f count off) \<le> count"
  "off \<ge> 0 \<Longrightarrow> pread f count off = take (length (pread f count off)) (drop (nat off) (fd_bytes f))"
  by (simp_all add: pread_def min_def)

theorem ReadFullyAtOffset_sound:
  "ReadFullyAtOffset f count off = Some ds \<Longrightarrow> off \<ge> 0 \<Longrightarrow>
     ds = take count (drop (nat off) (fd_bytes f)) \<and> length ds = count"
proof (induction f count off arbitrary: ds rule: ReadFullyAtOffset.induct)
  case (1 f count off)
  show ?case
  proof (cases "count = 0")
    case True
    with "1.prems" show ?thesis by (simp add: ReadFullyAtOffset.simps)
  next
    case False
    define r where "r = pread f count off"
    from False "1.prems"(1) obtain ds' where r: "r \<noteq> []" and ds: "ds = r @ ds'"
      and rest: "ReadFullyAtOffset f (count - length r) (off + int (length r)) = Some ds'"
      unfolding ReadFullyAtOffset.simps[of f count off] r_def by (auto simp: Let_def split: if_splits)
    from "1.IH"[OF False refl] r rest "1.prems"(2)
    have ds': "ds' = take (count - length r) (drop (nat (off + int (length r))) (fd_bytes f))"
      and len: "length ds' = count - length r"
      unfolding r_def by auto
    from pread_props[where f = f and count = count and off = off] "1.prems"(2)
    have le: "length r \<le> count" and rt: "r = take (length r) (drop (nat off) (fd_bytes f))"
      unfolding r_def by auto
    have nat: "nat (off + int (length r)) = nat off + length r"
      using "1.prems"(2) by (simp add: nat_add_distrib)
    have "take count (drop (nat off) (fd_bytes f)) =
        take (length r) (drop (nat off) (fd_bytes f)) @
        take (count - length r) (drop (nat off + length r) (fd_bytes f))"
      using le by (metis add.commute drop_drop le_add_diff_inverse take_add)
    with ds ds' rt nat len le show ?thesis by simp
  qed
qed

lemma ReadFullyAtOffset_negative: "off < 0 \<Longrightarrow> 0 < count \<Longrightarrow> ReadFullyAtOffset f count off = None"
  by (simp add: ReadFullyAtOffset.simps[of f count off] pread_def)

lemma ReadFullyAtOffset_complete:
  "(\<forall>o' c. 0 < c \<longrightarrow> 0 < fd_grant f o' c) \<Longrightarrow> off \<ge> 0 \<Longrightarrow> nat off + count \<le> length (fd_bytes f) \<Longrightarrow>
     ReadFullyAtOffset f count off = Some (take count (drop (nat off) (fd_bytes f)))"
proof (induction f count off rule: ReadFullyAtOffset.induct)
  case (1 f count off)
  show ?case
  proof (cases "count = 0")
    case True
    then show ?thesis by (simp add: ReadFullyAtOffset.simps)
  next
    case False
    define r where "r = pread f count off"
    have grant: "0 < fd_grant f off count" using "1.prems"(1) False by simp
    have r: "r \<noteq> []" using False "1.prems"(2,3) grant
      by (auto simp: r_def pread_def)
    have le: "length r \<le> count" using pread_props(1) by (auto simp: r_def)
    have "ReadFullyAtOffset f (count - length r) (off + int (length r)) \<noteq> None"
      using "1.IH"[OF False refl] r "1.prems" le by (auto simp: r_def nat_add_distrib)
    then obtain ds where "ReadFullyAtOffset f count off = Some ds"
      using False r by (auto simp: ReadFullyAtOffset.simps[of f count off] r_def)
    with ReadFullyAtOffset_sound[OF this] "1.prems"(2) show ?thesis by simp
  qed
qed

lemma overwrite_split:
  "off \<le> length bs \<Longrightarrow> overwrite bs off (xs @ ys) = overwrite (overwrite bs off xs) (off + length xs) ys"
  by (auto simp: overwrite_def min_def ac_simps)

lemma overwrite_bounds:
  "off \<le> length bs \<Longrightarrow> off + length ds \<le> length (overwrite bs off ds)"
  by (simp add: overwrite_def)

lemma overwrite_read:
  "off \<le> length bs \<Longrightarrow> take (length ds) (drop off (overwrite bs off ds)) = ds"
  by (simp add: overwrite_def)

lemma overwrite_frame:
  assumes "off \<le> length bs" and "i < off \<or> off + length ds \<le> i" and "i < length bs"
  shows "overwrite bs off ds ! i = bs ! i"
  using assms by (auto simp: overwrite_def nth_append min_def)

lemma WriteFullyAtOffset_sound:
  "WriteFullyAtOffset f ds off = (True, f') \<Longrightarrow> 0 \<le> off \<Longrightarrow> nat off \<le> length (fd_bytes f) \<Longrightarrow>
     f' = f\<lparr>fd_bytes := overwrite (fd_bytes f) (nat off) ds\<rparr>"
proof (induction f ds off rule: WriteFullyAtOffset.induct)
  case (1 f ds off)
  show ?case
  proof (cases "ds = []")
    case True
    with "1.prems" show ?thesis
      by (simp add: WriteFullyAtOffset.simps overwrite_def)
  next
    case False
    obtain n f1 where nf: "pwrite f ds off = (n, f1)" by fastforce
    with False "1.prems"(1) have n: "n \<noteq> 0"
      and rest: "WriteFullyAtOffset f1 (drop n ds) (off + int n) = (True, f')"
      by (auto simp: WriteFullyAtOffset.simps[of f ds off] split: if_splits)
    from nf n have f1: "f1 = f\<lparr>fd_bytes := overwrite (fd_bytes f) (nat off) (take n ds)\<rparr>"
      and le: "n \<le> length ds"
      by (auto simp: pwrite_def Let_def split: if_splits)
    have nat: "nat (off + int n) = nat off + n" using "1.prems"(2) by (simp add: nat_add_distrib)
    have "nat (off + int n) \<le> length (fd_bytes f1)"
      using overwrite_bounds[OF "1.prems"(3), of "take n ds"] le nat by (simp add: f1)
    from "1.IH"[OF False nf[symmetric] n rest _ this] "1.prems"(2)
    have "f' = f1\<lparr>fd_bytes := overwrite (fd_bytes f1) (nat off + n) (drop n ds)\<rparr>"
      by (simp add: nat)
    moreover have "overwrite (fd_bytes f) (nat off) ds =
        overwrite (overwrite (fd_bytes f) (nat off) (take n ds)) (nat off + n) (drop n ds)"
      using overwrite_split[OF "1.prems"(3), of "take n ds" "drop n ds"] le
      by (simp only: append_take_drop_id length_take min_absorb2)
    ultimately show ?thesis
      by (simp only: f1) simp
  qed
qed

section \<open>Lemmas: little-endian decoding\<close>

lemma u8_less: "unat (a :: u8) < 256"
  using unsigned_less[where 'a = nat, of a] by simp

lemma u8_bit: "bit (a :: u8) n \<Longrightarrow> n < 8"
  using bit_imp_le_length[of a n] by simp

lemma ReadLE16_or: "ReadLE16 (Some (a # b # bs)) = or (ucast a) (push_bit 8 (ucast b))"
proof -
  have "and (ucast a) (push_bit 8 (ucast b)) = (0 :: u16)"
    by (rule bit_word_eqI) (auto simp: bit_simps dest: u8_bit)
  then show ?thesis by (simp add: ReadLE16_def disjunctive_add_eq_or)
qed

lemma ReadLE32_or:
  "ReadLE32 (Some (a # b # c # d # bs)) =
     or (or (ucast a) (push_bit 8 (ucast b))) (or (push_bit 16 (ucast c)) (push_bit 24 (ucast d)))"
  by (rule bit_word_eqI) (auto simp: ReadLE32_def Let_def ReadLE16_or bit_simps dest: u8_bit)

definition le32 :: "u32 \<Rightarrow> u8 list" where
  "le32 w = [ucast w, ucast (drop_bit 8 w), ucast (drop_bit 16 w), ucast (drop_bit 24 w)]"

definition le16 :: "u16 \<Rightarrow> u8 list" where
  "le16 w = [ucast w, ucast (drop_bit 8 w)]"

lemma length_le32 [simp]: "length (le32 w) = 4" by (simp add: le32_def)
lemma length_le16 [simp]: "length (le16 w) = 2" by (simp add: le16_def)

lemma ReadLE16_roundtrip: "ReadLE16 (Some (le16 w @ bs)) = w"
proof (rule bit_word_eqI)
  fix n
  assume n: "n < LENGTH(16)"
  consider "n < 8" | "8 \<le> n" by linarith
  then show "bit (ReadLE16 (Some (le16 w @ bs))) n = bit w n"
    by cases (use n in \<open>auto simp: ReadLE16_or le16_def bit_simps\<close>)
qed

lemma ReadLE32_roundtrip: "ReadLE32 (Some (le32 w @ bs)) = w"
proof (rule bit_word_eqI)
  fix n
  assume n: "n < LENGTH(32)"
  consider "n < 8" | "8 \<le> n" "n < 16" | "16 \<le> n" "n < 24" | "24 \<le> n" by linarith
  then show "bit (ReadLE32 (Some (le32 w @ bs))) n = bit w n"
    by cases (use n in \<open>auto simp: ReadLE32_or le32_def bit_simps\<close>)
qed

lemma unat_ReadLE16: "unat (ReadLE16 (Some (a # b # bs))) = unat a + 256 * unat b"
  using u8_less[of a] u8_less[of b]
  by (simp add: ReadLE16_def unat_word_ariths unsigned_push_bit_eq unsigned_ucast_eq
      take_bit_nat_eq_self push_bit_eq_mult)

section \<open>Lemmas: waiting\<close>

lemma WaitForFile_terminates:
  assumes "\<forall>i. 5 * i \<le> clk i" and "timeout \<le> 5 * (i + fuel)"
  shows "WaitForFile (Suc fuel) clk there timeout i \<noteq> None"
  using assms(2)
proof (induction fuel arbitrary: i)
  case 0
  moreover have "5 * i \<le> clk i" using assms(1) by simp
  ultimately show ?case by simp
next
  case (Suc fuel)
  have "WaitForFile (Suc fuel) clk there timeout (Suc i) \<noteq> None"
    using Suc.prems by (intro Suc.IH) simp
  then show ?case by (simp only: WaitForFile.simps(2)[of "Suc fuel"] split: if_split) simp
qed

lemma WaitForFile_answer:
  "WaitForFile fuel clk there timeout i = Some b \<Longrightarrow>
     (b \<longleftrightarrow> (\<exists>j. i \<le> j \<and> there j \<and> (\<forall>k. i \<le> k \<and> k \<le> j \<longrightarrow> clk k < timeout)))"
proof (induction fuel arbitrary: i)
  case (Suc fuel)
  show ?case
  proof (cases "clk i < timeout \<and> \<not> there i")
    case True
    then have "WaitForFile fuel clk there timeout (Suc i) = Some b" using Suc.prems by simp
    note ih = Suc.IH[OF this]
    have "(\<exists>j. i \<le> j \<and> there j \<and> (\<forall>k. i \<le> k \<and> k \<le> j \<longrightarrow> clk k < timeout)) \<longleftrightarrow>
        (\<exists>j. Suc i \<le> j \<and> there j \<and> (\<forall>k. Suc i \<le> k \<and> k \<le> j \<longrightarrow> clk k < timeout))"
      using True by (metis Suc_leD Suc_leI le_antisym not_less_eq_eq)
    with ih show ?thesis by simp
  next
    case False
    with Suc.prems show ?thesis by (auto split: if_splits)
  qed
qed simp

section \<open>Properties\<close>

text \<open>The package name is recovered from the path of any file of any depth-one package
  directory under the four roots: \<open>GetHmpName (root/hmp/file) = hmp\<close>.\<close>

theorem GetHmpName_roundtrip:
  assumes "D \<in> set PREFIXES" and "h \<noteq> []" and "CHR ''/'' \<notin> set f"
  shows "GetHmpName (D @ ''/'' @ h @ ''/'' @ f) = h"
proof -
  have "find_last_of CHR ''/'' ((D @ CHR ''/'' # h) @ CHR ''/'' # f) = Some (length D + 1 + length h)"
    using find_last_of_append[OF assms(3), of "D @ CHR ''/'' # h"] by simp
  then show ?thesis
    using find_PREFIXES[OF assms(1), of "h @ CHR ''/'' # f"] assms(2)
    by (simp add: GetHmpName_def substr_def)
qed

lemma GetHmpName_roundtrip_witness:
  "GetHmpName ''/data/module_update_package/hmp1/sa1.zip'' = ''hmp1''"
  using GetHmpName_roundtrip[of UPDATE_INSTALL_DIR "''hmp1''" "''sa1.zip''"]
  by (simp add: PREFIXES_def UPDATE_INSTALL_DIR_def)

text \<open>C30. A full write followed by a full read of the same range gives back the bytes written,
  however the kernel splits the transfers, and no byte of the file outside the range changes.\<close>

theorem WriteFully_ReadFully:
  assumes "WriteFullyAtOffset f ds off = (True, f')" and "0 \<le> off"
    and "nat off \<le> length (fd_bytes f)" and "\<forall>o' c. 0 < c \<longrightarrow> 0 < fd_grant f o' c"
  shows "ReadFullyAtOffset f' (length ds) off = Some ds
    \<and> (\<forall>i < length (fd_bytes f). i < nat off \<or> nat off + length ds \<le> i \<longrightarrow>
          fd_bytes f' ! i = fd_bytes f ! i)"
proof
  from WriteFullyAtOffset_sound[OF assms(1-3)]
  have f': "f' = f\<lparr>fd_bytes := overwrite (fd_bytes f) (nat off) ds\<rparr>" .
  show "ReadFullyAtOffset f' (length ds) off = Some ds"
    using ReadFullyAtOffset_complete[of f' off "length ds"] assms(2,4)
      overwrite_bounds[OF assms(3), of ds] overwrite_read[OF assms(3), of ds]
    by (simp add: f')
  show "\<forall>i < length (fd_bytes f). i < nat off \<or> nat off + length ds \<le> i \<longrightarrow>
      fd_bytes f' ! i = fd_bytes f ! i"
    using overwrite_frame[OF assms(3)] by (simp add: f')
qed

definition slow_fd :: fd where
  "slow_fd = \<lparr>fd_bytes = [1, 2, 3, 4], fd_grant = (\<lambda>o' n. 1)\<rparr>"

lemma WriteFully_ReadFully_witness:
  "ReadFullyAtOffset (snd (WriteFullyAtOffset slow_fd [7, 8] 1)) 2 1 = Some [7, 8]"
proof -
  have "WriteFullyAtOffset slow_fd [7, 8] 1 = (True, slow_fd\<lparr>fd_bytes := [1, 7, 8, 4]\<rparr>)"
    by (simp add: slow_fd_def WriteFullyAtOffset.simps pwrite_def overwrite_def Let_def numeral_eq_Suc)
  from WriteFully_ReadFully[OF this] this show ?thesis
    by (simp add: slow_fd_def numeral_eq_Suc)
qed

text \<open>\<open>WaitForFile\<close> ends: each round sleeps at least 5 ms, so \<open>timeout / 5 + 1\<close> rounds are
  enough, and its answer is whether the file was there at a test made before the timeout.\<close>

theorem WaitForFile_total:
  assumes "\<forall>i. 5 * i \<le> clk i"
  shows "\<exists>b. WaitForFile (timeout div 5 + 2) clk there timeout 0 = Some b
    \<and> (b \<longleftrightarrow> (\<exists>j. there j \<and> (\<forall>k \<le> j. clk k < timeout)))"
proof -
  have "WaitForFile (Suc (timeout div 5 + 1)) clk there timeout 0 \<noteq> None"
    by (rule WaitForFile_terminates[OF assms]) simp
  then obtain b where b: "WaitForFile (timeout div 5 + 2) clk there timeout 0 = Some b"
    by auto
  with WaitForFile_answer[OF b] show ?thesis by simp
qed

lemma WaitForFile_total_witness:
  "\<exists>b. WaitForFile 22 (\<lambda>i. 7 * i) (\<lambda>i. i = 3) 100 0 = Some b
    \<and> (b \<longleftrightarrow> (\<exists>j::nat. j = 3 \<and> (\<forall>k \<le> j. 7 * k < (100::nat))))"
  using WaitForFile_total[of "\<lambda>i. 7 * i" 100 "\<lambda>i. i = 3"] by simp

end
