(* ===== verification/Sample_Services.thy ===== *)
theory Sample_Services
  imports Installer_World
begin

text \<open>
  One concrete instance of the third-party services, for the examples that show the
  theorems' hypotheses can hold. It is no model of the real services: JSON is a small tree
  found in a table, an archive is a table of its entries, and every check succeeds. The
  examples change single fields of it.
\<close>

datatype json = JNull | JStr string | JObj "(string \<times> json) list" | JArr "json list"
  | JMember string json

type_synonym archive = "(string \<times> string) list \<times> string"

fun split_chr :: "char \<Rightarrow> string \<Rightarrow> string \<Rightarrow> string list" where
  "split_chr c acc [] = [acc]"
| "split_chr c acc (x # xs) = (if x = c then acc # split_chr c [] xs else split_chr c (acc @ [x]) xs)"

fun parse_dec :: "nat \<Rightarrow> string \<Rightarrow> nat option" where
  "parse_dec acc [] = Some acc"
| "parse_dec acc (c # cs) =
     (let d = (of_char c :: nat)
      in if 48 \<le> d \<and> d < 58 then parse_dec (10 * acc + (d - 48)) cs else None)"

definition dec :: "string \<Rightarrow> nat option" where
  "dec s = (if s = [] then None else parse_dec 0 s)"

fun json_get :: "json \<Rightarrow> string \<Rightarrow> json" where
  "json_get (JObj l) k = (case map_of l k of None \<Rightarrow> JNull | Some v \<Rightarrow> v)"
| "json_get (JMember k' v) k = json_get v k"
| "json_get _ k = JNull"

fun json_string :: "json \<Rightarrow> string option" where
  "json_string (JStr s) = Some s"
| "json_string _ = None"

fun json_elems :: "json \<Rightarrow> json list" where
  "json_elems (JArr l) = l"
| "json_elems (JObj l) = map (\<lambda>(k, v). JMember k v) l"
| "json_elems _ = []"

fun json_key :: "json \<Rightarrow> string option" where
  "json_key (JMember k v) = Some k"
| "json_key _ = None"

definition after_slash :: "string \<Rightarrow> nat" where
  "after_slash p = (case find_last_of CHR ''/'' p of None \<Rightarrow> 0 | Some i \<Rightarrow> i + 1)"

definition sample_ext ::
  "(string \<Rightarrow> json) \<Rightarrow> (string \<Rightarrow> (string \<times> string) list option) \<Rightarrow> (json, archive) ext" where
  "sample_ext parse unz =
   \<lparr> x_ForceRemoveDirectory = (\<lambda>d fs. (True, filter (\<lambda>(p, n). \<not> inside d p) fs)),
     x_GetDirFiles = (\<lambda>fs d. filter (\<lambda>p. prefix (d @ ''/'') p \<and> is_reg fs p) (map fst fs)),
     x_ExtractFilePath = (\<lambda>p. take (after_slash p) p),
     x_ExtractFileName = (\<lambda>p. drop (after_slash p) p),
     x_PathToRealPath = (\<lambda>fs p. if map_of fs p = None then None else Some p),
     x_IsEmptyFolder = dir_empty,
     x_SaveStringToFile = (\<lambda>p s app fs. (True, AList.update p (Reg 420 s) fs)),
     x_SplitStr = (\<lambda>s d. split_chr (hd d) [] s),
     x_realpath = (\<lambda>fs p. if map_of fs p = None then None else Some p),
     x_StrToInt = (\<lambda>s. map_option int (dec s)),
     x_SplitString = (\<lambda>s d. split_chr (hd d) [] s),
     x_ConvertToLong = (\<lambda>s. map_option int (dec s)),
     x_ConvertToUnsignedLong = (\<lambda>s. map_option of_nat (dec s)),
     x_String2Int = (\<lambda>s. case dec s of None \<Rightarrow> 0 | Some n \<Rightarrow> int n),
     x_GetFilesFromDirectory = (\<lambda>fs d.
       let files = remdups (filter (\<lambda>p. prefix (d @ ''/'') p \<and> is_reg fs p) (map fst fs))
       in (int (length files), files)),
     x_IsFileExist = (\<lambda>fs p. map_of fs p \<noteq> None),
     x_GetCertName = ''cert'',
     x_VerifyPackage = (\<lambda>fs p c. 0),
     x_ExtraPackageDir = (\<lambda>p q fs. (0, fs)),
     x_ApplyPatch = (\<lambda>d s t fs. (-1, fs)),
     x_Sha256Hex = (\<lambda>s. s),
     x_JsonParse = parse,
     x_JsonGet = json_get,
     x_JsonAsString = json_string,
     x_JsonElems = json_elems,
     x_JsonKey = json_key,
     x_unzOpen = (\<lambda>fs p. case map_of fs p of
                           Some (Reg m c) \<Rightarrow> map_option (\<lambda>es. (es, [])) (unz c)
                         | _ \<Rightarrow> None),
     x_unzLocateFile = (\<lambda>(es, cur) f. if map_of es f = None then (-100, (es, cur)) else (0, (es, f))),
     x_unzGlobalInfo = (\<lambda>(es, cur). (0, of_nat (length es))),
     x_unzFilePos = (\<lambda>h. (0, 0)),
     x_unzClose = (\<lambda>h. 0),
     x_unzCurrentSize = (\<lambda>(es, cur). (0, of_nat (length (the (map_of es cur))))),
     x_unzOpenCurrent = (\<lambda>h. (0, h)),
     x_unzReadCurrent = (\<lambda>(es, cur) n. (int (length (take n (the (map_of es cur)))),
                                         take n (the (map_of es cur)), (es, cur))),
     x_unzCloseCurrent = (\<lambda>h. (0, h)),
     x_SUPPORT_HVB = False,
     x_hvb_init_verified_data = True,
     x_footer_init_desc = (\<lambda>fs p. 0),
     x_num_loaded_certs = 1,
     x_hvb_cert_parser = 0,
     x_FsHvbConstructVerityTarget = (\<lambda>d. 0),
     x_FsDmCreateDevice = (\<lambda>d. (0, ''/dev/block/dm-0'')),
     x_FsDmInitDmDev = (\<lambda>d. 0),
     x_FsDmRemoveDevice = (\<lambda>d. 0),
     x_GetParameter = (\<lambda>k. (0, [])),
     x_SetParameter = (\<lambda>k v. 0),
     x_SystemParameter = (\<lambda>k. []),
     x_OnDemandSaIds = None,
     x_CheckSystemAbility = (\<lambda>i. False),
     x_TimerMs = 0 \<rparr>"

definition sample0 :: "(json, archive) ext" where
  "sample0 = sample_ext (\<lambda>s. JNull) (\<lambda>s. None)"

lemmas sample_defs = sample_ext_def sample0_def

lemma filter_inside_map_of:
  "map_of (filter (\<lambda>(p, n). \<not> inside d p) fs) p = (if inside d p then None else map_of fs p)"
  by (induction fs) auto

lemma sample_rmdir: "rmdir_contract (sample_ext parse unz)"
  by (simp add: rmdir_contract_def sample_ext_def filter_inside_map_of)

lemma sample_dirfiles: "dirfiles_contract (sample_ext parse unz)"
proof -
  have "p \<in> fst ` set fs \<and> is_reg fs p" if "map_of fs p = Some (Reg m c)" for fs :: fsys and p m c
    using map_of_SomeD[OF that] that by (force simp: is_reg_def fs_node_def)
  moreover have "is_reg fs p \<longleftrightarrow> (\<exists>m c. map_of fs p = Some (Reg m c))" if "(p, b) \<in> set fs"
    for fs :: fsys and p b
  proof -
    from that obtain n where "map_of fs p = Some n"
      by (metis fst_conv imageI map_of_eq_None_iff not_Some_eq)
    then show ?thesis by (cases n) (auto simp: is_reg_def fs_node_def)
  qed
  ultimately show ?thesis
    by (auto simp: dirfiles_contract_def sample_ext_def)
qed

text \<open>A world with the given files and no fault.\<close>

definition world0 :: "fsys \<Rightarrow> world" where
  "world0 fs = \<lparr>w_fs = fs, w_fault = (\<lambda>op p. False), w_grant = (\<lambda>p off n. int n),
                w_setparams = [], w_reboots = [], w_mounts = []\<rparr>"

end
