(* ===== verification/Zip_Helper.thy ===== *)
theory Zip_Helper
  imports Module_Utils Sample_Services
begin

text \<open>
  services/module_update/util/src/module_zip_helper.cpp: the class \<open>ModuleZipHelper\<close>, a
  handle of minizip with the file it has located, and the offset of a stored entry, which
  the code computes from the raw bytes of the package.

  minizip is third-party: its calls are the fields \<open>x_unz...\<close>; a handle that a call moves
  is returned.
\<close>

section \<open>Headers\<close>

text \<open>The packed structs \<open>LocalFileHeader\<close> and \<open>CentralDirEntry\<close>: field names and widths.\<close>

type_synonym layout = "(string \<times> nat) list"

definition LocalFileHeader :: layout where
  "LocalFileHeader =
     [(''signature'', 4), (''versionNeeded'', 2), (''flags'', 2), (''compressionMethod'', 2),
      (''modifiedTime'', 2), (''modifiedDate'', 2), (''crc'', 4), (''compressedSize'', 4),
      (''uncompressedSize'', 4), (''nameSize'', 2), (''extraSize'', 2)]"

definition CentralDirEntry :: layout where
  "CentralDirEntry =
     [(''signature'', 4), (''versionMade'', 2), (''versionNeeded'', 2), (''flags'', 2),
      (''compressionMethod'', 2), (''modifiedTime'', 2), (''modifiedDate'', 2), (''crc'', 4),
      (''compressedSize'', 4), (''uncompressedSize'', 4), (''nameSize'', 2),
      (''extraSize'', 2), (''commentSize'', 2), (''diskNumStart'', 2), (''internalAttr'', 2),
      (''externalAttr'', 4), (''localHeaderOffset'', 4)]"

fun offsetof :: "layout \<Rightarrow> string \<Rightarrow> nat" where
  "offsetof [] fld = 0"
| "offsetof ((n, k) # l) fld = (if n = fld then 0 else k + offsetof l fld)"

definition sizeof :: "layout \<Rightarrow> nat" where
  "sizeof l = sum_list (map snd l)"

definition LOCAL_HEADER_SIGNATURE :: u32 where "LOCAL_HEADER_SIGNATURE = 0x04034b50"
definition CENTRAL_SIGNATURE :: u32 where "CENTRAL_SIGNATURE = 0x02014b50"

section \<open>The helper\<close>

record 'h zip_helper =
  z_handle :: "'h option"
  z_hasLocated :: bool
  z_filename :: string
  z_zipPath :: string

definition ModuleZipHelper :: "('j, 'h) ext \<Rightarrow> world \<Rightarrow> string \<Rightarrow> 'h zip_helper" where
  "ModuleZipHelper X w path =
     \<lparr>z_handle = x_unzOpen X (w_fs w) path, z_hasLocated = False, z_filename = [], z_zipPath = path\<rparr>"

definition Zip_IsValid :: "'h zip_helper \<Rightarrow> bool" where
  "Zip_IsValid z = (z_handle z \<noteq> None)"

definition GetNumberOfEntry :: "('j, 'h) ext \<Rightarrow> 'h zip_helper \<Rightarrow> u32 option" where
  "GetNumberOfEntry X z =
     (case z_handle z of
        None \<Rightarrow> None
      | Some h \<Rightarrow> (case x_unzGlobalInfo X h of
                     (err, number_entry) \<Rightarrow> if err \<noteq> 0 then None else Some (ucast number_entry)))"

definition LocateFile :: "('j, 'h) ext \<Rightarrow> string \<Rightarrow> 'h zip_helper \<Rightarrow> bool \<times> 'h zip_helper" where
  "LocateFile X fpInfo z =
     (case z_handle z of
        None \<Rightarrow> (False, z)
      | Some h \<Rightarrow>
          (case x_unzLocateFile X h fpInfo of
             (err, h') \<Rightarrow>
               if err \<noteq> 0 then (False, z\<lparr>z_handle := Some h', z_hasLocated := False\<rparr>)
               else (True, z\<lparr>z_handle := Some h', z_hasLocated := True, z_filename := fpInfo\<rparr>)))"

definition GetFileSize :: "('j, 'h) ext \<Rightarrow> 'h zip_helper \<Rightarrow> u32 option" where
  "GetFileSize X z =
     (if \<not> z_hasLocated z then None
      else case x_unzCurrentSize X (the (z_handle z)) of
        (err, uncompressed_size) \<Rightarrow> if err \<noteq> 0 then None else Some (ucast uncompressed_size))"

definition GetFileEntryOffset ::
  "('j, 'h) ext \<Rightarrow> world \<Rightarrow> 'h zip_helper \<Rightarrow> u32 \<Rightarrow> u32 option" where
  "GetFileEntryOffset X w z centralDirOffset =
     (let realPath = GetRealPath X w (z_zipPath z)
      in if realPath = [] then None
      else case fd_open w realPath of
        None \<Rightarrow> None
      | Some fd \<Rightarrow>
     (case ReadFullyAtOffset fd (sizeof CentralDirEntry) (uint centralDirOffset) of
        None \<Rightarrow> None
      | Some centralDirBuf \<Rightarrow>
     if ReadLE32 (Some (drop (offsetof CentralDirEntry ''signature'') centralDirBuf))
          \<noteq> CENTRAL_SIGNATURE then None
     else
     (let localHeaderOffset =
            ReadLE32 (Some (drop (offsetof CentralDirEntry ''localHeaderOffset'') centralDirBuf))
      in case ReadFullyAtOffset fd (sizeof LocalFileHeader) (uint localHeaderOffset) of
        None \<Rightarrow> None
      | Some localHeaderBuf \<Rightarrow>
     if ReadLE32 (Some (drop (offsetof LocalFileHeader ''signature'') localHeaderBuf))
          \<noteq> LOCAL_HEADER_SIGNATURE then None
     else
     (let nameSize = ReadLE16 (Some (drop (offsetof LocalFileHeader ''nameSize'') localHeaderBuf));
          extraSize = ReadLE16 (Some (drop (offsetof LocalFileHeader ''extraSize'') localHeaderBuf));
          offset = (ucast localHeaderOffset + of_nat (sizeof LocalFileHeader) + ucast nameSize
                 + ucast extraSize :: u64)
      in Some (ucast offset)))))"

definition GetFileOffset :: "('j, 'h) ext \<Rightarrow> world \<Rightarrow> 'h zip_helper \<Rightarrow> u32 option" where
  "GetFileOffset X w z =
     (if \<not> z_hasLocated z then None
      else case x_unzFilePos X (the (z_handle z)) of
        (err, pos_in_zip_directory) \<Rightarrow>
          if err \<noteq> 0 then None else GetFileEntryOffset X w z (ucast pos_in_zip_directory))"

text \<open>\<open>buf.resize(length, '\0')\<close>, then minizip writes what it read over its front.\<close>

definition resize_str :: "string \<Rightarrow> nat \<Rightarrow> string" where
  "resize_str buf n = take n buf @ replicate (n - length buf) (char_of (0 :: nat))"

definition GetFileContent ::
  "('j, 'h) ext \<Rightarrow> string \<Rightarrow> 'h zip_helper \<Rightarrow> (bool \<times> string) \<times> 'h zip_helper" where
  "GetFileContent X buf z =
     (if \<not> z_hasLocated z then ((False, buf), z)
      else case GetFileSize X z of
        None \<Rightarrow> ((False, buf), z)
      | Some len \<Rightarrow>
     (let buf1 = resize_str buf (unat len)
      in case x_unzOpenCurrent X (the (z_handle z)) of
        (err, h1) \<Rightarrow>
          if err \<noteq> 0 then ((False, buf1), z\<lparr>z_handle := Some h1\<rparr>)
          else
     (case x_unzReadCurrent X h1 (unat len) of
        (rsize, content, h2) \<Rightarrow>
     (case x_unzCloseCurrent X h2 of
        (err, h3) \<Rightarrow>
          (let buf2 = take (nat rsize) content @ drop (nat rsize) buf1;
               z' = z\<lparr>z_handle := Some h3\<rparr>
           in if rsize < 0 then ((False, buf2), z')
              else if err \<noteq> 0 then ((False, buf2), z')
              else ((True, buf2), z'))))))"

definition ExtractZipFile ::
  "('j, 'h) ext \<Rightarrow> string \<Rightarrow> string \<Rightarrow> 'h zip_helper \<Rightarrow> (bool \<times> string) \<times> 'h zip_helper" where
  "ExtractZipFile X fpInfo buf z =
     (case LocateFile X fpInfo z of
        (False, z1) \<Rightarrow> ((False, buf), z1)
      | (True, z1) \<Rightarrow> GetFileContent X buf z1)"

text \<open>module_utils.cpp: \<open>GetContentFromZip\<close>.\<close>

definition GetContentFromZip :: "('j, 'h) ext \<Rightarrow> world \<Rightarrow> string \<Rightarrow> string \<Rightarrow> string" where
  "GetContentFromZip X w zipPath fpInfo =
     (let helper = ModuleZipHelper X w zipPath
      in if \<not> Zip_IsValid helper then []
         else case ExtractZipFile X fpInfo [] helper of
           ((False, _), _) \<Rightarrow> []
         | ((True, content), _) \<Rightarrow> content)"

section \<open>Lemmas\<close>

lemma header_sizes [simp]:
  "sizeof LocalFileHeader = 30" "sizeof CentralDirEntry = 46"
  "offsetof CentralDirEntry ''signature'' = 0"
  "offsetof CentralDirEntry ''localHeaderOffset'' = 42"
  "offsetof LocalFileHeader ''signature'' = 0"
  "offsetof LocalFileHeader ''nameSize'' = 26"
  "offsetof LocalFileHeader ''extraSize'' = 28"
  by (simp_all add: sizeof_def LocalFileHeader_def CentralDirEntry_def)

lemma ucast_add_down: "(ucast (a + b :: u64) :: u32) = ucast a + ucast b"
proof -
  have "(ucast (a + b :: u64) :: u32) = word_of_int (take_bit 64 (uint a + uint b))"
    unfolding ucast_eq uint_word_ariths by (simp add: take_bit_eq_mod)
  also have "\<dots> = word_of_int (uint a + uint b)"
    by (rule bit_word_eqI) (simp only: bit_word_of_int_iff bit_take_bit_iff, simp)
  finally show ?thesis by simp
qed

lemma ucast_down_up:
  "(ucast (ucast (a :: u32) :: u64) :: u32) = a"
  "(ucast (ucast (b :: u16) :: u64) :: u32) = ucast b"
  by (rule bit_word_eqI; auto simp: bit_simps)+

text \<open>Bytes \<open>ds\<close> stand in \<open>bs\<close> at position \<open>p\<close>.\<close>

definition bytes_at :: "u8 list \<Rightarrow> nat \<Rightarrow> u8 list \<Rightarrow> bool" where
  "bytes_at bs p ds = (take (length ds) (drop p bs) = ds)"

lemma bytes_at_drop:
  assumes "bytes_at bs (p + k) ds" and "k + length ds \<le> n"
  shows "\<exists>s. drop k (take n (drop p bs)) = ds @ s"
proof -
  have "drop k (take n (drop p bs)) = take (n - k) (drop (p + k) bs)"
    by (simp add: drop_take add.commute)
  moreover have "take (length ds) (take (n - k) (drop (p + k) bs)) = ds"
    using assms by (simp add: bytes_at_def min_absorb1)
  ultimately show ?thesis by (metis append_take_drop_id)
qed

lemma bytes_at_le32:
  "bytes_at bs (p + k) (le32 v) \<Longrightarrow> k + 4 \<le> n \<Longrightarrow>
     ReadLE32 (Some (drop k (take n (drop p bs)))) = v"
  using bytes_at_drop[of bs p k "le32 v" n] by (auto simp: ReadLE32_roundtrip length_le32)

lemma bytes_at_le16:
  "bytes_at bs (p + k) (le16 v) \<Longrightarrow> k + 2 \<le> n \<Longrightarrow>
     ReadLE16 (Some (drop k (take n (drop p bs)))) = v"
  using bytes_at_drop[of bs p k "le16 v" n] by (auto simp: ReadLE16_roundtrip length_le16)

section \<open>Properties\<close>

text \<open>On a package with a well-formed central entry and local header the offset the code
  computes is that of the entry's data: the local header's position plus 30 plus the sizes of
  the name and the extra field, modulo 2^32.\<close>

theorem GetFileEntryOffset_value:
  fixes lo :: u32 and ns es :: u16
  assumes path: "GetRealPath X w (z_zipPath z) = q" "q \<noteq> []"
    and opened: "fd_open w q = Some f"
    and reads: "\<forall>o' c. 0 < c \<longrightarrow> 0 < fd_grant f o' c"
    and room: "unat cd + 46 \<le> length (fd_bytes f)" "unat lo + 30 \<le> length (fd_bytes f)"
    and central: "bytes_at (fd_bytes f) (unat cd) (le32 CENTRAL_SIGNATURE)"
                 "bytes_at (fd_bytes f) (unat cd + 42) (le32 lo)"
    and header: "bytes_at (fd_bytes f) (unat lo) (le32 LOCAL_HEADER_SIGNATURE)"
                "bytes_at (fd_bytes f) (unat lo + 26) (le16 ns)"
                "bytes_at (fd_bytes f) (unat lo + 28) (le16 es)"
  shows "GetFileEntryOffset X w z cd = Some (lo + 30 + ucast ns + ucast es)"
proof -
  let ?bs = "fd_bytes f"
  have c: "ReadFullyAtOffset f 46 (uint cd) = Some (take 46 (drop (unat cd) ?bs))"
    using ReadFullyAtOffset_complete[OF reads, of "uint cd" 46] room(1) by simp
  have l: "ReadFullyAtOffset f 30 (uint lo) = Some (take 30 (drop (unat lo) ?bs))"
    using ReadFullyAtOffset_complete[OF reads, of "uint lo" 30] room(2) by simp
  have c1: "ReadLE32 (Some (take 46 (drop (unat cd) ?bs))) = CENTRAL_SIGNATURE"
    using bytes_at_le32[of ?bs "unat cd" 0 _ 46] central(1) by simp
  have c2: "ReadLE32 (Some (drop 42 (take 46 (drop (unat cd) ?bs)))) = lo"
    using bytes_at_le32[of ?bs "unat cd" 42 _ 46] central(2) by simp
  have l1: "ReadLE32 (Some (take 30 (drop (unat lo) ?bs))) = LOCAL_HEADER_SIGNATURE"
    using bytes_at_le32[of ?bs "unat lo" 0 _ 30] header(1) by simp
  have l2: "ReadLE16 (Some (drop 26 (take 30 (drop (unat lo) ?bs)))) = ns"
    using bytes_at_le16[of ?bs "unat lo" 26 _ 30] header(2) by simp
  have l3: "ReadLE16 (Some (drop 28 (take 30 (drop (unat lo) ?bs)))) = es"
    using bytes_at_le16[of ?bs "unat lo" 28 _ 30] header(3) by simp
  have sum: "(ucast (ucast lo + 30 + ucast ns + ucast es :: u64) :: u32) =
      lo + 30 + ucast ns + ucast es"
    by (simp add: ucast_add_down ucast_down_up)
  show ?thesis
    unfolding GetFileEntryOffset_def Let_def path(1) opened header_sizes
      option.case c
    using path(2) c1 c2 l l1 l2 l3 sum by simp
qed

text \<open>A package with one entry: name of 3 bytes, extra field of 2, central entry at 30.\<close>

definition tiny_zip :: "u8 list" where
  "tiny_zip = le32 LOCAL_HEADER_SIGNATURE @ replicate 22 0 @ le16 3 @ le16 2
     @ le32 CENTRAL_SIGNATURE @ replicate 38 0 @ le32 0"

definition tiny_world :: world where
  "tiny_world = world0 [(''/p.zip'', Reg 420 (map (\<lambda>b. char_of (unat b)) tiny_zip))]"

definition tiny_helper :: "archive zip_helper" where
  "tiny_helper = \<lparr>z_handle = None, z_hasLocated = True, z_filename = [], z_zipPath = ''/p.zip''\<rparr>"

lemma tiny_bytes: "map of_char (map (\<lambda>b. char_of (unat b)) tiny_zip) = tiny_zip"
proof -
  have "(of_char (char_of (unat b)) :: u8) = b" for b :: u8
  proof -
    have "(of_char (char_of (unat b)) :: u8) = of_nat (of_char (char_of (unat b)) :: nat)"
      by (rule of_nat_of_char[symmetric])
    also have "\<dots> = of_nat (unat b mod 256)" by (simp only: of_char_of)
    finally show ?thesis using u8_less[of b] by simp
  qed
  then show ?thesis by (simp add: map_idI)
qed

lemma GetFileEntryOffset_value_witness:
  "GetFileEntryOffset sample0 tiny_world tiny_helper 30 = Some 35"
proof -
  let ?f = "\<lparr>fd_bytes = tiny_zip, fd_grant = w_grant tiny_world ''/p.zip''\<rparr>"
  have "fd_open tiny_world ''/p.zip'' = Some ?f"
    unfolding fd_open_def tiny_world_def read_file_def
    using tiny_bytes by (simp add: world0_def)
  moreover have "GetRealPath sample0 tiny_world (z_zipPath tiny_helper) = ''/p.zip''"
    by (simp add: GetRealPath_def sample_defs tiny_world_def world0_def tiny_helper_def
        CheckPathExists_def sys_stat_def fs_node_def)
  ultimately show ?thesis
    using GetFileEntryOffset_value[of sample0 tiny_world tiny_helper "''/p.zip''" ?f 30 0 3 2]
    by (simp add: tiny_zip_def bytes_at_def tiny_world_def world0_def)
qed

end
