(* ===== verification/Version_Order.thy ===== *)
theory Version_Order
  imports Main
begin

text \<open>
  The contract of a version comparison. The update logic asks \<open>older v w\<close> before it lets
  \<open>w\<close> take the place of \<open>v\<close>; a comparison that is transitive composes along a chain of
  updates, and one that is also irreflexive never lets a chain come back to a version it
  has left.
\<close>

locale version_step =
  fixes older :: "'v \<Rightarrow> 'v \<Rightarrow> bool"
  assumes older_trans: "older a b \<Longrightarrow> older b c \<Longrightarrow> older a c"
begin

lemma chain_sorted: "successively older vs \<Longrightarrow> sorted_wrt older vs"
proof (induction vs rule: induct_list012)
  case (3 a b vs)
  then have "sorted_wrt older (b # vs)" and ab: "older a b" by simp_all
  then show ?case by (auto intro: older_trans[OF ab])
qed simp_all

lemma chain_nth: "successively older vs \<Longrightarrow> i < j \<Longrightarrow> j < length vs \<Longrightarrow> older (vs ! i) (vs ! j)"
  using chain_sorted by (auto simp: sorted_wrt_iff_nth_less)

end

locale strict_version_step = version_step older
  for older :: "'v \<Rightarrow> 'v \<Rightarrow> bool" +
  assumes older_irrefl: "\<not> older a a"
begin

lemma older_asym: "older a b \<Longrightarrow> \<not> older b a"
  using older_trans older_irrefl by blast

lemma chain_distinct: "successively older vs \<Longrightarrow> distinct vs"
  using chain_nth older_irrefl by (fastforce simp: distinct_conv_nth nat_neq_iff)

lemma chain_no_return:
  "successively older vs \<Longrightarrow> i < j \<Longrightarrow> j < length vs \<Longrightarrow> \<not> older (vs ! j) (vs ! i)"
  using chain_nth older_asym by blast

end

text \<open>An order on a component of a value is one on the value.\<close>

lemma version_step_inv_image: "version_step r \<Longrightarrow> version_step (\<lambda>a b. r (f a) (f b))"
  unfolding version_step_def by blast

end
