(* ===== verification/Module_File.thy ===== *)
theory Module_File
  imports Zip_Helper Version_Order
begin

text \<open>
  services/module_update/util/include/module_file.h and src/module_file.cpp: the version
  records of a module package (HMP), reading them from \<open>pack.info\<close>, opening a package, and
  the comparisons that decide whether one package may replace another.

  A JSON value is an abstract ('j) of updater's JsonNode. A \<open>std::unordered_map\<close> is an
  association list whose \<open>emplace\<close> keeps the first entry of a key.
\<close>

section \<open>Data\<close>

record SaVersion =
  sv_apiVersion :: u32
  sv_versionCode :: u32
  sv_patchVersion :: u32

record SaInfo =
  si_saName :: string
  si_saId :: int
  si_version :: SaVersion

record BundleInfo =
  bi_bundleName :: string
  bi_bundleVersion :: string

record ModuleInfo =
  mi_saInfoList :: "SaInfo list"
  mi_bundleInfoList :: "BundleInfo list"

record ModulePackageInfo =
  mp_hmpName :: string
  mp_version :: string
  mp_displayVersion :: string
  mp_saSdkVersion :: string
  mp_type :: string
  mp_apiVersion :: int
  mp_moduleMap :: "(string \<times> ModuleInfo) list"

definition ModulePackageInfo_init :: ModulePackageInfo where
  "ModulePackageInfo_init =
     \<lparr>mp_hmpName = [], mp_version = [], mp_displayVersion = [], mp_saSdkVersion = [],
      mp_type = [], mp_apiVersion = -1, mp_moduleMap = []\<rparr>"

record ImageStat =
  is_imageOffset :: u32
  is_imageSize :: u32
  is_fsType :: string

text \<open>\<open>mf_vd\<close>: whether \<open>vd_\<close>, the verified hvb data, is set.\<close>

record ModuleFile =
  mf_modulePath :: string
  mf_versionInfo :: ModulePackageInfo
  mf_imageStat :: "ImageStat option"
  mf_vd :: bool

definition HMP_TRAIN_TYPE :: string where "HMP_TRAIN_TYPE = ''moduleTrain''"
definition HMP_APP_TYPE :: string where "HMP_APP_TYPE = ''APP''"
definition HMP_SA_TYPE :: string where "HMP_SA_TYPE = ''systemAbility''"
definition HMP_SA_TYPE_OLD :: string where "HMP_SA_TYPE_OLD = ''SYSTEM ability''"
definition HMP_MIX_TYPE :: string where "HMP_MIX_TYPE = ''combineType''"
definition HMP_API_VERSION :: string where "HMP_API_VERSION = ''apiVersion''"
definition HMP_SA_SDK_VERSION :: string where "HMP_SA_SDK_VERSION = ''saSdkVersion''"
definition HMP_MODULE_INFO :: string where "HMP_MODULE_INFO = ''moduleInfo''"

lemmas hmp_type_defs = HMP_TRAIN_TYPE_def HMP_APP_TYPE_def HMP_SA_TYPE_def HMP_SA_TYPE_OLD_def
  HMP_MIX_TYPE_def HMP_API_VERSION_def HMP_SA_SDK_VERSION_def HMP_MODULE_INFO_def

definition SaVersion_string :: "SaVersion \<Rightarrow> string" where
  "SaVersion_string v =
     string_of_nat (unat (sv_apiVersion v)) @ string_of_nat (unat (sv_versionCode v))
     @ string_of_nat (unat (sv_patchVersion v))"

definition emplace :: "'k \<Rightarrow> 'v \<Rightarrow> ('k \<times> 'v) list \<Rightarrow> ('k \<times> 'v) list" where
  "emplace k v m = (if map_of m k = None then m @ [(k, v)] else m)"

lemma map_of_emplace:
  "map_of (emplace k v m) = (if map_of m k = None then (map_of m)(k \<mapsto> v) else map_of m)"
  by (auto simp: emplace_def map_add_def fun_eq_iff split: option.splits)

section \<open>The image beside a package\<close>

text \<open>\<open>FS_TYPES\<close>: type, offset and magic bytes (\<open>len\<close> is the length of the magic).\<close>

definition FS_TYPES :: "(string \<times> int \<times> u8 list) list" where
  "FS_TYPES = [(''f2fs'', 1024, [0x10, 0x20, 0xF5, 0xF2]), (''ext4'', 1080, [0x53, 0xEF])]"

fun retrieve_fs :: "fd \<Rightarrow> u32 \<Rightarrow> (string \<times> int \<times> u8 list) list \<Rightarrow> string option" where
  "retrieve_fs fd imageOffset [] = None"
| "retrieve_fs fd imageOffset ((t, off, magic) # fss) =
     (case ReadFullyAtOffset fd (length magic) (uint (imageOffset + word_of_int off)) of
        None \<Rightarrow> None
      | Some buf \<Rightarrow> if buf = magic then Some t else retrieve_fs fd imageOffset fss)"

definition RetrieveFsType :: "fd \<Rightarrow> u32 \<Rightarrow> string option" where
  "RetrieveFsType fd imageOffset = retrieve_fs fd imageOffset FS_TYPES"

definition ParseImageStat :: "('j, 'h) ext \<Rightarrow> world \<Rightarrow> string \<Rightarrow> ImageStat option" where
  "ParseImageStat X w fpInfo =
     (let realPath = GetRealPath X w fpInfo
      in if realPath = [] \<or> \<not> x_IsFileExist X (w_fs w) realPath then None
      else case sys_stat w realPath of
        StatOk n \<Rightarrow>
          (let sz = (case n of Reg _ c \<Rightarrow> of_nat (length c) | Dir _ \<Rightarrow> 0)
           in case fd_open w realPath of
             None \<Rightarrow> None
           | Some fd \<Rightarrow>
               (case RetrieveFsType fd 0 of
                  None \<Rightarrow> None
                | Some t \<Rightarrow> Some \<lparr>is_imageOffset = 0, is_imageSize = sz, is_fsType = t\<rparr>))
      | _ \<Rightarrow> None)"

section \<open>Parsing pack.info\<close>

definition json_str :: "('j, 'h) ext \<Rightarrow> 'j \<Rightarrow> string \<Rightarrow> string option" where
  "json_str X node key = x_JsonAsString X (x_JsonGet X node key)"

definition ParseHmpVersionInfo ::
  "('j, 'h) ext \<Rightarrow> 'j \<Rightarrow> ModulePackageInfo \<Rightarrow> ModulePackageInfo option" where
  "ParseHmpVersionInfo X package versionInfo =
     (case json_str X package ''name'' of None \<Rightarrow> None | Some name \<Rightarrow>
     (case json_str X package ''version'' of None \<Rightarrow> None | Some version \<Rightarrow>
     (case json_str X package ''displayVersion'' of None \<Rightarrow> None | Some displayVersion \<Rightarrow>
       (let v = versionInfo\<lparr>mp_hmpName := name, mp_version := version,
                            mp_displayVersion := displayVersion\<rparr>
        in if mp_type v \<noteq> HMP_SA_TYPE \<and> mp_type v \<noteq> HMP_SA_TYPE_OLD then
             (case json_str X package HMP_API_VERSION of None \<Rightarrow> None
              | Some apiVersion \<Rightarrow> Some (v\<lparr>mp_apiVersion := x_String2Int X apiVersion\<rparr>))
           else if mp_type v \<noteq> HMP_APP_TYPE then
             (case json_str X package HMP_SA_SDK_VERSION of None \<Rightarrow> None
              | Some saSdkVersion \<Rightarrow> Some v)
           else Some v))))"

definition ParseSaVersion :: "('j, 'h) ext \<Rightarrow> string \<Rightarrow> SaVersion option" where
  "ParseSaVersion X versionStr =
     (case x_SplitStr X versionStr ''.'' of
        [a, v, p] \<Rightarrow>
          (case (x_ConvertToUnsignedLong X a, x_ConvertToUnsignedLong X v,
                 x_ConvertToUnsignedLong X p) of
             (Some a', Some v', Some p') \<Rightarrow>
               Some \<lparr>sv_apiVersion = a', sv_versionCode = v', sv_patchVersion = p'\<rparr>
           | _ \<Rightarrow> None)
      | _ \<Rightarrow> None)"

definition parse_sa :: "('j, 'h) ext \<Rightarrow> 'j \<Rightarrow> SaInfo option" where
  "parse_sa X saInfo =
     (case x_JsonAsString X saInfo of None \<Rightarrow> None | Some saInfoStr \<Rightarrow>
        (case x_SplitStr X saInfoStr '' '' of
           [name, sid, ver] \<Rightarrow>
             (case x_ConvertToLong X sid of None \<Rightarrow> None | Some saId \<Rightarrow>
                (case ParseSaVersion X ver of None \<Rightarrow> None | Some v \<Rightarrow>
                   Some \<lparr>si_saName = name, si_saId = saId, si_version = v\<rparr>))
         | _ \<Rightarrow> None))"

definition ParseSaList :: "('j, 'h) ext \<Rightarrow> 'j \<Rightarrow> ModuleInfo \<Rightarrow> ModuleInfo option" where
  "ParseSaList X package versionInfo =
     (case those (map (parse_sa X) (x_JsonElems X (x_JsonGet X package ''saList''))) of
        None \<Rightarrow> None
      | Some l \<Rightarrow> Some (versionInfo\<lparr>mi_saInfoList := mi_saInfoList versionInfo @ l\<rparr>))"

definition parse_bundle :: "('j, 'h) ext \<Rightarrow> 'j \<Rightarrow> BundleInfo option" where
  "parse_bundle X bundleInfo =
     (case x_JsonKey X bundleInfo of None \<Rightarrow> None | Some bundleInfoStr \<Rightarrow>
        (case x_SplitStr X bundleInfoStr '' '' of
           [name, ver] \<Rightarrow> Some \<lparr>bi_bundleName = name, bi_bundleVersion = ver\<rparr>
         | _ \<Rightarrow> None))"

definition ParseBundleList :: "('j, 'h) ext \<Rightarrow> 'j \<Rightarrow> ModuleInfo \<Rightarrow> ModuleInfo option" where
  "ParseBundleList X package versionInfo =
     (case those (map (parse_bundle X) (x_JsonElems X (x_JsonGet X package ''bundleList''))) of
        None \<Rightarrow> None
      | Some l \<Rightarrow> Some (versionInfo\<lparr>mi_bundleInfoList := mi_bundleInfoList versionInfo @ l\<rparr>))"

definition ModuleInfo_init :: ModuleInfo where
  "ModuleInfo_init = \<lparr>mi_saInfoList = [], mi_bundleInfoList = []\<rparr>"

fun parse_train :: "('j, 'h) ext \<Rightarrow> 'j list \<Rightarrow> ModulePackageInfo \<Rightarrow> ModulePackageInfo option" where
  "parse_train X [] versionInfo = Some versionInfo"
| "parse_train X (moduleInfo # ms) versionInfo =
     (let modulePackage = x_JsonGet X moduleInfo ''package''
      in case json_str X modulePackage ''name'' of None \<Rightarrow> None | Some name \<Rightarrow>
        (case ParseSaList X modulePackage ModuleInfo_init of None \<Rightarrow> None | Some info1 \<Rightarrow>
        (case ParseBundleList X modulePackage info1 of None \<Rightarrow> None | Some info2 \<Rightarrow>
          parse_train X ms
            (versionInfo\<lparr>mp_moduleMap := emplace name info2 (mp_moduleMap versionInfo)\<rparr>))))"

definition ParseTrainInfo ::
  "('j, 'h) ext \<Rightarrow> 'j \<Rightarrow> ModulePackageInfo \<Rightarrow> ModulePackageInfo option" where
  "ParseTrainInfo X package versionInfo =
     parse_train X (x_JsonElems X (x_JsonGet X package HMP_MODULE_INFO)) versionInfo"

definition ParseModuleInfo ::
  "('j, 'h) ext \<Rightarrow> string \<Rightarrow> ModulePackageInfo \<Rightarrow> ModulePackageInfo option" where
  "ParseModuleInfo X packInfo versionInfo =
     (let root = x_JsonParse X packInfo
      in case json_str X root ''type'' of None \<Rightarrow> None | Some hmpType \<Rightarrow>
        (let package = x_JsonGet X root ''package''
         in case ParseHmpVersionInfo X package (versionInfo\<lparr>mp_type := hmpType\<rparr>) of
              None \<Rightarrow> None
            | Some v \<Rightarrow>
                if mp_type v = HMP_TRAIN_TYPE then ParseTrainInfo X package v
                else
     (case (if mp_type v = HMP_SA_TYPE \<or> mp_type v = HMP_SA_TYPE_OLD \<or> mp_type v = HMP_MIX_TYPE
            then ParseSaList X package ModuleInfo_init else Some ModuleInfo_init) of
        None \<Rightarrow> None
      | Some info1 \<Rightarrow>
     (case (if mp_type v = HMP_APP_TYPE \<or> mp_type v = HMP_MIX_TYPE
            then ParseBundleList X package info1 else Some info1) of
        None \<Rightarrow> None
      | Some info2 \<Rightarrow>
          Some (v\<lparr>mp_moduleMap := emplace (mp_hmpName v) info2 (mp_moduleMap v)\<rparr>)))))"

section \<open>Comparing versions\<close>

definition CompareSaVersion :: "SaVersion \<Rightarrow> SaVersion \<Rightarrow> bool" where
  "CompareSaVersion smaller bigger =
     (if sv_apiVersion smaller \<noteq> sv_apiVersion bigger then False
      else if sv_versionCode smaller > sv_versionCode bigger then False
      else if sv_versionCode smaller < sv_versionCode bigger then True
      else sv_patchVersion bigger \<ge> sv_patchVersion smaller)"

definition CompareSaListVersion :: "SaInfo list \<Rightarrow> SaInfo list \<Rightarrow> bool" where
  "CompareSaListVersion smallList bigList =
     (if length smallList \<noteq> length bigList then False
      else let saMap = map_of (map (\<lambda>info. (si_saId info, info)) bigList)
           in list_all (\<lambda>info. case saMap (si_saId info) of
                                 None \<Rightarrow> False
                               | Some b \<Rightarrow> CompareSaVersion (si_version info) (si_version b)) smallList)"

definition CompareBundleList :: "BundleInfo list \<Rightarrow> BundleInfo list \<Rightarrow> bool" where
  "CompareBundleList smallList bigList =
     (if length smallList \<noteq> length bigList then False
      else list_all (\<lambda>info. bi_bundleName info \<in> set (map bi_bundleName bigList)) smallList)"

text \<open>The numbers at the indices 1 to n of a split version.\<close>

definition ver_numbers :: "('j, 'h) ext \<Rightarrow> nat \<Rightarrow> string list \<Rightarrow> int list option" where
  "ver_numbers X n v = those (map (x_ConvertToLong X) (take n (drop 1 v)))"

definition CompareHmpVersion :: "('j, 'h) ext \<Rightarrow> string list \<Rightarrow> string list \<Rightarrow> bool" where
  "CompareHmpVersion X smallVersion bigVersion =
     (if length smallVersion \<noteq> 5 \<or> length bigVersion \<noteq> 5 then False
      else if smallVersion ! 0 \<noteq> bigVersion ! 0 then False
      else case (ver_numbers X 4 smallVersion, ver_numbers X 4 bigVersion) of
        (Some smallVer, Some bigVer) \<Rightarrow>
          smallVer ! 0 = bigVer ! 0 \<and> smallVer ! 1 = bigVer ! 1 \<and> smallVer ! 2 = bigVer ! 2
          \<and> smallVer ! 3 < bigVer ! 3
      | _ \<Rightarrow> False)"

definition CompareSaSdkVersion :: "('j, 'h) ext \<Rightarrow> string list \<Rightarrow> string list \<Rightarrow> bool" where
  "CompareSaSdkVersion X smallVersion bigVersion =
     (if length smallVersion \<noteq> 5 \<or> length bigVersion \<noteq> 5 then False
      else if smallVersion ! 0 \<noteq> bigVersion ! 0 then False
      else case (ver_numbers X 3 smallVersion, ver_numbers X 3 bigVersion) of
        (Some smallVer, Some bigVer) \<Rightarrow>
          smallVer ! 0 = bigVer ! 0 \<and> smallVer ! 1 = bigVer ! 1 \<and> smallVer ! 2 \<ge> bigVer ! 2
      | _ \<Rightarrow> False)"

definition ParseVersion ::
  "('j, 'h) ext \<Rightarrow> string \<Rightarrow> string \<Rightarrow> string list \<Rightarrow> bool \<times> string list" where
  "ParseVersion X version split versionVec =
     (case rfind_str split version of
        None \<Rightarrow> (False, versionVec)
      | Some index \<Rightarrow>
          (let vec1 = versionVec @ [substr version 0 index];
               versionNumber = substr_from version (index + length split);
               tmpVersionVec = x_SplitString X versionNumber ''.''
           in if length tmpVersionVec \<noteq> 4 then (False, vec1)
              else (True, vec1 @ tmpVersionVec)))"

section \<open>Module files\<close>

definition VerifyModulePackageSign :: "('j, 'h) ext \<Rightarrow> world \<Rightarrow> string \<Rightarrow> int" where
  "VerifyModulePackageSign X w fpInfo = x_VerifyPackage X (w_fs w) fpInfo (x_GetCertName X)"

definition ModuleFile_Open :: "('j, 'h) ext \<Rightarrow> world \<Rightarrow> string \<Rightarrow> ModuleFile option" where
  "ModuleFile_Open X w fpInfo =
     (let helper = ModuleZipHelper X w fpInfo
      in if \<not> Zip_IsValid helper then None
      else case ExtractZipFile X PACK_INFO_NAME [] helper of
        ((False, _), _) \<Rightarrow> None
      | ((True, moduleInfo), _) \<Rightarrow>
     (case ParseModuleInfo X moduleInfo ModulePackageInfo_init of
        None \<Rightarrow> None
      | Some versionInfo \<Rightarrow>
     (let imagePath = x_ExtractFilePath X fpInfo @ IMG_FILE_NAME
      in case ParseImageStat X w imagePath of
        Some st \<Rightarrow> Some \<lparr>mf_modulePath = fpInfo, mf_versionInfo = versionInfo,
                         mf_imageStat = Some st, mf_vd = False\<rparr>
      | None \<Rightarrow>
          if \<not> StartsWith imagePath MODULE_PREINSTALL_DIR then None
          else Some \<lparr>mf_modulePath = fpInfo, mf_versionInfo = versionInfo,
                     mf_imageStat = None, mf_vd = False\<rparr>)))"

definition CompareVersion :: "('j, 'h) ext \<Rightarrow> ModuleFile \<Rightarrow> ModuleFile \<Rightarrow> bool" where
  "CompareVersion X newFile oldFile =
     (if mf_modulePath newFile = mf_modulePath oldFile then True
      else case (ParseVersion X (mp_version (mf_versionInfo newFile)) '' '' [],
                 ParseVersion X (mp_version (mf_versionInfo oldFile)) '' '' []) of
        ((okN, newVersion), (okO, oldVersion)) \<Rightarrow>
          if \<not> okN \<or> \<not> okO then False
          else if \<not> CompareHmpVersion X oldVersion newVersion then False
          else let newMap = mp_moduleMap (mf_versionInfo newFile);
                   oldMap = mp_moduleMap (mf_versionInfo oldFile)
               in if length oldMap \<noteq> length newMap then False
                  else list_all (\<lambda>(key, v).
                         case map_of newMap key of
                           None \<Rightarrow> False
                         | Some nv \<Rightarrow>
                             CompareSaListVersion (mi_saInfoList v) (mi_saInfoList nv)
                             \<and> CompareBundleList (mi_bundleInfoList v) (mi_bundleInfoList nv))
                       oldMap)"

definition ClearVerifiedData :: "('j, 'h) ext \<Rightarrow> ModuleFile \<Rightarrow> ModuleFile" where
  "ClearVerifiedData X f = (if x_SUPPORT_HVB X \<and> mf_vd f then f\<lparr>mf_vd := False\<rparr> else f)"

definition VerifyModuleVerity :: "('j, 'h) ext \<Rightarrow> world \<Rightarrow> ModuleFile \<Rightarrow> bool \<times> ModuleFile" where
  "VerifyModuleVerity X w f =
     (if \<not> x_SUPPORT_HVB X then (True, f)
      else if mf_vd f then (True, f)
      else if \<not> x_hvb_init_verified_data X then (False, f)
      else (let f1 = f\<lparr>mf_vd := True\<rparr>;
                imagePath = x_ExtractFilePath X (mf_modulePath f) @ IMG_FILE_NAME
            in if x_footer_init_desc X (w_fs w) imagePath \<noteq> 0 then (False, ClearVerifiedData X f1)
               else (True, f1)))"

section \<open>Lemmas: the version orders\<close>

lemma those_None [simp]: "those xs = None \<longleftrightarrow> None \<in> set xs"
  by (induction xs) (auto split: option.splits)

lemma CompareSaVersion_trans: "CompareSaVersion a b \<Longrightarrow> CompareSaVersion b c \<Longrightarrow> CompareSaVersion a c"
  by (auto simp: CompareSaVersion_def split: if_splits)

interpretation sa_version: version_step CompareSaVersion
  by unfold_locales (rule CompareSaVersion_trans)

lemma CompareSaListVersion_iff:
  "CompareSaListVersion small big \<longleftrightarrow>
     length small = length big
     \<and> (\<forall>s \<in> set small. \<exists>b. map_of (map (\<lambda>i. (si_saId i, i)) big) (si_saId s) = Some b
          \<and> CompareSaVersion (si_version s) (si_version b))"
  by (auto simp: CompareSaListVersion_def Let_def list_all_iff split: option.splits)

lemma map_of_saId: "map_of (map (\<lambda>i. (si_saId i, i)) l) k = Some b \<Longrightarrow> b \<in> set l \<and> si_saId b = k"
  by (auto dest!: map_of_SomeD)

lemma CompareSaListVersion_trans:
  assumes "CompareSaListVersion a b" and "CompareSaListVersion b c"
  shows "CompareSaListVersion a c"
  unfolding CompareSaListVersion_iff
proof (intro conjI ballI)
  show "length a = length c" using assms by (simp add: CompareSaListVersion_iff)
next
  fix s
  assume "s \<in> set a"
  with assms(1) obtain t where t: "map_of (map (\<lambda>i. (si_saId i, i)) b) (si_saId s) = Some t"
    and st: "CompareSaVersion (si_version s) (si_version t)"
    by (auto simp: CompareSaListVersion_iff)
  from map_of_saId[OF t] have tb: "t \<in> set b" "si_saId t = si_saId s" by simp_all
  with assms(2) obtain u where "map_of (map (\<lambda>i. (si_saId i, i)) c) (si_saId s) = Some u"
    and "CompareSaVersion (si_version t) (si_version u)"
    by (fastforce simp: CompareSaListVersion_iff)
  with st show "\<exists>u. map_of (map (\<lambda>i. (si_saId i, i)) c) (si_saId s) = Some u
      \<and> CompareSaVersion (si_version s) (si_version u)"
    by (blast intro: CompareSaVersion_trans)
qed

interpretation sa_list: version_step CompareSaListVersion
  by unfold_locales (rule CompareSaListVersion_trans)

lemma CompareBundleList_trans:
  "CompareBundleList a b \<Longrightarrow> CompareBundleList b c \<Longrightarrow> CompareBundleList a c"
  by (fastforce simp: CompareBundleList_def list_all_iff split: if_splits)

interpretation bundle_list: version_step CompareBundleList
  by unfold_locales (rule CompareBundleList_trans)

lemma CompareHmpVersion_trans:
  "CompareHmpVersion X a b \<Longrightarrow> CompareHmpVersion X b c \<Longrightarrow> CompareHmpVersion X a c"
  by (auto simp: CompareHmpVersion_def split: if_splits option.splits)

lemma CompareHmpVersion_irrefl: "\<not> CompareHmpVersion X a a"
  by (auto simp: CompareHmpVersion_def split: if_splits option.splits)

interpretation hmp_version: strict_version_step "CompareHmpVersion X"
  by unfold_locales (auto intro: CompareHmpVersion_trans simp: CompareHmpVersion_irrefl)

text \<open>The part of \<open>CompareVersion\<close> that does not look at the paths.\<close>

definition module_map_ok :: "(string \<times> ModuleInfo) list \<Rightarrow> (string \<times> ModuleInfo) list \<Rightarrow> bool" where
  "module_map_ok oldMap newMap =
     (length oldMap = length newMap
      \<and> (\<forall>(key, v) \<in> set oldMap. \<exists>nv. map_of newMap key = Some nv
           \<and> CompareSaListVersion (mi_saInfoList v) (mi_saInfoList nv)
           \<and> CompareBundleList (mi_bundleInfoList v) (mi_bundleInfoList nv)))"

definition version_split :: "('j, 'h) ext \<Rightarrow> ModulePackageInfo \<Rightarrow> string list option" where
  "version_split X v = (case ParseVersion X (mp_version v) '' '' [] of
                          (True, vec) \<Rightarrow> Some vec | _ \<Rightarrow> None)"

definition info_older :: "('j, 'h) ext \<Rightarrow> ModulePackageInfo \<Rightarrow> ModulePackageInfo \<Rightarrow> bool" where
  "info_older X old new =
     (\<exists>vo vn. version_split X old = Some vo \<and> version_split X new = Some vn
        \<and> CompareHmpVersion X vo vn \<and> module_map_ok (mp_moduleMap old) (mp_moduleMap new))"

lemma module_map_ok_list_all:
  "list_all (\<lambda>(key, v).
       case map_of newMap key of
         None \<Rightarrow> False
       | Some nv \<Rightarrow> CompareSaListVersion (mi_saInfoList v) (mi_saInfoList nv)
           \<and> CompareBundleList (mi_bundleInfoList v) (mi_bundleInfoList nv)) oldMap \<longleftrightarrow>
     (\<forall>(key, v) \<in> set oldMap. \<exists>nv. map_of newMap key = Some nv
           \<and> CompareSaListVersion (mi_saInfoList v) (mi_saInfoList nv)
           \<and> CompareBundleList (mi_bundleInfoList v) (mi_bundleInfoList nv))"
  unfolding list_all_iff by (rule ball_cong) (auto split: option.splits)

lemma CompareVersion_iff:
  "CompareVersion X new old \<longleftrightarrow>
     mf_modulePath new = mf_modulePath old \<or> info_older X (mf_versionInfo old) (mf_versionInfo new)"
  unfolding CompareVersion_def info_older_def version_split_def module_map_ok_def Let_def
    module_map_ok_list_all
  by (auto split: prod.splits bool.splits)

lemma module_map_ok_trans:
  assumes "module_map_ok a b" and "module_map_ok b c"
  shows "module_map_ok a c"
  unfolding module_map_ok_def
proof (intro conjI ballI)
  show "length a = length c" using assms by (simp add: module_map_ok_def)
next
  fix kv
  assume kv: "kv \<in> set a"
  obtain k v where [simp]: "kv = (k, v)" by fastforce
  from assms(1) kv obtain w where w: "map_of b k = Some w"
    and vw: "CompareSaListVersion (mi_saInfoList v) (mi_saInfoList w)"
      "CompareBundleList (mi_bundleInfoList v) (mi_bundleInfoList w)"
    by (auto simp: module_map_ok_def)
  from assms(2) map_of_SomeD[OF w] obtain u where "map_of c k = Some u"
    and "CompareSaListVersion (mi_saInfoList w) (mi_saInfoList u)"
      "CompareBundleList (mi_bundleInfoList w) (mi_bundleInfoList u)"
    by (auto simp: module_map_ok_def)
  with vw show "case kv of (key, v) \<Rightarrow> \<exists>nv. map_of c key = Some nv
      \<and> CompareSaListVersion (mi_saInfoList v) (mi_saInfoList nv)
      \<and> CompareBundleList (mi_bundleInfoList v) (mi_bundleInfoList nv)"
    by (auto intro: CompareSaListVersion_trans CompareBundleList_trans)
qed

interpretation info_order: strict_version_step "info_older X"
proof unfold_locales
  show "info_older X a b \<Longrightarrow> info_older X b c \<Longrightarrow> info_older X a c" for a b c
    unfolding info_older_def by (auto intro: CompareHmpVersion_trans module_map_ok_trans)
  show "\<not> info_older X a a" for a
    by (auto simp: info_older_def CompareHmpVersion_irrefl)
qed

lemma CompareVersion_chain:
  assumes "successively (\<lambda>old new. CompareVersion X new old) fs"
    and "distinct (map mf_modulePath fs)"
  shows "successively (info_older X) (map mf_versionInfo fs)"
  using assms
  by (induction fs rule: induct_list012) (auto simp: CompareVersion_iff)

section \<open>Properties\<close>

text \<open>C14. Along any chain of accepted updates of different files no earlier file is ever accepted
  over a later one, and every later file is accepted over every earlier one: acceptance
  composes and cannot come back.\<close>

theorem CompareVersion_no_downgrade:
  assumes "successively (\<lambda>old new. CompareVersion X new old) fs"
    and "distinct (map mf_modulePath fs)" and "i < j" and "j < length fs"
  shows "CompareVersion X (fs ! j) (fs ! i) \<and> \<not> CompareVersion X (fs ! i) (fs ! j)"
proof -
  note chain = CompareVersion_chain[OF assms(1,2)]
  have "info_older X (mf_versionInfo (fs ! i)) (mf_versionInfo (fs ! j))"
    using info_order.chain_nth[OF chain assms(3)] assms(3,4) by simp
  moreover have "\<not> info_older X (mf_versionInfo (fs ! j)) (mf_versionInfo (fs ! i))"
    using info_order.chain_no_return[OF chain assms(3)] assms(3,4) by simp
  moreover have "mf_modulePath (fs ! i) \<noteq> mf_modulePath (fs ! j)"
    using assms(2-4) by (auto simp: distinct_conv_nth)
  ultimately show ?thesis by (auto simp: CompareVersion_iff)
qed

definition sample_file :: "string \<Rightarrow> string \<Rightarrow> ModuleFile" where
  "sample_file path version =
     \<lparr>mf_modulePath = path,
      mf_versionInfo = ModulePackageInfo_init\<lparr>mp_hmpName := ''h1'', mp_version := version\<rparr>,
      mf_imageStat = None, mf_vd = False\<rparr>"

lemma sample_file_order:
  "CompareVersion sample0 (sample_file ''b'' ''d 1.0.0.2'') (sample_file ''a'' ''d 1.0.0.1'')"
  "CompareVersion sample0 (sample_file ''c'' ''d 1.0.0.7'') (sample_file ''b'' ''d 1.0.0.2'')"
  by (simp_all add: CompareVersion_def ParseVersion_def sample_file_def ModulePackageInfo_init_def
      sample_defs substr_from_def substr_def CompareHmpVersion_def ver_numbers_def dec_def Let_def
      numeral_eq_Suc)

lemma CompareVersion_no_downgrade_witness:
  "\<not> CompareVersion sample0 (sample_file ''a'' ''d 1.0.0.1'') (sample_file ''c'' ''d 1.0.0.7'')"
  using CompareVersion_no_downgrade[of sample0
      "[sample_file ''a'' ''d 1.0.0.1'', sample_file ''b'' ''d 1.0.0.2'',
        sample_file ''c'' ''d 1.0.0.7'']" 0 2] sample_file_order
  by (simp add: sample_file_def)

text \<open>C26. A package that is accepted over another keeps its services: each module of the old
  package is in the new one, and each system ability of it is there with the same API version
  and a version code and patch that are lexicographically at least the old ones.\<close>

theorem CompareVersion_keeps_services:
  assumes "CompareVersion X new old" and "mf_modulePath new \<noteq> mf_modulePath old"
    and "(key, v) \<in> set (mp_moduleMap (mf_versionInfo old))" and "s \<in> set (mi_saInfoList v)"
  shows "\<exists>nv s'. map_of (mp_moduleMap (mf_versionInfo new)) key = Some nv
    \<and> s' \<in> set (mi_saInfoList nv) \<and> si_saId s' = si_saId s
    \<and> sv_apiVersion (si_version s') = sv_apiVersion (si_version s)
    \<and> (sv_versionCode (si_version s) < sv_versionCode (si_version s')
       \<or> sv_versionCode (si_version s) = sv_versionCode (si_version s')
         \<and> sv_patchVersion (si_version s) \<le> sv_patchVersion (si_version s'))"
proof -
  from assms(1,2) have "module_map_ok (mp_moduleMap (mf_versionInfo old)) (mp_moduleMap (mf_versionInfo new))"
    by (auto simp: CompareVersion_iff info_older_def)
  with assms(3) obtain nv where nv: "map_of (mp_moduleMap (mf_versionInfo new)) key = Some nv"
    and "CompareSaListVersion (mi_saInfoList v) (mi_saInfoList nv)"
    by (auto simp: module_map_ok_def)
  with assms(4) obtain s' where
    s': "map_of (map (\<lambda>i. (si_saId i, i)) (mi_saInfoList nv)) (si_saId s) = Some s'"
    and "CompareSaVersion (si_version s) (si_version s')"
    by (auto simp: CompareSaListVersion_iff)
  with map_of_saId[OF s'] nv show ?thesis
    by (intro exI[of _ nv] exI[of _ s']) (auto simp: CompareSaVersion_def split: if_splits)
qed

definition sample_sa_file :: "string \<Rightarrow> string \<Rightarrow> u32 \<Rightarrow> ModuleFile" where
  "sample_sa_file path version vcode =
     (sample_file path version)\<lparr>mf_versionInfo :=
        (mf_versionInfo (sample_file path version))\<lparr>mp_moduleMap :=
          [(''m'', \<lparr>mi_saInfoList = [\<lparr>si_saName = ''sa'', si_saId = 7,
               si_version = \<lparr>sv_apiVersion = 1, sv_versionCode = vcode, sv_patchVersion = 0\<rparr>\<rparr>],
             mi_bundleInfoList = []\<rparr>)]\<rparr>\<rparr>"

lemma CompareVersion_keeps_services_witness:
  "\<exists>nv s'. map_of (mp_moduleMap (mf_versionInfo (sample_sa_file ''b'' ''d 1.0.0.2'' 4))) ''m'' = Some nv
    \<and> s' \<in> set (mi_saInfoList nv) \<and> si_saId s' = 7"
proof -
  let ?new = "sample_sa_file ''b'' ''d 1.0.0.2'' 4" and ?old = "sample_sa_file ''a'' ''d 1.0.0.1'' 3"
  have "CompareVersion sample0 ?new ?old"
    by (simp add: CompareVersion_def ParseVersion_def sample_sa_file_def sample_file_def
        ModulePackageInfo_init_def sample_defs substr_from_def substr_def CompareHmpVersion_def
        ver_numbers_def dec_def Let_def CompareSaListVersion_def CompareSaVersion_def
        CompareBundleList_def)
  from CompareVersion_keeps_services[OF this, of "''m''"] show ?thesis
    by (fastforce simp: sample_sa_file_def sample_file_def)
qed

end
