(* ===== verification/Sample_Package.thy ===== *)
theory Sample_Package
  imports Module_File
begin

text \<open>
  A small installation for the examples: packages \<open>h1\<close> whose archive has a \<open>pack.info\<close>, an
  image beside each archive with the ext4 magic, and the services that read them.
\<close>

definition pack_json :: "string \<Rightarrow> json" where
  "pack_json version =
     JObj [(''type'', JStr ''APP''),
           (''package'', JObj [(''name'', JStr ''h1''), (''version'', JStr version),
              (''displayVersion'', JStr ''v''), (''apiVersion'', JStr ''9''),
              (''laneInfo'', JObj [(''compatibleVersion'', JStr ''1''), (''laneCode'', JStr ''l'')])])]"

definition pk_parse :: "string \<Rightarrow> json" where
  "pk_parse s = (if s = ''I1'' then pack_json ''d 1.0.0.1''
                 else if s = ''I2'' then pack_json ''d 1.0.0.2'' else JNull)"

definition pk_unz :: "string \<Rightarrow> (string \<times> string) list option" where
  "pk_unz c = (if c = ''P1'' then Some [(''pack.info'', ''I1'')]
               else if c = ''P2'' then Some [(''pack.info'', ''I2'')] else None)"

definition pk :: "(json, archive) ext" where
  "pk = sample_ext pk_parse pk_unz"

definition ext4_image :: string where
  "ext4_image = replicate 1080 CHR 0x00 @ [CHR 0x53, CHR 0xEF]"

definition pk_info :: "string \<Rightarrow> ModulePackageInfo" where
  "pk_info version =
     \<lparr>mp_hmpName = ''h1'', mp_version = version, mp_displayVersion = ''v'', mp_saSdkVersion = [],
      mp_type = ''APP'', mp_apiVersion = 9, mp_moduleMap = [(''h1'', ModuleInfo_init)]\<rparr>"

lemma pk_parse_module:
  "ParseModuleInfo pk ''I1'' ModulePackageInfo_init = Some (pk_info ''d 1.0.0.1'')"
  "ParseModuleInfo pk ''I2'' ModulePackageInfo_init = Some (pk_info ''d 1.0.0.2'')"
  by (simp_all add: ParseModuleInfo_def pk_def sample_ext_def pk_parse_def pack_json_def
      json_str_def ParseHmpVersionInfo_def hmp_type_defs ModulePackageInfo_init_def dec_def
      ParseBundleList_def ModuleInfo_init_def emplace_def pk_info_def Let_def)

lemma pk_extract:
  assumes "map_of (w_fs w) p = Some (Reg m c)"
  shows "c = ''P1'' \<Longrightarrow> \<exists>z. ExtractZipFile pk PACK_INFO_NAME [] (ModuleZipHelper pk w p)
           = ((True, ''I1''), z) \<and> Zip_IsValid (ModuleZipHelper pk w p)"
    and "c = ''P2'' \<Longrightarrow> \<exists>z. ExtractZipFile pk PACK_INFO_NAME [] (ModuleZipHelper pk w p)
           = ((True, ''I2''), z) \<and> Zip_IsValid (ModuleZipHelper pk w p)"
  using assms
  by (simp_all add: ExtractZipFile_def ModuleZipHelper_def LocateFile_def GetFileContent_def
      GetFileSize_def pk_def sample_ext_def pk_unz_def PACK_INFO_NAME_def Zip_IsValid_def
      resize_str_def Let_def)

text \<open>The image beside a package is recognised as ext4.\<close>

lemma retrieve_ext4:
  assumes "fd_bytes f = replicate 1080 0 @ [0x53, 0xEF]" and "\<forall>o' c. 0 < c \<longrightarrow> 0 < fd_grant f o' c"
  shows "RetrieveFsType f 0 = Some ''ext4''"
proof -
  have "ReadFullyAtOffset f (Suc (Suc (Suc (Suc 0)))) 1024 = Some [0, 0, 0, 0]"
    using ReadFullyAtOffset_complete[OF assms(2), of 1024 4] assms(1) by (simp add: numeral_eq_Suc)
  moreover have "ReadFullyAtOffset f (Suc (Suc 0)) 1080 = Some [0x53, 0xEF]"
    using ReadFullyAtOffset_complete[OF assms(2), of 1080 2] assms(1) by (simp add: numeral_2_eq_2)
  ultimately show ?thesis
    by (simp add: RetrieveFsType_def FS_TYPES_def)
qed

lemma pk_image:
  assumes "map_of (w_fs w) p = Some (Reg m ext4_image)" and "\<forall>op q. \<not> w_fault w op q"
    and "w_grant w = (\<lambda>p off n. int n)" and "p \<noteq> []"
  shows "ParseImageStat pk w p =
    Some \<lparr>is_imageOffset = 0, is_imageSize = 1082, is_fsType = ''ext4''\<rparr>"
proof -
  have op: "fd_open w p = Some \<lparr>fd_bytes = replicate 1080 0 @ [0x53, 0xEF], fd_grant = w_grant w p\<rparr>"
    using assms(1,2) by (simp add: fd_open_def read_file_def ext4_image_def)
  have len: "length ext4_image = 1082" by (simp add: ext4_image_def)
  show ?thesis
    using assms op len retrieve_ext4[of "\<lparr>fd_bytes = replicate 1080 0 @ [0x53, 0xEF], fd_grant = w_grant w p\<rparr>"]
    by (simp add: ParseImageStat_def GetRealPath_def pk_def sample_ext_def CheckPathExists_def
        sys_stat_def fs_node_def Let_def)
qed

text \<open>Opening an installed package: an archive \<open>P1\<close> or \<open>P2\<close> with its image beside it.\<close>

definition pk_file :: "string \<Rightarrow> string \<Rightarrow> ModuleFile" where
  "pk_file path version =
     \<lparr>mf_modulePath = path, mf_versionInfo = pk_info version,
      mf_imageStat = Some \<lparr>is_imageOffset = 0, is_imageSize = 1082, is_fsType = ''ext4''\<rparr>,
      mf_vd = False\<rparr>"

lemma pk_open:
  assumes "map_of (w_fs w) (x_ExtractFilePath pk p @ IMG_FILE_NAME) = Some (Reg m ext4_image)"
    and "\<forall>op q. \<not> w_fault w op q" and "w_grant w = (\<lambda>p off n. int n)"
    and "map_of (w_fs w) p = Some (Reg m' c)"
  shows "c = ''P1'' \<Longrightarrow> ModuleFile_Open pk w p = Some (pk_file p ''d 1.0.0.1'')"
    and "c = ''P2'' \<Longrightarrow> ModuleFile_Open pk w p = Some (pk_file p ''d 1.0.0.2'')"
  using pk_extract[OF assms(4)] pk_image[OF assms(1,2,3)]
  by (auto simp: ModuleFile_Open_def Let_def pk_parse_module pk_file_def IMG_FILE_NAME_def)

lemma pk_sign [simp]: "VerifyModulePackageSign pk w p = 0"
  by (simp add: VerifyModulePackageSign_def pk_def sample_ext_def)

lemma pk_rmdir [simp]: "rmdir_contract pk"
  by (simp add: pk_def sample_rmdir)

lemma pk_dirfiles [simp]: "dirfiles_contract pk"
  by (simp add: pk_def sample_dirfiles)

lemma pk_newer: "p \<noteq> q \<Longrightarrow> CompareVersion pk (pk_file p ''d 1.0.0.2'') (pk_file q ''d 1.0.0.1'')"
  by (simp add: CompareVersion_def ParseVersion_def pk_file_def pk_info_def pk_def ModuleInfo_init_def
      sample_ext_def substr_from_def substr_def CompareHmpVersion_def ver_numbers_def dec_def Let_def
      numeral_eq_Suc CompareSaListVersion_def CompareBundleList_def)

text \<open>Package \<open>h1\<close> preinstalled in version 1 and active in version 2.\<close>

definition pk_world :: world where
  "pk_world = world0
     [(''/system/module_update'', Dir 493), (''/system/module_update/h1'', Dir 493),
      (''/system/module_update/h1/module_info.zip'', Reg 420 ''P1''),
      (''/system/module_update/h1/module.img'', Reg 420 ext4_image),
      (''/data/module_update/active'', Dir 488), (''/data/module_update/active/h1'', Dir 488),
      (''/data/module_update/active/h1/module_info.zip'', Reg 420 ''P2''),
      (''/data/module_update/active/h1/module.img'', Reg 420 ext4_image)]"

lemma pk_world_files:
  "x_GetDirFiles pk (w_fs pk_world) (MODULE_PREINSTALL_DIR @ ''/'' @ ''h1'') =
     [''/system/module_update/h1/module_info.zip'', ''/system/module_update/h1/module.img'']"
  "x_GetDirFiles pk (w_fs pk_world) (UPDATE_ACTIVE_DIR @ ''/'' @ ''h1'') =
     [''/data/module_update/active/h1/module_info.zip'', ''/data/module_update/active/h1/module.img'']"
  "x_GetDirFiles pk (w_fs pk_world) (UPDATE_INSTALL_DIR @ ''/'' @ ''h1'') = []"
  by (simp_all add: pk_def sample_ext_def pk_world_def world0_def dir_consts is_reg_def fs_node_def)

lemma pk_world_open:
  "ModuleFile_Open pk pk_world ''/system/module_update/h1/module_info.zip'' =
     Some (pk_file ''/system/module_update/h1/module_info.zip'' ''d 1.0.0.1'')"
  "ModuleFile_Open pk pk_world ''/data/module_update/active/h1/module_info.zip'' =
     Some (pk_file ''/data/module_update/active/h1/module_info.zip'' ''d 1.0.0.2'')"
  by (rule pk_open; simp add: pk_def sample_ext_def pk_world_def world0_def after_slash_def IMG_FILE_NAME_def)+

section \<open>What a parsed package says of its SA SDK version\<close>

lemma ParseHmpVersionInfo_sdk:
  "ParseHmpVersionInfo X j v = Some v' \<Longrightarrow> mp_saSdkVersion v' = mp_saSdkVersion v"
  by (auto simp: ParseHmpVersionInfo_def Let_def split: option.splits if_splits)

lemma parse_train_sdk:
  "parse_train X ms v = Some v' \<Longrightarrow> mp_saSdkVersion v' = mp_saSdkVersion v"
  by (induction X ms v rule: parse_train.induct) (auto simp: Let_def split: option.splits)

lemma ParseModuleInfo_sdk:
  "ParseModuleInfo X s v = Some v' \<Longrightarrow> mp_saSdkVersion v' = mp_saSdkVersion v"
  by (auto simp: ParseModuleInfo_def ParseTrainInfo_def Let_def
      dest!: ParseHmpVersionInfo_sdk parse_train_sdk split: option.splits if_splits)

text \<open>Opening a package demands a \<open>saSdkVersion\<close> of every system-ability package but never
  stores it: the version information of an opened package has the empty string there.\<close>

theorem Open_drops_saSdkVersion:
  assumes "ModuleFile_Open X w p = Some f"
  shows "mp_saSdkVersion (mf_versionInfo f) = []"
proof -
  from assms obtain s v where "ParseModuleInfo X s ModulePackageInfo_init = Some v"
    and "mf_versionInfo f = v"
    by (auto simp: ModuleFile_Open_def Let_def split: prod.splits bool.splits option.splits if_splits)
  with ParseModuleInfo_sdk show ?thesis by (fastforce simp: ModulePackageInfo_init_def)
qed

definition sa_json :: json where
  "sa_json =
     JObj [(''type'', JStr ''systemAbility''),
           (''package'', JObj [(''name'', JStr ''h1''), (''version'', JStr ''d 1.0.0.1''),
              (''displayVersion'', JStr ''v''), (''saSdkVersion'', JStr ''sdk_1.0.0.1'')])]"

definition pk_sa :: "(json, archive) ext" where
  "pk_sa = sample_ext (\<lambda>s. sa_json) pk_unz"

definition pk_sa_world :: world where
  "pk_sa_world = world0 [(''/system/module_update/h1/module_info.zip'', Reg 420 ''P1'')]"

lemma Open_drops_saSdkVersion_witness:
  "\<exists>f. ModuleFile_Open pk_sa pk_sa_world ''/system/module_update/h1/module_info.zip'' = Some f
     \<and> mp_saSdkVersion (mf_versionInfo f) = []"
proof -
  have "\<exists>f. ModuleFile_Open pk_sa pk_sa_world ''/system/module_update/h1/module_info.zip'' = Some f"
    by (simp add: ModuleFile_Open_def ModuleZipHelper_def ExtractZipFile_def LocateFile_def
        GetFileContent_def GetFileSize_def pk_sa_def sample_ext_def pk_unz_def PACK_INFO_NAME_def
        Zip_IsValid_def resize_str_def pk_sa_world_def world0_def ParseModuleInfo_def json_str_def
        ParseHmpVersionInfo_def hmp_type_defs ModulePackageInfo_init_def ParseSaList_def
        ParseImageStat_def GetRealPath_def after_slash_def IMG_FILE_NAME_def sa_json_def
        ModuleInfo_init_def emplace_def string_simps MODULE_PREINSTALL_DIR_def Let_def)
  then show ?thesis using Open_drops_saSdkVersion by blast
qed

end
