(* ===== verification/Module_Verify.thy ===== *)
theory Module_Verify
  imports Sample_Package
begin

text \<open>
  services/module_update/util/src/module_update_verify.cpp: the version requirements in a
  package's \<open>pack.info\<close>, the removal of a broken directory, and the restoring of an
  incremental package, whose image is accepted only when its SHA-256 is the one the package
  states.
\<close>

definition GetHmpType :: "('j, 'h) ext \<Rightarrow> 'j \<Rightarrow> string option" where
  "GetHmpType X root = json_str X root ''type''"

definition CheckApiVersion :: "('j, 'h) ext \<Rightarrow> string \<Rightarrow> bool" where
  "CheckApiVersion X apiVersion =
     (if apiVersion = [] then True
      else x_String2Int X apiVersion \<le> GetDeviceApiVersion X)"

definition CheckSaSdkVersion :: "('j, 'h) ext \<Rightarrow> string \<Rightarrow> bool" where
  "CheckSaSdkVersion X saSdkVersion =
     (if saSdkVersion = [] then True
      else case ParseVersion X (GetDeviceSaSdkVersion X) ''_'' [] of
        (okS, saSdkVersionVec) \<Rightarrow>
          if \<not> okS then False
          else case ParseVersion X saSdkVersion ''_'' [] of
            (okH, hmpVersionVec) \<Rightarrow>
              if \<not> okH then False else CompareSaSdkVersion X saSdkVersionVec hmpVersionVec)"

definition GetPackInfoVer :: "('j, 'h) ext \<Rightarrow> 'j \<Rightarrow> string \<Rightarrow> string option" where
  "GetPackInfoVer X root key = json_str X (x_JsonGet X root ''package'') key"

definition GetPackageType :: "('j, 'h) ext \<Rightarrow> 'j \<Rightarrow> string option" where
  "GetPackageType X root = json_str X root ''packageType''"

definition CheckPackInfoVer :: "('j, 'h) ext \<Rightarrow> world \<Rightarrow> string \<Rightarrow> bool" where
  "CheckPackInfoVer X w pkgPackInfoPath =
     (let root = x_JsonParse X (GetContentFromZip X w pkgPackInfoPath PACK_INFO_NAME);
          api = GetPackInfoVer X root HMP_API_VERSION;
          sdk = GetPackInfoVer X root HMP_SA_SDK_VERSION
      in case GetHmpType X root of
           None \<Rightarrow> False
         | Some type \<Rightarrow>
             if type = HMP_APP_TYPE \<and> api \<noteq> None then CheckApiVersion X (the api)
             else if (type = HMP_SA_TYPE \<or> type = HMP_SA_TYPE_OLD) \<and> sdk \<noteq> None
                  then CheckSaSdkVersion X (the sdk)
             else if (type = HMP_MIX_TYPE \<or> type = HMP_TRAIN_TYPE) \<and> sdk \<noteq> None \<and> api \<noteq> None
                  then CheckApiVersion X (the api) \<and> CheckSaSdkVersion X (the sdk)
             else False)"

definition CleanErrDir :: "('j, 'h) ext \<Rightarrow> string \<Rightarrow> world \<Rightarrow> world" where
  "CleanErrDir X fpInfo w =
     (if contains_str UPDATE_ACTIVE_DIR fpInfo \<or> contains_str UPDATE_BACKUP_DIR fpInfo
      then snd (force_remove X
             (substr fpInfo 0 (case rfind_str ''/'' fpInfo of None \<Rightarrow> length fpInfo | Some i \<Rightarrow> i)) w)
      else w)"

definition IsIncrementPackage :: "('j, 'h) ext \<Rightarrow> world \<Rightarrow> string \<Rightarrow> bool" where
  "IsIncrementPackage X w pkgPackInfoPath =
     (let root = x_JsonParse X (GetContentFromZip X w pkgPackInfoPath PACK_INFO_NAME)
      in case GetPackageType X root of
           None \<Rightarrow> False
         | Some packageType \<Rightarrow> packageType = HMP_INCR_PACKAGE_TYPE)"

definition ReadHashFromPackInfo :: "('j, 'h) ext \<Rightarrow> world \<Rightarrow> string \<Rightarrow> string option" where
  "ReadHashFromPackInfo X w pkgPackInfoPath =
     (let root = x_JsonParse X (GetContentFromZip X w pkgPackInfoPath PACK_INFO_NAME)
      in json_str X root ''imageHash'')"

text \<open>\<open>toupper\<close> in the C locale.\<close>

definition toupper :: "char \<Rightarrow> char" where
  "toupper c = (let n = (of_char c :: nat) in if 97 \<le> n \<and> n \<le> 122 then char_of (n - 32) else c)"

definition CalculateSHA256 :: "('j, 'h) ext \<Rightarrow> world \<Rightarrow> string \<Rightarrow> string option" where
  "CalculateSHA256 X w filePath =
     (case x_realpath X (w_fs w) filePath of
        None \<Rightarrow> None
      | Some realPath \<Rightarrow>
          (case read_file w realPath of
             None \<Rightarrow> None
           | Some bytes \<Rightarrow> Some (map toupper (x_Sha256Hex X bytes))))"

definition RestorePackage ::
  "('j, 'h) ext \<Rightarrow> string \<Rightarrow> string \<Rightarrow> world \<Rightarrow> bool \<times> world" where
  "RestorePackage X dstFile sourceFile w =
     (if \<not> contains_str UPDATE_INSTALL_DIR dstFile then (False, w)
      else let diffFile = x_ExtractFilePath X dstFile @ IMG_DIFF_FILE_NAME;
               restoreImgFile = x_ExtractFilePath X dstFile @ IMG_FILE_NAME
      in if \<not> CheckPathExists w diffFile \<or> CheckPathExists w restoreImgFile then (False, w)
      else if \<not> CheckPathExists w sourceFile then (False, w)
      else case x_ApplyPatch X diffFile sourceFile restoreImgFile (w_fs w) of
        (result, fs1) \<Rightarrow>
          (let w1 = w\<lparr>w_fs := fs1\<rparr>
           in if result \<noteq> 0 then (False, w1)
              else let w2 = snd (sys_unlink diffFile w1)
              in case ReadHashFromPackInfo X w2 dstFile of
                None \<Rightarrow> (False, w2)
              | Some hashValue \<Rightarrow>
                  (case CalculateSHA256 X w2 restoreImgFile of
                     None \<Rightarrow> (False, w2)
                   | Some calculateHash \<Rightarrow> (hashValue = calculateHash, w2))))"

section \<open>Lemmas\<close>

lemma RestorePackage_hash:
  assumes "RestorePackage X dst src w = (True, w')"
  obtains h p c where "ReadHashFromPackInfo X w' dst = Some h"
    and "x_realpath X (w_fs w') (x_ExtractFilePath X dst @ IMG_FILE_NAME) = Some p"
    and "read_file w' p = Some c" and "h = map toupper (x_Sha256Hex X c)"
  using assms
  by (auto simp: RestorePackage_def CalculateSHA256_def Let_def
      split: if_splits prod.splits option.splits)

text \<open>An image that is there already is never overwritten by a restore.\<close>

lemma RestorePackage_refuses:
  "CheckPathExists w (x_ExtractFilePath X dst @ IMG_FILE_NAME)
     \<or> \<not> contains_str UPDATE_INSTALL_DIR dst \<or> \<not> CheckPathExists w src \<Longrightarrow>
   RestorePackage X dst src w = (False, w)"
  by (auto simp: RestorePackage_def Let_def)

lemma CheckPackInfoVer_requires:
  assumes "CheckPackInfoVer X w p"
  defines "root \<equiv> x_JsonParse X (GetContentFromZip X w p PACK_INFO_NAME)"
  shows "\<exists>type. GetHmpType X root = Some type
     \<and> type \<in> {HMP_APP_TYPE, HMP_SA_TYPE, HMP_SA_TYPE_OLD, HMP_MIX_TYPE, HMP_TRAIN_TYPE}
     \<and> (type \<in> {HMP_APP_TYPE, HMP_MIX_TYPE, HMP_TRAIN_TYPE} \<longrightarrow>
          (\<exists>a. GetPackInfoVer X root HMP_API_VERSION = Some a \<and> CheckApiVersion X a))
     \<and> (type \<in> {HMP_SA_TYPE, HMP_SA_TYPE_OLD, HMP_MIX_TYPE, HMP_TRAIN_TYPE} \<longrightarrow>
          (\<exists>s. GetPackInfoVer X root HMP_SA_SDK_VERSION = Some s \<and> CheckSaSdkVersion X s))"
  using assms(1) unfolding CheckPackInfoVer_def Let_def root_def[symmetric]
  by (auto simp: hmp_type_defs split: option.splits if_splits)

section \<open>Properties\<close>


text \<open>Patching writes the image \<open>12\<close>; its hash is the content itself.\<close>

definition incr_ext :: "(json, archive) ext" where
  "incr_ext = (sample_ext (\<lambda>s. JObj [(''imageHash'', JStr ''12'')]) pk_unz)
     \<lparr>x_ApplyPatch := (\<lambda>d s t fs. (0, AList.update t (Reg 420 ''12'') fs))\<rparr>"

definition incr_world :: world where
  "incr_world = world0 [(''/data/module_update_package/h1/module_info.zip'', Reg 420 ''P1''),
     (''/data/module_update_package/h1/module.diff'', Reg 420 ''D''),
     (''/system/module_update/h1/module.img'', Reg 420 ''O'')]"


text \<open>A package passes the version check only when it states, for its type, every version the
  device needs (API level, SA SDK level or both) and the device satisfies each of them.\<close>

theorem CheckPackInfoVer_sound:
  assumes "CheckPackInfoVer X w p"
  shows "\<exists>type. GetHmpType X (x_JsonParse X (GetContentFromZip X w p PACK_INFO_NAME)) = Some type
     \<and> type \<in> {HMP_APP_TYPE, HMP_SA_TYPE, HMP_SA_TYPE_OLD, HMP_MIX_TYPE, HMP_TRAIN_TYPE}
     \<and> (type \<in> {HMP_APP_TYPE, HMP_MIX_TYPE, HMP_TRAIN_TYPE} \<longrightarrow>
          (\<exists>a. GetPackInfoVer X (x_JsonParse X (GetContentFromZip X w p PACK_INFO_NAME))
                HMP_API_VERSION = Some a \<and> CheckApiVersion X a))
     \<and> (type \<in> {HMP_SA_TYPE, HMP_SA_TYPE_OLD, HMP_MIX_TYPE, HMP_TRAIN_TYPE} \<longrightarrow>
          (\<exists>s. GetPackInfoVer X (x_JsonParse X (GetContentFromZip X w p PACK_INFO_NAME))
                HMP_SA_SDK_VERSION = Some s \<and> CheckSaSdkVersion X s))"
  using CheckPackInfoVer_requires[OF assms] .

definition mix_ext :: "(json, archive) ext" where
  "mix_ext = (sample_ext (\<lambda>s. JObj [(''type'', JStr ''combineType''), (''package'',
       JObj [(''apiVersion'', JStr ''9''), (''saSdkVersion'', JStr ''sdk_1.0.2.7'')])]) pk_unz)
     \<lparr>x_SystemParameter := (\<lambda>k. if k = ''const.ohos.apiversion'' then ''10'' else ''sdk_1.0.3.0'')\<rparr>"

lemma CheckPackInfoVer_sound_witness:
  "CheckPackInfoVer mix_ext (world0 []) ''/p''
   \<and> (\<exists>a. GetPackInfoVer mix_ext (x_JsonParse mix_ext (GetContentFromZip mix_ext (world0 []) ''/p''
         PACK_INFO_NAME)) HMP_API_VERSION = Some a \<and> CheckApiVersion mix_ext a)"
proof -
  have c: "CheckPackInfoVer mix_ext (world0 []) ''/p''"
    by (simp add: CheckPackInfoVer_def mix_ext_def sample_ext_def GetHmpType_def GetPackInfoVer_def
        json_str_def hmp_type_defs CheckApiVersion_def CheckSaSdkVersion_def GetDeviceApiVersion_def
        GetDeviceSaSdkVersion_def dec_def ParseVersion_def substr_def substr_from_def
        CompareSaSdkVersion_def ver_numbers_def Let_def numeral_eq_Suc)
  have "GetHmpType mix_ext (x_JsonParse mix_ext s) = Some HMP_MIX_TYPE" for s
    by (simp add: mix_ext_def sample_ext_def GetHmpType_def json_str_def hmp_type_defs)
  with CheckPackInfoVer_sound[OF c] c show ?thesis by (auto simp: hmp_type_defs)
qed

end
