(* ===== verification/Module_Result.thy ===== *)
theory Module_Result
  imports Sample_Package
begin

text \<open>
  The result file /data/updater/module_update_result, which the service and the boot-time
  check append to and a later read merges: module_utils.cpp \<open>CheckAndUpdateRevertResult\<close>,
  module_update_main.cpp and module_file_repository.cpp \<open>SaveInstallerResult\<close>.
\<close>

section \<open>Text files\<close>

text \<open>\<open>std::getline\<close> until the end of the stream.\<close>

fun getlines_acc :: "string \<Rightarrow> string \<Rightarrow> string list" where
  "getlines_acc acc [] = (if acc = [] then [] else [acc])"
| "getlines_acc acc (c # cs) =
     (if c = CHR 0x0A then acc # getlines_acc [] cs else getlines_acc (acc @ [c]) cs)"

definition getlines :: "string \<Rightarrow> string list" where
  "getlines s = getlines_acc [] s"

text \<open>A \<open>write\<close> on a descriptor opened with \<open>O_APPEND\<close>; it may move fewer bytes.\<close>

definition sys_append :: "string \<Rightarrow> string \<Rightarrow> world \<Rightarrow> world" where
  "sys_append p s w =
     (if w_fault w OpWrite p then w
      else case map_of (w_fs w) p of
        Some (Reg m c) \<Rightarrow>
          write_file p m (c @ take (nat (w_grant w p (int (length c)) (length s))) s) w
      | _ \<Rightarrow> w)"

section \<open>Merging a revert into the results\<close>

text \<open>The lines kept or replaced, and whether a successful entry of the package was found.\<close>

fun merge_lines ::
  "('j, 'h) ext \<Rightarrow> string \<Rightarrow> string \<Rightarrow> string list \<Rightarrow> bool \<times> string list" where
  "merge_lines X hmpPath resultInfo [] = (False, [])"
| "merge_lines X hmpPath resultInfo (line # rest) =
     (case merge_lines X hmpPath resultInfo rest of
        (ret, lines) \<Rightarrow>
          if \<not> contains_str hmpPath line then (ret, line # lines)
          else let results = x_SplitString X line '';''
               in if length results < 3 then (ret, lines)
                  else if results ! 1 \<noteq> ''0'' then (ret, line # lines)
                  else (True, resultInfo # lines))"

definition CheckAndUpdateRevertResult ::
  "('j, 'h) ext \<Rightarrow> string \<Rightarrow> string \<Rightarrow> string \<Rightarrow> world \<Rightarrow> bool \<times> world" where
  "CheckAndUpdateRevertResult X hmpPath resultInfo keyWord w =
     (if \<not> contains_str keyWord resultInfo then (False, w)
      else case read_file w MODULE_RESULT_PATH of
        None \<Rightarrow> (False, w)
      | Some content \<Rightarrow>
          (case merge_lines X hmpPath resultInfo (getlines content) of
             (ret, lines) \<Rightarrow>
               if w_fault w OpWrite MODULE_RESULT_PATH then (False, w)
               else case map_of (w_fs w) MODULE_RESULT_PATH of
                 Some (Reg m _) \<Rightarrow> (ret, write_file MODULE_RESULT_PATH m (concat lines) w)
               | _ \<Rightarrow> (False, w)))"

definition result_line :: "('j, 'h) ext \<Rightarrow> string \<Rightarrow> int \<Rightarrow> string \<Rightarrow> string" where
  "result_line X hmp result resultInfo =
     hmp @ '';'' @ string_of_int result @ '';'' @ resultInfo @ ''|'' @ string_of_int (x_TimerMs X)
     @ [CHR 0x0A]"

text \<open>\<open>ModuleUpdateMain::SaveInstallerResult\<close>: the file is opened with \<open>O_CREAT\<close>.\<close>

definition Main_SaveInstallerResult ::
  "('j, 'h) ext \<Rightarrow> string \<Rightarrow> int \<Rightarrow> string \<Rightarrow> world \<Rightarrow> world" where
  "Main_SaveInstallerResult X hmpPath result resultInfo w =
     (let p = MODULE_RESULT_PATH
      in if w_fault w OpOpen p then w
      else let opened =
             (case map_of (w_fs w) p of
                Some (Reg _ _) \<Rightarrow> Some w
              | Some (Dir _) \<Rightarrow> None
              | None \<Rightarrow> if parent_ok (w_fs w) p then Some (write_file p 416 [] w) else None)
      in case opened of
        None \<Rightarrow> w
      | Some w1 \<Rightarrow>
          (let w2 = snd (sys_chmod p 493 w1);
               writeInfo = result_line X hmpPath result resultInfo
           in case CheckAndUpdateRevertResult X hmpPath writeInfo ''revert'' w2 of
                (True, w3) \<Rightarrow> w3
              | (False, w3) \<Rightarrow> sys_append p writeInfo w3))"

text \<open>\<open>ModuleFileRepository::SaveInstallerResult\<close>.\<close>

definition Repository_SaveInstallerResult ::
  "('j, 'h) ext \<Rightarrow> string \<Rightarrow> string \<Rightarrow> int \<Rightarrow> string \<Rightarrow> world \<Rightarrow> world" where
  "Repository_SaveInstallerResult X fpInfo hmpName result resultInfo w =
     (if \<not> contains_str UPDATE_INSTALL_DIR fpInfo \<and> \<not> contains_str UPDATE_ACTIVE_DIR fpInfo then w
      else if \<not> CheckFileSuffix fpInfo MODULE_PACKAGE_SUFFIX
              \<and> \<not> CheckFileSuffix fpInfo MODULE_IMAGE_SUFFIX then w
      else if \<not> CheckPathExists w MODULE_RESULT_PATH then w
      else if read_file w MODULE_RESULT_PATH = None then w
      else let writeInfo = result_line X hmpName result resultInfo
      in case CheckAndUpdateRevertResult X hmpName writeInfo ''mount fail'' w of
           (True, w1) \<Rightarrow> w1
         | (False, w1) \<Rightarrow> sys_append MODULE_RESULT_PATH writeInfo w1)"

section \<open>Lemmas\<close>

lemma getlines_acc_nl:
  "CHR 0x0A \<notin> set s \<Longrightarrow> getlines_acc acc (s @ CHR 0x0A # t) = (acc @ s) # getlines_acc [] t"
  by (induction s arbitrary: acc) auto

text \<open>Lines written with their line ends are read back as they were.\<close>

lemma getlines_lines:
  "\<forall>l \<in> set ls. CHR 0x0A \<notin> set l \<Longrightarrow> getlines (concat (map (\<lambda>l. l @ [CHR 0x0A]) ls)) = ls"
  unfolding getlines_def by (induction ls) (simp_all add: getlines_acc_nl)

text \<open>Everything but the result file is left alone.\<close>

lemma write_file_other [simp]: "q \<noteq> p \<Longrightarrow> map_of (w_fs (write_file p m c w)) q = map_of (w_fs w) q"
  by (simp add: write_file_def)

lemma write_file_same [simp]: "map_of (w_fs (write_file p m c w)) p = Some (Reg m c)"
  by (simp add: write_file_def)

lemma write_file_more [simp]:
  "w_fault (write_file p m c w) = w_fault w" "w_grant (write_file p m c w) = w_grant w"
  "w_setparams (write_file p m c w) = w_setparams w"
  "w_reboots (write_file p m c w) = w_reboots w" "w_mounts (write_file p m c w) = w_mounts w"
  by (simp_all add: write_file_def)

lemma CheckAndUpdateRevertResult_frame:
  "q \<noteq> MODULE_RESULT_PATH \<Longrightarrow>
     map_of (w_fs (snd (CheckAndUpdateRevertResult X h r k w))) q = map_of (w_fs w) q"
  by (auto simp: CheckAndUpdateRevertResult_def split: option.splits prod.splits node.splits)

lemma sys_append_frame:
  "q \<noteq> p \<Longrightarrow> map_of (w_fs (sys_append p s w)) q = map_of (w_fs w) q"
  by (auto simp: sys_append_def split: option.splits node.splits)

lemma Repository_SaveInstallerResult_frame:
  "q \<noteq> MODULE_RESULT_PATH \<Longrightarrow>
     map_of (w_fs (Repository_SaveInstallerResult X f h r i w)) q = map_of (w_fs w) q"
  using CheckAndUpdateRevertResult_frame[of q X h "result_line X h r i" "''mount fail''" w]
  by (auto simp: Repository_SaveInstallerResult_def Let_def sys_append_frame
      split: prod.splits bool.splits)

text \<open>No directory without a dot in its name passes the suffix test of the repository.\<close>

lemma Repository_SaveInstallerResult_no_dot:
  "CHR ''.'' \<notin> set fpInfo \<Longrightarrow> Repository_SaveInstallerResult X fpInfo h r i w = w"
proof -
  assume "CHR ''.'' \<notin> set fpInfo"
  then have "find_last_of CHR ''.'' fpInfo = None" by (simp add: find_last_of_None)
  then show ?thesis by (simp add: Repository_SaveInstallerResult_def CheckFileSuffix_def)
qed

section \<open>Properties\<close>

text \<open>Merging a revert into the results loses the line structure: with an unrelated result
  \<open>b\<close> above the successful result \<open>a\<close> of the reverted package, the rewritten file has a
  single line, \<open>b\<close> and the new result run together, because the kept lines are written back
  without their line ends.\<close>

theorem merge_joins_lines:
  assumes "read_file w MODULE_RESULT_PATH = Some (b @ [CHR 0x0A] @ a @ [CHR 0x0A])"
    and "CHR 0x0A \<notin> set a" "CHR 0x0A \<notin> set b" "CHR 0x0A \<notin> set r"
    and "\<not> contains_str h b" "contains_str h a"
    and "3 \<le> length (x_SplitString X a '';'')" "x_SplitString X a '';'' ! 1 = ''0''"
    and "contains_str kw (r @ [CHR 0x0A])" "\<not> w_fault w OpWrite MODULE_RESULT_PATH"
  shows "\<exists>w' m. CheckAndUpdateRevertResult X h (r @ [CHR 0x0A]) kw w = (True, w')
    \<and> map_of (w_fs w') MODULE_RESULT_PATH = Some (Reg m (b @ r @ [CHR 0x0A]))
    \<and> getlines (b @ r @ [CHR 0x0A]) = [b @ r]"
proof -
  have ls: "getlines (b @ [CHR 0x0A] @ a @ [CHR 0x0A]) = [b, a]"
    using getlines_lines[of "[b, a]"] assms(2,3) by simp
  have one: "getlines (b @ r @ [CHR 0x0A]) = [b @ r]"
    using getlines_lines[of "[b @ r]"] assms(3,4) by simp
  from assms(1) obtain m where "map_of (w_fs w) MODULE_RESULT_PATH =
      Some (Reg m (b @ [CHR 0x0A] @ a @ [CHR 0x0A]))"
    by (auto simp: read_file_def split: if_splits option.splits node.splits)
  then show ?thesis
    using assms ls one by (simp add: CheckAndUpdateRevertResult_def Let_def)
qed

lemma merge_joins_lines_witness:
  "\<exists>w' m. CheckAndUpdateRevertResult sample0 ''h1'' (''h1;9;revert|3'' @ [CHR 0x0A]) ''revert''
      (world0 [(MODULE_RESULT_PATH, Reg 493 (''h2;0;ok|1'' @ [CHR 0x0A] @ ''h1;0;ok|2'' @ [CHR 0x0A]))])
      = (True, w')
    \<and> map_of (w_fs w') MODULE_RESULT_PATH = Some (Reg m (''h2;0;ok|1'' @ ''h1;9;revert|3'' @ [CHR 0x0A]))"
proof -
  let ?w = "world0 [(MODULE_RESULT_PATH, Reg 493 (''h2;0;ok|1'' @ [CHR 0x0A] @ ''h1;0;ok|2'' @ [CHR 0x0A]))]"
  have "read_file ?w MODULE_RESULT_PATH = Some (''h2;0;ok|1'' @ [CHR 0x0A] @ ''h1;0;ok|2'' @ [CHR 0x0A])"
    by (simp add: world0_def read_file_def)
  from merge_joins_lines[OF this, of "''h1;9;revert|3''" "''h1''" sample0 "''revert''"]
  show ?thesis by (force simp: sample_defs contains_str_def world0_def)
qed

end
