(* ===== verification/Module_Revert.thy ===== *)
theory Module_Revert
  imports Module_File Sample_Services
begin

text \<open>
  module_utils.cpp: \<open>Revert\<close>, which puts the backup of a package back in the place of its
  active directory, and \<open>NotifyBmsRevert\<close>, which tells the bundle manager which modules
  are to be reinstalled.
\<close>

definition Revert :: "('j, 'h) ext \<Rightarrow> string \<Rightarrow> bool \<Rightarrow> world \<Rightarrow> world" where
  "Revert X hmpName reboot w =
     (let installPath = install_path hmpName;
          activePath = active_path hmpName;
          backupPath = backup_path hmpName
      in case (if CheckPathExists w installPath then force_remove X installPath w else (True, w)) of
        (False, w1) \<Rightarrow> w1
      | (True, w1) \<Rightarrow>
     (case sys_stat w1 activePath of
        StatNoEnt \<Rightarrow> w1
      | StatErr \<Rightarrow> w1
      | StatOk statData \<Rightarrow>
     (case force_remove X activePath w1 of
        (False, w2) \<Rightarrow> w2
      | (True, w2) \<Rightarrow>
          (let w3 = (if CheckPathExists w2 backupPath then
                       (case sys_rename backupPath activePath w2 of
                          (False, w') \<Rightarrow> w'
                        | (True, w') \<Rightarrow>
                            snd (sys_chmod activePath
                              (take_bit 9 (case statData of Dir m \<Rightarrow> m | Reg m _ \<Rightarrow> m)) w'))
                     else w2);
               cert = RevertImageCert hmpName True
           in if reboot then do_reboot ''module_update revert.'' w3 else w3))))"

text \<open>
  One pass over the module map of the preinstalled package: the number of parameters that
  could not be set and the lines of the record.
\<close>

fun notify_modules ::
  "('j, 'h) ext \<Rightarrow> bool \<Rightarrow> (string \<times> ModuleInfo) list \<Rightarrow> int \<Rightarrow> string \<Rightarrow> world \<Rightarrow> (int \<times> string) \<times> world"
where
  "notify_modules X record_it [] result oss w = ((result, oss), w)"
| "notify_modules X record_it ((key, v) # ms) result oss w =
     (if mi_bundleInfoList v = [] then notify_modules X record_it ms result oss w
      else let attr = BMS_RESULT_PREFIX @ ''.'' @ key;
               oss' = oss @ attr @ ''='' @ BMS_INSTALL_FAIL @ [CHR 0x0A]
      in if record_it then notify_modules X record_it ms result oss' w
         else case set_parameter X attr BMS_INSTALL_FAIL w of
           (r, w1) \<Rightarrow>
             notify_modules X record_it ms (if r \<noteq> 0 then result + 1 else result) oss' w1)"

definition NotifyBmsRevert :: "('j, 'h) ext \<Rightarrow> string \<Rightarrow> bool \<Rightarrow> world \<Rightarrow> int \<times> world" where
  "NotifyBmsRevert X hmpName record_it w =
     (let w1 = snd (set_parameter X BMS_START_INSTALL NOTIFY_BMS_REVERT w)
      in case ModuleFile_Open X w1 (preinstall_path hmpName @ ''/'' @ HMP_INFO_NAME) of
        None \<Rightarrow> (-1, w1)
      | Some moduleFile \<Rightarrow>
          (case notify_modules X record_it (mp_moduleMap (mf_versionInfo moduleFile)) 0
                  (BMS_START_INSTALL @ ''='' @ NOTIFY_BMS_REVERT @ [CHR 0x0A]) w1 of
             ((result, oss), w2) \<Rightarrow>
               (result,
                if record_it
                then w2\<lparr>w_fs := snd (x_SaveStringToFile X MODULE_UPDATE_PARAMS_FILE oss False (w_fs w2))\<rparr>
                else w2)))"

section \<open>Lemmas\<close>

lemma fs_node_plain: "p = [] \<or> last p \<noteq> CHR ''/'' \<Longrightarrow> fs_node fs p = map_of fs p"
  by (auto simp: fs_node_def split: option.splits)

lemma last_no_slash: "h \<noteq> [] \<Longrightarrow> CHR ''/'' \<notin> set h \<Longrightarrow> last (d @ CHR ''/'' # h) \<noteq> CHR ''/''"
  by (metis last.simps last_append last_in_set list.distinct(1))

lemma parent_dir_child: "CHR ''/'' \<notin> set h \<Longrightarrow> d \<noteq> [] \<Longrightarrow> parent_dir (d @ CHR ''/'' # h) = Some d"
  by (simp add: parent_dir_def find_last_of_append)

lemma active_dir_outside [simp]:
  "\<not> inside (install_path h) UPDATE_ACTIVE_DIR" "\<not> inside (active_path h) UPDATE_ACTIVE_DIR"
  "\<not> inside (backup_path h) UPDATE_ACTIVE_DIR"
  by (simp_all add: inside_def dir_consts)

text \<open>A removal that is asked for only when the path exists.\<close>

lemma remove_if_there:
  assumes X: "rmdir_contract X" "\<forall>d fs. fst (x_ForceRemoveDirectory X d fs)"
    and faults: "\<forall>op p. \<not> w_fault w op p"
    and gone: "\<forall>q. inside d q \<longrightarrow> map_of (w_fs w) d = None \<longrightarrow> map_of (w_fs w) q = None"
    and plain: "last d \<noteq> CHR ''/''"
  obtains w1 where "(if CheckPathExists w d then force_remove X d w else (True, w)) = (True, w1)"
    and "\<forall>q. map_of (w_fs w1) q = (if inside d q then None else map_of (w_fs w) q)"
    and "w_fault w1 = w_fault w" and "w_reboots w1 = w_reboots w" and "w_setparams w1 = w_setparams w"
proof (cases "CheckPathExists w d")
  case True
  obtain fs' where fs': "x_ForceRemoveDirectory X d (w_fs w) = (True, fs')"
    using X(2) by (metis prod.collapse)
  then have "force_remove X d w = (True, w\<lparr>w_fs := fs'\<rparr>)" by (simp add: force_remove_def)
  moreover have "\<forall>q. map_of fs' q = (if inside d q then None else map_of (w_fs w) q)"
    using rmdir_contractD[OF X(1) fs'] by auto
  ultimately show ?thesis using True by (intro that[of "w\<lparr>w_fs := fs'\<rparr>"]) simp_all
next
  case False
  then have "map_of (w_fs w) d = None"
    using faults plain
    by (auto simp: CheckPathExists_def sys_stat_def fs_node_plain split: option.splits)
  with gone have "\<forall>q. map_of (w_fs w) q = (if inside d q then None else map_of (w_fs w) q)" by auto
  with False show ?thesis by (intro that[of w]) simp_all
qed

text \<open>A removal of a path that exists.\<close>

lemma force_remove_ok:
  assumes "rmdir_contract X" "\<forall>d fs. fst (x_ForceRemoveDirectory X d fs)"
  obtains w1 where "force_remove X d w = (True, w1)"
    and "\<forall>q. map_of (w_fs w1) q = (if inside d q then None else map_of (w_fs w) q)"
    and "w_fault w1 = w_fault w" and "w_reboots w1 = w_reboots w" and "w_setparams w1 = w_setparams w"
proof -
  obtain fs' where fs': "x_ForceRemoveDirectory X d (w_fs w) = (True, fs')"
    using assms(2) by (metis prod.collapse)
  then have "force_remove X d w = (True, w\<lparr>w_fs := fs'\<rparr>)" by (simp add: force_remove_def)
  moreover have "\<forall>q. map_of fs' q = (if inside d q then None else map_of (w_fs w) q)"
    using rmdir_contractD[OF assms(1) fs'] by auto
  ultimately show ?thesis by (intro that[of "w\<lparr>w_fs := fs'\<rparr>"]) simp_all
qed

lemma sys_rename_dir:
  assumes "\<forall>op p. \<not> w_fault w op p" and "map_of (w_fs w) a \<noteq> None" and "parent_ok (w_fs w) b"
    and "\<not> inside a b" "\<not> inside b a" and "map_of (w_fs w) b = None"
  obtains w1 where "sys_rename a b w = (True, w1)"
    and "\<forall>q. map_of (w_fs w1) q = (if inside b q then map_of (w_fs w) (a @ drop (length b) q)
             else if inside a q then None else map_of (w_fs w) q)"
    and "w_fault w1 = w_fault w" and "w_reboots w1 = w_reboots w"
proof -
  define fs' where
    "fs' = map (\<lambda>(p, n). (rebase a b p, n)) (filter (\<lambda>(p, n). \<not> inside b p) (w_fs w))"
  have "sys_rename a b w = (True, w\<lparr>w_fs := fs'\<rparr>)"
    using assms by (simp add: sys_rename_def fs'_def)
  moreover have "\<forall>q. map_of fs' q = (if inside b q then map_of (w_fs w) (a @ drop (length b) q)
             else if inside a q then None else map_of (w_fs w) q)"
    unfolding fs'_def using rename_map_of[OF assms(4,5)] by blast
  ultimately show ?thesis
    by (intro that[of "w\<lparr>w_fs := fs'\<rparr>"]) simp_all
qed

text \<open>The three trees of a package and how a path lies in them.\<close>

definition well_rooted :: "fsys \<Rightarrow> string \<Rightarrow> bool" where
  "well_rooted fs d = (map_of fs d = None \<longrightarrow> (\<forall>q. inside d q \<longrightarrow> map_of fs q = None))"

lemma trees_apart:
  "inside (active_path h) q \<Longrightarrow> \<not> inside (install_path h) q \<and> \<not> inside (backup_path h) q"
  "inside (backup_path h) q \<Longrightarrow> \<not> inside (install_path h) q \<and> \<not> inside (active_path h) q"
  using inside_apart[of "active_path h" q "install_path h"] inside_apart[of "active_path h" q "backup_path h"]
    inside_apart[of "backup_path h" q "install_path h"] inside_apart[of "backup_path h" q "active_path h"]
    roots_apart0[of h h] by argo+

text \<open>What lies where after the staged and the active tree are removed and the backup is moved.\<close>

lemma revert_files:
  assumes m1: "\<forall>q. map_of f1 q = (if inside (install_path h) q then None else map_of f q)"
    and m2: "\<forall>q. map_of f2 q = (if inside (active_path h) q then None else map_of f1 q)"
    and m3: "\<forall>q. map_of f3 q =
      (if inside (active_path h) q then map_of f2 (backup_path h @ drop (length (active_path h)) q)
       else if inside (backup_path h) q then None else map_of f2 q)"
  shows "map_of f3 q =
      (if inside (active_path h) q then map_of f (backup_path h @ drop (length (active_path h)) q)
       else if inside (backup_path h) q \<or> inside (install_path h) q then None else map_of f q)"
proof (cases "inside (active_path h) q")
  case True
  then show ?thesis using m1 m2 m3 trees_apart(2) [OF inside_shift [OF True]] by simp
next
  case False
  then show ?thesis using m1 m2 m3 by simp
qed

text \<open>The three steps that change files, and the world after them.\<close>

lemma Revert_moves:
  assumes X: "rmdir_contract X" "\<forall>d fs. fst (x_ForceRemoveDirectory X d fs)"
    and faults: "\<forall>op p. \<not> w_fault w op p"
    and h: "h \<noteq> []" "CHR ''/'' \<notin> set h"
    and act: "map_of (w_fs w) (active_path h) = Some (Dir m)"
    and bak: "map_of (w_fs w) (backup_path h) = Some (Dir m')"
    and root: "is_dir (w_fs w) UPDATE_ACTIVE_DIR"
    and inst: "well_rooted (w_fs w) (install_path h)"
  shows "\<exists>w3. Revert X h reboot w =
      (let w4 = w3\<lparr>w_fs := AList.update (active_path h) (Dir (take_bit 9 m)) (w_fs w3)\<rparr>
       in if reboot then do_reboot ''module_update revert.'' w4 else w4)
    \<and> w_reboots w3 = w_reboots w
    \<and> (\<forall>q. map_of (w_fs w3) q =
      (if inside (active_path h) q then map_of (w_fs w) (backup_path h @ drop (length (active_path h)) q)
       else if inside (backup_path h) q \<or> inside (install_path h) q then None else map_of (w_fs w) q))"
proof -
  let ?i = "install_path h" and ?a = "active_path h" and ?b = "backup_path h"
  have plain: "last ?i \<noteq> CHR ''/''" "last ?a \<noteq> CHR ''/''" "last ?b \<noteq> CHR ''/''"
    using last_no_slash[OF h] by simp_all
  obtain w1 where w1: "(if CheckPathExists w ?i then force_remove X ?i w else (True, w)) = (True, w1)"
    and m1: "\<forall>q. map_of (w_fs w1) q = (if inside ?i q then None else map_of (w_fs w) q)"
    and k1: "w_fault w1 = w_fault w" "w_reboots w1 = w_reboots w"
    by (rule remove_if_there[OF X faults _ plain(1)], use inst in \<open>auto simp: well_rooted_def\<close>)
  obtain w2 where w2: "force_remove X ?a w1 = (True, w2)"
    and m2: "\<forall>q. map_of (w_fs w2) q = (if inside ?a q then None else map_of (w_fs w1) q)"
    and k2: "w_fault w2 = w_fault w1" "w_reboots w2 = w_reboots w1"
    by (rule force_remove_ok[OF X])
  have st: "sys_stat w1 ?a = StatOk (Dir m)"
    using m1 act k1 faults plain(2) roots_apart0(1)[of h h] by (simp add: sys_stat_def fs_node_plain)
  have b2: "map_of (w_fs w2) ?b = Some (Dir m')"
    using m1 m2 bak roots_apart0(2)[of h h] roots_apart0(5)[of h h] by simp
  have ex: "CheckPathExists w2 ?b"
    using b2 k1 k2 faults plain(3) by (simp add: CheckPathExists_def sys_stat_def fs_node_plain)
  have "map_of (w_fs w2) UPDATE_ACTIVE_DIR = map_of (w_fs w) UPDATE_ACTIVE_DIR"
    using m1 m2 active_dir_outside[of h] by simp
  then have "is_dir (w_fs w2) UPDATE_ACTIVE_DIR"
    using root by (simp add: is_dir_def fs_node_plain UPDATE_ACTIVE_DIR_def)
  then have par: "parent_ok (w_fs w2) ?a"
    using parent_dir_child[OF h(2), of UPDATE_ACTIVE_DIR] by (simp add: parent_ok_def UPDATE_ACTIVE_DIR_def)
  have a2: "map_of (w_fs w2) ?a = None" using m2 by simp
  obtain w3 where w3: "sys_rename ?b ?a w2 = (True, w3)"
    and m3: "\<forall>q. map_of (w_fs w3) q = (if inside ?a q then map_of (w_fs w2) (?b @ drop (length ?a) q)
             else if inside ?b q then None else map_of (w_fs w2) q)"
    and k3: "w_fault w3 = w_fault w2" "w_reboots w3 = w_reboots w2"
    by (rule sys_rename_dir[of w2 ?b ?a])
      (use b2 par a2 faults k1 k2 roots_apart0(5)[of h h] roots_apart0(8)[of h h] in \<open>simp_all\<close>)
  define w4 where "w4 = w3\<lparr>w_fs := AList.update ?a (Dir (take_bit 9 m)) (w_fs w3)\<rparr>"
  have a3: "map_of (w_fs w3) ?a = Some (Dir m')" using m3 b2 by simp
  then have w4: "sys_chmod ?a (take_bit 9 m) w3 = (True, w4)"
    using k1 k2 k3 faults by (simp add: sys_chmod_def w4_def)
  have rev: "Revert X h reboot w = (if reboot then do_reboot ''module_update revert.'' w4 else w4)"
    unfolding Revert_def Let_def w1 prod.case st stat_result.case bool.case w2
    by (simp only: ex w3 w4 if_True prod.case bool.case node.case snd_conv)
  have "w_reboots w3 = w_reboots w" using k1 k2 k3 by simp
  with revert_files [OF m1 m2 m3] rev show ?thesis by (intro exI [of _ w3]) (simp add: w4_def Let_def)
qed

lemma Revert_effect:
  assumes X: "rmdir_contract X" "\<forall>d fs. fst (x_ForceRemoveDirectory X d fs)"
    and faults: "\<forall>op p. \<not> w_fault w op p"
    and h: "h \<noteq> []" "CHR ''/'' \<notin> set h"
    and act: "map_of (w_fs w) (active_path h) = Some (Dir m)"
    and bak: "map_of (w_fs w) (backup_path h) = Some (Dir m')"
    and root: "is_dir (w_fs w) UPDATE_ACTIVE_DIR"
    and inst: "well_rooted (w_fs w) (install_path h)"
  shows "w_reboots (Revert X h reboot w) =
      w_reboots w @ (if reboot then [''module_update revert.''] else [])
    \<and> map_of (w_fs (Revert X h reboot w)) q =
      (if q = active_path h then Some (Dir (take_bit 9 m))
       else if inside (active_path h) q
            then map_of (w_fs w) (backup_path h @ drop (length (active_path h)) q)
       else if inside (backup_path h) q \<or> inside (install_path h) q then None
       else map_of (w_fs w) q)"
  using Revert_moves [OF assms, of reboot] by (auto simp: Let_def do_reboot_def)

section \<open>Properties\<close>

text \<open>C8. A revert that meets no failure puts the backup in the place of the active directory,
  with the permissions the active directory had: the active tree is the old backup, the backup
  and the staged tree are gone, everything else is as it was, and the device reboots exactly
  when asked to.\<close>

theorem Revert_restores_backup:
  assumes X: "rmdir_contract X" "\<forall>d fs. fst (x_ForceRemoveDirectory X d fs)"
    and faults: "\<forall>op p. \<not> w_fault w op p"
    and h: "h \<noteq> []" "CHR ''/'' \<notin> set h"
    and act: "map_of (w_fs w) (active_path h) = Some (Dir m)"
    and bak: "map_of (w_fs w) (backup_path h) = Some (Dir m')"
    and root: "is_dir (w_fs w) UPDATE_ACTIVE_DIR"
    and inst: "well_rooted (w_fs w) (install_path h)"
  shows "w_reboots (Revert X h reboot w) =
      w_reboots w @ (if reboot then [''module_update revert.''] else [])
    \<and> map_of (w_fs (Revert X h reboot w)) q =
      (if q = active_path h then Some (Dir (take_bit 9 m))
       else if inside (active_path h) q
            then map_of (w_fs w) (backup_path h @ drop (length (active_path h)) q)
       else if inside (backup_path h) q \<or> inside (install_path h) q then None
       else map_of (w_fs w) q)"
  by (rule Revert_effect [OF assms])

definition revert_world :: world where
  "revert_world = world0 [(''/data/module_update/active'', Dir 488),
     (''/data/module_update/active/h1'', Dir 511),
     (''/data/module_update/active/h1/new'', Reg 420 ''N''),
     (''/data/module_update/backup/h1'', Dir 448),
     (''/data/module_update/backup/h1/old'', Reg 420 ''O'')]"

lemma Revert_restores_backup_witness:
  "map_of (w_fs (Revert sample0 ''h1'' True revert_world)) ''/data/module_update/active/h1/old''
     = Some (Reg 420 ''O'')
   \<and> map_of (w_fs (Revert sample0 ''h1'' True revert_world)) ''/data/module_update/active/h1/new'' = None
   \<and> w_reboots (Revert sample0 ''h1'' True revert_world) = [''module_update revert.'']"
proof -
  have X: "rmdir_contract sample0" "\<forall>d fs. fst (x_ForceRemoveDirectory sample0 d fs)"
    using sample_rmdir by (simp_all add: sample_defs)
  have wr: "well_rooted (w_fs revert_world) (install_path ''h1'')"
    by (auto simp: well_rooted_def revert_world_def world0_def inside_def dir_consts)
  note r = Revert_restores_backup[OF X _ _ _ _ _ _ wr, of 511 448]
  show ?thesis
    using r[of True "''/data/module_update/active/h1/old''"] r[of True "''/data/module_update/active/h1/new''"]
    by (simp add: revert_world_def world0_def dir_consts is_dir_def fs_node_def inside_def)
qed

end
