(* ===== verification/Update_Status.thy ===== *)
theory Update_Status
  imports Main
begin

text \<open>
  interfaces/innerkits/ipc_client/Types.idl: the update status reported to the client. It is
  a C enumeration, so a value outside the named ones can be passed;
  \<open>UPDATE_STATE_RAW n\<close> stands for the value \<open>8 + n\<close>. The order is that of the values.
\<close>

datatype UpdateStatus =
    UPDATE_STATE_INIT
  | UPDATE_STATE_ONGOING
  | UPDATE_STATE_FAILED
  | UPDATE_STATE_SUCCESSFUL
  | UPDATE_STATE_CANCEL
  | UPDATE_STATE_RETRY_SUCCESSFUL
  | UPDATE_STATE_BUSY
  | UPDATE_STATE_MAX
  | UPDATE_STATE_RAW nat

fun status_value :: "UpdateStatus \<Rightarrow> nat" where
  "status_value UPDATE_STATE_INIT = 0"
| "status_value UPDATE_STATE_ONGOING = 1"
| "status_value UPDATE_STATE_FAILED = 2"
| "status_value UPDATE_STATE_SUCCESSFUL = 3"
| "status_value UPDATE_STATE_CANCEL = 4"
| "status_value UPDATE_STATE_RETRY_SUCCESSFUL = 5"
| "status_value UPDATE_STATE_BUSY = 6"
| "status_value UPDATE_STATE_MAX = 7"
| "status_value (UPDATE_STATE_RAW n) = 8 + n"

lemma status_value_inject: "status_value a = status_value b \<longleftrightarrow> a = b"
  by (cases a; cases b) simp_all

instantiation UpdateStatus :: linorder
begin

definition less_eq_UpdateStatus :: "UpdateStatus \<Rightarrow> UpdateStatus \<Rightarrow> bool" where
  "less_eq_UpdateStatus a b = (status_value a \<le> status_value b)"

definition less_UpdateStatus :: "UpdateStatus \<Rightarrow> UpdateStatus \<Rightarrow> bool" where
  "less_UpdateStatus a b = (status_value a < status_value b)"

instance
  by standard (auto simp: less_eq_UpdateStatus_def less_UpdateStatus_def status_value_inject[symmetric])

end

lemma status_le_max: "s \<le> UPDATE_STATE_MAX \<longleftrightarrow> (\<forall>n. s \<noteq> UPDATE_STATE_RAW n)"
  by (cases s) (simp_all add: less_eq_UpdateStatus_def)

text \<open>A report to the client: \<open>OnUpgradeProgress(status, percent, message)\<close>.\<close>

type_synonym report = "UpdateStatus \<times> int \<times> string"

end
