(* ===== verification/Float_Percent.thy ===== *)
theory Float_Percent
  imports Main
begin

text \<open>
  The progress of ReallyInstallModulePackage, \<open>static_cast<float>(index) / size * 95\<close>
  truncated to an int. A positive float is \<open>m / 2^e\<close> with a mantissa m of 24 bits; \<open>round24\<close>
  rounds a quotient of naturals to the nearest such number, ties to even, as IEEE single
  precision does. (index and size are exact floats below 2^24 files.)
\<close>

text \<open>\<open>n / d\<close> to the nearest natural, ties to even.\<close>

definition rne :: "nat \<Rightarrow> nat \<Rightarrow> nat" where
  "rne n d =
     (let q = n div d; r = n mod d
      in if 2 * r < d then q else if d < 2 * r then q + 1 else if even q then q else q + 1)"

function exp24 :: "nat \<Rightarrow> nat \<Rightarrow> nat \<Rightarrow> nat" where
  "exp24 n d e = (if n = 0 \<or> 2 ^ 23 * d \<le> n * 2 ^ e then e else exp24 n d (e + 1))"
  by pat_completeness auto
termination
proof (relation "measure (\<lambda>(n, d, e). 2 ^ 23 * d - n * 2 ^ e)")
  fix n d e :: nat
  assume "\<not> (n = 0 \<or> 2 ^ 23 * d \<le> n * 2 ^ e)"
  moreover have "(0::nat) < 2 ^ e" by simp
  ultimately have "n * 2 ^ e < n * 2 ^ (e + 1)" "n * 2 ^ e < 2 ^ 23 * d" by simp_all
  then show "((n, d, e + 1), n, d, e) \<in> measure (\<lambda>(n, d, e). 2 ^ 23 * d - n * 2 ^ e)"
    by (simp only: in_measure prod.case)
qed simp

declare exp24.simps [simp del]

definition round24 :: "nat \<Rightarrow> nat \<Rightarrow> nat \<times> nat" where
  "round24 n d = (let e = exp24 n d 0 in (rne (n * 2 ^ e) d, e))"

definition float_percent :: "nat \<Rightarrow> nat \<Rightarrow> nat" where
  "float_percent index files =
     (case round24 index files of (m, e) \<Rightarrow>
      (case round24 (m * 95) (2 ^ e) of (m2, e2) \<Rightarrow> m2 div 2 ^ e2))"

lemma rne_le: "0 < d \<Longrightarrow> n \<le> k * d \<Longrightarrow> rne n d \<le> k"
proof -
  assume d: "0 < d" and n: "n \<le> k * d"
  show ?thesis
  proof (cases "n = k * d")
    case True
    with d show ?thesis by (simp add: rne_def Let_def)
  next
    case False
    with n have "n < k * d" by simp
    then have "n div d < k" using d by (simp add: div_less_iff_less_mult)
    then show ?thesis by (auto simp: rne_def Let_def)
  qed
qed

lemma rne_exact: "0 < d \<Longrightarrow> rne (k * d) d = k"
  by (simp add: rne_def Let_def)

lemma float_percent_bound:
  assumes "0 < n" and "i \<le> n"
  shows "float_percent i n \<le> 95"
proof -
  let ?e = "exp24 i n 0"
  let ?m = "rne (i * 2 ^ ?e) n"
  let ?e2 = "exp24 (?m * 95) (2 ^ ?e) 0"
  have "i * 2 ^ ?e \<le> 2 ^ ?e * n" using assms(2) by (simp add: mult.commute)
  then have "?m \<le> 2 ^ ?e" by (rule rne_le[OF assms(1)])
  then have "?m * 95 * 2 ^ ?e2 \<le> (95 * 2 ^ ?e2) * 2 ^ ?e" by simp
  then have "rne (?m * 95 * 2 ^ ?e2) (2 ^ ?e) \<le> 95 * 2 ^ ?e2" by (rule rne_le[rotated]) simp
  then have "rne (?m * 95 * 2 ^ ?e2) (2 ^ ?e) div 2 ^ ?e2 \<le> 95"
    using div_le_mono[of _ "95 * 2 ^ ?e2" "2 ^ ?e2"] by fastforce
  then show ?thesis by (simp add: float_percent_def round24_def Let_def)
qed

lemma float_percent_last: "0 < n \<Longrightarrow> float_percent n n = 95"
proof -
  assume n: "0 < n"
  let ?e = "exp24 n n 0"
  let ?e2 = "exp24 (2 ^ ?e * 95) (2 ^ ?e) 0"
  have m: "rne (n * 2 ^ ?e) n = 2 ^ ?e" using rne_exact[OF n, of "2 ^ ?e"] by (simp add: mult.commute)
  have eq: "2 ^ ?e * 95 * 2 ^ ?e2 = (95 * 2 ^ ?e2) * (2 ^ ?e :: nat)" by (simp only: ac_simps)
  have "rne (2 ^ ?e * 95 * 2 ^ ?e2) (2 ^ ?e) = 95 * 2 ^ ?e2"
    unfolding eq by (rule rne_exact) simp
  then show ?thesis by (simp add: float_percent_def round24_def m Let_def)
qed

end
