(* ===== verification/Module_Main.thy ===== *)
theory Module_Main
  imports Module_Verify Module_Result Module_Revert Update_Status Float_Percent
begin

text \<open>
  services/module_update/service/src/module_update_main.cpp: the class \<open>ModuleUpdateMain\<close>
  of the update service, which installs and uninstalls packages, answers version queries and
  records results. \<open>SaveInstallerResult\<close> is in Module_Result, the threads of \<open>Start\<close> in
  Update_Revert.

  The unordered sets and maps of the class are lists without duplicates and association
  lists; \<open>emplace\<close> keeps what is there. A clean-up of \<open>ON_SCOPE_EXIT\<close> is written on every
  path that does not cancel it.
\<close>

record mmain =
  mm_w :: world
  mm_hmpSet :: "string list"
  mm_moduleSet :: "string list"
  mm_saIdHmpMap :: "(int \<times> string) list"
  mm_hmpWorkDirMap :: "(string \<times> string) list"
  mm_installModule :: "ModuleFile option"
  mm_exit :: bool
  mm_reports :: "report list"

definition set_emplace :: "'a \<Rightarrow> 'a list \<Rightarrow> 'a list" where
  "set_emplace x xs = (if x \<in> set xs then xs else xs @ [x])"

section \<open>Files\<close>

definition CreateModuleDirs :: "string \<Rightarrow> world \<Rightarrow> int \<times> world" where
  "CreateModuleDirs hmpName w =
     (case CreateDirIfNeeded UPDATE_INSTALL_DIR DIR_MODE w of
        (False, w1) \<Rightarrow> (code ERR_INSTALL_FAIL, w1)
      | (True, w1) \<Rightarrow>
          (case CreateDirIfNeeded (install_path hmpName) DIR_MODE w1 of
             (False, w2) \<Rightarrow> (code ERR_INSTALL_FAIL, w2)
           | (True, w2) \<Rightarrow> (code MODULE_UPDATE_SUCCESS, w2)))"

definition GetFileAllName :: "string \<Rightarrow> string" where
  "GetFileAllName path =
     (case find_last_of CHR ''/'' path of
        Some pos \<Rightarrow> substr_from path (pos + 1)
      | None \<Rightarrow> (case find_last_of (char_of (92 :: nat)) path of
                   None \<Rightarrow> []
                 | Some pos \<Rightarrow> substr_from path (pos + 1)))"

definition BackupFile :: "string \<Rightarrow> world \<Rightarrow> bool \<times> world" where
  "BackupFile file w =
     (let fileName = GetFileAllName file;
          hmpName = GetHmpName file
      in if fileName = [] \<or> hmpName = [] then (True, w)
      else case CreateDirIfNeeded (backup_path hmpName) DIR_MODE w of
        (False, w1) \<Rightarrow> (False, w1)
      | (True, w1) \<Rightarrow> sys_link file (backup_path hmpName @ ''/'' @ fileName) w1)"

fun backup_files :: "string list \<Rightarrow> world \<Rightarrow> bool \<times> world" where
  "backup_files [] w = (True, w)"
| "backup_files (file # files) w =
     (case BackupFile file w of
        (False, w1) \<Rightarrow> (False, w1)
      | (True, w1) \<Rightarrow> backup_files files w1)"

definition BackupActiveModules :: "('j, 'h) ext \<Rightarrow> string \<Rightarrow> world \<Rightarrow> bool \<times> world" where
  "BackupActiveModules X hmpName w =
     (let activePath = active_path hmpName;
          backupPath = backup_path hmpName
      in if \<not> CheckPathExists w activePath then (True, w)
      else case (if CheckPathExists w backupPath then force_remove X backupPath w else (True, w)) of
        (False, w1) \<Rightarrow> (False, w1)
      | (True, w1) \<Rightarrow>
     (case CreateDirIfNeeded backupPath DIR_MODE w1 of
        (False, w2) \<Rightarrow> (False, w2)
      | (True, w2) \<Rightarrow>
          (case backup_files (x_GetDirFiles X (w_fs w2) activePath) w2 of
             (False, w3) \<Rightarrow> (False, snd (force_remove X backupPath w3))
           | (True, w3) \<Rightarrow> (True, w3))))"

section \<open>Which version is at work\<close>

record HmpVersionInfo =
  hv_name :: string
  hv_laneCode :: string
  hv_compatibleVersion :: string
  hv_version :: string

definition HmpVersionInfo_init :: HmpVersionInfo where
  "HmpVersionInfo_init =
     \<lparr>hv_name = [], hv_laneCode = [], hv_compatibleVersion = [], hv_version = []\<rparr>"

definition GetHmpVersion :: "('j, 'h) ext \<Rightarrow> world \<Rightarrow> string \<Rightarrow> HmpVersionInfo option" where
  "GetHmpVersion X w hmpPath =
     (let packInfoPath = hmpPath @ ''/'' @ HMP_INFO_NAME
      in if \<not> x_IsFileExist X (w_fs w) packInfoPath then None
      else if \<not> StartsWith packInfoPath MODULE_PREINSTALL_DIR
              \<and> VerifyModulePackageSign X w packInfoPath \<noteq> 0 then None
      else let root = x_JsonParse X (GetContentFromZip X w packInfoPath PACK_INFO_NAME);
               package = x_JsonGet X root ''package'';
               laneInfoNode = x_JsonGet X package ''laneInfo''
      in case (json_str X package ''name'', json_str X package ''version'',
               json_str X laneInfoNode ''compatibleVersion'', json_str X laneInfoNode ''laneCode'') of
           (Some name, Some version, Some compatibleVersion, Some laneCode) \<Rightarrow>
             Some \<lparr>hv_name = name, hv_laneCode = laneCode,
                   hv_compatibleVersion = compatibleVersion, hv_version = version\<rparr>
         | _ \<Rightarrow> None)"

definition ParseHmpVersionInfo_main ::
  "('j, 'h) ext \<Rightarrow> HmpVersionInfo \<Rightarrow> HmpVersionInfo
     \<Rightarrow> HmpVersionInfo list \<times> (string \<times> string) list \<Rightarrow> HmpVersionInfo list \<times> (string \<times> string) list"
where
  "ParseHmpVersionInfo_main X preInfo actInfo acc =
     (case acc of (versionInfos, workDirs) \<Rightarrow>
        let pre = (versionInfos @ [preInfo], emplace (hv_name preInfo) MODULE_PREINSTALL_DIR workDirs);
            act = (versionInfos @ [actInfo], emplace (hv_name preInfo) UPDATE_ACTIVE_DIR workDirs)
        in if hv_version preInfo = [] \<and> hv_version actInfo = [] then acc
           else if hv_version actInfo = [] then pre
           else case ParseVersion X (hv_version preInfo) '' '' [] of
             (False, _) \<Rightarrow> acc
           | (True, preVersion) \<Rightarrow>
               (case ParseVersion X (hv_version actInfo) '' '' [] of
                  (False, _) \<Rightarrow> pre
                | (True, actVersion) \<Rightarrow>
                    if CompareHmpVersion X preVersion actVersion then act else pre))"

definition or_init :: "HmpVersionInfo option \<Rightarrow> HmpVersionInfo" where
  "or_init v = (case v of None \<Rightarrow> HmpVersionInfo_init | Some i \<Rightarrow> i)"

fun version_infos ::
  "('j, 'h) ext \<Rightarrow> world \<Rightarrow> string list \<Rightarrow> HmpVersionInfo list \<times> (string \<times> string) list
     \<Rightarrow> HmpVersionInfo list \<times> (string \<times> string) list"
where
  "version_infos X w [] acc = acc"
| "version_infos X w (hmp # hmps) acc =
     version_infos X w hmps
       (ParseHmpVersionInfo_main X (or_init (GetHmpVersion X w (preinstall_path hmp)))
          (or_init (GetHmpVersion X w (active_path hmp))) acc)"

fun scan_modules :: "(string \<times> ModuleInfo) list \<Rightarrow> mmain \<Rightarrow> mmain" where
  "scan_modules [] m = m"
| "scan_modules ((key, v) # ms) m =
     scan_modules ms
       (m\<lparr>mm_moduleSet := set_emplace key (mm_moduleSet m),
          mm_saIdHmpMap := fold (\<lambda>saInfo. emplace (si_saId saInfo) key) (mi_saInfoList v)
                             (mm_saIdHmpMap m)\<rparr>)"

fun scan_files :: "('j, 'h) ext \<Rightarrow> string list \<Rightarrow> mmain \<Rightarrow> mmain" where
  "scan_files X [] m = m"
| "scan_files X (file # files) m =
     (if \<not> CheckFileSuffix file MODULE_PACKAGE_SUFFIX then scan_files X files m
      else case ModuleFile_Open X (mm_w m) file of
        None \<Rightarrow> scan_files X files m
      | Some moduleFile \<Rightarrow>
          (let hmpName = GetHmpName file
           in if hmpName = [] then scan_files X files m
              else scan_files X files
                     (scan_modules (mp_moduleMap (mf_versionInfo moduleFile))
                        (m\<lparr>mm_hmpSet := set_emplace hmpName (mm_hmpSet m)\<rparr>))))"

definition ScanPreInstalledHmp :: "('j, 'h) ext \<Rightarrow> mmain \<Rightarrow> mmain" where
  "ScanPreInstalledHmp X m =
     scan_files X (x_GetDirFiles X (w_fs (mm_w m)) MODULE_PREINSTALL_DIR) m"

definition GetHmpVersionInfo :: "('j, 'h) ext \<Rightarrow> mmain \<Rightarrow> HmpVersionInfo list \<times> mmain" where
  "GetHmpVersionInfo X m =
     (let m1 = ScanPreInstalledHmp X m
      in case version_infos X (mm_w m1) (mm_hmpSet m1) ([], mm_hmpWorkDirMap m1) of
           (versionInfos, workDirs) \<Rightarrow> (versionInfos, m1\<lparr>mm_hmpWorkDirMap := workDirs\<rparr>))"

definition GetWorkHmpImagePath :: "('j, 'h) ext \<Rightarrow> string \<Rightarrow> mmain \<Rightarrow> string \<times> mmain" where
  "GetWorkHmpImagePath X hmpName m =
     (let m1 = snd (GetHmpVersionInfo X m);
          prefixPath = (case map_of (mm_hmpWorkDirMap m1) hmpName of
                          None \<Rightarrow> MODULE_PREINSTALL_DIR | Some imagePath \<Rightarrow> imagePath)
      in (prefixPath @ ''/'' @ hmpName @ ''/'' @ IMG_FILE_NAME, m1))"

section \<open>Installing\<close>

definition CheckHmpName :: "('j, 'h) ext \<Rightarrow> string \<Rightarrow> mmain \<Rightarrow> int \<times> mmain" where
  "CheckHmpName X hmpName m =
     (if hmpName = [] then (code ERR_INVALID_PATH, m)
      else if hmpName \<notin> set (mm_hmpSet m) then (code ERR_INSTALL_FAIL, m)
      else case CreateModuleDirs hmpName (mm_w m) of
        (ret, w1) \<Rightarrow>
          if ret \<noteq> code MODULE_UPDATE_SUCCESS
          then (ret, m\<lparr>mm_w := snd (RemoveSpecifiedDir X (install_path hmpName) False w1)\<rparr>)
          else (code MODULE_UPDATE_SUCCESS, m\<lparr>mm_w := w1\<rparr>))"

definition ValidateVersion :: "('j, 'h) ext \<Rightarrow> world \<Rightarrow> ModuleFile \<Rightarrow> string \<Rightarrow> int \<times> ModuleFile" where
  "ValidateVersion X w installFile hmpName =
     (case ModuleFile_Open X w (preinstall_path hmpName @ ''/'' @ HMP_INFO_NAME) of
        None \<Rightarrow> (code ERR_INSTALL_FAIL, installFile)
      | Some preInstalledFile \<Rightarrow>
          if \<not> CompareVersion X installFile preInstalledFile then (code ERR_LOWER_VERSION, installFile)
          else case VerifyModuleVerity X w installFile of
            (False, f1) \<Rightarrow> (code ERR_VERIFY_FAIL, f1)
          | (True, f1) \<Rightarrow>
              (let activePath = active_path hmpName @ ''/'' @ HMP_INFO_NAME
               in if \<not> x_IsFileExist X (w_fs w) activePath then (code MODULE_UPDATE_SUCCESS, f1)
               else case ModuleFile_Open X w activePath of
                 None \<Rightarrow> (code MODULE_UPDATE_SUCCESS, f1)
               | Some activeFile \<Rightarrow>
                   if \<not> CompareVersion X f1 activeFile then (code ERR_LOWER_VERSION, f1)
                   else (code MODULE_UPDATE_SUCCESS, f1)))"

definition InstallModuleFile :: "('j, 'h) ext \<Rightarrow> string \<Rightarrow> string \<Rightarrow> mmain \<Rightarrow> int \<times> mmain" where
  "InstallModuleFile X hmpName file m =
     (if \<not> CheckFileSuffix file MODULE_PACKAGE_SUFFIX then (code MODULE_UPDATE_SUCCESS, m)
      else if GetFileName file = [] then (code MODULE_UPDATE_SUCCESS, m)
      else if VerifyModulePackageSign X (mm_w m) file \<noteq> 0 then (code ERR_VERIFY_FAIL, m)
      else case (if IsIncrementPackage X (mm_w m) file
                 then (case GetWorkHmpImagePath X hmpName m of
                         (img, m1) \<Rightarrow>
                           (case RestorePackage X file img (mm_w m1) of
                              (ok, w1) \<Rightarrow> (ok, m1\<lparr>mm_w := w1\<rparr>)))
                 else (True, m)) of
        (False, m1) \<Rightarrow> (code ERR_RESTORE_PACKAGE_FAIL, m1)
      | (True, m1) \<Rightarrow>
     (case ModuleFile_Open X (mm_w m1) file of
        None \<Rightarrow> (code ERR_INSTALL_FAIL, m1)
      | Some moduleFile \<Rightarrow>
          if mf_imageStat moduleFile = None then (code ERR_INSTALL_FAIL, m1)
          else case ValidateVersion X (mm_w m1) moduleFile hmpName of
            (ret, f1) \<Rightarrow>
              if ret \<noteq> code MODULE_UPDATE_SUCCESS then (ret, m1)
              else (code MODULE_UPDATE_SUCCESS, m1\<lparr>mm_installModule := Some f1\<rparr>)))"

text \<open>The weak hook \<open>VerityInfoWrite\<close> of the repository answers true.\<close>

definition VerityInfoWrite :: "ModuleFile \<Rightarrow> bool" where
  "VerityInfoWrite f = True"

definition PrepareResourceForReboot :: "('j, 'h) ext \<Rightarrow> string \<Rightarrow> mmain \<Rightarrow> int \<times> mmain" where
  "PrepareResourceForReboot X hmpName m =
     (case mm_installModule m of
        None \<Rightarrow> (code ERR_DEAL_HVB_INFO_FAIL, m)
      | Some installModule \<Rightarrow>
     (case BackupActiveModules X hmpName (mm_w m) of
        (False, w1) \<Rightarrow> (code ERR_BACKUP_FAIL, m\<lparr>mm_w := w1\<rparr>)
      | (True, w1) \<Rightarrow>
     if \<not> VerityInfoWrite installModule then (code ERR_DEAL_HVB_INFO_FAIL, m\<lparr>mm_w := w1\<rparr>)
     else (case set_parameter X BMS_START_INSTALL BMS_UPDATE w1 of
        (r, w2) \<Rightarrow>
          if r \<noteq> 0 then (code ERR_SET_PARAM_FAIL, m\<lparr>mm_w := w2\<rparr>)
          else (case CreateDirIfNeeded (active_path hmpName) DIR_MODE w2 of
             (False, w3) \<Rightarrow> (code ERR_CREATE_ACTIVE_FAIL, m\<lparr>mm_w := w3\<rparr>)
           | (True, w3) \<Rightarrow> (code MODULE_UPDATE_SUCCESS, m\<lparr>mm_w := w3\<rparr>)))))"

text \<open>
  The loop over the unpacked files; \<open>index\<close> counts from 1, \<open>total_files\<close> is their number,
  \<open>cb\<close> tells whether there is a callback.
\<close>

fun install_files ::
  "('j, 'h) ext \<Rightarrow> string \<Rightarrow> bool \<Rightarrow> nat \<Rightarrow> nat \<Rightarrow> string list \<Rightarrow> mmain \<Rightarrow> int \<times> mmain"
where
  "install_files X hmpName cb total_files index [] m = (code MODULE_UPDATE_SUCCESS, m)"
| "install_files X hmpName cb total_files index (file # files) m =
     (case InstallModuleFile X hmpName file m of
        (ret, m1) \<Rightarrow>
          if ret \<noteq> code MODULE_UPDATE_SUCCESS then (ret, m1)
          else install_files X hmpName cb total_files (index + 1) files
                 (if cb then m1\<lparr>mm_reports := mm_reports m1 @
                    [(UPDATE_STATE_ONGOING, int (float_percent index total_files), [])]\<rparr> else m1))"

definition ReallyInstallModulePackage :: "('j, 'h) ext \<Rightarrow> string \<Rightarrow> bool \<Rightarrow> mmain \<Rightarrow> int \<times> mmain" where
  "ReallyInstallModulePackage X pkgPath cb m =
     (let hmpName = GetFileName pkgPath
      in case CheckHmpName X hmpName m of
        (ret, m1) \<Rightarrow>
      if ret \<noteq> code MODULE_UPDATE_SUCCESS then (ret, m1)
      else let hmpDir = install_path hmpName;
               rmdir = (\<lambda>m'. m'\<lparr>mm_w := snd (RemoveSpecifiedDir X hmpDir False (mm_w m'))\<rparr>)
      in case PrepareFileToDestDir X pkgPath (hmpDir @ ''/'') (mm_w m1) of
        (False, w2) \<Rightarrow> (code ERR_INSTALL_FAIL, rmdir (m1\<lparr>mm_w := w2\<rparr>))
      | (True, w2) \<Rightarrow>
     (let files = x_GetDirFiles X (w_fs w2) hmpDir
      in case install_files X hmpName cb (length files) 1 files (m1\<lparr>mm_w := w2\<rparr>) of
        (ret, m3) \<Rightarrow>
      if ret \<noteq> code MODULE_UPDATE_SUCCESS then (ret, rmdir m3)
      else case PrepareResourceForReboot X hmpName m3 of
        (ret, m4) \<Rightarrow>
          if ret \<noteq> code MODULE_UPDATE_SUCCESS then (ret, rmdir m4)
          else (code MODULE_UPDATE_SUCCESS, m4)))"

section \<open>Uninstalling and queries\<close>

fun uninstall_dirs ::
  "('j, 'h) ext \<Rightarrow> string list \<Rightarrow> int \<times> bool \<Rightarrow> world \<Rightarrow> (int \<times> bool) \<times> world"
where
  "uninstall_dirs X [] acc w = (acc, w)"
| "uninstall_dirs X (dir # dirs) (ret, hmpIsValid) w =
     (if \<not> CheckPathExists w dir then uninstall_dirs X dirs (ret, hmpIsValid) w
      else case force_remove X dir w of
        (ok, w1) \<Rightarrow>
          uninstall_dirs X dirs (if ok then ret else code ERR_UNINSTALL_FAIL, True) w1)"

definition Main_UninstallModulePackage :: "('j, 'h) ext \<Rightarrow> string \<Rightarrow> mmain \<Rightarrow> int \<times> mmain" where
  "Main_UninstallModulePackage X hmpName m =
     (if hmpName = [] \<or> hmpName \<notin> set (mm_hmpSet m) then (code ERR_INVALID_PATH, m)
      else case uninstall_dirs X [install_path hmpName, active_path hmpName, backup_path hmpName]
                  (code MODULE_UPDATE_SUCCESS, False) (mm_w m) of
        ((ret, hmpIsValid), w1) \<Rightarrow>
          (if \<not> hmpIsValid then code ERR_INVALID_PATH else ret, m\<lparr>mm_w := w1\<rparr>))"

text \<open>A file that does not open ends the collection of its package.\<close>

fun collect_files ::
  "('j, 'h) ext \<Rightarrow> world \<Rightarrow> string list \<Rightarrow> ModulePackageInfo list \<Rightarrow> ModulePackageInfo list" where
  "collect_files X w [] infos = infos"
| "collect_files X w (file # files) infos =
     (if \<not> CheckFileSuffix file MODULE_PACKAGE_SUFFIX then collect_files X w files infos
      else case ModuleFile_Open X w file of
        None \<Rightarrow> infos
      | Some moduleFile \<Rightarrow> collect_files X w files (infos @ [mf_versionInfo moduleFile]))"

definition CollectModulePackageInfo ::
  "('j, 'h) ext \<Rightarrow> world \<Rightarrow> string \<Rightarrow> ModulePackageInfo list \<Rightarrow> ModulePackageInfo list" where
  "CollectModulePackageInfo X w hmpName infos =
     (if hmpName = [] then infos
      else if \<not> CheckPathExists w (install_path hmpName) \<and> \<not> CheckPathExists w (active_path hmpName)
      then infos
      else collect_files X w
             (x_GetDirFiles X (w_fs w) (install_path hmpName)
              @ x_GetDirFiles X (w_fs w) (active_path hmpName)) infos)"

definition Main_GetModulePackageInfo ::
  "('j, 'h) ext \<Rightarrow> mmain \<Rightarrow> string \<Rightarrow> ModulePackageInfo list \<Rightarrow> int \<times> ModulePackageInfo list" where
  "Main_GetModulePackageInfo X m hmpName infos =
     (if hmpName = [] then
        (code MODULE_UPDATE_SUCCESS, fold (CollectModulePackageInfo X (mm_w m)) (mm_hmpSet m) infos)
      else if hmpName \<in> set (mm_hmpSet m) then
        (code MODULE_UPDATE_SUCCESS, CollectModulePackageInfo X (mm_w m) hmpName infos)
      else (code MODULE_UPDATE_FAIL, infos))"

definition Main_Stop :: "mmain \<Rightarrow> mmain" where
  "Main_Stop m = m\<lparr>mm_exit := True\<rparr>"

definition Main_ExitModuleUpdate :: "mmain \<Rightarrow> mmain" where
  "Main_ExitModuleUpdate m = Main_Stop m"

text \<open>\<open>GetSystemAbilityManager\<close>: at most ten tries, \<open>ans i\<close> whether the i-th one succeeds.\<close>

fun samgr_tries :: "(nat \<Rightarrow> bool) \<Rightarrow> nat \<Rightarrow> nat \<Rightarrow> bool" where
  "samgr_tries ans 0 i = False"
| "samgr_tries ans (Suc n) i = (if ans i then True else samgr_tries ans n (Suc i))"

definition GetSystemAbilityManager :: "bool \<Rightarrow> (nat \<Rightarrow> bool) \<Rightarrow> bool" where
  "GetSystemAbilityManager samgr ans = (if samgr then True else samgr_tries ans 10 0)"

section \<open>Lemmas: what is left alone\<close>

lemma CreateDirIfNeeded_fault: "CreateDirIfNeeded p md w = (ok, w') \<Longrightarrow> w_fault w' = w_fault w"
  by (auto simp: CreateDirIfNeeded_def sys_defs split: stat_result.splits node.splits bool.splits
      option.splits if_splits)

lemma sys_link_fault: "sys_link a b w = (ok, w') \<Longrightarrow> w_fault w' = w_fault w"
  by (auto simp: sys_link_def split: if_splits option.splits node.splits)

lemma sys_unlink_fault: "w_fault (snd (sys_unlink a w)) = w_fault w"
  by (auto simp: sys_unlink_def split: if_splits option.splits node.splits)

lemma force_remove_fault: "force_remove X d w = (ok, w') \<Longrightarrow> w_fault w' = w_fault w"
  using force_remove_more by blast

lemma BackupFile_fault: "BackupFile f w = (ok, w') \<Longrightarrow> w_fault w' = w_fault w"
  by (auto simp: BackupFile_def Let_def dest!: CreateDirIfNeeded_fault sys_link_fault
      split: if_splits prod.splits bool.splits)

lemma backup_files_fault: "backup_files fs w = (ok, w') \<Longrightarrow> w_fault w' = w_fault w"
  by (induction fs arbitrary: w) (auto dest!: BackupFile_fault split: prod.splits bool.splits)

lemma BackupActiveModules_fault: "BackupActiveModules X h w = (ok, w') \<Longrightarrow> w_fault w' = w_fault w"
proof -
  have "w_fault (snd (force_remove X d v)) = w_fault v" for d v
    using force_remove_fault by (metis prod.collapse)
  then show "BackupActiveModules X h w = (ok, w') \<Longrightarrow> w_fault w' = w_fault w"
    by (auto simp: BackupActiveModules_def Let_def
        dest!: CreateDirIfNeeded_fault backup_files_fault force_remove_fault
        split: if_splits prod.splits bool.splits)
qed

lemma RestorePackage_fault: "RestorePackage X d s w = (ok, w') \<Longrightarrow> w_fault w' = w_fault w"
  by (auto simp: RestorePackage_def Let_def sys_unlink_fault split: if_splits prod.splits option.splits)

lemma scan_modules_w [simp]: "mm_w (scan_modules ms m) = mm_w m"
  by (induction ms m rule: scan_modules.induct) simp_all

lemma scan_files_w [simp]: "mm_w (scan_files X fs m) = mm_w m"
  by (induction X fs m rule: scan_files.induct) (simp_all add: Let_def split: option.splits)

lemma GetWorkHmpImagePath_w: "GetWorkHmpImagePath X h m = (p, m') \<Longrightarrow> mm_w m' = mm_w m"
  by (auto simp: GetWorkHmpImagePath_def GetHmpVersionInfo_def ScanPreInstalledHmp_def Let_def
      split: prod.splits)

lemma InstallModuleFile_fault:
  "InstallModuleFile X h f m = (r, m') \<Longrightarrow> w_fault (mm_w m') = w_fault (mm_w m)"
  by (auto simp: InstallModuleFile_def dest!: RestorePackage_fault GetWorkHmpImagePath_w
      split: if_splits prod.splits bool.splits option.splits)

lemma install_files_fault:
  "install_files X h cb n i fs m = (r, m') \<Longrightarrow> w_fault (mm_w m') = w_fault (mm_w m)"
proof (induction fs arbitrary: i m)
  case (Cons f fs)
  obtain r1 m1 where f: "InstallModuleFile X h f m = (r1, m1)" by fastforce
  from InstallModuleFile_fault[OF f] f Cons show ?case by (fastforce split: if_splits)
qed simp

lemma PrepareResourceForReboot_fault:
  "PrepareResourceForReboot X h m = (r, m') \<Longrightarrow> w_fault (mm_w m') = w_fault (mm_w m)"
  by (auto simp: PrepareResourceForReboot_def set_parameter_def
      dest!: BackupActiveModules_fault CreateDirIfNeeded_fault
      split: if_splits prod.splits bool.splits option.splits)

lemma PrepareFileToDestDir_fault: "PrepareFileToDestDir X p d w = (ok, w') \<Longrightarrow> w_fault w' = w_fault w"
  by (auto simp: PrepareFileToDestDir_def split: prod.splits)

lemma CreateModuleDirs_fault: "CreateModuleDirs h w = (r, w') \<Longrightarrow> w_fault w' = w_fault w"
  by (auto simp: CreateModuleDirs_def dest!: CreateDirIfNeeded_fault split: prod.splits bool.splits)

lemma CheckHmpName_fault:
  "CheckHmpName X h m = (0, m') \<Longrightarrow> w_fault (mm_w m') = w_fault (mm_w m)"
  by (auto simp: CheckHmpName_def dest!: CreateModuleDirs_fault split: if_splits prod.splits)

section \<open>Lemmas: removing the staged directory\<close>

lemma GetFileName_no_slash: "CHR ''/'' \<notin> set (GetFileName p)"
proof (cases "find_last_of CHR ''/'' p")
  case None
  then have "CHR ''/'' \<notin> set p" by (simp add: find_last_of_None)
  then show ?thesis by (auto simp: GetFileName_def substr_def Let_def dest: in_set_takeD in_set_dropD)
next
  case (Some i)
  from find_last_of_last[OF this] Some show ?thesis
    by (auto simp: GetFileName_def substr_def Let_def dest: in_set_takeD in_set_dropD)
qed

lemma RemoveSpecifiedDir_removes:
  assumes X: "rmdir_contract X" "\<forall>d fs. fst (x_ForceRemoveDirectory X d fs)"
    and st: "\<forall>p. \<not> w_fault w OpStat p" and h: "h \<noteq> []" "CHR ''/'' \<notin> set h"
  shows "map_of (w_fs (snd (RemoveSpecifiedDir X (install_path h) False w))) (install_path h) = None"
proof (cases "CheckPathExists w (install_path h)")
  case True
  obtain w1 where "force_remove X (install_path h) w = (True, w1)"
    and "\<forall>q. map_of (w_fs w1) q = (if inside (install_path h) q then None else map_of (w_fs w) q)"
    by (rule force_remove_ok[OF X])
  with True show ?thesis by (simp add: RemoveSpecifiedDir_def)
next
  case False
  moreover have "last (install_path h) \<noteq> CHR ''/''" using last_no_slash[OF h] .
  ultimately have "map_of (w_fs w) (install_path h) = None"
    using st by (auto simp: CheckPathExists_def sys_stat_def fs_node_plain split: option.splits)
  with False show ?thesis by (simp add: RemoveSpecifiedDir_def)
qed

section \<open>Properties: installing\<close>

text \<open>C16. An installation of a known package that fails for whatever reason leaves no staged
  directory of the package behind.\<close>

theorem Install_failure_cleans:
  assumes "ReallyInstallModulePackage X pkgPath cb m = (ret, m')" and "ret \<noteq> 0"
    and "GetFileName pkgPath \<noteq> []" and "GetFileName pkgPath \<in> set (mm_hmpSet m)"
    and X: "rmdir_contract X" "\<forall>d fs. fst (x_ForceRemoveDirectory X d fs)"
    and st: "\<forall>p. \<not> w_fault (mm_w m) OpStat p"
  shows "map_of (w_fs (mm_w m')) (install_path (GetFileName pkgPath)) = None"
proof -
  let ?h = "GetFileName pkgPath"
  have rm: "map_of (w_fs (snd (RemoveSpecifiedDir X (install_path ?h) False w))) (install_path ?h) = None"
    if "w_fault w = w_fault (mm_w m)" for w
    by (rule RemoveSpecifiedDir_removes[OF X _ assms(3) GetFileName_no_slash]) (use that st in simp)
  obtain r1 m1 where c: "CheckHmpName X ?h m = (r1, m1)" by fastforce
  show ?thesis
  proof (cases "r1 = 0")
    case False
    then obtain w1 where "CreateModuleDirs ?h (mm_w m) = (ret, w1)"
      and "m' = m\<lparr>mm_w := snd (RemoveSpecifiedDir X (install_path ?h) False w1)\<rparr>"
      using c assms(1,3,4)
      by (auto simp: ReallyInstallModulePackage_def CheckHmpName_def split: prod.splits if_splits)
    with rm CreateModuleDirs_fault show ?thesis by auto
  next
    case True
    note f1 = CheckHmpName_fault[OF c[unfolded True]]
    obtain ok w2 where p: "PrepareFileToDestDir X pkgPath (install_path ?h @ ''/'') (mm_w m1) = (ok, w2)"
      by fastforce
    note f2 = PrepareFileToDestDir_fault[OF p]
    show ?thesis
    proof (cases ok)
      case False
      with c True p assms(1) have "m' = m1\<lparr>mm_w := snd (RemoveSpecifiedDir X (install_path ?h) False w2)\<rparr>"
        by (simp add: ReallyInstallModulePackage_def Let_def)
      with rm f1 f2 show ?thesis by simp
    next
      case ok: True
      let ?files = "x_GetDirFiles X (w_fs w2) (install_path ?h)"
      obtain r3 m3 where i: "install_files X ?h cb (length ?files) 1 ?files (m1\<lparr>mm_w := w2\<rparr>) = (r3, m3)"
        by fastforce
      from install_files_fault[OF i] have f3: "w_fault (mm_w m3) = w_fault w2" by simp
      obtain r4 m4 where r: "PrepareResourceForReboot X ?h m3 = (r4, m4)" by fastforce
      note f4 = PrepareResourceForReboot_fault[OF r]
      from c True p ok i r assms(1,2)
      have "m' = m3\<lparr>mm_w := snd (RemoveSpecifiedDir X (install_path ?h) False (mm_w m3))\<rparr>
          \<or> m' = m4\<lparr>mm_w := snd (RemoveSpecifiedDir X (install_path ?h) False (mm_w m4))\<rparr>"
        by (auto simp: ReallyInstallModulePackage_def Let_def split: if_splits)
      with rm f1 f2 f3 f4 show ?thesis by auto
    qed
  qed
qed

definition mmain0 :: "world \<Rightarrow> mmain" where
  "mmain0 w = \<lparr>mm_w = w, mm_hmpSet = [''h1''], mm_moduleSet = [], mm_saIdHmpMap = [],
     mm_hmpWorkDirMap = [], mm_installModule = None, mm_exit = False, mm_reports = []\<rparr>"

definition data_world :: world where
  "data_world = world0 [(''/data'', Dir 493)]"

lemma Install_failure_cleans_witness:
  "fst (ReallyInstallModulePackage sample0 ''/d/h1.zip'' True (mmain0 data_world)) \<noteq> 0
   \<and> map_of (w_fs (mm_w (snd (ReallyInstallModulePackage sample0 ''/d/h1.zip'' True (mmain0 data_world)))))
       (install_path ''h1'') = None"
proof -
  have h: "GetFileName ''/d/h1.zip'' = ''h1''" by (simp add: GetFileName_def substr_def Let_def)
  have e: "fst (ReallyInstallModulePackage sample0 ''/d/h1.zip'' True (mmain0 data_world)) \<noteq> 0"
    unfolding ReallyInstallModulePackage_def h
    by (simp add: CheckHmpName_def mmain0_def CreateModuleDirs_def CreateDirIfNeeded_def
        sys_defs data_world_def world0_def fs_node_def dir_consts parent_ok_def parent_dir_def is_dir_def
        PrepareFileToDestDir_def sample_defs is_reg_def PrepareResourceForReboot_def Let_def)
  have X: "rmdir_contract sample0" "\<forall>d fs. fst (x_ForceRemoveDirectory sample0 d fs)"
    using sample_rmdir by (simp_all add: sample_defs)
  have n: "GetFileName ''/d/h1.zip'' \<noteq> []" "GetFileName ''/d/h1.zip'' \<in> set (mm_hmpSet (mmain0 data_world))"
    "\<forall>p. \<not> w_fault (mm_w (mmain0 data_world)) OpStat p"
    by (simp_all add: h mmain0_def data_world_def world0_def)
  show ?thesis
    using Install_failure_cleans[OF prod.collapse[symmetric] e n(1,2) X n(3)] e unfolding h by simp
qed

text \<open>C17. A package file is taken for installation only when its signature is valid and its version
  is accepted over the preinstalled package and over the active package, if there is one that
  opens; what is kept as the module to install is that file.\<close>

theorem InstallModuleFile_validated:
  assumes "InstallModuleFile X h f m = (0, m')"
    and "CheckFileSuffix f MODULE_PACKAGE_SUFFIX" and "GetFileName f \<noteq> []"
  shows "VerifyModulePackageSign X (mm_w m) f = 0
    \<and> (\<exists>g pre kept. ModuleFile_Open X (mm_w m') f = Some g \<and> mf_imageStat g \<noteq> None
        \<and> mm_installModule m' = Some kept \<and> mf_versionInfo kept = mf_versionInfo g
        \<and> ModuleFile_Open X (mm_w m') (preinstall_path h @ ''/'' @ HMP_INFO_NAME) = Some pre
        \<and> CompareVersion X g pre
        \<and> (\<forall>act. x_IsFileExist X (w_fs (mm_w m')) (active_path h @ ''/'' @ HMP_INFO_NAME)
             \<and> ModuleFile_Open X (mm_w m') (active_path h @ ''/'' @ HMP_INFO_NAME) = Some act
             \<longrightarrow> CompareVersion X kept act))"
proof -
  from assms have sign: "VerifyModulePackageSign X (mm_w m) f = 0"
    by (auto simp: InstallModuleFile_def split: if_splits)
  from assms obtain m1 g where g: "ModuleFile_Open X (mm_w m1) f = Some g" "mf_imageStat g \<noteq> None"
    and v: "\<exists>kept. ValidateVersion X (mm_w m1) g h = (0, kept) \<and> m' = m1\<lparr>mm_installModule := Some kept\<rparr>"
    by (auto simp: InstallModuleFile_def split: if_splits prod.splits bool.splits option.splits)
  then obtain kept where v: "ValidateVersion X (mm_w m1) g h = (0, kept)"
    and m': "m' = m1\<lparr>mm_installModule := Some kept\<rparr>" by blast
  from v obtain pre where pre: "ModuleFile_Open X (mm_w m1) (preinstall_path h @ ''/'' @ HMP_INFO_NAME) = Some pre"
    "CompareVersion X g pre"
    by (auto simp: ValidateVersion_def split: option.splits if_splits)
  from v pre obtain vr: "VerifyModuleVerity X (mm_w m1) g = (True, kept)"
    by (auto simp: ValidateVersion_def Let_def split: option.splits if_splits prod.splits bool.splits)
  then have "mf_versionInfo kept = mf_versionInfo g"
    by (auto simp: VerifyModuleVerity_def Let_def split: if_splits)
  moreover have "CompareVersion X kept act"
    if "x_IsFileExist X (w_fs (mm_w m1)) (active_path h @ ''/'' @ HMP_INFO_NAME)"
      "ModuleFile_Open X (mm_w m1) (active_path h @ ''/'' @ HMP_INFO_NAME) = Some act" for act
    using v pre vr that by (auto simp: ValidateVersion_def Let_def split: if_splits)
  ultimately show ?thesis using sign g pre m' by auto
qed

definition inst_world :: world where
  "inst_world = world0
     [(''/system/module_update/h1/module_info.zip'', Reg 420 ''P1''),
      (''/system/module_update/h1/module.img'', Reg 420 ext4_image),
      (''/data/module_update_package/h1/module_info.zip'', Reg 420 ''P2''),
      (''/data/module_update_package/h1/module.img'', Reg 420 ext4_image)]"

lemma inst_open:
  "ModuleFile_Open pk inst_world ''/system/module_update/h1/module_info.zip'' =
     Some (pk_file ''/system/module_update/h1/module_info.zip'' ''d 1.0.0.1'')"
  "ModuleFile_Open pk inst_world ''/data/module_update_package/h1/module_info.zip'' =
     Some (pk_file ''/data/module_update_package/h1/module_info.zip'' ''d 1.0.0.2'')"
  by (rule pk_open; simp add: pk_def sample_ext_def inst_world_def world0_def after_slash_def IMG_FILE_NAME_def)+

lemma inst_not_incr: "IsIncrementPackage pk inst_world ''/data/module_update_package/h1/module_info.zip'' = False"
proof -
  have "map_of (w_fs inst_world) ''/data/module_update_package/h1/module_info.zip'' = Some (Reg 420 ''P2'')"
    by (simp add: inst_world_def world0_def)
  from pk_extract(2)[OF this refl] show ?thesis
    by (auto simp: IsIncrementPackage_def GetContentFromZip_def GetPackageType_def json_str_def
        pk_def sample_ext_def pk_parse_def pack_json_def Let_def)
qed

lemma inst_install:
  "InstallModuleFile pk ''h1'' ''/data/module_update_package/h1/module_info.zip'' (mmain0 inst_world) =
     (0, (mmain0 inst_world)\<lparr>mm_installModule :=
        Some (pk_file ''/data/module_update_package/h1/module_info.zip'' ''d 1.0.0.2'')\<rparr>)"
proof -
  let ?f = "''/data/module_update_package/h1/module_info.zip''"
  have s: "CheckFileSuffix ?f MODULE_PACKAGE_SUFFIX" "GetFileName ?f = ''module_info''"
    by (simp_all add: CheckFileSuffix_def substr_from_def MODULE_PACKAGE_SUFFIX_def GetFileName_def
        substr_def Let_def)
  have img: "mf_imageStat (pk_file ?f ''d 1.0.0.2'') = None \<longleftrightarrow> False" by (simp add: pk_file_def)
  have pre: "preinstall_path ''h1'' @ ''/'' @ HMP_INFO_NAME = ''/system/module_update/h1/module_info.zip''"
    by (simp add: MODULE_PREINSTALL_DIR_def HMP_INFO_NAME_def)
  have hvb: "x_SUPPORT_HVB pk = False" by (simp add: pk_def sample_ext_def)
  have act: "x_IsFileExist pk (w_fs inst_world) (active_path ''h1'' @ ''/'' @ HMP_INFO_NAME) = False"
    by (simp add: pk_def sample_ext_def inst_world_def world0_def UPDATE_ACTIVE_DIR_def HMP_INFO_NAME_def)
  have w: "mm_w (mmain0 inst_world) = inst_world" by (simp add: mmain0_def)
  have "ValidateVersion pk inst_world (pk_file ?f ''d 1.0.0.2'') ''h1'' = (0, pk_file ?f ''d 1.0.0.2'')"
    unfolding ValidateVersion_def pre Let_def act
    by (simp add: inst_open(1) pk_newer VerifyModuleVerity_def hvb)
  then show ?thesis
    by (simp add: InstallModuleFile_def s inst_not_incr w inst_open(2) img)
qed

lemma InstallModuleFile_validated_witness:
  "\<exists>m' g pre. InstallModuleFile pk ''h1'' ''/data/module_update_package/h1/module_info.zip'' (mmain0 inst_world) = (0, m')
     \<and> ModuleFile_Open pk (mm_w m') (preinstall_path ''h1'' @ ''/'' @ HMP_INFO_NAME) = Some pre
     \<and> CompareVersion pk g pre"
proof -
  have s: "CheckFileSuffix ''/data/module_update_package/h1/module_info.zip'' MODULE_PACKAGE_SUFFIX"
    "GetFileName ''/data/module_update_package/h1/module_info.zip'' \<noteq> []"
    by (simp_all add: CheckFileSuffix_def substr_from_def MODULE_PACKAGE_SUFFIX_def GetFileName_def
        substr_def Let_def)
  from InstallModuleFile_validated[OF inst_install s] inst_install show ?thesis by blast
qed

section \<open>Properties: uninstall\<close>

definition backup_world :: world where
  "backup_world = world0 [(''/data/module_update/active'', Dir 488),
     (''/data/module_update/active/h1'', Dir 488), (''/data/module_update/active/h1/a'', Reg 420 ''A''),
     (''/data/module_update/backup'', Dir 488), (''/data/module_update/backup/h1'', Dir 488),
     (''/data/module_update/backup/h1/old'', Reg 420 ''O'')]"

lemma uninstall_dirs_spec:
  assumes "uninstall_dirs X ds (r, v) w = ((0, v'), w')" and "rmdir_contract X"
    and "\<forall>p. \<not> w_fault w OpStat p" and "\<forall>d \<in> set ds. last d \<noteq> CHR ''/''"
  shows "r = 0 \<and> (\<forall>d \<in> set ds. map_of (w_fs w') d = None)
    \<and> (\<forall>q. map_of (w_fs w) q = None \<longrightarrow> map_of (w_fs w') q = None)
    \<and> (\<forall>q. (\<forall>d \<in> set ds. \<not> inside d q) \<longrightarrow> map_of (w_fs w') q = map_of (w_fs w) q)
    \<and> (v' \<longrightarrow> v \<or> (\<exists>d \<in> set ds. map_of (w_fs w) d \<noteq> None))"
  using assms(1,3,4)
proof (induction ds arbitrary: r v w)
  case Nil
  then show ?case by simp
next
  case (Cons d ds)
  have plain: "last d \<noteq> CHR ''/''" using Cons.prems(3) by simp
  have there: "CheckPathExists w d \<longleftrightarrow> map_of (w_fs w) d \<noteq> None"
    using Cons.prems(2) plain
    by (auto simp: CheckPathExists_def sys_stat_def fs_node_plain split: option.splits)
  show ?case
  proof (cases "CheckPathExists w d")
    case False
    with Cons.prems(1) have "uninstall_dirs X ds (r, v) w = ((0, v'), w')" by simp
    from Cons.IH[OF this Cons.prems(2)] Cons.prems(3) False there show ?thesis by auto
  next
    case True
    obtain ok w1 where f: "force_remove X d w = (ok, w1)" by fastforce
    with True Cons.prems(1)
    have u: "uninstall_dirs X ds (if ok then r else code ERR_UNINSTALL_FAIL, True) w1 = ((0, v'), w')" by simp
    from force_remove_fault[OF f] Cons.prems(2) have st: "\<forall>p. \<not> w_fault w1 OpStat p" by simp
    from Cons.IH[OF u st] Cons.prems(3) have ih: "ok" "r = 0" "\<forall>d \<in> set ds. map_of (w_fs w') d = None"
      "\<forall>q. map_of (w_fs w1) q = None \<longrightarrow> map_of (w_fs w') q = None"
      "\<forall>q. (\<forall>d \<in> set ds. \<not> inside d q) \<longrightarrow> map_of (w_fs w') q = map_of (w_fs w1) q"
      by (auto split: if_splits)
    have "map_of (w_fs w1) d = None"
      using force_remove_gone[OF assms(2) f[unfolded eqTrueI[OF ih(1)]] inside_refl] .
    moreover have "map_of (w_fs w1) q = None" if "map_of (w_fs w) q = None" for q
      using force_remove_shrinks[OF assms(2) f, of q] that by auto
    moreover have "map_of (w_fs w1) q = map_of (w_fs w) q" if "\<not> inside d q" for q
      using force_remove_frame[OF assms(2) f that] .
    ultimately show ?thesis using ih True there by auto
  qed
qed

text \<open>C25. An uninstall that reports success has removed the staged, the active and the backup
  directory of the package, at least one of which was there, and touched nothing outside them.\<close>

theorem Uninstall_complete:
  assumes "Main_UninstallModulePackage X h m = (0, m')" and "rmdir_contract X"
    and "\<forall>p. \<not> w_fault (mm_w m) OpStat p" and "CHR ''/'' \<notin> set h"
  shows "h \<in> set (mm_hmpSet m)
    \<and> (\<forall>d \<in> {install_path h, active_path h, backup_path h}. map_of (w_fs (mm_w m')) d = None)
    \<and> (\<exists>d \<in> {install_path h, active_path h, backup_path h}. map_of (w_fs (mm_w m)) d \<noteq> None)
    \<and> (\<forall>q. \<not> inside (install_path h) q \<and> \<not> inside (active_path h) q \<and> \<not> inside (backup_path h) q
         \<longrightarrow> map_of (w_fs (mm_w m')) q = map_of (w_fs (mm_w m)) q)"
proof -
  from assms(1) have h: "h \<noteq> []" "h \<in> set (mm_hmpSet m)"
    by (auto simp: Main_UninstallModulePackage_def split: if_splits)
  from assms(1) h obtain w1 where
    u: "uninstall_dirs X [install_path h, active_path h, backup_path h] (0, False) (mm_w m) = ((0, True), w1)"
    and m': "m' = m\<lparr>mm_w := w1\<rparr>"
    by (auto simp: Main_UninstallModulePackage_def simp del: uninstall_dirs.simps split: if_splits prod.splits)
  have "\<forall>d \<in> set [install_path h, active_path h, backup_path h]. last d \<noteq> CHR ''/''"
    using last_no_slash[OF h(1) assms(4)] by simp
  note s = uninstall_dirs_spec[OF u assms(2,3) this]
  have w': "mm_w m' = w1" by (simp add: m')
  have "\<exists>d \<in> {install_path h, active_path h, backup_path h}. map_of (w_fs (mm_w m)) d \<noteq> None"
    using s by (simp only: list.set simp_thms)
  moreover have "\<forall>q. \<not> inside (install_path h) q \<and> \<not> inside (active_path h) q \<and> \<not> inside (backup_path h) q
         \<longrightarrow> map_of (w_fs w1) q = map_of (w_fs (mm_w m)) q"
    using s by (simp only: list.set) blast
  moreover have "\<forall>d \<in> {install_path h, active_path h, backup_path h}. map_of (w_fs w1) d = None"
    using s[THEN conjunct2, THEN conjunct1] by (simp only: list.set)
  ultimately show ?thesis using h(2) unfolding w' by (intro conjI) blast+
qed

lemma Uninstall_complete_witness:
  "fst (Main_UninstallModulePackage sample0 ''h1'' (mmain0 backup_world)) = 0
   \<and> map_of (w_fs (mm_w (snd (Main_UninstallModulePackage sample0 ''h1'' (mmain0 backup_world))))) (active_path ''h1'') = None"
proof -
  have e: "fst (Main_UninstallModulePackage sample0 ''h1'' (mmain0 backup_world)) = 0"
    by (simp add: Main_UninstallModulePackage_def mmain0_def backup_world_def world0_def sample_defs
        CheckPathExists_def sys_defs fs_node_def dir_consts force_remove_def inside_def)
  then have "Main_UninstallModulePackage sample0 ''h1'' (mmain0 backup_world) =
      (0, snd (Main_UninstallModulePackage sample0 ''h1'' (mmain0 backup_world)))" by (simp add: prod_eq_iff)
  moreover have "rmdir_contract sample0" using sample_rmdir by (simp add: sample0_def)
  moreover have "\<forall>p. \<not> w_fault (mm_w (mmain0 backup_world)) OpStat p"
    by (simp add: mmain0_def backup_world_def world0_def)
  ultimately show ?thesis using Uninstall_complete[of sample0 "''h1''" "mmain0 backup_world"] e by auto
qed

lemma install_files_no_package:
  "\<forall>f \<in> set fs. \<not> CheckFileSuffix f MODULE_PACKAGE_SUFFIX \<Longrightarrow>
     install_files X h False n i fs m = (0, m)"
  by (induction fs arbitrary: i) (simp_all add: InstallModuleFile_def)

text \<open>The module to install is kept between calls: a package without any module file, installed
  after another one, succeeds with the module of the earlier call, none of its own content
  having been checked.\<close>

theorem Install_without_module_succeeds:
  assumes "CheckHmpName X (GetFileName pkg) m = (0, m1)" and "mm_installModule m1 = Some old"
    and "PrepareFileToDestDir X pkg (install_path (GetFileName pkg) @ ''/'') (mm_w m1) = (True, w2)"
    and "\<forall>f \<in> set (x_GetDirFiles X (w_fs w2) (install_path (GetFileName pkg))).
           \<not> CheckFileSuffix f MODULE_PACKAGE_SUFFIX"
    and "\<not> CheckPathExists w2 (active_path (GetFileName pkg))"
    and "x_SetParameter X BMS_START_INSTALL BMS_UPDATE = 0"
    and "CreateDirIfNeeded (active_path (GetFileName pkg)) DIR_MODE
           (snd (set_parameter X BMS_START_INSTALL BMS_UPDATE w2)) = (True, w3)"
  shows "ReallyInstallModulePackage X pkg False m = (0, m1\<lparr>mm_w := w3\<rparr>)
    \<and> mm_installModule (m1\<lparr>mm_w := w3\<rparr>) = Some old"
  using assms install_files_no_package[OF assms(4), of X "GetFileName pkg" _ 1 "m1\<lparr>mm_w := w2\<rparr>"]
  by (simp add: ReallyInstallModulePackage_def PrepareResourceForReboot_def BackupActiveModules_def
      VerityInfoWrite_def set_parameter_def Let_def)

definition stale_main :: mmain where
  "stale_main = (mmain0 (world0 [(''/data'', Dir 493), (''/data/module_update/active'', Dir 488)]))
     \<lparr>mm_installModule := Some (pk_file ''/other'' ''d 1.0.0.1'')\<rparr>"

lemma Install_without_module_succeeds_witness:
  "\<exists>m'. ReallyInstallModulePackage sample0 ''/d/h1.zip'' False stale_main = (0, m')
     \<and> mm_installModule m' = Some (pk_file ''/other'' ''d 1.0.0.1'')"
proof -
  have h: "GetFileName ''/d/h1.zip'' = ''h1''" by (simp add: GetFileName_def substr_def Let_def)
  let ?fs1 = "[(''/data'', Dir 493), (''/data/module_update/active'', Dir 488),
     (''/data/module_update_package'', Dir 488), (''/data/module_update_package/h1'', Dir 488)]"
  let ?w1 = "world0 ?fs1"
  have c: "CheckHmpName sample0 ''h1'' stale_main = (0, stale_main\<lparr>mm_w := ?w1\<rparr>)"
    by (simp add: CheckHmpName_def stale_main_def mmain0_def CreateModuleDirs_def CreateDirIfNeeded_def
        sys_defs world0_def fs_node_def dir_consts parent_ok_def parent_dir_def is_dir_def DIR_MODE_def)
  have p: "PrepareFileToDestDir sample0 ''/d/h1.zip'' (install_path ''h1'' @ ''/'') ?w1 = (True, ?w1)"
    by (simp add: PrepareFileToDestDir_def sample_defs world0_def)
  have f: "\<forall>f \<in> set (x_GetDirFiles sample0 (w_fs ?w1) (install_path ''h1'')).
      \<not> CheckFileSuffix f MODULE_PACKAGE_SUFFIX"
    by (simp add: sample_defs world0_def dir_consts is_reg_def fs_node_def)
  have a: "\<not> CheckPathExists ?w1 (active_path ''h1'')"
    by (simp add: CheckPathExists_def sys_defs world0_def fs_node_def dir_consts)
  have s: "x_SetParameter sample0 BMS_START_INSTALL BMS_UPDATE = 0" by (simp add: sample_defs)
  obtain ok w3 where eq: "CreateDirIfNeeded (active_path ''h1'') DIR_MODE
      (snd (set_parameter sample0 BMS_START_INSTALL BMS_UPDATE ?w1)) = (ok, w3)" by (rule prod.exhaust)
  have "fst (CreateDirIfNeeded (active_path ''h1'') DIR_MODE
      (snd (set_parameter sample0 BMS_START_INSTALL BMS_UPDATE ?w1)))"
    by (simp add: CreateDirIfNeeded_def set_parameter_def sys_defs world0_def fs_node_def dir_consts
        parent_ok_def parent_dir_def is_dir_def DIR_MODE_def)
  then have d: "CreateDirIfNeeded (active_path ''h1'') DIR_MODE
      (snd (set_parameter sample0 BMS_START_INSTALL BMS_UPDATE ?w1)) = (True, w3)" unfolding eq by simp
  have o: "mm_installModule (stale_main\<lparr>mm_w := ?w1\<rparr>) = Some (pk_file ''/other'' ''d 1.0.0.1'')"
    "mm_w (stale_main\<lparr>mm_w := ?w1\<rparr>) = ?w1" by (simp_all add: stale_main_def)
  from Install_without_module_succeeds[of sample0 "''/d/h1.zip''" stale_main, unfolded h, OF c o(1) _ f a s d]
    p o(2) show ?thesis by (intro exI conjI) auto
qed

end
