(* ===== verification/Module_Service.thy ===== *)
theory Module_Service
  imports Module_Main
begin

text \<open>
  frameworks/ipc_server/src/module_update_service.cpp: the system ability in front of
  \<open>ModuleUpdateMain\<close>. Every call holds \<open>taskLock_\<close>, so calls are atomic steps on the state.
  \<open>OnStart\<close>, which may run the revert threads, is in the theory Update_Revert.
\<close>

definition Service_InstallModulePackage :: "('j, 'h) ext \<Rightarrow> string \<Rightarrow> mmain \<Rightarrow> int \<times> mmain" where
  "Service_InstallModulePackage X pkgPath m =
     (if \<not> CheckFileSuffix pkgPath HMP_PACKAGE_SUFFIX then (code ERR_INVALID_PATH, m)
      else case x_PathToRealPath X (w_fs (mm_w m)) pkgPath of
        None \<Rightarrow> (code ERR_INVALID_PATH, m)
      | Some realPath \<Rightarrow> ReallyInstallModulePackage X realPath False m)"

definition Service_UninstallModulePackage :: "('j, 'h) ext \<Rightarrow> string \<Rightarrow> mmain \<Rightarrow> int \<times> mmain" where
  "Service_UninstallModulePackage X hmpName m = Main_UninstallModulePackage X hmpName m"

definition Service_GetModulePackageInfo ::
  "('j, 'h) ext \<Rightarrow> mmain \<Rightarrow> string \<Rightarrow> ModulePackageInfo list \<Rightarrow> int \<times> ModulePackageInfo list" where
  "Service_GetModulePackageInfo X m hmpName infos = Main_GetModulePackageInfo X m hmpName infos"

text \<open>The answer is 0 whether or not the system ability manager is there.\<close>

definition Service_ExitModuleUpdate :: "mmain \<Rightarrow> int \<times> mmain" where
  "Service_ExitModuleUpdate m = (0, Main_ExitModuleUpdate m)"

definition Service_OnStop :: "mmain \<Rightarrow> mmain" where
  "Service_OnStop m = Main_ExitModuleUpdate m"

definition Service_GetHmpVersionInfo :: "('j, 'h) ext \<Rightarrow> mmain \<Rightarrow> HmpVersionInfo list \<times> mmain" where
  "Service_GetHmpVersionInfo X m = GetHmpVersionInfo X m"

definition StartUpdateHmpPackage :: "('j, 'h) ext \<Rightarrow> string \<Rightarrow> bool \<Rightarrow> mmain \<Rightarrow> int \<times> mmain" where
  "StartUpdateHmpPackage X path cb m =
     (let saveResult = (\<lambda>ret m'.
            let m2 = m'\<lparr>mm_w := Main_SaveInstallerResult X path ret (string_of_int ret) (mm_w m')\<rparr>
            in if cb then m2\<lparr>mm_reports := mm_reports m2 @
                 [(if ret = 0 then UPDATE_STATE_SUCCESSFUL else UPDATE_STATE_FAILED, 100, [])]\<rparr>
               else m2)
      in if \<not> cb then (code ERR_INVALID_PATH, saveResult (code ERR_INVALID_PATH) m)
         else let m1 = m\<lparr>mm_reports := mm_reports m @ [(UPDATE_STATE_ONGOING, 0, [])]\<rparr>
         in if VerifyModulePackageSign X (mm_w m1) path \<noteq> 0
            then (code ERR_VERIFY_FAIL, saveResult (code ERR_VERIFY_FAIL) m1)
            else case Service_InstallModulePackage X path m1 of (ret, m2) \<Rightarrow> (ret, saveResult ret m2))"

record HmpUpdateInfo =
  hu_path :: string
  hu_result :: int
  hu_resultMsg :: string

fun merge_info :: "HmpUpdateInfo \<Rightarrow> HmpUpdateInfo list \<Rightarrow> HmpUpdateInfo list" where
  "merge_info t [] = [t]"
| "merge_info t (i # is) =
     (if contains_str (hu_path t) (hu_path i)
      then i\<lparr>hu_result := hu_result t, hu_resultMsg := hu_resultMsg t\<rparr> # is
      else i # merge_info t is)"

fun parse_results :: "('j, 'h) ext \<Rightarrow> string list \<Rightarrow> HmpUpdateInfo list \<Rightarrow> HmpUpdateInfo list" where
  "parse_results X [] infos = infos"
| "parse_results X (result # rs) infos =
     (case x_SplitStr X result '';'' of
        path # res # msg # _ \<Rightarrow>
          (case x_ConvertToLong X res of
             None \<Rightarrow> parse_results X rs infos
           | Some r \<Rightarrow>
               parse_results X rs
                 (merge_info \<lparr>hu_path = path, hu_result = r, hu_resultMsg = msg\<rparr> infos))
      | _ \<Rightarrow> parse_results X rs infos)"

definition GetHmpUpdateResult :: "('j, 'h) ext \<Rightarrow> world \<Rightarrow> HmpUpdateInfo list \<times> world" where
  "GetHmpUpdateResult X w =
     (case read_file w MODULE_RESULT_PATH of
        None \<Rightarrow> ([], w)
      | Some resultInfo \<Rightarrow>
          (parse_results X (x_SplitStr X resultInfo [CHR 0x0A]) [],
           snd (sys_unlink MODULE_RESULT_PATH w)))"

section \<open>Lemmas\<close>

lemma GetWorkHmpImagePath_reports: "GetWorkHmpImagePath X h m = (p, m') \<Longrightarrow> mm_reports m' = mm_reports m"
proof -
  have s: "mm_reports (scan_modules ms m) = mm_reports m" for ms and m :: mmain
    by (induction ms m rule: scan_modules.induct) simp_all
  have "mm_reports (scan_files X fs m) = mm_reports m" for fs
    by (induction X fs m rule: scan_files.induct) (simp_all add: Let_def s split: option.splits)
  then show "GetWorkHmpImagePath X h m = (p, m') \<Longrightarrow> mm_reports m' = mm_reports m"
    by (auto simp: GetWorkHmpImagePath_def GetHmpVersionInfo_def ScanPreInstalledHmp_def Let_def
        split: prod.splits)
qed

lemma InstallModuleFile_reports:
  "InstallModuleFile X h f m = (r, m') \<Longrightarrow> mm_reports m' = mm_reports m"
  by (auto simp: InstallModuleFile_def dest!: GetWorkHmpImagePath_reports
      split: if_splits prod.splits bool.splits option.splits)

lemma install_files_reports:
  "install_files X h cb n i fs m = (r, m') \<Longrightarrow>
     \<exists>k \<le> length fs. (r = 0 \<longrightarrow> k = length fs)
       \<and> mm_reports m' = mm_reports m @
           (if cb then map (\<lambda>j. (UPDATE_STATE_ONGOING, int (float_percent j n), [])) [i..<i + k] else [])"
proof (induction fs arbitrary: i m)
  case (Cons f fs)
  obtain r1 m1 where f: "InstallModuleFile X h f m = (r1, m1)" by fastforce
  note rep = InstallModuleFile_reports[OF f]
  show ?case
  proof (cases "r1 = 0")
    case False
    with f Cons.prems rep show ?thesis by (intro exI[of _ 0]) auto
  next
    case True
    define m2 where "m2 = (if cb then m1\<lparr>mm_reports := mm_reports m1 @
        [(UPDATE_STATE_ONGOING, int (float_percent i n), [])]\<rparr> else m1)"
    from f True Cons.prems have "install_files X h cb n (i + 1) fs m2 = (r, m')"
      by (simp add: m2_def)
    from Cons.IH[OF this] obtain k where "k \<le> length fs" "r = 0 \<longrightarrow> k = length fs"
      "mm_reports m' = mm_reports m2 @
         (if cb then map (\<lambda>j. (UPDATE_STATE_ONGOING, int (float_percent j n), [])) [i + 1..<i + 1 + k] else [])"
      by auto
    with rep show ?thesis
      by (intro exI[of _ "Suc k"]) (auto simp: m2_def upt_conv_Cons simp del: upt_Suc)
  qed
qed (simp add: exI[of _ 0])

lemma PrepareResourceForReboot_reports:
  "PrepareResourceForReboot X h m = (r, m') \<Longrightarrow> mm_reports m' = mm_reports m"
  by (auto simp: PrepareResourceForReboot_def split: option.splits prod.splits bool.splits if_splits)

lemma CheckHmpName_reports: "CheckHmpName X h m = (r, m') \<Longrightarrow> mm_reports m' = mm_reports m"
  by (auto simp: CheckHmpName_def split: if_splits prod.splits)

lemma ReallyInstall_reports:
  assumes "ReallyInstallModulePackage X p cb m = (r, m')"
  shows "\<exists>n k. k \<le> n \<and> (r = 0 \<longrightarrow> k = n) \<and> mm_reports m' = mm_reports m @
    (if cb then map (\<lambda>j. (UPDATE_STATE_ONGOING, int (float_percent j n), [])) [1..<1 + k] else [])"
proof -
  let ?h = "GetFileName p"
  obtain r1 m1 where c: "CheckHmpName X ?h m = (r1, m1)" by fastforce
  note rc = CheckHmpName_reports[OF c]
  obtain ok w2 where pr: "PrepareFileToDestDir X p (install_path ?h @ ''/'') (mm_w m1) = (ok, w2)" by fastforce
  show ?thesis
  proof (cases "r1 = 0 \<and> ok")
    case False
    with c pr assms rc show ?thesis
      by (intro exI[of _ 1] exI[of _ 0]) (auto simp: ReallyInstallModulePackage_def Let_def split: if_splits)
  next
    case True
    let ?files = "x_GetDirFiles X (w_fs w2) (install_path ?h)"
    obtain r3 m3 where i: "install_files X ?h cb (length ?files) 1 ?files (m1\<lparr>mm_w := w2\<rparr>) = (r3, m3)"
      by fastforce
    obtain r4 m4 where q: "PrepareResourceForReboot X ?h m3 = (r4, m4)" by fastforce
    from c pr True i q assms have "mm_reports m' = mm_reports m3" "r = 0 \<longrightarrow> r3 = 0"
      using PrepareResourceForReboot_reports[OF q]
      by (auto simp: ReallyInstallModulePackage_def Let_def split: if_splits)
    moreover obtain k where "k \<le> length ?files" "r3 = 0 \<longrightarrow> k = length ?files"
      "mm_reports m3 = mm_reports m1 @ (if cb
         then map (\<lambda>j. (UPDATE_STATE_ONGOING, int (float_percent j (length ?files)), [])) [1..<1 + k] else [])"
      using install_files_reports[OF i] by auto
    ultimately show ?thesis
      using rc by (intro exI[of _ "length ?files"] exI[of _ k]) (simp del: upt_Suc)
  qed
qed

section \<open>Properties\<close>



text \<open>C36. A client that starts an update with a callback hears exactly two reports, ongoing at 0 and a
  final one at 100 that says success exactly when the call returns 0; a package whose signature
  is not valid is never installed.\<close>

theorem StartUpdate_reports:
  assumes "StartUpdateHmpPackage X path True m = (ret, m')"
  shows "mm_reports m' = mm_reports m @ [(UPDATE_STATE_ONGOING, 0, []),
      (if ret = 0 then UPDATE_STATE_SUCCESSFUL else UPDATE_STATE_FAILED, 100, [])]
    \<and> (VerifyModulePackageSign X (mm_w m) path \<noteq> 0 \<longrightarrow>
         ret = 5 \<and> mm_w m' = Main_SaveInstallerResult X path 5 ''5'' (mm_w m))"
proof -
  define m1 where "m1 = m\<lparr>mm_reports := mm_reports m @ [(UPDATE_STATE_ONGOING, 0, [])]\<rparr>"
  obtain r m2 where i: "Service_InstallModulePackage X path m1 = (r, m2)" by fastforce
  have rep: "mm_reports m2 = mm_reports m1"
    using i ReallyInstall_reports[of X _ False m1 r m2]
    by (auto simp: Service_InstallModulePackage_def split: if_splits option.splits)
  have five: "string_of_int 5 = ''5''" by code_simp
  show ?thesis
    using assms i rep five
    by (simp add: StartUpdateHmpPackage_def m1_def[symmetric] Let_def split: if_splits)
      (auto simp: m1_def five)
qed

lemma StartUpdate_reports_witness:
  "\<exists>s. mm_reports (snd (StartUpdateHmpPackage sample0 ''/d/h1'' True (mmain0 data_world))) =
     [(UPDATE_STATE_ONGOING, 0, []), (s, 100, [])]"
proof -
  have m: "mm_reports (mmain0 data_world) = []" by (simp add: mmain0_def)
  show ?thesis
    using StartUpdate_reports[OF prod.collapse[symmetric], of sample0 "''/d/h1''" "mmain0 data_world"]
    unfolding m append_Nil by blast
qed

text \<open>Results are merged by substring: the result of a package whose path is contained in the path
  of an earlier one overwrites that one's, and its own entry is lost.\<close>

theorem GetHmpUpdateResult_confuses:
  assumes "read_file w MODULE_RESULT_PATH = Some c" and "x_SplitStr X c [CHR 0x0A] = [l1, l2]"
    and "x_SplitStr X l1 '';'' = [p1, s1, msg1]" and "x_SplitStr X l2 '';'' = [p2, s2, msg2]"
    and "x_ConvertToLong X s1 = Some r1" and "x_ConvertToLong X s2 = Some r2"
    and "contains_str p2 p1"
  shows "fst (GetHmpUpdateResult X w) = [\<lparr>hu_path = p1, hu_result = r2, hu_resultMsg = msg2\<rparr>]"
  using assms by (simp add: GetHmpUpdateResult_def)

lemma GetHmpUpdateResult_confuses_witness:
  "fst (GetHmpUpdateResult sample0 (world0 [(MODULE_RESULT_PATH,
       Reg 493 (''h12;0;ok'' @ [CHR 0x0A] @ ''h1;5;bad''))])) =
     [\<lparr>hu_path = ''h12'', hu_result = 5, hu_resultMsg = ''bad''\<rparr>]"
proof -
  let ?c = "''h12;0;ok'' @ [CHR 0x0A] @ ''h1;5;bad''"
  have r: "read_file (world0 [(MODULE_RESULT_PATH, Reg 493 ?c)]) MODULE_RESULT_PATH = Some ?c"
    by (simp add: read_file_def world0_def)
  show ?thesis
    by (rule GetHmpUpdateResult_confuses[OF r, of sample0 "''h12;0;ok''" "''h1;5;bad''" "''h12''" "''0''"
          "''ok''" "''h1''" "''5''" _ 0])
      (simp_all add: sample_defs dec_def contains_str_def)
qed

end
