(* ===== verification/Update_Queue.thy ===== *)
theory Update_Queue
  imports Installer_Prelude
begin

text \<open>
  module_update_queue.cpp: the bounded queue between the producer and the consumer of abnormal
  services, a ring buffer of 100 slots with a mutex and two condition variables. First the
  critical sections, one definition each; then \<open>Put\<close> and \<open>Pop\<close> as the small steps between
  which another thread may run; then the uncontended calls, where a wait is the value None.
\<close>

type_synonym item = "int \<times> string"

section \<open>The critical sections\<close>

definition MAX_SIZE :: int where
  "MAX_SIZE = 100"

record update_queue =
  q_isStop :: bool
  q_size :: int
  q_head :: int
  q_tail :: int
  q_queue :: "item list"

definition ModuleUpdateQueue :: update_queue where
  "ModuleUpdateQueue =
     \<lparr>q_isStop = False, q_size = 0, q_head = 0, q_tail = 0,
      q_queue = replicate (nat MAX_SIZE) (0, '''')\<rparr>"

definition Queue_Stop :: "update_queue \<Rightarrow> update_queue" where
  "Queue_Stop q = q\<lparr>q_isStop := True\<rparr>"

definition IsEmpty :: "update_queue \<Rightarrow> bool" where
  "IsEmpty q = (q_size q = 0)"

definition IsFull :: "update_queue \<Rightarrow> bool" where
  "IsFull q = (q_size q = MAX_SIZE)"

definition put_item :: "item \<Rightarrow> update_queue \<Rightarrow> update_queue" where
  "put_item saStatus q =
     q\<lparr>q_queue := (q_queue q)[nat (q_tail q) := saStatus],
       q_tail := (q_tail q + 1) mod MAX_SIZE,
       q_size := q_size q + 1\<rparr>"

text \<open>The popped slot is moved from: the pair stays with its number and an empty string.\<close>

definition pop_item :: "update_queue \<Rightarrow> item \<times> update_queue" where
  "pop_item q =
     (let saStatus = q_queue q ! nat (q_head q)
      in (saStatus,
          q\<lparr>q_queue := (q_queue q)[nat (q_head q) := (fst saStatus, '''')],
            q_head := (q_head q + 1) mod MAX_SIZE,
            q_size := q_size q - 1\<rparr>))"

section \<open>The calls as steps\<close>

text \<open>
  \<open>Put\<close> and \<open>Pop\<close> test the size in one critical section and act in the next; between the two
  the mutex is free. \<open>PutLock\<close>: the queue was seen full and the mutex is about to be taken
  again; \<open>PutWait\<close>: asleep on \<open>notFull_\<close>. A wait changes nothing until a notification moves
  the sleeper back to its test.
\<close>

datatype put_pc = PutTest | PutLock | PutWait | PutStore | PutDone

fun put_step :: "item \<Rightarrow> put_pc \<Rightarrow> update_queue \<Rightarrow> put_pc \<times> update_queue" where
  "put_step e PutTest q = (if IsFull q then PutLock else PutStore, q)"
| "put_step e PutLock q = (if q_isStop q then PutDone else PutWait, q)"
| "put_step e PutStore q = (PutDone, put_item e q)"
| "put_step e PutWait q = (PutWait, q)"
| "put_step e PutDone q = (PutDone, q)"

datatype pop_pc = PopTest | PopLock | PopWait | PopTake | PopDone item

fun pop_step :: "pop_pc \<Rightarrow> update_queue \<Rightarrow> pop_pc \<times> update_queue" where
  "pop_step PopTest q = (if IsEmpty q then PopLock else PopTake, q)"
| "pop_step PopLock q = (if q_isStop q then PopDone (0, '''') else PopWait, q)"
| "pop_step PopTake q = (case pop_item q of (e, q1) \<Rightarrow> (PopDone e, q1))"
| "pop_step PopWait q = (PopWait, q)"
| "pop_step (PopDone e) q = (PopDone e, q)"

definition wake_put :: "put_pc \<Rightarrow> put_pc" where
  "wake_put pc = (if pc = PutWait then PutTest else pc)"

definition wake_pop :: "pop_pc \<Rightarrow> pop_pc" where
  "wake_pop pc = (if pc = PopWait then PopTest else pc)"

section \<open>The uncontended calls\<close>

definition Put :: "item \<Rightarrow> update_queue \<Rightarrow> update_queue option" where
  "Put saStatus q =
     (if IsFull q then if q_isStop q then Some q else None else Some (put_item saStatus q))"

definition Pop :: "update_queue \<Rightarrow> (item \<times> update_queue) option" where
  "Pop q =
     (if IsEmpty q then if q_isStop q then Some ((0, ''''), q) else None else Some (pop_item q))"

text \<open>They are the steps run to their end without another thread in between.\<close>

fun put_run :: "nat \<Rightarrow> item \<Rightarrow> put_pc \<Rightarrow> update_queue \<Rightarrow> put_pc \<times> update_queue" where
  "put_run 0 e pc q = (pc, q)"
| "put_run (Suc n) e pc q = (case put_step e pc q of (pc1, q1) \<Rightarrow> put_run n e pc1 q1)"

fun pop_run :: "nat \<Rightarrow> pop_pc \<Rightarrow> update_queue \<Rightarrow> pop_pc \<times> update_queue" where
  "pop_run 0 pc q = (pc, q)"
| "pop_run (Suc n) pc q = (case pop_step pc q of (pc1, q1) \<Rightarrow> pop_run n pc1 q1)"

lemma Put_steps:
  "put_run 2 e PutTest q = (case Put e q of Some q1 \<Rightarrow> (PutDone, q1) | None \<Rightarrow> (PutWait, q))"
  by (simp add: eval_nat_numeral Put_def)

lemma Pop_steps:
  "pop_run 2 PopTest q = (case Pop q of Some (e, q1) \<Rightarrow> (PopDone e, q1) | None \<Rightarrow> (PopWait, q))"
  by (simp add: eval_nat_numeral Pop_def split: prod.splits)

section \<open>The ring buffer is a bounded list\<close>

definition queue_ok :: "update_queue \<Rightarrow> bool" where
  "queue_ok q =
     (length (q_queue q) = 100 \<and> 0 \<le> q_size q \<and> q_size q \<le> 100
      \<and> 0 \<le> q_head q \<and> q_head q < 100 \<and> q_tail q = (q_head q + q_size q) mod 100)"

definition contents :: "update_queue \<Rightarrow> item list" where
  "contents q = map (\<lambda>i. q_queue q ! ((nat (q_head q) + i) mod 100)) [0..<nat (q_size q)]"

lemma length_contents: "queue_ok q \<Longrightarrow> int (length (contents q)) = q_size q"
  by (simp add: contents_def queue_ok_def)

lemma ModuleUpdateQueue_ok: "queue_ok ModuleUpdateQueue"
  and ModuleUpdateQueue_contents [simp]: "contents ModuleUpdateQueue = []"
  by (simp_all add: queue_ok_def contents_def ModuleUpdateQueue_def MAX_SIZE_def)

lemma IsFull_contents: "queue_ok q \<Longrightarrow> IsFull q \<longleftrightarrow> length (contents q) = 100"
  using length_contents [of q] by (auto simp: IsFull_def MAX_SIZE_def)

lemma IsEmpty_contents: "queue_ok q \<Longrightarrow> IsEmpty q \<longleftrightarrow> contents q = []"
  using length_contents [of q] by (auto simp: IsEmpty_def)

lemma queue_ok_stop [simp]: "queue_ok (Queue_Stop q) = queue_ok q"
  and contents_stop [simp]: "contents (Queue_Stop q) = contents q"
  and stop_stop [simp]: "q_isStop (Queue_Stop q)"
  by (simp_all add: queue_ok_def contents_def Queue_Stop_def)

lemma put_isStop [simp]: "q_isStop (put_item e q) = q_isStop q"
  by (simp add: put_item_def)

lemma pop_isStop [simp]: "q_isStop (snd (pop_item q)) = q_isStop q"
  by (simp add: pop_item_def Let_def)

lemma slot_inj:
  assumes "i < s" and "s < (100 :: nat)"
  shows "(h + i) mod 100 \<noteq> (h + s) mod 100"
proof
  assume "(h + i) mod 100 = (h + s) mod 100"
  then have "(h + s) mod 100 = (h + i) mod 100" by simp
  then have "100 dvd (h + s) - (h + i)"
    using assms(1) by (subst (asm) mod_eq_dvd_iff_nat) simp_all
  then show False using assms nat_dvd_not_less [of "s - i" 100] by simp
qed

lemma put_ok:
  assumes "queue_ok q" and "length (contents q) < 100"
  shows "queue_ok (put_item e q)" and "contents (put_item e q) = contents q @ [e]"
proof -
  obtain h s where h: "q_head q = int h" "h < 100" and s: "q_size q = int s" "s < 100"
  proof (rule that [of "nat (q_head q)" "nat (q_size q)"])
    show "nat (q_size q) < 100" using assms length_contents [of q] by linarith
  qed (use assms(1) in \<open>auto simp: queue_ok_def\<close>)
  have t: "q_tail q = int ((h + s) mod 100)" and l: "length (q_queue q) = 100"
    using assms(1) h s by (simp_all add: queue_ok_def zmod_int)
  show "queue_ok (put_item e q)"
    using h s t l by (simp add: queue_ok_def put_item_def MAX_SIZE_def zmod_int) presburger
  have ne: "(h + i) mod 100 \<noteq> (h + s) mod 100" if "i < s" for i
    using that s(2) by (rule slot_inj)
  have c: "contents q = map (\<lambda>i. q_queue q ! ((h + i) mod 100)) [0..<s]"
    by (simp add: contents_def h s)
  have n: "nat (int s + 1) = Suc s" by simp
  have c': "contents (put_item e q)
      = map (\<lambda>i. (q_queue q)[(h + s) mod 100 := e] ! ((h + i) mod 100)) [0..<Suc s]"
    by (simp add: contents_def put_item_def h s t n del: upt_Suc)
  show "contents (put_item e q) = contents q @ [e]"
    unfolding c c' using ne [THEN not_sym] l by (simp add: nth_list_update)
qed

lemma pop_ok:
  assumes "queue_ok q" and "contents q \<noteq> []"
  shows "queue_ok (snd (pop_item q))" and "contents q = fst (pop_item q) # contents (snd (pop_item q))"
proof -
  obtain h s where h: "q_head q = int h" "h < 100" and s: "q_size q = int (Suc s)" "s < 100"
  proof (rule that [of "nat (q_head q)" "nat (q_size q) - 1"])
    have "0 < q_size q" using assms length_contents [of q] by (cases "contents q") auto
    then show "q_size q = int (Suc (nat (q_size q) - 1))" by simp
    show "nat (q_size q) - 1 < 100" using assms(1) \<open>0 < q_size q\<close> by (auto simp: queue_ok_def)
  qed (use assms(1) in \<open>auto simp: queue_ok_def\<close>)
  have t: "q_tail q = int ((h + Suc s) mod 100)" and l: "length (q_queue q) = 100"
    using assms(1) h s by (simp_all add: queue_ok_def zmod_int ac_simps)
  show "queue_ok (snd (pop_item q))"
    using h s t l by (simp add: queue_ok_def pop_item_def Let_def MAX_SIZE_def zmod_int) presburger
  have ne: "(Suc h + i) mod 100 \<noteq> h" if "i < s" for i
    using that s(2) h(2) slot_inj [of 0 "Suc i" h] by simp
  have sh: "(Suc h mod 100 + i) mod 100 = (Suc h + i) mod 100" for i
    by (simp add: mod_simps)
  have nh: "nat ((int h + 1) mod 100) = Suc h mod 100"
    by (simp add: nat_mod_distrib nat_add_distrib)
  have n: "nat (1 + int s) = Suc s" and n': "nat (int s + 1) = Suc s" by simp_all
  have c: "contents q = q_queue q ! h # map (\<lambda>i. q_queue q ! ((Suc h + i) mod 100)) [0..<s]"
    using h(2) by (simp add: contents_def h(1) s(1) n n' upt_conv_Cons map_Suc_upt [symmetric] o_def
        del: upt_Suc)
  have c': "contents (snd (pop_item q))
      = map (\<lambda>i. (q_queue q)[h := (fst (q_queue q ! h), [])] ! ((Suc h + i) mod 100)) [0..<s]"
    by (simp add: contents_def pop_item_def Let_def h s MAX_SIZE_def nh mod_simps)
  have f: "fst (pop_item q) = q_queue q ! h" by (simp add: pop_item_def Let_def h)
  show "contents q = fst (pop_item q) # contents (snd (pop_item q))"
    unfolding c c' f using ne [THEN not_sym] l by (simp add: nth_list_update)
qed

section \<open>What a bounded queue promises\<close>

text \<open>
  A sequence of calls, and its outcome: what the \<open>Pop\<close>s return and the queue at the end, or
  None when a call waits. The specification runs the same calls on a list and a stop flag.
\<close>

datatype 'a queue_op = OpPut 'a | OpPop | OpStop

fun run_ops ::
  "('a \<Rightarrow> 'q \<Rightarrow> 'q option) \<Rightarrow> ('q \<Rightarrow> ('a \<times> 'q) option) \<Rightarrow> ('q \<Rightarrow> 'q) \<Rightarrow> 'a queue_op list \<Rightarrow> 'q
   \<Rightarrow> ('a list \<times> 'q) option"
where
  "run_ops put pop stop [] q = Some ([], q)"
| "run_ops put pop stop (OpPut e # ops) q =
     (case put e q of None \<Rightarrow> None | Some q1 \<Rightarrow> run_ops put pop stop ops q1)"
| "run_ops put pop stop (OpPop # ops) q =
     (case pop q of None \<Rightarrow> None
      | Some (e, q1) \<Rightarrow>
          (case run_ops put pop stop ops q1 of
             None \<Rightarrow> None | Some (out, q2) \<Rightarrow> Some (e # out, q2)))"
| "run_ops put pop stop (OpStop # ops) q = run_ops put pop stop ops (stop q)"

fun list_put :: "nat \<Rightarrow> 'a \<Rightarrow> 'a list \<times> bool \<Rightarrow> ('a list \<times> bool) option" where
  "list_put cap e (xs, stopped) =
     (if length xs = cap then if stopped then Some (xs, stopped) else None
      else Some (xs @ [e], stopped))"

fun list_pop :: "'a \<Rightarrow> 'a list \<times> bool \<Rightarrow> ('a \<times> 'a list \<times> bool) option" where
  "list_pop nothing ([], stopped) = (if stopped then Some (nothing, ([], stopped)) else None)"
| "list_pop nothing (x # xs, stopped) = Some (x, (xs, stopped))"

fun list_stop :: "'a list \<times> bool \<Rightarrow> 'a list \<times> bool" where
  "list_stop (xs, stopped) = (xs, True)"

locale bounded_queue =
  fixes view :: "'q \<Rightarrow> 'a list \<times> bool"
    and ok :: "'q \<Rightarrow> bool"
    and cap :: nat
    and nothing :: 'a
    and put :: "'a \<Rightarrow> 'q \<Rightarrow> 'q option"
    and pop :: "'q \<Rightarrow> ('a \<times> 'q) option"
    and stop :: "'q \<Rightarrow> 'q"
  assumes put_view: "ok q \<Longrightarrow> map_option view (put e q) = list_put cap e (view q)"
    and put_keeps: "ok q \<Longrightarrow> put e q = Some q1 \<Longrightarrow> ok q1"
    and pop_view: "ok q \<Longrightarrow> map_option (map_prod id view) (pop q) = list_pop nothing (view q)"
    and pop_keeps: "ok q \<Longrightarrow> pop q = Some (e, q1) \<Longrightarrow> ok q1"
    and stop_view: "ok q \<Longrightarrow> view (stop q) = list_stop (view q)"
    and stop_keeps: "ok q \<Longrightarrow> ok (stop q)"
begin

lemma run_view:
  "ok q \<Longrightarrow> map_option (map_prod id view) (run_ops put pop stop ops q)
     = run_ops (list_put cap) (list_pop nothing) list_stop ops (view q)"
proof (induction ops arbitrary: q)
  case (Cons op ops)
  show ?case
  proof (cases op)
    case (OpPut e)
    show ?thesis
      using put_view [OF Cons.prems, of e] Cons.IH [OF put_keeps [OF Cons.prems, of e]]
      by (cases "put e q") (auto simp: OpPut dest: sym)
  next
    case OpPop
    show ?thesis
    proof (cases "pop q")
      case None
      then show ?thesis using pop_view [OF Cons.prems] by (auto simp: OpPop dest: sym)
    next
      case (Some r)
      obtain e q1 where r: "r = (e, q1)" by (cases r)
      have "list_pop nothing (view q) = Some (e, view q1)"
        using pop_view [OF Cons.prems] Some r by simp
      then show ?thesis
        using Some r Cons.IH [OF pop_keeps [OF Cons.prems, of e q1]]
        by (cases "run_ops put pop stop ops q1") (auto simp: OpPop dest: sym)
    qed
  next
    case OpStop
    show ?thesis using Cons.IH [OF stop_keeps [OF Cons.prems]] stop_view [OF Cons.prems]
      by (simp add: OpStop)
  qed
qed simp

lemma run_keeps: "ok q \<Longrightarrow> run_ops put pop stop ops q = Some (out, q1) \<Longrightarrow> ok q1"
proof (induction ops arbitrary: q out)
  case (Cons op ops)
  then show ?case
    by (cases op)
      (auto split: option.splits prod.splits dest: put_keeps pop_keeps intro: stop_keeps)
qed simp

lemma drain_view:
  "ok q \<Longrightarrow> \<exists>q1. run_ops put pop stop (OpStop # replicate n OpPop) q
     = Some (take n (fst (view q) @ replicate n nothing), q1)"
proof -
  have spec: "\<exists>r. run_ops (list_put cap) (list_pop nothing) list_stop (replicate n OpPop) (xs, True)
      = Some (take n (xs @ replicate n nothing), r)" for xs n
  proof (induction n arbitrary: xs)
    case (Suc n)
    show ?case
    proof (cases xs)
      case Nil
      then show ?thesis using Suc.IH [of "[]"] by auto
    next
      case (Cons x ys)
      have "take n (ys @ nothing # replicate n nothing) = take n (ys @ replicate n nothing)"
        by (simp add: replicate_append_same [symmetric])
      then show ?thesis using Suc.IH [of ys] Cons by auto
    qed
  qed auto
  assume "ok q"
  from run_view [OF stop_keeps [OF this], of "replicate n OpPop"] spec [of n "fst (view q)"]
  show ?thesis
    by (cases "view q") (auto simp: stop_view [OF \<open>ok q\<close>])
qed

end

definition view :: "update_queue \<Rightarrow> item list \<times> bool" where
  "view q = (contents q, q_isStop q)"

interpretation ring: bounded_queue view queue_ok 100 "(0, [])" Put Pop Queue_Stop
proof
  fix q q1 :: update_queue and e :: item
  assume ok: "queue_ok q"
  have le: "length (contents q) \<le> 100"
    using ok length_contents [OF ok] by (simp add: queue_ok_def)
  show "map_option view (Put e q) = list_put 100 e (view q)"
    using ok le by (auto simp: Put_def view_def IsFull_contents put_ok)
  show "Put e q = Some q1 \<Longrightarrow> queue_ok q1"
    using ok le by (auto simp: Put_def IsFull_contents put_ok split: if_splits)
  show "map_option (map_prod id view) (Pop q) = list_pop (0, []) (view q)"
    using ok pop_ok [OF ok]
    using pop_isStop [of q]
    by (cases "contents q"; cases "pop_item q") (auto simp: Pop_def view_def IsEmpty_contents)
  show "Pop q = Some (e, q1) \<Longrightarrow> queue_ok q1"
    using ok pop_ok [OF ok] by (auto simp: Pop_def IsEmpty_contents split: if_splits)
  show "view (Queue_Stop q) = list_stop (view q)" and "queue_ok (Queue_Stop q)"
    using ok by (simp_all add: view_def)
qed

text \<open>C19. The ring buffer is a bounded first-in first-out queue: from the fresh queue every
  sequence of \<open>Put\<close>, \<open>Pop\<close> and \<open>Stop\<close> has the outcome of the same sequence on a list of at
  most 100 items, the wrap-around of both indices included: the same items are popped, the
  same content remains, and the sequence waits exactly when the list version does, on a full
  or an empty queue that is not stopped.\<close>

theorem Queue_refines_list:
  "map_option (map_prod id view) (run_ops Put Pop Queue_Stop ops ModuleUpdateQueue)
     = run_ops (list_put 100) (list_pop (0, [])) list_stop ops ([], False)"
  using ring.run_view [OF ModuleUpdateQueue_ok, of ops]
  by (simp add: view_def) (simp add: ModuleUpdateQueue_def)

text \<open>Stopping loses nothing that is in the queue: after any sequence of calls, \<open>Stop\<close>
  followed by n \<open>Pop\<close>s never waits and returns the items still queued, oldest first, and then
  the pair \<open>(0, "")\<close> that ends the consumer.\<close>

theorem Queue_drains_after_stop:
  assumes "run_ops Put Pop Queue_Stop ops ModuleUpdateQueue = Some (out, q)"
  shows "\<exists>q1. run_ops Put Pop Queue_Stop (OpStop # replicate n OpPop) q
           = Some (take n (contents q @ replicate n (0, [])), q1)"
  using ring.drain_view [OF ring.run_keeps [OF ModuleUpdateQueue_ok assms], of n]
  by (simp add: view_def)

theorem Queue_drains_after_stop_witness:
  "\<exists>out q. run_ops Put Pop Queue_Stop [OpPut (-1, ''m'')] ModuleUpdateQueue = Some (out, q)
     \<and> (\<exists>q1. run_ops Put Pop Queue_Stop (OpStop # replicate 2 OpPop) q
           = Some ([(-1, ''m''), (0, [])], q1))"
proof -
  let ?q = "put_item (-1, ''m'') ModuleUpdateQueue"
  have run: "run_ops Put Pop Queue_Stop [OpPut (-1, ''m'')] ModuleUpdateQueue = Some ([], ?q)"
    by (simp add: Put_def IsFull_def MAX_SIZE_def ModuleUpdateQueue_def)
  have "contents ?q = [(-1, ''m'')]"
    using put_ok(2) [OF ModuleUpdateQueue_ok] by simp
  then show ?thesis
    using run Queue_drains_after_stop [OF run, of 2] by (simp add: eval_nat_numeral)
qed

end
