(* ===== verification/Update_Revert.thy ===== *)
theory Update_Revert
  imports Module_Service Update_Queue
begin

text \<open>
  module_update_producer.cpp, module_update_consumer.cpp, \<open>ModuleUpdateMain::Start\<close> and
  \<open>ModuleUpdateService::OnStart\<close>: after a bad boot a producer thread collects the abnormal
  services and bundles and a consumer thread decides whether the package is reverted. The
  two threads interleave at the critical sections of the queue and at every access to the
  exit flag. The parameters read are those other processes published before the start.
\<close>

section \<open>The producer\<close>

text \<open>What a pass of the producer does, in order: a parameter set or an item handed over.\<close>

datatype action = ActSet string string | ActPut item

text \<open>\<open>AddAbnormalSa\<close>, one entry of \<open>saIdHmpMap_\<close> at a time.\<close>

fun AddAbnormalSa :: "('j, 'h) ext \<Rightarrow> (int \<times> string) list \<Rightarrow> action list" where
  "AddAbnormalSa X [] = []"
| "AddAbnormalSa X ((saId, hmpName) # its) =
     (let attr = SA_START_PREFIX @ ''.'' @ string_of_int saId
      in case x_GetParameter X attr of
        (ret, saStatus) \<Rightarrow>
          if ret < 0 then AddAbnormalSa X its
          else if saStatus \<in> set [UNLOAD, LOAD_FAIL, CRASH] then
            (case x_GetParameter X BOOT_COMPLETE_PARAM of
               (bootVal, bootValue) \<Rightarrow>
                 if bootVal < 0 then AddAbnormalSa X its
                 else (if bootValue \<noteq> BOOT_SUCCESS_VALUE \<and> (saStatus = LOAD_FAIL \<or> saStatus = CRASH)
                       then [ActPut (saId, saStatus)] else [])
                      @ ActSet attr [] # AddAbnormalSa X its)
          else AddAbnormalSa X its)"

fun AddAbnormalApp :: "('j, 'h) ext \<Rightarrow> string list \<Rightarrow> action list" where
  "AddAbnormalApp X [] = []"
| "AddAbnormalApp X (moduleName # names) =
     (let attr = BMS_RESULT_PREFIX @ ''.'' @ moduleName;
          resLength = length BMS_INSTALL_FAIL
      in case x_GetParameter X attr of
        (ret, appInstallRes) \<Rightarrow>
          if ret < 0 then AddAbnormalApp X names
          else if take resLength appInstallRes \<noteq> BMS_INSTALL_FAIL then AddAbnormalApp X names
          else ActPut (APP_SERIAL_NUMBER, moduleName) # AddAbnormalApp X names)"

text \<open>The body of the producer's loop up to the clearing of its two buffers.\<close>

definition producer_pass :: "('j, 'h) ext \<Rightarrow> mmain \<Rightarrow> string \<Rightarrow> string \<Rightarrow> action list" where
  "producer_pass X m saValue appValue =
     [ActSet SA_START SA_NORMAL, ActSet BMS_START_INSTALL NOTIFY_BMS_REVERT]
     @ (if saValue = SA_ABNORMAL then AddAbnormalSa X (mm_saIdHmpMap m) else [])
     @ (if appValue = BMS_REVERT then AddAbnormalApp X (mm_moduleSet m) else [])"

section \<open>The consumer\<close>

definition DoRevert :: "('j, 'h) ext \<Rightarrow> ModuleErrorCode \<Rightarrow> world \<Rightarrow> world" where
  "DoRevert X c w =
     (let revertHmpName = GetCurrentHmpName X w
      in if revertHmpName = [] then w
         else let w1 = Main_SaveInstallerResult X revertHmpName (code c) ''revert'' w;
                  w2 = snd (NotifyBmsRevert X revertHmpName False w1)
              in Revert X revertHmpName True w2)"

text \<open>What the consumer does with one item: its flag and its error code.\<close>

definition consume ::
  "('j, 'h) ext \<Rightarrow> (int \<times> string) list \<Rightarrow> item \<Rightarrow> bool \<times> ModuleErrorCode \<Rightarrow> bool \<times> ModuleErrorCode"
where
  "consume X saIdHmpMap saStatusPair st =
     (case st of (revertFlag, c) \<Rightarrow>
        if fst saStatusPair = APP_SERIAL_NUMBER then (True, c)
        else let saId = fst saStatusPair; saStatus = snd saStatusPair
        in case map_of saIdHmpMap saId of
             None \<Rightarrow> (revertFlag, c)
           | Some hmpName \<Rightarrow>
               if hmpName = [] then (revertFlag, c)
               else if saStatus = LOAD_FAIL \<or> saStatus = CRASH then (True, ERR_SAMGR_REVERT)
               else if IsHotSa X saId \<and> saStatus = UNLOAD then (revertFlag, c)
               else (revertFlag, c))"

section \<open>The two threads\<close>

datatype producer_pc =
    ReadSa | ReadApp string
  | LoopHead string string
  | Acting "action list"
  | Putting item put_pc "action list"
  | ProducerDone

datatype consumer_pc =
    ConsHead | ConsEmpty | ConsStop | Popping pop_pc | ConsLeave | ConsumerDone

record threads =
  t_q :: update_queue
  t_m :: mmain
  t_prod :: producer_pc
  t_cons :: consumer_pc
  t_state :: "bool \<times> ModuleErrorCode"

definition thread_start :: "mmain \<Rightarrow> threads" where
  "thread_start m =
     \<lparr>t_q = ModuleUpdateQueue, t_m = m, t_prod = ReadSa, t_cons = ConsHead,
      t_state = (False, ERR_BMS_REVERT)\<rparr>"

definition set_param_m :: "('j, 'h) ext \<Rightarrow> string \<Rightarrow> string \<Rightarrow> mmain \<Rightarrow> mmain" where
  "set_param_m X k v m = m\<lparr>mm_w := snd (set_parameter X k v (mm_w m))\<rparr>"

definition wake_consumer :: "consumer_pc \<Rightarrow> consumer_pc" where
  "wake_consumer pc = (case pc of Popping p \<Rightarrow> Popping (wake_pop p) | _ \<Rightarrow> pc)"

definition wake_producer :: "producer_pc \<Rightarrow> producer_pc" where
  "wake_producer pc = (case pc of Putting e p acts \<Rightarrow> Putting e (wake_put p) acts | _ \<Rightarrow> pc)"

text \<open>\<open>Stop\<close> wakes both threads.\<close>

definition stop_all :: "threads \<Rightarrow> threads" where
  "stop_all s = s\<lparr>t_q := Queue_Stop (t_q s), t_prod := wake_producer (t_prod s),
                  t_cons := wake_consumer (t_cons s)\<rparr>"

text \<open>One step of \<open>ModuleUpdateProducer::Run\<close>.\<close>

fun producer_step :: "('j, 'h) ext \<Rightarrow> threads \<Rightarrow> threads option" where
  "producer_step X s =
     (case t_prod s of
        ReadSa \<Rightarrow>
          (case x_GetParameter X SA_START of
             (ret, saValue) \<Rightarrow>
               Some (s\<lparr>t_prod := (if ret < 0 then ProducerDone else ReadApp saValue)\<rparr>))
      | ReadApp saValue \<Rightarrow>
          (case x_GetParameter X BMS_START_INSTALL of
             (ret, appValue) \<Rightarrow>
               Some (s\<lparr>t_prod := (if ret < 0 then ProducerDone else LoopHead saValue appValue)\<rparr>))
      | LoopHead saValue appValue \<Rightarrow>
          if mm_exit (t_m s) then Some ((stop_all s)\<lparr>t_prod := ProducerDone\<rparr>)
          else Some (s\<lparr>t_prod := Acting (producer_pass X (t_m s) saValue appValue)\<rparr>)
      | Acting [] \<Rightarrow>
          Some (s\<lparr>t_m := (t_m s)\<lparr>mm_exit := True\<rparr>, t_prod := LoopHead [] []\<rparr>)
      | Acting (ActSet k v # acts) \<Rightarrow>
          Some (s\<lparr>t_m := set_param_m X k v (t_m s), t_prod := Acting acts\<rparr>)
      | Acting (ActPut e # acts) \<Rightarrow> Some (s\<lparr>t_prod := Putting e PutTest acts\<rparr>)
      | Putting e PutWait acts \<Rightarrow> None
      | Putting e PutDone acts \<Rightarrow> Some (s\<lparr>t_prod := Acting acts\<rparr>)
      | Putting e pc acts \<Rightarrow>
          (case put_step e pc (t_q s) of
             (pc1, q1) \<Rightarrow>
               Some (s\<lparr>t_q := q1, t_prod := Putting e pc1 acts,
                       t_cons := (if pc = PutStore then wake_consumer (t_cons s) else t_cons s)\<rparr>))
      | ProducerDone \<Rightarrow> None)"

text \<open>One step of \<open>ModuleUpdateConsumer::Run\<close>.\<close>

fun consumer_step :: "('j, 'h) ext \<Rightarrow> threads \<Rightarrow> threads option" where
  "consumer_step X s =
     (case t_cons s of
        ConsHead \<Rightarrow> Some (s\<lparr>t_cons := (if mm_exit (t_m s) then ConsEmpty else Popping PopTest)\<rparr>)
      | ConsEmpty \<Rightarrow> Some (s\<lparr>t_cons := (if IsEmpty (t_q s) then ConsStop else Popping PopTest)\<rparr>)
      | ConsStop \<Rightarrow> Some ((stop_all s)\<lparr>t_cons := ConsLeave\<rparr>)
      | Popping PopWait \<Rightarrow> None
      | Popping (PopDone e) \<Rightarrow>
          if e = (0, '''') then Some (s\<lparr>t_cons := ConsLeave\<rparr>)
          else Some (s\<lparr>t_state := consume X (mm_saIdHmpMap (t_m s)) e (t_state s),
                       t_cons := ConsHead\<rparr>)
      | Popping pc \<Rightarrow>
          (case pop_step pc (t_q s) of
             (pc1, q1) \<Rightarrow>
               Some (s\<lparr>t_q := q1, t_cons := Popping pc1,
                       t_prod := (if pc = PopTake then wake_producer (t_prod s) else t_prod s)\<rparr>))
      | ConsLeave \<Rightarrow>
          Some (s\<lparr>t_m := (if fst (t_state s)
                           then (t_m s)\<lparr>mm_w := DoRevert X (snd (t_state s)) (mm_w (t_m s))\<rparr>
                           else t_m s),
                  t_cons := ConsumerDone\<rparr>)
      | ConsumerDone \<Rightarrow> None)"

text \<open>
  The runs of \<open>Start\<close>. A sleeper may also wake without a notification, and
  \<open>ExitModuleUpdate\<close> of another thread (a client's call, \<open>OnStop\<close>) may set the exit flag at
  any time; the properties say which of the two they admit.
\<close>

inductive step :: "('j, 'h) ext \<Rightarrow> threads \<Rightarrow> threads \<Rightarrow> bool" for X where
  producer: "producer_step X s = Some s' \<Longrightarrow> step X s s'"
| consumer: "consumer_step X s = Some s' \<Longrightarrow> step X s s'"

inductive spurious :: "threads \<Rightarrow> threads \<Rightarrow> bool" where
  "spurious s (s\<lparr>t_prod := wake_producer (t_prod s)\<rparr>)"
| "spurious s (s\<lparr>t_cons := wake_consumer (t_cons s)\<rparr>)"

inductive external_exit :: "threads \<Rightarrow> threads \<Rightarrow> bool" where
  "external_exit s (s\<lparr>t_m := Main_ExitModuleUpdate (t_m s)\<rparr>)"

definition started :: "('j, 'h) ext \<Rightarrow> mmain \<Rightarrow> threads \<Rightarrow> bool" where
  "started X m s = (sup (step X) spurious)\<^sup>*\<^sup>* (thread_start m) s"

definition finished :: "threads \<Rightarrow> bool" where
  "finished s = (t_prod s = ProducerDone \<and> t_cons s = ConsumerDone)"

section \<open>The invariant of the two threads\<close>

definition readable :: "('j, 'h) ext \<Rightarrow> bool" where
  "readable X = (0 \<le> fst (x_GetParameter X SA_START) \<and> 0 \<le> fst (x_GetParameter X BMS_START_INSTALL))"

definition full_pass :: "('j, 'h) ext \<Rightarrow> mmain \<Rightarrow> action list" where
  "full_pass X m =
     producer_pass X m (snd (x_GetParameter X SA_START)) (snd (x_GetParameter X BMS_START_INSTALL))"

fun puts :: "action list \<Rightarrow> item list" where
  "puts [] = []"
| "puts (ActPut e # acts) = e # puts acts"
| "puts (ActSet k v # acts) = puts acts"

fun sets :: "('j, 'h) ext \<Rightarrow> action list \<Rightarrow> world \<Rightarrow> world" where
  "sets X [] w = w"
| "sets X (ActPut e # acts) w = sets X acts w"
| "sets X (ActSet k v # acts) w = sets X acts (snd (set_parameter X k v w))"

lemma puts_append [simp]: "puts (xs @ ys) = puts xs @ puts ys"
  by (induction xs rule: puts.induct) simp_all

lemma sets_append [simp]: "sets X (xs @ ys) w = sets X ys (sets X xs w)"
  by (induction X xs w rule: sets.induct) simp_all

definition judge :: "('j, 'h) ext \<Rightarrow> mmain \<Rightarrow> item list \<Rightarrow> bool \<times> ModuleErrorCode" where
  "judge X m got = fold (consume X (mm_saIdHmpMap m)) got (False, ERR_BMS_REVERT)"

definition settle :: "('j, 'h) ext \<Rightarrow> bool \<times> ModuleErrorCode \<Rightarrow> world \<Rightarrow> world" where
  "settle X st w = (if fst st then DoRevert X (snd st) w else w)"

lemma judge_snoc: "judge X m (got @ [e]) = consume X (mm_saIdHmpMap m) e (judge X m got)"
  by (simp add: judge_def)

fun pending :: "consumer_pc \<Rightarrow> item list" where
  "pending (Popping (PopDone e)) = (if e = (0, []) then [] else [e])"
| "pending _ = []"

fun leaving :: "consumer_pc \<Rightarrow> bool" where
  "leaving ConsEmpty = True"
| "leaving ConsStop = True"
| "leaving (Popping (PopDone e)) = (e = (0, []))"
| "leaving ConsLeave = True"
| "leaving ConsumerDone = True"
| "leaving _ = False"

fun producer_inv ::
  "('j, 'h) ext \<Rightarrow> mmain \<Rightarrow> action list \<Rightarrow> threads \<Rightarrow> producer_pc \<Rightarrow> bool"
where
  "producer_inv X m acted s ReadSa = (\<not> mm_exit (t_m s) \<and> acted = [])"
| "producer_inv X m acted s (ReadApp v) =
     (\<not> mm_exit (t_m s) \<and> acted = [] \<and> 0 \<le> fst (x_GetParameter X SA_START)
      \<and> v = snd (x_GetParameter X SA_START))"
| "producer_inv X m acted s (LoopHead v a) =
     (readable X \<and> (if mm_exit (t_m s) then acted = full_pass X m
      else acted = [] \<and> v = snd (x_GetParameter X SA_START) \<and> a = snd (x_GetParameter X BMS_START_INSTALL)))"
| "producer_inv X m acted s (Acting acts) =
     (readable X \<and> \<not> mm_exit (t_m s) \<and> full_pass X m = acted @ acts)"
| "producer_inv X m acted s (Putting e pc acts) =
     (readable X \<and> \<not> mm_exit (t_m s)
      \<and> full_pass X m = acted @ (if pc = PutDone then [] else [ActPut e]) @ acts
      \<and> (pc = PutStore \<longrightarrow> length (contents (t_q s)) < 100))"
| "producer_inv X m acted s ProducerDone =
     (if readable X then mm_exit (t_m s) \<and> acted = full_pass X m \<and> q_isStop (t_q s)
      else \<not> mm_exit (t_m s) \<and> acted = [])"

definition threads_inv :: "('j, 'h) ext \<Rightarrow> mmain \<Rightarrow> action list \<Rightarrow> item list \<Rightarrow> threads \<Rightarrow> bool" where
  "threads_inv X m acted got s =
     (queue_ok (t_q s)
      \<and> producer_inv X m acted s (t_prod s)
      \<and> (q_isStop (t_q s) \<longrightarrow> mm_exit (t_m s) \<and> t_cons s \<noteq> Popping PopWait)
      \<and> (leaving (t_cons s) \<longrightarrow> mm_exit (t_m s))
      \<and> (t_cons s = Popping PopTake \<longrightarrow> contents (t_q s) \<noteq> [])
      \<and> t_state s = judge X m got
      \<and> puts acted = got @ pending (t_cons s) @ contents (t_q s)
      \<and> t_m s = m\<lparr>mm_exit := mm_exit (t_m s),
                  mm_w := (if t_cons s = ConsumerDone then settle X (t_state s) else id)
                            (sets X acted (mm_w m))\<rparr>)"

lemma start_inv: "\<not> mm_exit m \<Longrightarrow> threads_inv X m [] [] (thread_start m)"
  by (simp add: threads_inv_def thread_start_def ModuleUpdateQueue_ok judge_def) (simp add: ModuleUpdateQueue_def)

lemma wake_consumer_simps [simp]:
  "pending (wake_consumer pc) = pending pc" "leaving (wake_consumer pc) = leaving pc"
  "wake_consumer pc = Popping PopTake \<longleftrightarrow> pc = Popping PopTake"
  "wake_consumer pc = ConsumerDone \<longleftrightarrow> pc = ConsumerDone"
  "wake_consumer pc \<noteq> Popping PopWait"
  by (cases pc rule: pending.cases; simp add: wake_consumer_def wake_pop_def)+

lemma pass_no_end: "(0, []) \<notin> set (puts (producer_pass X m v a))"
proof -
  have "(0, []) \<notin> set (puts (AddAbnormalSa X its))" for its
    by (induction X its rule: AddAbnormalSa.induct)
      (auto simp: Let_def LOAD_FAIL_def CRASH_def split: prod.splits)
  moreover have "(0, []) \<notin> set (puts (AddAbnormalApp X ns))" for ns
    by (induction X ns rule: AddAbnormalApp.induct)
      (auto simp: Let_def APP_SERIAL_NUMBER_def split: prod.splits)
  ultimately show ?thesis by (simp add: producer_pass_def)
qed

lemma pass_same: "producer_pass X (m\<lparr>mm_exit := b, mm_w := w\<rparr>) = producer_pass X m"
  by (simp add: producer_pass_def fun_eq_iff)

lemma producer_keeps:
  assumes inv: "threads_inv X m acted got s" and st: "producer_step X s = Some s'"
  shows "\<exists>acted'. threads_inv X m acted' got s'"
proof (cases "t_prod s")
  case ReadSa
  then show ?thesis using inv st
    by (intro exI [of _ acted]) (auto simp: threads_inv_def readable_def split: prod.splits if_splits)
next
  case (ReadApp v)
  then show ?thesis using inv st
    by (intro exI [of _ acted]) (auto simp: threads_inv_def readable_def split: prod.splits if_splits)
next
  case (LoopHead v a)
  have "producer_pass X (t_m s) = producer_pass X m"
    using inv by (metis threads_inv_def pass_same)
  then show ?thesis using inv st LoopHead
    by (intro exI [of _ acted])
      (auto simp: threads_inv_def full_pass_def stop_all_def split: if_splits)
next
  case (Acting acts)
  show ?thesis
  proof (cases acts)
    case Nil
    then show ?thesis using inv st Acting
      by (intro exI [of _ acted]) (cases s, auto simp: threads_inv_def)
  next
    case (Cons act acts')
    show ?thesis
    proof (cases act)
      case (ActSet k v)
      then show ?thesis using inv st Acting Cons
        by (intro exI [of _ "acted @ [ActSet k v]"])
          (auto simp: threads_inv_def set_param_m_def)
    next
      case (ActPut e)
      then show ?thesis using inv st Acting Cons
        by (intro exI [of _ acted]) (auto simp: threads_inv_def)
    qed
  qed
next
  case (Putting e pc acts)
  have le: "length (contents (t_q s)) \<le> 100"
    using inv length_contents [of "t_q s"] by (simp add: threads_inv_def queue_ok_def)
  show ?thesis
  proof (cases pc)
    case PutTest
    then show ?thesis using inv st Putting le
      by (intro exI [of _ acted]) (auto simp: threads_inv_def IsFull_contents)
  next
    case PutLock
    then show ?thesis using inv st Putting
      by (intro exI [of _ acted]) (auto simp: threads_inv_def)
  next
    case PutWait
    then show ?thesis using st Putting by simp
  next
    case PutStore
    then show ?thesis using inv st Putting put_ok [of "t_q s" e]
      by (intro exI [of _ "acted @ [ActPut e]"]) (auto simp: threads_inv_def)
  next
    case PutDone
    then show ?thesis using inv st Putting
      by (intro exI [of _ acted]) (auto simp: threads_inv_def)
  qed
next
  case ProducerDone
  then show ?thesis using st by simp
qed

lemma wake_producer_simps [simp]:
  "wake_producer pc = ReadSa \<longleftrightarrow> pc = ReadSa"
  "wake_producer pc = ProducerDone \<longleftrightarrow> pc = ProducerDone"
  by (cases pc; simp add: wake_producer_def)+

lemma producer_inv_wake [simp]:
  "producer_inv X m acted s (wake_producer pc) = producer_inv X m acted s pc"
  by (cases pc) (auto simp: wake_producer_def wake_put_def)

lemma producer_inv_cong:
  "mm_exit (t_m s') = mm_exit (t_m s) \<Longrightarrow> (q_isStop (t_q s) \<longrightarrow> q_isStop (t_q s'))
   \<Longrightarrow> length (contents (t_q s')) \<le> length (contents (t_q s))
   \<Longrightarrow> producer_inv X m acted s pc \<Longrightarrow> producer_inv X m acted s' pc"
  by (cases pc) (auto split: if_splits)

lemma consumer_keeps:
  assumes inv: "threads_inv X m acted got s" and st: "consumer_step X s = Some s'"
  shows "\<exists>got'. threads_inv X m acted got' s'"
proof -
  note pcong = producer_inv_cong [of s' s X m acted "t_prod s"]
  have map_same: "mm_saIdHmpMap (t_m s) = mm_saIdHmpMap m"
    using inv unfolding threads_inv_def by (metis mmain.select_convs(4) mmain.surjective mmain.update_convs(1,7))
  show ?thesis
  proof (cases "t_cons s")
    case ConsHead
    then show ?thesis using inv st pcong
      by (intro exI [of _ got]) (auto simp: threads_inv_def split: if_splits)
  next
    case ConsEmpty
    then show ?thesis using inv st pcong
      by (intro exI [of _ got]) (auto simp: threads_inv_def IsEmpty_contents split: if_splits)
  next
    case ConsStop
    then show ?thesis using inv st pcong
      by (intro exI [of _ got]) (auto simp: threads_inv_def stop_all_def)
  next
    case ConsLeave
    then show ?thesis using inv st pcong
      by (intro exI [of _ got]) (cases s, auto simp: threads_inv_def settle_def)
  next
    case ConsumerDone
    then show ?thesis using st by simp
  next
    case (Popping pc)
    show ?thesis
    proof (cases pc)
      case PopTest
      then show ?thesis using inv st pcong Popping
        by (intro exI [of _ got]) (auto simp: threads_inv_def IsEmpty_contents split: if_splits)
    next
      case PopLock
      then show ?thesis using inv st pcong Popping
        by (intro exI [of _ got]) (auto simp: threads_inv_def split: if_splits)
    next
      case PopWait
      then show ?thesis using st Popping by simp
    next
      case PopTake
      obtain e q1 where pop: "pop_item (t_q s) = (e, q1)" by (rule prod.exhaust)
      have "queue_ok q1" and c: "contents (t_q s) = e # contents q1" and "q_isStop q1 = q_isStop (t_q s)"
        using inv Popping PopTake pop pop_ok [of "t_q s"] pop_isStop [of "t_q s"]
        by (simp_all add: threads_inv_def)
      moreover have "e \<noteq> (0, [])"
      proof -
        have "e \<in> set (puts acted)" using inv c by (simp add: threads_inv_def)
        moreover have "set (puts acted) \<subseteq> set (puts (full_pass X m))"
          using inv by (cases "t_prod s") (auto simp: threads_inv_def split: if_splits)
        moreover have "(0, []) \<notin> set (puts (full_pass X m))"
          unfolding full_pass_def by (rule pass_no_end)
        ultimately show ?thesis by blast
      qed
      ultimately show ?thesis using inv st pcong Popping PopTake pop
        by (intro exI [of _ got]) (auto simp: threads_inv_def)
    next
      case (PopDone e)
      then show ?thesis
      proof (cases "e = (0, [])")
        case True
        then show ?thesis using inv st pcong Popping PopDone
          by (intro exI [of _ got]) (auto simp: threads_inv_def)
      next
        case False
        then show ?thesis using inv st pcong Popping PopDone
          by (intro exI [of _ "got @ [e]"]) (auto simp: threads_inv_def judge_snoc map_same)
      qed
    qed
  qed
qed

lemma spurious_keeps:
  assumes "threads_inv X m acted got s" and "spurious s s'"
  shows "threads_inv X m acted got s'"
  using assms(2,1) producer_inv_cong [of s' s X m acted "t_prod s"]
  by (cases rule: spurious.cases) (auto simp: threads_inv_def)

lemma started_inv:
  assumes "started X m s" and "\<not> mm_exit m"
  shows "\<exists>acted got. threads_inv X m acted got s"
  using assms(1) unfolding started_def
proof (induction rule: rtranclp_induct)
  case base
  then show ?case using start_inv [OF assms(2)] by blast
next
  case (step s s')
  then obtain acted got where inv: "threads_inv X m acted got s" by blast
  from step.hyps(2) consider "step X s s'" | "spurious s s'" by auto
  then show ?case
  proof cases
    case 1
    then show ?thesis
      using producer_keeps [OF inv] consumer_keeps [OF inv] by (blast elim: step.cases)
  next
    case 2
    then show ?thesis using spurious_keeps [OF inv] by blast
  qed
qed

section \<open>What a start comes to\<close>

lemma Start_result:
  assumes "started X m s" and "finished s" and "\<not> mm_exit m"
  shows "readable X \<and> (\<exists>got. got @ contents (t_q s) = puts (full_pass X m)
           \<and> mm_w (t_m s) = settle X (judge X m got) (sets X (full_pass X m) (mm_w m)))"
proof -
  obtain acted got where inv: "threads_inv X m acted got s"
    using started_inv [OF assms(1,3)] by blast
  have "readable X" and acted: "acted = full_pass X m"
    using inv assms(2) by (auto simp: threads_inv_def finished_def split: if_splits)
  have st: "t_state s = judge X m got" and puts: "puts acted = got @ contents (t_q s)"
    using inv assms(2) by (simp_all add: threads_inv_def finished_def)
  have "t_m s = m\<lparr>mm_exit := mm_exit (t_m s),
      mm_w := (if t_cons s = ConsumerDone then settle X (t_state s) else id) (sets X acted (mm_w m))\<rparr>"
    using inv unfolding threads_inv_def by blast
  from arg_cong [OF this, of mm_w] have "mm_w (t_m s) = settle X (judge X m got) (sets X acted (mm_w m))"
    using assms(2) st by (simp add: finished_def)
  then show ?thesis using \<open>readable X\<close> acted puts by auto
qed

text \<open>C9. A revert always has its cause, and only the schedule decides how much is looked at:
  when both threads are done, the producer has set every parameter of its pass, the consumer
  has judged a first part of the items handed over, in order, the rest is still in the queue,
  and the world is the one in which the verdict on that first part was carried out: the
  revert with its error code, or nothing.\<close>

theorem Start_outcome:
  assumes "started X m s" and "finished s" and "\<not> mm_exit m"
  shows "readable X \<and> (\<exists>got. got @ contents (t_q s) = puts (full_pass X m)
           \<and> mm_w (t_m s) = settle X (judge X m got) (sets X (full_pass X m) (mm_w m)))"
  using assms by (rule Start_result)

section \<open>Schedules\<close>

lemma producer_run:
  assumes "t_prod s = Acting (acts @ rest)" and "queue_ok (t_q s)"
    and "length (contents (t_q s)) + length (puts acts) \<le> 100"
    and "wake_consumer (t_cons s) = t_cons s"
  shows "\<exists>q. (step X)\<^sup>*\<^sup>* s (s\<lparr>t_q := q, t_prod := Acting rest,
                t_m := (t_m s)\<lparr>mm_w := sets X acts (mm_w (t_m s))\<rparr>\<rparr>)
           \<and> queue_ok q \<and> contents q = contents (t_q s) @ puts acts \<and> q_isStop q = q_isStop (t_q s)"
  using assms
proof (induction acts arbitrary: s)
  case Nil
  then have "s\<lparr>t_q := t_q s, t_prod := Acting rest, t_m := (t_m s)\<lparr>mm_w := mm_w (t_m s)\<rparr>\<rparr> = s"
    by (cases s) simp
  then show ?case using Nil(2)
    by (intro exI [of _ "t_q s"]) (simp only: sets.simps puts.simps append_Nil2 rtranclp.rtrancl_refl simp_thms)
next
  case (Cons act acts)
  show ?case
  proof (cases act)
    case (ActSet k v)
    let ?s = "s\<lparr>t_m := set_param_m X k v (t_m s), t_prod := Acting (acts @ rest)\<rparr>"
    have one: "step X s ?s"
      using Cons.prems(1) by (intro step.producer) (simp add: ActSet)
    from Cons.IH [of ?s] Cons.prems obtain q where
      "(step X)\<^sup>*\<^sup>* ?s (?s\<lparr>t_q := q, t_prod := Acting rest,
           t_m := (t_m ?s)\<lparr>mm_w := sets X acts (mm_w (t_m ?s))\<rparr>\<rparr>)"
      and "queue_ok q" "contents q = contents (t_q s) @ puts acts" "q_isStop q = q_isStop (t_q s)"
      by (auto simp: ActSet)
    then show ?thesis
      by (intro exI [of _ q] conjI rtranclp_trans [OF r_into_rtranclp [where r = "step X", OF one]])
        (simp_all add: ActSet set_param_m_def)
  next
    case (ActPut e)
    let ?q = "put_item e (t_q s)"
    let ?s1 = "s\<lparr>t_prod := Putting e PutTest (acts @ rest)\<rparr>"
    let ?s2 = "s\<lparr>t_prod := Putting e PutStore (acts @ rest)\<rparr>"
    let ?s3 = "s\<lparr>t_q := ?q, t_prod := Putting e PutDone (acts @ rest)\<rparr>"
    let ?s4 = "s\<lparr>t_q := ?q, t_prod := Acting (acts @ rest)\<rparr>"
    have room: "length (contents (t_q s)) < 100" using Cons.prems(3) by (simp add: ActPut)
    have "step X s ?s1" using Cons.prems(1) by (intro step.producer) (simp add: ActPut)
    moreover have "step X ?s1 ?s2"
      using room Cons.prems(2) by (intro step.producer) (simp add: IsFull_contents)
    moreover have "step X ?s2 ?s3"
      using Cons.prems(4) by (intro step.producer) simp
    moreover have "step X ?s3 ?s4" by (intro step.producer) simp
    ultimately have steps: "(step X)\<^sup>*\<^sup>* s ?s4"
      by (meson converse_rtranclp_into_rtranclp r_into_rtranclp)
    from Cons.IH [of ?s4] Cons.prems put_ok [OF Cons.prems(2) room, of e] obtain q where
      "(step X)\<^sup>*\<^sup>* ?s4 (?s4\<lparr>t_q := q, t_prod := Acting rest,
           t_m := (t_m s)\<lparr>mm_w := sets X acts (mm_w (t_m s))\<rparr>\<rparr>)"
      and "queue_ok q" "contents q = contents (t_q s) @ e # puts acts" "q_isStop q = q_isStop (t_q s)"
      by (auto simp: ActPut)
    then show ?thesis
      by (intro exI [of _ q] conjI rtranclp_trans [OF steps]) (simp_all add: ActPut)
  qed
qed

lemma consumer_run:
  assumes "t_cons s = ConsHead" and "\<not> mm_exit (t_m s)" and "queue_ok (t_q s)"
    and "(0, []) \<notin> set (contents (t_q s))" and "wake_producer (t_prod s) = t_prod s"
  shows "\<exists>q st. (step X)\<^sup>*\<^sup>* s (s\<lparr>t_q := q, t_state := st\<rparr>)
           \<and> queue_ok q \<and> contents q = [] \<and> q_isStop q = q_isStop (t_q s)"
  using assms
proof (induction "contents (t_q s)" arbitrary: s)
  case Nil
  have "s\<lparr>t_q := t_q s, t_state := t_state s\<rparr> = s" by (cases s) simp
  then show ?case using Nil by (intro exI [of _ "t_q s"] exI [of _ "t_state s"]) simp
next
  case (Cons e es)
  let ?q1 = "snd (pop_item (t_q s))"
  have "e # es = fst (pop_item (t_q s)) # contents ?q1" and "queue_ok ?q1"
    using pop_ok [of "t_q s"] Cons.hyps(2) Cons.prems(3) by (metis list.distinct(1))+
  then obtain q1 where pop: "pop_item (t_q s) = (e, q1)" and q1: "queue_ok q1" "contents q1 = es"
      "q_isStop q1 = q_isStop (t_q s)"
    using pop_isStop [of "t_q s"] by (metis list.inject prod.collapse)
  let ?st = "consume X (mm_saIdHmpMap (t_m s)) e (t_state s)"
  let ?s1 = "s\<lparr>t_cons := Popping PopTest\<rparr>"
  let ?s2 = "s\<lparr>t_cons := Popping PopTake\<rparr>"
  let ?s3 = "s\<lparr>t_q := q1, t_cons := Popping (PopDone e)\<rparr>"
  let ?s4 = "s\<lparr>t_q := q1, t_state := ?st\<rparr>"
  have "step X s ?s1" using Cons.prems by (intro step.consumer) simp
  moreover have "step X ?s1 ?s2"
    using Cons.prems Cons.hyps(2) by (intro step.consumer) (auto simp: IsEmpty_contents)
  moreover have "step X ?s2 ?s3"
    using Cons.prems pop by (intro step.consumer) simp
  moreover have "step X ?s3 ?s4"
    using Cons.prems Cons.hyps(2) [symmetric] by (intro step.consumer) (cases s, auto)
  ultimately have steps: "(step X)\<^sup>*\<^sup>* s ?s4"
    by (meson converse_rtranclp_into_rtranclp r_into_rtranclp)
  from Cons.hyps(1) [of ?s4] q1 Cons.prems Cons.hyps(2) [symmetric] obtain q st where
    "(step X)\<^sup>*\<^sup>* ?s4 (?s4\<lparr>t_q := q, t_state := st\<rparr>)" "queue_ok q" "contents q = []"
    "q_isStop q = q_isStop (t_q s)"
    by auto
  then show ?case
    by (intro exI [of _ q] exI [of _ st] conjI rtranclp_trans [OF steps]) simp_all
qed

lemma puts_split:
  "n < length (puts acts) \<Longrightarrow> \<exists>a e b. acts = a @ ActPut e # b \<and> length (puts a) = n"
proof (induction acts arbitrary: n)
  case (Cons act acts)
  show ?case
  proof (cases act)
    case (ActSet k v)
    then obtain a e b where "acts = a @ ActPut e # b" "length (puts a) = n"
      using Cons.IH [of n] Cons.prems by auto
    then show ?thesis by (intro exI [of _ "ActSet k v # a"]) (auto simp: ActSet)
  next
    case (ActPut e0)
    show ?thesis
    proof (cases n)
      case 0
      then show ?thesis by (intro exI [of _ "[]"]) (auto simp: ActPut)
    next
      case (Suc n')
      then obtain a e b where "acts = a @ ActPut e # b" "length (puts a) = n'"
        using Cons.IH [of n'] Cons.prems by (auto simp: ActPut)
      then show ?thesis by (intro exI [of _ "ActPut e0 # a"]) (auto simp: ActPut Suc)
    qed
  qed
qed simp

lemma producer_begins:
  assumes "readable X" and "\<not> mm_exit (t_m s)" and "t_prod s = ReadSa"
  shows "(step X)\<^sup>*\<^sup>* s (s\<lparr>t_prod := Acting (full_pass X (t_m s))\<rparr>)"
proof -
  let ?v = "snd (x_GetParameter X SA_START)" and ?a = "snd (x_GetParameter X BMS_START_INSTALL)"
  have "step X s (s\<lparr>t_prod := ReadApp ?v\<rparr>)"
    using assms by (intro step.producer) (auto simp: readable_def split: prod.splits)
  moreover have "step X (s\<lparr>t_prod := ReadApp ?v\<rparr>) (s\<lparr>t_prod := LoopHead ?v ?a\<rparr>)"
    using assms by (intro step.producer) (auto simp: readable_def split: prod.splits)
  moreover have "step X (s\<lparr>t_prod := LoopHead ?v ?a\<rparr>) (s\<lparr>t_prod := Acting (full_pass X (t_m s))\<rparr>)"
    using assms by (intro step.producer) (simp add: full_pass_def)
  ultimately show ?thesis
    by (meson converse_rtranclp_into_rtranclp r_into_rtranclp)
qed

lemma full_no_end: "(0, []) \<notin> set (puts (full_pass X m))"
  unfolding full_pass_def by (rule pass_no_end)

lemma ModuleUpdateQueue_running [simp]: "\<not> q_isStop ModuleUpdateQueue"
  and ModuleUpdateQueue_IsEmpty [simp]: "IsEmpty ModuleUpdateQueue"
  by (simp_all add: ModuleUpdateQueue_def IsEmpty_def)

lemma lost_run:
  assumes "readable X" and "\<not> mm_exit m" and "length (puts (full_pass X m)) \<le> 100"
  shows "\<exists>s. (step X)\<^sup>*\<^sup>* (thread_start m) s \<and> finished s
           \<and> contents (t_q s) = puts (full_pass X m)
           \<and> mm_w (t_m s) = sets X (full_pass X m) (mm_w m)"
proof -
  let ?s0 = "thread_start m"
  let ?s1 = "?s0\<lparr>t_cons := Popping PopTest\<rparr>"
  let ?s2 = "?s0\<lparr>t_cons := Popping PopLock\<rparr>"
  let ?s3 = "?s2\<lparr>t_prod := Acting (full_pass X m)\<rparr>"
  let ?m = "m\<lparr>mm_w := sets X (full_pass X m) (mm_w m)\<rparr>"
  have "step X ?s0 ?s1"
    using assms by (intro step.consumer) (simp add: thread_start_def)
  moreover have "step X ?s1 ?s2"
    by (intro step.consumer) (simp add: thread_start_def)
  moreover have "(step X)\<^sup>*\<^sup>* ?s2 ?s3"
    using producer_begins [of X ?s2] assms by (simp add: thread_start_def)
  ultimately have a: "(step X)\<^sup>*\<^sup>* ?s0 ?s3"
    by (meson converse_rtranclp_into_rtranclp)
  obtain q where b: "(step X)\<^sup>*\<^sup>* ?s3 (?s3\<lparr>t_q := q, t_prod := Acting [], t_m := ?m\<rparr>)"
    and q: "queue_ok q" "contents q = puts (full_pass X m)" "\<not> q_isStop q"
    using producer_run [of ?s3 "full_pass X m" "[]" X] assms ModuleUpdateQueue_ok
    by (auto simp: thread_start_def wake_consumer_def wake_pop_def)
  let ?m' = "?m\<lparr>mm_exit := True\<rparr>"
  let ?s4 = "?s3\<lparr>t_q := q, t_prod := Acting [], t_m := ?m\<rparr>"
  let ?s5 = "?s3\<lparr>t_q := q, t_prod := LoopHead [] [], t_m := ?m'\<rparr>"
  let ?s6 = "?s3\<lparr>t_q := Queue_Stop q, t_prod := ProducerDone, t_m := ?m'\<rparr>"
  let ?s7 = "?s6\<lparr>t_cons := Popping (PopDone (0, []))\<rparr>"
  let ?s8 = "?s6\<lparr>t_cons := ConsLeave\<rparr>"
  let ?s9 = "?s6\<lparr>t_cons := ConsumerDone\<rparr>"
  have "step X ?s4 ?s5" by (intro step.producer) simp
  moreover have "step X ?s5 ?s6"
    by (intro step.producer) (simp add: stop_all_def wake_consumer_def wake_pop_def)
  moreover have "step X ?s6 ?s7" by (intro step.consumer) simp
  moreover have "step X ?s7 ?s8" by (intro step.consumer) simp
  moreover have "step X ?s8 ?s9" by (intro step.consumer) (simp add: thread_start_def)
  ultimately have c: "(step X)\<^sup>*\<^sup>* ?s4 ?s9"
    by (meson converse_rtranclp_into_rtranclp r_into_rtranclp)
  have "(step X)\<^sup>*\<^sup>* ?s0 ?s9" using a b c by (meson rtranclp_trans)
  then show ?thesis
    by (intro exI [of _ ?s9]) (simp add: finished_def q)
qed

lemma deadlock_run:
  assumes "readable X" and "\<not> mm_exit m" and "100 < length (puts (full_pass X m))"
  shows "\<exists>s. (step X)\<^sup>*\<^sup>* (thread_start m) s \<and> \<not> finished s \<and> (\<forall>s'. \<not> step X s s')"
proof -
  let ?s0 = "thread_start m"
  obtain acts e rest where full: "full_pass X m = acts @ ActPut e # rest"
    and len: "length (puts acts) = 100"
    using puts_split [OF assms(3)] by blast
  let ?s1 = "?s0\<lparr>t_prod := Acting (acts @ ActPut e # rest)\<rparr>"
  have a: "(step X)\<^sup>*\<^sup>* ?s0 ?s1"
    using producer_begins [of X ?s0] assms full by (simp add: thread_start_def)
  let ?m = "m\<lparr>mm_w := sets X acts (mm_w m)\<rparr>"
  obtain q where b: "(step X)\<^sup>*\<^sup>* ?s1 (?s1\<lparr>t_q := q, t_prod := Acting (ActPut e # rest), t_m := ?m\<rparr>)"
    and q: "queue_ok q" "contents q = puts acts" "\<not> q_isStop q"
    using producer_run [of ?s1 acts "ActPut e # rest" X] len ModuleUpdateQueue_ok
    by (auto simp: thread_start_def wake_consumer_def)
  let ?s2 = "?s1\<lparr>t_q := q, t_prod := Acting (ActPut e # rest), t_m := ?m\<rparr>"
  let ?s3 = "?s1\<lparr>t_q := q, t_prod := Putting e PutTest rest, t_m := ?m\<rparr>"
  let ?s4 = "?s1\<lparr>t_q := q, t_prod := Putting e PutLock rest, t_m := ?m\<rparr>"
  have "step X ?s2 ?s3" by (intro step.producer) simp
  moreover have "step X ?s3 ?s4"
    using q len by (intro step.producer) (simp add: IsFull_contents)
  ultimately have c: "(step X)\<^sup>*\<^sup>* ?s2 ?s4"
    by (meson converse_rtranclp_into_rtranclp r_into_rtranclp)
  have "(0, []) \<notin> set (puts acts)"
    using full_no_end [of X m] full by simp
  then obtain q1 st where d: "(step X)\<^sup>*\<^sup>* ?s4 (?s4\<lparr>t_q := q1, t_state := st\<rparr>)"
    and q1: "queue_ok q1" "contents q1 = []" "\<not> q_isStop q1"
    using consumer_run [of ?s4 X] q assms(2)
    by (auto simp: thread_start_def wake_producer_def wake_put_def)
  let ?s5 = "?s4\<lparr>t_q := q1, t_state := st\<rparr>"
  let ?s6 = "?s5\<lparr>t_cons := Popping PopTest\<rparr>"
  let ?s7 = "?s5\<lparr>t_cons := Popping PopLock\<rparr>"
  let ?s8 = "?s7\<lparr>t_prod := Putting e PutWait rest\<rparr>"
  let ?s9 = "?s8\<lparr>t_cons := Popping PopWait\<rparr>"
  have "step X ?s5 ?s6" using assms(2) by (intro step.consumer) (simp add: thread_start_def)
  moreover have "step X ?s6 ?s7" using q1 by (intro step.consumer) (simp add: IsEmpty_contents)
  moreover have "step X ?s7 ?s8" using q1 by (intro step.producer) simp
  moreover have "step X ?s8 ?s9" using q1 by (intro step.consumer) simp
  ultimately have f: "(step X)\<^sup>*\<^sup>* ?s5 ?s9"
    by (meson converse_rtranclp_into_rtranclp r_into_rtranclp)
  have "(step X)\<^sup>*\<^sup>* ?s0 ?s9" using a b c d f by (meson rtranclp_trans)
  moreover have "\<not> finished ?s9" by (simp add: finished_def)
  moreover have "\<not> step X ?s9 s'" for s' by (auto elim!: step.cases)
  ultimately show ?thesis by blast
qed

definition exited_inv :: "mmain \<Rightarrow> threads \<Rightarrow> bool" where
  "exited_inv m s =
     (t_m s = m \<and> IsEmpty (t_q s)
      \<and> (case t_prod s of ReadSa \<Rightarrow> True | ReadApp v \<Rightarrow> True | LoopHead v a \<Rightarrow> True
         | ProducerDone \<Rightarrow> True | _ \<Rightarrow> False)
      \<and> \<not> fst (t_state s)
      \<and> t_cons s \<in> {ConsHead, ConsEmpty, ConsStop, Popping PopTest, Popping PopLock, Popping PopWait,
                    Popping (PopDone (0, [])), ConsLeave, ConsumerDone})"

lemma IsEmpty_stop [simp]: "IsEmpty (Queue_Stop q) = IsEmpty q"
  by (simp add: IsEmpty_def Queue_Stop_def)

lemma exited_step:
  assumes "exited_inv m s" and "mm_exit m" and "step X s s'"
  shows "exited_inv m s'"
  using assms(3,1,2)
proof (cases rule: step.cases)
  case producer
  from assms(1) consider "t_prod s = ReadSa" | v where "t_prod s = ReadApp v"
    | v a where "t_prod s = LoopHead v a" | "t_prod s = ProducerDone"
    by (cases "t_prod s") (simp_all add: exited_inv_def)
  then show ?thesis using producer assms(1,2)
    by cases (auto simp: exited_inv_def stop_all_def wake_consumer_def wake_pop_def
        split: prod.splits if_splits)
next
  case consumer
  have "t_cons s \<in> {ConsHead, ConsEmpty, ConsStop, Popping PopTest, Popping PopLock, Popping PopWait,
                    Popping (PopDone (0, [])), ConsLeave, ConsumerDone}"
    using assms(1) by (simp add: exited_inv_def)
  moreover have "case wake_producer pc of ReadSa \<Rightarrow> True | ReadApp v \<Rightarrow> True | LoopHead v a \<Rightarrow> True
         | ProducerDone \<Rightarrow> True | _ \<Rightarrow> False"
    if "case pc of ReadSa \<Rightarrow> True | ReadApp v \<Rightarrow> True | LoopHead v a \<Rightarrow> True
         | ProducerDone \<Rightarrow> True | _ \<Rightarrow> False" for pc
    using that by (cases pc) (simp_all add: wake_producer_def)
  ultimately show ?thesis using consumer assms(1,2)
    by (elim insertE) (auto simp: exited_inv_def stop_all_def split: if_splits)
qed

text \<open>C37. A revert can be lost to the schedule. Whatever the producer finds, if it is at most
  100 items there is a run without any interference in which both threads end, the reports of
  the services and bundles are cleared, and the consumer has looked at none of the items: it
  tests the queue before the first \<open>Put\<close> and takes the mutex after the last, when \<open>isStop_\<close>
  is set and \<open>Pop\<close> answers \<open>(0, "")\<close> without looking at the queue again.\<close>

theorem Start_can_lose_revert:
  assumes "readable X" and "\<not> mm_exit m" and "length (puts (full_pass X m)) \<le> 100"
  shows "\<exists>s. (step X)\<^sup>*\<^sup>* (thread_start m) s \<and> finished s
           \<and> contents (t_q s) = puts (full_pass X m)
           \<and> mm_w (t_m s) = sets X (full_pass X m) (mm_w m)"
  using assms by (rule lost_run)

text \<open>C38. Two threads can sleep for ever on one queue. When the producer finds more than 100
  items there is a run in which it sees the queue full, the consumer then empties the queue
  and sees it empty, and only then do both go to sleep: every notification came before the
  wait it was for, neither thread can move any more, and \<open>Start\<close> does not return.\<close>

theorem Start_can_deadlock:
  assumes "readable X" and "\<not> mm_exit m" and "100 < length (puts (full_pass X m))"
  shows "\<exists>s. (step X)\<^sup>*\<^sup>* (thread_start m) s \<and> \<not> finished s \<and> (\<forall>s'. \<not> step X s s')"
  using assms by (rule deadlock_run)

text \<open>When one of the two start parameters cannot be read the producer returns without
  stopping the queue, and the consumer waits for ever: no run, however the threads interleave
  and whatever wakes them, ends the consumer, and so \<open>Start\<close> never returns.\<close>

theorem Start_hangs_unreadable:
  assumes "started X m s" and "\<not> mm_exit m" and "\<not> readable X"
  shows "t_cons s \<noteq> ConsumerDone \<and> \<not> finished s"
proof -
  obtain acted got where inv: "threads_inv X m acted got s"
    using started_inv [OF assms(1,2)] by blast
  have "\<not> mm_exit (t_m s)"
    using inv assms(3) by (cases "t_prod s") (auto simp: threads_inv_def readable_def split: if_splits)
  then have "t_cons s \<noteq> ConsumerDone" using inv by (auto simp: threads_inv_def)
  then show ?thesis by (simp add: finished_def)
qed

lemma Start_exited:
  assumes "started X m s" and "mm_exit m"
  shows "t_m s = m \<and> IsEmpty (t_q s)"
proof -
  have "exited_inv m s"
    using assms(1) unfolding started_def
  proof (induction rule: rtranclp_induct)
    case base
    then show ?case by (simp add: exited_inv_def thread_start_def)
  next
    case (step s s')
    from step.hyps(2) consider "step X s s'" | "spurious s s'" by auto
    then show ?case
    proof cases
      case 1
      then show ?thesis by (rule exited_step [OF step.IH assms(2)])
    next
      case 2
      then show ?thesis using step.IH
        by (cases rule: spurious.cases)
          (auto simp: exited_inv_def wake_producer_def wake_consumer_def wake_pop_def
            split: producer_pc.splits)
    qed
  qed
  then show ?thesis by (simp add: exited_inv_def)
qed

text \<open>A start after the exit flag is set, which nothing resets, does nothing: in no run is a
  parameter cleared, an item handed over or a package reverted, whatever the parameters say.\<close>

theorem Start_after_exit_does_nothing:
  assumes "started X m s" and "mm_exit m"
  shows "t_m s = m \<and> IsEmpty (t_q s)"
  using assms by (rule Start_exited)

section \<open>Every run ends\<close>

text \<open>How far a run is from its end: what the producer still has to do, what is queued, and
  where the consumer stands. Every step of a thread lowers it, the notifications it sends
  included.\<close>

fun put_rank :: "put_pc \<Rightarrow> nat" where
  "put_rank PutTest = 23"
| "put_rank PutLock = 22"
| "put_rank PutStore = 22"
| "put_rank PutWait = 21"
| "put_rank PutDone = 1"

fun producer_rank :: "('j, 'h) ext \<Rightarrow> mmain \<Rightarrow> producer_pc \<Rightarrow> nat" where
  "producer_rank X m ReadSa = 30 * length (full_pass X m) + 9"
| "producer_rank X m (ReadApp v) =
     30 * length (producer_pass X m v (snd (x_GetParameter X BMS_START_INSTALL))) + 8"
| "producer_rank X m (LoopHead v a) =
     (if mm_exit m then 4 else 30 * length (producer_pass X m v a) + 7)"
| "producer_rank X m (Acting acts) = 30 * length acts + 6"
| "producer_rank X m (Putting e pc acts) = 30 * length acts + 6 + put_rank pc"
| "producer_rank X m ProducerDone = 0"

fun consumer_rank :: "consumer_pc \<Rightarrow> nat" where
  "consumer_rank ConsHead = 8"
| "consumer_rank ConsEmpty = 7"
| "consumer_rank (Popping PopTest) = 6"
| "consumer_rank (Popping PopLock) = 5"
| "consumer_rank (Popping PopTake) = 5"
| "consumer_rank (Popping PopWait) = 4"
| "consumer_rank (Popping (PopDone e)) = (if e = (0, []) then 3 else 9)"
| "consumer_rank ConsStop = 5"
| "consumer_rank ConsLeave = 2"
| "consumer_rank ConsumerDone = 1"

definition rank :: "('j, 'h) ext \<Rightarrow> threads \<Rightarrow> nat" where
  "rank X s = producer_rank X (t_m s) (t_prod s) + 10 * length (contents (t_q s)) + consumer_rank (t_cons s)"

lemma wake_producer_rank:
  "producer_rank X m (wake_producer pc) \<le> producer_rank X m pc + 2"
  by (cases pc) (auto simp: wake_producer_def wake_put_def)

lemma wake_consumer_rank: "consumer_rank (wake_consumer pc) \<le> consumer_rank pc + 2"
  by (cases pc) (auto simp: wake_consumer_def wake_pop_def)

lemma producer_rank_same:
  "producer_rank X (m\<lparr>mm_w := w\<rparr>) pc = producer_rank X m pc"
  by (cases pc) (simp_all add: producer_pass_def full_pass_def)

lemma producer_step_rank:
  assumes "threads_inv X m acted got s" and "producer_step X s = Some s'"
  shows "rank X s' < rank X s"
proof -
  note wc = wake_consumer_rank [of "t_cons s"]
  show ?thesis
  proof (cases "t_prod s")
    case (Acting acts)
    show ?thesis
    proof (cases acts)
      case Nil
      then show ?thesis using assms Acting by (auto simp: rank_def)
    next
      case (Cons act acts')
      then show ?thesis using assms Acting
        by (cases act) (auto simp: rank_def)
    qed
  next
    case (Putting e pc acts)
    have "pc = PutStore \<Longrightarrow> contents (put_item e (t_q s)) = contents (t_q s) @ [e]"
      using assms(1) Putting put_ok(2) [of "t_q s" e] by (simp add: threads_inv_def)
    then show ?thesis using assms(2) Putting wc
      by (cases pc) (auto simp: rank_def)
  qed (use assms(2) wc in \<open>auto simp: rank_def stop_all_def full_pass_def split: prod.splits if_splits\<close>)
qed

lemma consumer_step_rank:
  assumes "threads_inv X m acted got s" and "consumer_step X s = Some s'"
  shows "rank X s' < rank X s"
proof -
  note wp = wake_producer_rank [of X "t_m s" "t_prod s"]
  show ?thesis
  proof (cases "t_cons s")
    case (Popping pc)
    show ?thesis
    proof (cases pc)
      case PopTake
      then have "contents (t_q s) = fst (pop_item (t_q s)) # contents (snd (pop_item (t_q s)))"
        using assms(1) Popping pop_ok(2) [of "t_q s"] by (simp add: threads_inv_def)
      then have "length (contents (t_q s)) = Suc (length (contents (snd (pop_item (t_q s)))))"
        by (metis length_Cons)
      then show ?thesis using assms(2) Popping PopTake wp
        by (auto simp: rank_def split: prod.splits)
    qed (use assms(2) Popping in \<open>auto simp: rank_def split: if_splits\<close>)
  qed (use assms(2) wp in \<open>auto simp: rank_def stop_all_def producer_rank_same split: if_splits\<close>)
qed

definition never_full :: "threads \<Rightarrow> bool" where
  "never_full s = (case t_prod s of Putting e pc acts \<Rightarrow> pc \<notin> {PutLock, PutWait} | _ \<Rightarrow> True)"

lemma never_full_step:
  assumes "threads_inv X m acted got s" and "length (puts (full_pass X m)) \<le> 100"
    and "never_full s" and "step X s s'"
  shows "never_full s'"
  using assms(4)
proof (cases rule: step.cases)
  case consumer
  have "never_full s \<Longrightarrow> never_full (s\<lparr>t_prod := wake_producer (t_prod s)\<rparr>)"
    by (cases "t_prod s") (auto simp: never_full_def wake_producer_def wake_put_def)
  then have w: "never_full (s\<lparr>t_prod := wake_producer (t_prod s)\<rparr>)" using assms(3) .
  show ?thesis
  proof (cases "t_cons s")
    case (Popping pc)
    then show ?thesis using consumer assms(3) w
      by (cases pc) (auto simp: never_full_def split: prod.splits if_splits)
  qed (use consumer assms(3) w in \<open>auto simp: never_full_def stop_all_def\<close>)
next
  case producer
  show ?thesis
  proof (cases "t_prod s")
    case (Putting e pc acts)
    have "pc = PutTest \<Longrightarrow> \<not> IsFull (t_q s)"
    proof -
      assume "pc = PutTest"
      then have "length (contents (t_q s)) < length (puts (full_pass X m))"
        using assms(1) Putting
        by (auto simp: threads_inv_def)
      then show ?thesis using assms(1,2) by (simp add: threads_inv_def IsFull_contents)
    qed
    then show ?thesis using producer assms(3) Putting
      by (cases pc) (auto simp: never_full_def)
  next
    case (Acting acts)
    then show ?thesis using producer
      by (cases acts rule: puts.cases) (auto simp: never_full_def)
  qed (use producer in \<open>auto simp: never_full_def stop_all_def split: prod.splits if_splits\<close>)
qed

lemma step_or_finished:
  assumes "threads_inv X m acted got s" and "readable X" and "never_full s"
  shows "finished s \<or> (\<exists>s'. step X s s')"
proof (cases "t_prod s = ProducerDone")
  case True
  then have "t_cons s \<noteq> Popping PopWait" using assms by (auto simp: threads_inv_def)
  have "t_cons s = ConsumerDone \<or> (\<exists>s'. consumer_step X s = Some s')"
  proof (cases "t_cons s")
    case (Popping pc)
    then show ?thesis using \<open>t_cons s \<noteq> Popping PopWait\<close> by (cases pc) (auto split: prod.splits)
  qed auto
  then show ?thesis using True unfolding finished_def by (blast intro: step.consumer)
next
  case False
  have "\<exists>s'. producer_step X s = Some s'"
  proof (cases "t_prod s")
    case (Acting acts)
    then show ?thesis by (cases acts rule: puts.cases) auto
  next
    case (Putting e pc acts)
    then show ?thesis using assms(3) by (cases pc) (auto simp: never_full_def)
  qed (use False in \<open>auto split: prod.splits\<close>)
  then show ?thesis by (blast intro: step.producer)
qed

lemma run_inv:
  assumes "(step X)\<^sup>*\<^sup>* (thread_start m) s" and "\<not> mm_exit m"
    and "length (puts (full_pass X m)) \<le> 100"
  shows "(\<exists>acted got. threads_inv X m acted got s) \<and> never_full s"
  using assms(1)
proof (induction rule: rtranclp_induct)
  case base
  then show ?case using start_inv [OF assms(2)] by (auto simp: never_full_def thread_start_def)
next
  case (step s s')
  then obtain acted got where inv: "threads_inv X m acted got s" and nf: "never_full s" by blast
  have "\<exists>acted got. threads_inv X m acted got s'"
    using step.hyps(2) producer_keeps [OF inv] consumer_keeps [OF inv] by (blast elim: step.cases)
  then show ?case using never_full_step [OF inv assms(3) nf step.hyps(2)] by blast
qed

text \<open>C10. With readable parameters and at most 100 items \<open>Start\<close> returns under every schedule:
  each step of either thread lowers the rank of the run, as long as a thread is not done one
  of them can move, and so every run can be, and when continued must be, continued to the end
  of both threads.\<close>

theorem Start_returns:
  assumes "(step X)\<^sup>*\<^sup>* (thread_start m) s" and "readable X" and "\<not> mm_exit m"
    and "length (puts (full_pass X m)) \<le> 100"
  shows "(\<forall>s'. step X s s' \<longrightarrow> rank X s' < rank X s)
       \<and> (finished s \<or> (\<exists>s'. step X s s'))
       \<and> (\<exists>s'. (step X)\<^sup>*\<^sup>* s s' \<and> finished s')"
proof -
  have dec: "rank X s' < rank X s" if "(step X)\<^sup>*\<^sup>* (thread_start m) s" and "step X s s'" for s s'
    using run_inv [OF that(1) assms(3,4)] that(2)
    by (blast elim: step.cases intro: producer_step_rank consumer_step_rank)
  have go: "finished s \<or> (\<exists>s'. step X s s')" if "(step X)\<^sup>*\<^sup>* (thread_start m) s" for s
    using run_inv [OF that assms(3,4)] step_or_finished assms(2) by blast
  have "\<exists>s'. (step X)\<^sup>*\<^sup>* s s' \<and> finished s'" if "(step X)\<^sup>*\<^sup>* (thread_start m) s" for s
    using that
  proof (induction "rank X s" arbitrary: s rule: less_induct)
    case less
    show ?case
    proof (cases "finished s")
      case False
      then obtain s1 where "step X s s1" using go [OF less.prems] by blast
      moreover have "(step X)\<^sup>*\<^sup>* (thread_start m) s1" using less.prems \<open>step X s s1\<close> by (rule rtranclp.rtrancl_into_rtrancl)
      ultimately show ?thesis
        using less.hyps [of s1] dec [OF less.prems] converse_rtranclp_into_rtranclp by metis
    qed blast
  qed
  then show ?thesis using dec go assms(1) by blast
qed

section \<open>OnStart\<close>

text \<open>
  \<open>ModuleUpdateService::OnStart\<close>. The order in which \<open>Start\<close> schedules its two threads is
  open, so the handler is a relation between the state before and after; it has no result
  when \<open>Start\<close> does not return.
\<close>

definition abnormal_start :: "string \<Rightarrow> string \<Rightarrow> bool" where
  "abnormal_start name value =
     (name = SA_START \<and> value = SA_ABNORMAL \<or> name = BMS_START_INSTALL \<and> value = BMS_REVERT)"

definition reset_params :: "mmain \<Rightarrow> mmain" where
  "reset_params m =
     m\<lparr>mm_w := (mm_w m)\<lparr>w_setparams := w_setparams (mm_w m) @ [(SA_START, []), (BMS_START_INSTALL, [])]\<rparr>\<rparr>"

inductive OnStart :: "('j, 'h) ext \<Rightarrow> string \<Rightarrow> string \<Rightarrow> mmain \<Rightarrow> mmain \<Rightarrow> bool" for X where
  OnStart_other:
    "\<not> abnormal_start name value \<Longrightarrow> OnStart X name value m (ScanPreInstalledHmp X m)"
| OnStart_booted:
    "abnormal_start name value \<Longrightarrow> CheckBootComplete X \<Longrightarrow>
     OnStart X name value m (snd (Service_ExitModuleUpdate (reset_params (ScanPreInstalledHmp X m))))"
| OnStart_start:
    "abnormal_start name value \<Longrightarrow> \<not> CheckBootComplete X \<Longrightarrow>
     started X (ScanPreInstalledHmp X m) s \<Longrightarrow> finished s \<Longrightarrow>
     OnStart X name value m (snd (Service_ExitModuleUpdate (t_m s)))"

lemma scan_modules_keeps [simp]:
  "mm_w (scan_modules ms m) = mm_w m \<and> mm_exit (scan_modules ms m) = mm_exit m"
  by (induction ms m rule: scan_modules.induct) simp_all

lemma scan_files_keeps:
  "mm_w (scan_files X fs m) = mm_w m \<and> mm_exit (scan_files X fs m) = mm_exit m"
  by (induction X fs m rule: scan_files.induct) (simp_all add: Let_def split: option.splits)

lemma Scan_keeps [simp]:
  "mm_w (ScanPreInstalledHmp X m) = mm_w m" "mm_exit (ScanPreInstalledHmp X m) = mm_exit m"
  by (simp_all add: ScanPreInstalledHmp_def scan_files_keeps)

lemma sets_fs [simp]: "w_fs (sets X acts w) = w_fs w"
  by (induction X acts w rule: sets.induct) (simp_all add: set_parameter_def)

lemma exit_world [simp]: "mm_w (snd (Service_ExitModuleUpdate m)) = mm_w m"
  by (simp add: Service_ExitModuleUpdate_def Main_ExitModuleUpdate_def Main_Stop_def)


text \<open>C15. Starting the service leaves the file system alone, and so reverts nothing, unless
  everything speaks for a revert: samgr's or the bundle manager's abnormal flag started it, the
  boot is not complete, no exit was asked for before, and the producer finds an abnormal
  service or a bundle that failed to install.\<close>

theorem OnStart_leaves_files:
  assumes "OnStart X name value m m'"
    and "\<not> (name = SA_START \<and> value = SA_ABNORMAL \<or> name = BMS_START_INSTALL \<and> value = BMS_REVERT)
         \<or> CheckBootComplete X \<or> mm_exit m
         \<or> puts (full_pass X (ScanPreInstalledHmp X m)) = []"
  shows "w_fs (mm_w m') = w_fs (mm_w m)"
  using assms(1)
proof (cases rule: OnStart.cases)
  case (OnStart_start s)
  show ?thesis
  proof (cases "mm_exit m")
    case True
    then show ?thesis
      using Start_exited [OF OnStart_start(4)] OnStart_start(1) by simp
  next
    case False
    then obtain got where "got @ contents (t_q s) = puts (full_pass X (ScanPreInstalledHmp X m))"
      and "mm_w (t_m s) = settle X (judge X (ScanPreInstalledHmp X m) got)
             (sets X (full_pass X (ScanPreInstalledHmp X m)) (mm_w m))"
      using Start_result [OF OnStart_start(4,5)] by auto
    moreover have "got = []" using calculation(1) assms(2) [folded abnormal_start_def] OnStart_start(2,3) False
      by auto
    ultimately show ?thesis using OnStart_start(1) by (simp add: settle_def judge_def)
  qed
qed (simp_all add: reset_params_def)

section \<open>Sample starts\<close>

text \<open>The modules of the list are reported as not installed; no service is abnormal.\<close>

definition bad_ext :: "(json, archive) ext" where
  "bad_ext = sample0\<lparr>x_GetParameter :=
     (\<lambda>k. if k = BMS_START_INSTALL then (6, BMS_REVERT) else (5, BMS_INSTALL_FAIL))\<rparr>"

definition bad_main :: "string list \<Rightarrow> mmain" where
  "bad_main ns = (mmain0 data_world)\<lparr>mm_moduleSet := ns\<rparr>"

lemmas bad_defs = bad_ext_def bad_main_def mmain0_def sample_defs

lemma bad_pass:
  "puts (full_pass bad_ext (bad_main ns)) = map (Pair (-1)) ns" "readable bad_ext"
  "\<not> mm_exit (bad_main ns)"
proof -
  have "puts (AddAbnormalApp bad_ext ns) = map (Pair (-1)) ns" for ns
    by (induction ns)
      (simp_all add: bad_ext_def Let_def BMS_RESULT_PREFIX_def BMS_START_INSTALL_def BMS_INSTALL_FAIL_def
        APP_SERIAL_NUMBER_def)
  then show "puts (full_pass bad_ext (bad_main ns)) = map (Pair (-1)) ns"
    by (simp add: full_pass_def producer_pass_def bad_main_def)
      (simp add: bad_ext_def SA_ABNORMAL_def BMS_INSTALL_FAIL_def BMS_START_INSTALL_def SA_START_def BMS_REVERT_def)
qed (simp_all add: readable_def bad_ext_def bad_main_def mmain0_def)

lemma started_run: "(step X)\<^sup>*\<^sup>* (thread_start m) s \<Longrightarrow> started X m s"
  unfolding started_def by (erule rtranclp_mono [THEN predicate2D, rotated]) auto

theorem Start_outcome_witness:
  "\<exists>s. started bad_ext (bad_main [''m'']) s \<and> finished s
     \<and> (\<exists>got. got @ contents (t_q s) = [(-1, ''m'')])"
proof -
  obtain s where s: "(step bad_ext)\<^sup>*\<^sup>* (thread_start (bad_main [''m''])) s" "finished s"
    using lost_run [OF bad_pass(2,3), of "[''m'']"] bad_pass(1) [of "[''m'']"] by auto
  show ?thesis
    using Start_outcome [OF started_run [OF s(1)] s(2) bad_pass(3)] s started_run [OF s(1)] bad_pass(1) [of "[''m'']"]
    by auto
qed

theorem Start_can_lose_revert_witness:
  "\<exists>s. (step bad_ext)\<^sup>*\<^sup>* (thread_start (bad_main [''m''])) s \<and> finished s
     \<and> contents (t_q s) = [(-1, ''m'')] \<and> w_reboots (mm_w (t_m s)) = []"
proof -
  have r: "w_reboots (sets X acts w) = w_reboots w" for X :: "(json, archive) ext" and acts w
    by (induction X acts w rule: sets.induct) (simp_all add: set_parameter_def)
  have "w_reboots (mm_w (bad_main [''m''])) = []"
    by (simp add: bad_main_def mmain0_def data_world_def world0_def)
  then show ?thesis
    using Start_can_lose_revert [OF bad_pass(2,3), of "[''m'']"] bad_pass(1) [of "[''m'']"] by (auto simp: r)
qed

theorem Start_can_deadlock_witness:
  "\<exists>s. (step bad_ext)\<^sup>*\<^sup>* (thread_start (bad_main (map (\<lambda>i. replicate i CHR ''m'') [0..<101]))) s
     \<and> \<not> finished s \<and> (\<forall>s'. \<not> step bad_ext s s')"
  by (rule Start_can_deadlock [OF bad_pass(2,3)]) (simp add: bad_pass(1) del: upt_Suc)

theorem Start_hangs_unreadable_witness:
  "started (sample0\<lparr>x_GetParameter := \<lambda>k. (-1, [])\<rparr>) (bad_main []) (thread_start (bad_main []))
   \<and> t_cons (thread_start (bad_main [])) \<noteq> ConsumerDone"
proof -
  have s: "started X (bad_main []) (thread_start (bad_main []))" for X :: "(json, archive) ext"
    by (simp add: started_def)
  show ?thesis
    using s Start_hangs_unreadable [OF s bad_pass(3), of "sample0\<lparr>x_GetParameter := \<lambda>k. (-1, [])\<rparr>"]
    by (simp add: readable_def)
qed

theorem Start_after_exit_does_nothing_witness:
  "t_m (thread_start (Main_Stop (bad_main [''m'']))) = Main_Stop (bad_main [''m''])"
  using Start_after_exit_does_nothing [of bad_ext "Main_Stop (bad_main [''m''])"
      "thread_start (Main_Stop (bad_main [''m'']))"]
  by (simp add: started_def Main_Stop_def)

theorem Start_returns_witness:
  "\<exists>s'. (step bad_ext)\<^sup>*\<^sup>* (thread_start (bad_main [''m''])) s' \<and> finished s'"
  using Start_returns [of bad_ext "bad_main [''m'']" "thread_start (bad_main [''m''])"]
    bad_pass(1) [of "[''m'']"] bad_pass(2,3) by simp

theorem OnStart_leaves_files_witness:
  "\<exists>m'. OnStart (sample0\<lparr>x_GetParameter := \<lambda>k. (4, ''true'')\<rparr>) SA_START SA_ABNORMAL (bad_main []) m'
     \<and> w_fs (mm_w m') = w_fs (mm_w (bad_main []))"
proof -
  let ?X = "sample0\<lparr>x_GetParameter := \<lambda>k. (4, ''true'')\<rparr>"
  have b: "CheckBootComplete ?X" by (simp add: CheckBootComplete_def BOOT_SUCCESS_VALUE_def)
  have "OnStart ?X SA_START SA_ABNORMAL (bad_main [])
      (snd (Service_ExitModuleUpdate (reset_params (ScanPreInstalledHmp ?X (bad_main [])))))"
    by (rule OnStart_booted [OF _ b]) (simp add: abnormal_start_def)
  from OnStart_leaves_files [OF this] b this show ?thesis by blast
qed

end
