(* ===== verification/Module_Hvb.thy ===== *)
theory Module_Hvb
  imports Module_File
begin

text \<open>
  services/module_update/util: module_hvb_utils.cpp copies the certificate of an image and a new
  footer into the last 4 KiB of the module_update partition, module_hvb_ops.cpp reads images for
  the hvb library.

  The layout of \<open>struct hvb_footer\<close> is the hvb library's: \<open>Hl\<close> holds its size, its magic, the
  number of its reserved bytes and the bytes of a footer; \<open>hvb_contract\<close> says that these are as
  many as the size and can be read back. A block device is a descriptor with the answer of \<open>BLKGETSIZE64\<close>. Sizes and offsets are
  64-bit words; an \<open>off_t\<close> is read signed, and its arithmetic wraps.
\<close>

section \<open>The footer\<close>

record hvb_footer =
  ft_magic :: "u8 list"
  ft_cert_offset :: u64
  ft_cert_size :: u64
  ft_image_size :: u64
  ft_partition_size :: u64
  ft_reserved :: "u8 list"

record hvb_lib =
  hl_FOOTER_SIZE :: u64
  hl_FOOTER_MAGIC :: "u8 list"
  hl_reserved :: nat
  hl_encode :: "hvb_footer \<Rightarrow> u8 list"
  hl_decode :: "u8 list \<Rightarrow> hvb_footer"

definition footer_wf :: "hvb_lib \<Rightarrow> hvb_footer \<Rightarrow> bool" where
  "footer_wf Hl ft =
     (length (ft_magic ft) = length (hl_FOOTER_MAGIC Hl) \<and> length (ft_reserved ft) = hl_reserved Hl)"

definition hvb_contract :: "hvb_lib \<Rightarrow> bool" where
  "hvb_contract Hl =
     (0 < hl_FOOTER_SIZE Hl \<and> unat (hl_FOOTER_SIZE Hl) < 4096
      \<and> (\<forall>ft. footer_wf Hl ft \<longrightarrow> length (hl_encode Hl ft) = unat (hl_FOOTER_SIZE Hl)
                \<and> hl_decode Hl (hl_encode Hl ft) = ft))"

definition DEFAULT_MODULE_HVB_INFO_SIZE :: u64 where
  "DEFAULT_MODULE_HVB_INFO_SIZE = 4 * 1024"

record block_device =
  bd_fd :: fd
  bd_ioctl :: "u64 option"

definition GetBlockDeviceSize :: "block_device \<Rightarrow> u64" where
  "GetBlockDeviceSize d = (case bd_ioctl d of None \<Rightarrow> 0 | Some sz \<Rightarrow> sz)"

text \<open>The copy of the magic never fails: the sizes are the constants.\<close>

definition SetModuleFooterData :: "hvb_lib \<Rightarrow> hvb_footer \<Rightarrow> u64 \<Rightarrow> u64 \<Rightarrow> hvb_footer" where
  "SetModuleFooterData Hl footer blockSize cert_size =
     footer\<lparr>ft_magic := hl_FOOTER_MAGIC Hl,
            ft_cert_offset := blockSize - DEFAULT_MODULE_HVB_INFO_SIZE,
            ft_cert_size := cert_size,
            ft_image_size := blockSize - DEFAULT_MODULE_HVB_INFO_SIZE,
            ft_partition_size := blockSize\<rparr>"

definition GetFooterFromImage :: "hvb_lib \<Rightarrow> fd \<Rightarrow> u64 \<Rightarrow> hvb_footer option" where
  "GetFooterFromImage Hl f imageSize =
     (if imageSize \<le> hl_FOOTER_SIZE Hl then None
      else let offset = imageSize - hl_FOOTER_SIZE Hl
           in map_option (hl_decode Hl) (ReadFullyAtOffset f (unat (hl_FOOTER_SIZE Hl)) (sint offset)))"

definition GetCertDataFromImage :: "fd \<Rightarrow> u64 \<Rightarrow> u64 \<Rightarrow> u64 \<Rightarrow> u8 list option" where
  "GetCertDataFromImage f imageSize offset keySize =
     (if imageSize < offset + keySize then None
      else ReadFullyAtOffset f (unat keySize) (sint offset))"

text \<open>
  \<open>dev\<close> is the partition's device when its path is known and it can be opened, \<open>stack\<close> the
  footer's memory before it is filled in. The buffer of 4 KiB starts with zeros.
\<close>

definition WriteModuleUpdateBlock ::
  "hvb_lib \<Rightarrow> hvb_footer \<Rightarrow> u8 list \<Rightarrow> block_device option \<Rightarrow> bool \<times> block_device option"
where
  "WriteModuleUpdateBlock Hl stack pubkey dev =
     (if unat (DEFAULT_MODULE_HVB_INFO_SIZE - hl_FOOTER_SIZE Hl) < length pubkey then (False, dev)
      else case dev of
        None \<Rightarrow> (False, None)
      | Some d \<Rightarrow>
          let blockSize = GetBlockDeviceSize d
          in if blockSize < DEFAULT_MODULE_HVB_INFO_SIZE then (False, Some d)
             else let footer = SetModuleFooterData Hl stack blockSize (of_nat (length pubkey));
                      footerOffset = unat (DEFAULT_MODULE_HVB_INFO_SIZE - hl_FOOTER_SIZE Hl);
                      buffer = pubkey @ replicate (footerOffset - length pubkey) 0 @ hl_encode Hl footer
                  in case WriteFullyAtOffset (bd_fd d) buffer
                            (sint (blockSize - DEFAULT_MODULE_HVB_INFO_SIZE)) of
                       (ok, f) \<Rightarrow> (ok, Some (d\<lparr>bd_fd := f\<rparr>)))"

definition DealModuleUpdateHvbInfo ::
  "('j, 'h) ext \<Rightarrow> hvb_lib \<Rightarrow> hvb_footer \<Rightarrow> world \<Rightarrow> string \<Rightarrow> u64 \<Rightarrow> block_device option
   \<Rightarrow> bool \<times> block_device option"
where
  "DealModuleUpdateHvbInfo X Hl stack w imagePath imageSize dev =
     (let realPath = GetRealPath X w imagePath
      in if realPath = [] then (False, dev)
         else case fd_open w realPath of
           None \<Rightarrow> (False, dev)
         | Some f \<Rightarrow>
             (case GetFooterFromImage Hl f imageSize of
                None \<Rightarrow> (False, dev)
              | Some footer \<Rightarrow>
                  if ft_cert_size footer > DEFAULT_MODULE_HVB_INFO_SIZE - hl_FOOTER_SIZE Hl then (False, dev)
                  else case GetCertDataFromImage f imageSize (ft_cert_offset footer) (ft_cert_size footer) of
                    None \<Rightarrow> (False, dev)
                  | Some pubkey \<Rightarrow> WriteModuleUpdateBlock Hl stack pubkey dev))"

definition ProcessModuleUpdateVerityInfo ::
  "('j, 'h) ext \<Rightarrow> hvb_lib \<Rightarrow> hvb_footer \<Rightarrow> world \<Rightarrow> ModuleFile \<Rightarrow> ImageStat \<Rightarrow> block_device option
   \<Rightarrow> bool \<times> block_device option"
where
  "ProcessModuleUpdateVerityInfo X Hl stack w f stat dev =
     (if \<not> x_SUPPORT_HVB X then (True, dev)
      else DealModuleUpdateHvbInfo X Hl stack w (x_ExtractFilePath X (mf_modulePath f) @ IMG_FILE_NAME)
             (ucast (is_imageSize stat)) dev)"

section \<open>Reading for the hvb library\<close>

datatype hvb_io_errno = HVB_IO_OK | HVB_IO_ERROR_IO

definition read_range :: "ImageStat \<Rightarrow> u64 \<Rightarrow> u64 \<Rightarrow> (u64 \<times> u64) option" where
  "read_range stat offset numBytes =
     (let imageOffset = ucast (is_imageOffset stat);
          imageSize = ucast (is_imageSize stat);
          outOffset = offset + imageOffset + (if sint offset < 0 then imageSize else 0)
      in if sint outOffset < sint imageOffset then None
         else let outCount = imageOffset + imageSize - outOffset
              in Some (outOffset, if outCount > numBytes then numBytes else outCount))"

definition ParseReadParam ::
  "('j, 'h) ext \<Rightarrow> world \<Rightarrow> string \<Rightarrow> u64 \<Rightarrow> u64 \<Rightarrow> (u64 \<times> u64) option"
where
  "ParseReadParam X w path offset numBytes =
     (case ModuleFile_Open X w (x_ExtractFilePath X path @ HMP_INFO_NAME) of
        None \<Rightarrow> None
      | Some f \<Rightarrow> (case mf_imageStat f of None \<Rightarrow> None | Some stat \<Rightarrow> read_range stat offset numBytes))"

text \<open>\<open>buf\<close>: whether the caller gave a buffer; the answer has the bytes put into it.\<close>

definition HvbReadFromPartition ::
  "('j, 'h) ext \<Rightarrow> world \<Rightarrow> string option \<Rightarrow> u64 \<Rightarrow> u64 \<Rightarrow> bool \<Rightarrow> hvb_io_errno \<times> u8 list"
where
  "HvbReadFromPartition X w part offset numBytes buf =
     (case part of None \<Rightarrow> (HVB_IO_ERROR_IO, []) | Some fpInfo \<Rightarrow>
      if \<not> buf then (HVB_IO_ERROR_IO, [])
      else let realPath = GetRealPath X w fpInfo
      in if realPath = [] then (HVB_IO_ERROR_IO, [])
      else case ParseReadParam X w fpInfo offset numBytes of
        None \<Rightarrow> (HVB_IO_ERROR_IO, [])
      | Some (realOffset, n) \<Rightarrow>
          (case fd_open w realPath of
             None \<Rightarrow> (HVB_IO_ERROR_IO, [])
           | Some f \<Rightarrow>
               (case ReadFullyAtOffset f (unat n) (sint realOffset) of
                  None \<Rightarrow> (HVB_IO_ERROR_IO, [])
                | Some bytes \<Rightarrow> (HVB_IO_OK, bytes))))"

text \<open>The other operations of the table: every key is trusted, the rollback index and the size of
  a partition are 0, writes are accepted and dropped.\<close>

definition HvbWriteToPartition :: hvb_io_errno where
  "HvbWriteToPartition = HVB_IO_OK"

definition HvbInvalidateKey :: "bool \<Rightarrow> hvb_io_errno \<times> bool option" where
  "HvbInvalidateKey out = (if \<not> out then (HVB_IO_ERROR_IO, None) else (HVB_IO_OK, Some True))"

definition HvbReadRollbackIdx :: "bool \<Rightarrow> hvb_io_errno \<times> u64 option" where
  "HvbReadRollbackIdx out = (if \<not> out then (HVB_IO_ERROR_IO, None) else (HVB_IO_OK, Some 0))"

definition HvbWriteRollbackIdx :: hvb_io_errno where
  "HvbWriteRollbackIdx = HVB_IO_OK"

definition HvbReadLockState :: hvb_io_errno where
  "HvbReadLockState = HVB_IO_OK"

definition HvbGetSizeOfPartition :: "bool \<Rightarrow> hvb_io_errno \<times> u64 option" where
  "HvbGetSizeOfPartition out = (if \<not> out then (HVB_IO_ERROR_IO, None) else (HVB_IO_OK, Some 0))"

section \<open>Lemmas\<close>

lemma sint_small:
  assumes "unat (x :: u64) < 2 ^ 63"
  shows "sint x = int (unat x)"
proof -
  have "- (2 ^ 63) \<le> int (unat x)" by (rule order_trans [of _ 0]) simp_all
  moreover have "int (unat x) < 2 ^ 63" using assms by (metis of_nat_less_numeral_power_cancel_iff)
  ultimately have "signed_take_bit 63 (int (unat x)) = int (unat x)"
    by (rule signed_take_bit_int_eq_self)
  then show ?thesis by (simp add: sint_uint)
qed

lemma sint_nonneg:
  assumes "0 \<le> sint (x :: u64)"
  shows "unat x < 2 ^ 63"
proof -
  have "\<not> bit (uint x) 63" using assms by (simp add: sint_uint signed_take_bit_nonnegative_iff)
  then have "even (uint x div 2 ^ 63)" by (simp add: bit_iff_odd)
  moreover have "0 \<le> uint x" "uint x < 2 ^ 64" using uint_lt2p [of x] by simp_all
  then have "uint x div 2 ^ 63 \<in> {0, 1}" by auto
  ultimately have "uint x div 2 ^ 63 = 0" by auto
  then have "uint x < 2 ^ 63" using \<open>0 \<le> uint x\<close> by (simp add: div_eq_0_iff)
  then show ?thesis by (metis of_nat_less_numeral_power_cancel_iff uint_nat)
qed

lemma sint_word_of_int_small:
  "- (2 ^ 63) \<le> k \<Longrightarrow> k < 2 ^ 63 \<Longrightarrow> sint (word_of_int k :: u64) = k"
  by (simp add: signed_of_int signed_take_bit_int_eq_self)

lemma uint_word_of_int_small:
  "0 \<le> k \<Longrightarrow> k < 2 ^ 64 \<Longrightarrow> uint (word_of_int k :: u64) = k"
  by (simp add: unsigned_of_int take_bit_int_eq_self)

lemma word_of_int_wrap: "(word_of_int (k + 2 ^ 64) :: u64) = word_of_int k"
  by (simp only: word_of_int_eq_iff take_bit_eq_mod) simp

lemma ReadFully_nat:
  "\<forall>o1 n. 0 < n \<longrightarrow> 0 < fd_grant f o1 n \<Longrightarrow> off + n \<le> length (fd_bytes f) \<Longrightarrow>
     ReadFullyAtOffset f n (int off) = Some (take n (drop off (fd_bytes f)))"
  using ReadFullyAtOffset_complete [of f "int off" n] by simp

text \<open>What a successful write leaves in the device.\<close>

lemma WriteModuleUpdateBlock_bytes:
  assumes c: "hvb_contract Hl"
    and w: "WriteModuleUpdateBlock Hl stack pubkey (Some d) = (True, Some d')"
    and res: "length (ft_reserved stack) = hl_reserved Hl"
    and sz: "bd_ioctl d = Some (of_nat N)" "N = length (fd_bytes (bd_fd d))" "N < 2 ^ 63"
  defines "ft \<equiv> SetModuleFooterData Hl stack (of_nat N) (of_nat (length pubkey))"
  shows "4096 \<le> N \<and> length pubkey + unat (hl_FOOTER_SIZE Hl) \<le> 4096
    \<and> bd_fd d' = (bd_fd d)\<lparr>fd_bytes := take (N - 4096) (fd_bytes (bd_fd d)) @ pubkey
        @ replicate (4096 - unat (hl_FOOTER_SIZE Hl) - length pubkey) 0 @ hl_encode Hl ft\<rparr>"
proof -
  let ?n = "of_nat N :: u64" and ?F = "unat (hl_FOOTER_SIZE Hl)"
  let ?buffer = "pubkey @ replicate (4096 - ?F - length pubkey) 0 @ hl_encode Hl ft"
  have n: "unat ?n = N" using sz(3) by (simp add: unat_of_nat)
  have F: "?F < 4096" using c by (simp add: hvb_contract_def)
  have k: "unat DEFAULT_MODULE_HVB_INFO_SIZE = 4096" by (simp add: DEFAULT_MODULE_HVB_INFO_SIZE_def)
  have foff: "unat (DEFAULT_MODULE_HVB_INFO_SIZE - hl_FOOTER_SIZE Hl) = 4096 - ?F"
    using F k by (simp add: unat_sub word_le_nat_alt)
  have pk: "length pubkey \<le> 4096 - ?F"
    using w by (auto simp: WriteModuleUpdateBlock_def foff split: if_splits)
  have le: "4096 \<le> N"
    using w sz n k by (auto simp: WriteModuleUpdateBlock_def GetBlockDeviceSize_def Let_def word_less_nat_alt
        split: if_splits)
  have off: "unat (?n - DEFAULT_MODULE_HVB_INFO_SIZE) = N - 4096"
    using le n k by (simp add: unat_sub word_le_nat_alt)
  then have soff: "sint (?n - DEFAULT_MODULE_HVB_INFO_SIZE) = int (N - 4096)"
    using sint_small [of "?n - DEFAULT_MODULE_HVB_INFO_SIZE"] sz(3) by simp
  have len: "length ?buffer = 4096"
    using c pk F res by (simp add: hvb_contract_def footer_wf_def ft_def SetModuleFooterData_def)
  have "\<not> ?n < DEFAULT_MODULE_HVB_INFO_SIZE" using le n k by (simp add: word_less_nat_alt)
  then obtain f where f: "WriteFullyAtOffset (bd_fd d) ?buffer (int (N - 4096)) = (True, f)"
      "d' = d\<lparr>bd_fd := f\<rparr>"
    using w pk sz(1) soff foff by (auto simp: WriteModuleUpdateBlock_def GetBlockDeviceSize_def Let_def ft_def
        split: prod.splits if_splits)
  have "f = (bd_fd d)\<lparr>fd_bytes := overwrite (fd_bytes (bd_fd d)) (N - 4096) ?buffer\<rparr>"
    using WriteFullyAtOffset_sound [OF f(1)] sz(2) by simp
  moreover have "overwrite (fd_bytes (bd_fd d)) (N - 4096) ?buffer
      = take (N - 4096) (fd_bytes (bd_fd d)) @ ?buffer"
    using len sz(2) le by (simp add: overwrite_def)
  ultimately show ?thesis using f(2) le pk F by simp
qed

section \<open>Properties\<close>

text \<open>C27. The block that is written verifies: read back as an image of the size of the device, it
  has the new footer, the footer leads to the certificate that was given, and nothing in front
  of the last 4 KiB has changed.\<close>

theorem Hvb_block_roundtrip:
  assumes c: "hvb_contract Hl"
    and w: "WriteModuleUpdateBlock Hl stack pubkey (Some d) = (True, Some d')"
    and res: "length (ft_reserved stack) = hl_reserved Hl"
    and sz: "bd_ioctl d = Some (of_nat N)" "N = length (fd_bytes (bd_fd d))" "N < 2 ^ 63"
    and g: "\<forall>off n. 0 < n \<longrightarrow> 0 < fd_grant (bd_fd d) off n"
  shows "\<exists>ft. GetFooterFromImage Hl (bd_fd d') (of_nat N) = Some ft
    \<and> GetCertDataFromImage (bd_fd d') (of_nat N) (ft_cert_offset ft) (ft_cert_size ft) = Some pubkey
    \<and> ft_image_size ft = of_nat (N - 4096) \<and> ft_partition_size ft = of_nat N
    \<and> take (N - 4096) (fd_bytes (bd_fd d')) = take (N - 4096) (fd_bytes (bd_fd d))"
proof -
  let ?n = "of_nat N :: u64" and ?F = "unat (hl_FOOTER_SIZE Hl)"
  let ?ft = "SetModuleFooterData Hl stack ?n (of_nat (length pubkey))"
  have le: "4096 \<le> N" and pk: "length pubkey + ?F \<le> 4096"
    and d': "bd_fd d' = (bd_fd d)\<lparr>fd_bytes := take (N - 4096) (fd_bytes (bd_fd d)) @ pubkey
        @ replicate (4096 - ?F - length pubkey) 0 @ hl_encode Hl ?ft\<rparr>"
    using WriteModuleUpdateBlock_bytes [OF c w res sz] by simp_all
  let ?a = "take (N - 4096) (fd_bytes (bd_fd d))" and ?z = "replicate (4096 - ?F - length pubkey) (0 :: u8)"
  have a: "length ?a = N - 4096" using sz(2) by simp
  have F: "0 < ?F" "?F < 4096" and enc: "length (hl_encode Hl ?ft) = ?F" "hl_decode Hl (hl_encode Hl ?ft) = ?ft"
    using c res by (simp_all add: hvb_contract_def word_less_nat_alt footer_wf_def SetModuleFooterData_def)
  have n: "unat ?n = N" using sz(3) by (simp add: unat_of_nat)
  have g': "\<forall>off n. 0 < n \<longrightarrow> 0 < fd_grant (bd_fd d') off n" using g d' by simp
  have b: "fd_bytes (bd_fd d') = ?a @ pubkey @ ?z @ hl_encode Hl ?ft" using d' by simp
  have lb: "length (fd_bytes (bd_fd d')) = N" using b a enc pk le by simp
  have o1: "unat (?n - hl_FOOTER_SIZE Hl) = N - ?F"
    using le n F by (simp add: unat_sub word_le_nat_alt)
  then have s1: "sint (?n - hl_FOOTER_SIZE Hl) = int (N - ?F)"
    using sint_small [of "?n - hl_FOOTER_SIZE Hl"] sz(3) by simp
  have "ReadFullyAtOffset (bd_fd d') ?F (int (N - ?F)) = Some (take ?F (drop (N - ?F) (fd_bytes (bd_fd d'))))"
    by (rule ReadFully_nat [OF g']) (use lb le F in simp)
  moreover have "drop (N - ?F) (fd_bytes (bd_fd d')) = hl_encode Hl ?ft"
    using b a pk le F by simp
  ultimately have ft: "GetFooterFromImage Hl (bd_fd d') ?n = Some ?ft"
    using n le F enc s1 by (simp add: GetFooterFromImage_def Let_def word_le_nat_alt)
  have k: "unat DEFAULT_MODULE_HVB_INFO_SIZE = 4096" by (simp add: DEFAULT_MODULE_HVB_INFO_SIZE_def)
  have o2: "unat (?n - DEFAULT_MODULE_HVB_INFO_SIZE) = N - 4096"
    using le n k by (simp add: unat_sub word_le_nat_alt)
  then have s2: "sint (?n - DEFAULT_MODULE_HVB_INFO_SIZE) = int (N - 4096)"
    using sint_small [of "?n - DEFAULT_MODULE_HVB_INFO_SIZE"] sz(3) by simp
  have kk: "unat (of_nat (length pubkey) :: u64) = length pubkey" using pk by (simp add: unat_of_nat)
  have "unat (?n - DEFAULT_MODULE_HVB_INFO_SIZE + of_nat (length pubkey)) = N - 4096 + length pubkey"
    using o2 kk pk le sz(3) by (subst unat_add_lem [THEN iffD1]) auto
  then have "\<not> ?n < ?n - DEFAULT_MODULE_HVB_INFO_SIZE + of_nat (length pubkey)"
    using n pk le by (simp add: word_less_nat_alt)
  moreover have "ReadFullyAtOffset (bd_fd d') (length pubkey) (int (N - 4096))
      = Some (take (length pubkey) (drop (N - 4096) (fd_bytes (bd_fd d'))))"
    by (rule ReadFully_nat [OF g']) (use lb le pk in simp)
  moreover have "take (length pubkey) (drop (N - 4096) (fd_bytes (bd_fd d'))) = pubkey"
    using b a by simp
  ultimately have "GetCertDataFromImage (bd_fd d') ?n (ft_cert_offset ?ft) (ft_cert_size ?ft) = Some pubkey"
    using s2 kk by (simp add: GetCertDataFromImage_def SetModuleFooterData_def)
  moreover have "ft_image_size ?ft = of_nat (N - 4096)" "ft_partition_size ?ft = ?n"
    using le by (simp_all add: SetModuleFooterData_def DEFAULT_MODULE_HVB_INFO_SIZE_def of_nat_diff)
  ultimately show ?thesis using ft b a by fastforce
qed

text \<open>A certificate is read from within the image: with a key size of at least one byte that is
  accepted, the range the read takes ends inside the image size, also when the offset of the
  footer makes the sum of the check wrap.\<close>

theorem GetCert_within_image:
  assumes "GetCertDataFromImage f imageSize offset keySize = Some cert"
    and "0 < keySize" and "keySize \<le> DEFAULT_MODULE_HVB_INFO_SIZE"
  shows "unat offset + unat keySize \<le> unat imageSize \<and> length cert = unat keySize"
proof -
  have k: "0 < unat keySize" "unat keySize \<le> 4096"
    using assms(2,3) by (simp_all add: word_less_nat_alt word_le_nat_alt DEFAULT_MODULE_HVB_INFO_SIZE_def)
  have r: "ReadFullyAtOffset f (unat keySize) (sint offset) = Some cert"
      "unat (offset + keySize) \<le> unat imageSize"
    using assms(1) by (auto simp: GetCertDataFromImage_def word_less_nat_alt not_less split: if_splits)
  then have nn: "0 \<le> sint offset"
    using ReadFullyAtOffset_negative [of "sint offset" "unat keySize" f] k(1) by fastforce
  have "unat offset < 2 ^ 63" by (rule sint_nonneg [OF nn])
  then have "unat (offset + keySize) = unat offset + unat keySize"
    using k by (subst unat_add_lem [THEN iffD1]) auto
  moreover have "length cert = unat keySize" using ReadFullyAtOffset_sound [OF r(1) nn] by blast
  ultimately show ?thesis using r(2) by simp
qed

text \<open>C35. A read of the hvb library inside the image, from its start or counted from its end, takes
  the bytes asked for as far as the image goes; an offset behind the image is not refused, and
  the read then takes the full count of bytes behind it.\<close>

theorem read_range_value:
  assumes "- (2 ^ 32) < off" and "off < 2 ^ 32" and "unat numBytes < 2 ^ 63"
    and "so = int (unat (is_imageOffset stat))" and "sz = int (unat (is_imageSize stat))"
  shows "read_range stat (word_of_int off) numBytes =
    (if off < - sz then None
     else let start = (if off < 0 then off + sz else off)
          in Some (word_of_int (so + start),
                   if start \<le> sz then min numBytes (word_of_int (sz - start)) else numBytes))"
proof -
  let ?start = "if off < 0 then off + sz else off"
  have b: "0 \<le> so" "so < 2 ^ 32" "0 \<le> sz" "sz < 2 ^ 32"
    using assms(4,5) uint_lt2p [of "is_imageOffset stat"] uint_lt2p [of "is_imageSize stat"] by simp_all
  have u: "ucast (is_imageOffset stat) = (word_of_int so :: u64)" "ucast (is_imageSize stat) = (word_of_int sz :: u64)"
    using assms(4,5) by (simp_all add: unsigned_ucast_eq)
  have s: "sint (word_of_int off :: u64) = off" "sint (word_of_int so :: u64) = so"
      "sint (word_of_int (so + ?start) :: u64) = so + ?start"
    using assms(1,2) b by (intro sint_word_of_int_small; simp)+
  have out: "word_of_int off + word_of_int so + (if off < 0 then word_of_int sz else 0)
      = (word_of_int (so + ?start) :: u64)"
    by (simp add: algebra_simps)
  have cnt: "word_of_int so + word_of_int sz - word_of_int (so + ?start) = (word_of_int (sz - ?start) :: u64)"
    by simp
  have big: "numBytes < word_of_int (sz - ?start)" if "\<not> ?start \<le> sz"
  proof -
    have "uint (word_of_int (sz - ?start) :: u64) = uint (word_of_int (sz - ?start + 2 ^ 64) :: u64)"
      by (simp only: word_of_int_wrap)
    also have "\<dots> = sz - ?start + 2 ^ 64"
      using that b assms(1,2) by (intro uint_word_of_int_small) (simp_all split: if_splits)
    finally have "2 ^ 63 \<le> uint (word_of_int (sz - ?start) :: u64)"
      using that b assms(1,2) by (simp split: if_splits)
    moreover have "uint numBytes < 2 ^ 63"
      using assms(3) by (metis of_nat_less_numeral_power_cancel_iff uint_nat)
    ultimately show ?thesis by (simp add: word_less_def)
  qed
  have none: "(so + ?start < so) = (off < - sz)" using b by auto
  have m: "(if numBytes < c then numBytes else c) = min numBytes c" for c :: u64
    by (simp add: min_def) (metis order.strict_iff_order)
  have "read_range stat (word_of_int off) numBytes =
      (if so + ?start < so then None
       else Some (word_of_int (so + ?start), min numBytes (word_of_int (sz - ?start))))"
    unfolding read_range_def Let_def u s(1) out s(2,3) cnt m by (rule refl)
  moreover have "min numBytes (word_of_int (sz - ?start)) = numBytes" if "\<not> ?start \<le> sz"
    using big [OF that] by (rule min_absorb1 [OF order.strict_implies_order])
  ultimately show ?thesis unfolding none Let_def by presburger
qed

section \<open>A library and a device\<close>

text \<open>A layout that gives each bit of a number a byte of its own.\<close>

definition put64 :: "u64 \<Rightarrow> u8 list" where
  "put64 w = map (\<lambda>b. of_bool b) (map (bit w) [0..<64])"

definition get64 :: "u8 list \<Rightarrow> u64" where
  "get64 bs = horner_sum of_bool 2 (map (\<lambda>b. b \<noteq> 0) bs)"

lemma length_put64 [simp]: "length (put64 w) = 64" by (simp add: put64_def)

lemma get64_put64 [simp]: "get64 (put64 w) = w"
proof -
  have "map (\<lambda>b. b \<noteq> 0) (put64 w) = map (bit w) [0..<64]"
    by (simp add: put64_def comp_def del: upt_Suc)
  then show ?thesis by (simp add: get64_def horner_sum_bit_eq_take_bit take_bit_word_eq_self del: upt_Suc)
qed

definition sample_hvb :: hvb_lib where
  "sample_hvb = \<lparr>hl_FOOTER_SIZE = 264, hl_FOOTER_MAGIC = [0x48, 0x56, 0x42, 0, 0, 0, 0, 0], hl_reserved = 0,
     hl_encode = (\<lambda>ft. ft_magic ft @ put64 (ft_cert_offset ft) @ put64 (ft_cert_size ft)
        @ put64 (ft_image_size ft) @ put64 (ft_partition_size ft) @ ft_reserved ft),
     hl_decode = (\<lambda>bs. \<lparr>ft_magic = take 8 bs, ft_cert_offset = get64 (take 64 (drop 8 bs)),
        ft_cert_size = get64 (take 64 (drop 72 bs)), ft_image_size = get64 (take 64 (drop 136 bs)),
        ft_partition_size = get64 (take 64 (drop 200 bs)), ft_reserved = drop 264 bs\<rparr>)\<rparr>"

lemma sample_hvb_contract: "hvb_contract sample_hvb"
  by (auto simp: hvb_contract_def footer_wf_def sample_hvb_def)

definition sample_device :: block_device where
  "sample_device = \<lparr>bd_fd = \<lparr>fd_bytes = replicate 8192 0, fd_grant = (\<lambda>off n. int n)\<rparr>, bd_ioctl = Some 8192\<rparr>"

definition sample_stack :: hvb_footer where
  "sample_stack = \<lparr>ft_magic = [], ft_cert_offset = 0, ft_cert_size = 0, ft_image_size = 0,
     ft_partition_size = 0, ft_reserved = []\<rparr>"

lemma WriteFully_at_once:
  "fd_grant f off (length ds) = int (length ds) \<Longrightarrow> 0 \<le> off \<Longrightarrow> ds \<noteq> [] \<Longrightarrow> fst (WriteFullyAtOffset f ds off)"
  by (simp add: WriteFullyAtOffset.simps [of f ds off] pwrite_def WriteFullyAtOffset.simps [of _ "[]"])

lemma sample_write: "\<exists>d'. WriteModuleUpdateBlock sample_hvb sample_stack [1, 2, 3] (Some sample_device) = (True, Some d')"
proof -
  have "fst (WriteFullyAtOffset (bd_fd sample_device)
      ([1, 2, 3] @ replicate 3829 0 @ hl_encode sample_hvb (SetModuleFooterData sample_hvb sample_stack 8192 3)) 4096)"
    unfolding sample_device_def block_device.simps by (rule WriteFully_at_once) simp_all
  then show ?thesis
    by (auto simp: WriteModuleUpdateBlock_def GetBlockDeviceSize_def DEFAULT_MODULE_HVB_INFO_SIZE_def Let_def
        sample_device_def sample_hvb_def split: prod.splits)
qed

theorem Hvb_block_roundtrip_witness:
  "\<exists>ft d'. WriteModuleUpdateBlock sample_hvb sample_stack [1, 2, 3] (Some sample_device) = (True, Some d')
     \<and> GetFooterFromImage sample_hvb (bd_fd d') 8192 = Some ft
     \<and> GetCertDataFromImage (bd_fd d') 8192 (ft_cert_offset ft) (ft_cert_size ft) = Some [1, 2, 3]"
proof -
  obtain d' where d': "WriteModuleUpdateBlock sample_hvb sample_stack [1, 2, 3] (Some sample_device) = (True, Some d')"
    using sample_write by blast
  have r: "length (ft_reserved sample_stack) = hl_reserved sample_hvb"
    by (simp add: sample_stack_def sample_hvb_def)
  have sz: "bd_ioctl sample_device = Some (of_nat 8192)" "8192 = length (fd_bytes (bd_fd sample_device))"
      "(8192 :: nat) < 2 ^ 63"
    unfolding sample_device_def block_device.simps fd.simps length_replicate by simp_all
  have g: "\<forall>off n. 0 < n \<longrightarrow> 0 < fd_grant (bd_fd sample_device) off n"
    unfolding sample_device_def block_device.simps fd.simps by simp
  have n: "of_nat 8192 = (8192 :: u64)" by simp
  from Hvb_block_roundtrip [OF sample_hvb_contract d' r sz g] d' show ?thesis
    unfolding n by blast
qed

theorem GetCert_within_image_witness:
  "unat (1 :: u64) + unat (2 :: u64) \<le> unat (4 :: u64)"
proof -
  have "ReadFullyAtOffset slow_fd (Suc (Suc 0)) 1 = Some [2, 3]"
    by (simp add: slow_fd_def ReadFullyAtOffset.simps pread_def Let_def nat_add_distrib)
  then have "GetCertDataFromImage slow_fd 4 1 2 = Some [2, 3]"
    by (simp add: GetCertDataFromImage_def flip: numeral_2_eq_2)
  from GetCert_within_image [OF this] show ?thesis
    by (simp add: DEFAULT_MODULE_HVB_INFO_SIZE_def)
qed

theorem read_range_value_witness:
  "read_range \<lparr>is_imageOffset = 100, is_imageSize = 50, is_fsType = ''ext4''\<rparr> (word_of_int 60) 8 = Some (160, 8)"
  using read_range_value [of 60 8 100 "\<lparr>is_imageOffset = 100, is_imageSize = 50, is_fsType = ''ext4''\<rparr>" 50]
  by simp

end
