(* ===== verification/Module_Repository.thy ===== *)
theory Module_Repository
  imports Module_Result
begin

text \<open>
  services/module_update/src/module_file_repository.cpp: \<open>ModuleFileRepository\<close>, which
  collects for a package the file found under each of the three roots (preinstalled, staged,
  active), keeping only files that open, carry the package's name and an image, and, outside
  the preinstalled root, are signed and lie at the preinstalled file's relative path.
\<close>

type_synonym repository = "(string \<times> (string \<times> ModuleFile) list) list"

definition GetModuleFile :: "repository \<Rightarrow> string \<Rightarrow> string \<Rightarrow> ModuleFile option" where
  "GetModuleFile repo pathPrefix hmpName =
     (case map_of repo hmpName of
        None \<Rightarrow> None
      | Some fileMap \<Rightarrow> map_of fileMap pathPrefix)"

definition IsPreInstalledModule :: "repository \<Rightarrow> ModuleFile \<Rightarrow> bool" where
  "IsPreInstalledModule repo moduleFile =
     (case GetModuleFile repo MODULE_PREINSTALL_DIR (mp_hmpName (mf_versionInfo moduleFile)) of
        None \<Rightarrow> False
      | Some preInstalledModule \<Rightarrow> mf_modulePath preInstalledModule = mf_modulePath moduleFile)"

definition CheckFilePath :: "repository \<Rightarrow> ModuleFile \<Rightarrow> string \<Rightarrow> bool" where
  "CheckFilePath repo moduleFile pre =
     (case GetModuleFile repo MODULE_PREINSTALL_DIR (mp_hmpName (mf_versionInfo moduleFile)) of
        None \<Rightarrow> False
      | Some preInstalledModule \<Rightarrow>
          substr_from (mf_modulePath preInstalledModule) (length MODULE_PREINSTALL_DIR) =
          substr_from (mf_modulePath moduleFile) (length pre))"

definition add_file :: "string \<Rightarrow> string \<Rightarrow> ModuleFile \<Rightarrow> repository \<Rightarrow> repository" where
  "add_file hmpName path f repo = AList.map_entry hmpName (emplace path f) repo"

definition ProcessFile ::
  "('j, 'h) ext \<Rightarrow> string \<Rightarrow> string \<Rightarrow> string \<Rightarrow> repository \<Rightarrow> world \<Rightarrow> repository \<times> world" where
  "ProcessFile X hmpName path file repo w =
     (case ModuleFile_Open X w file of
        None \<Rightarrow> (repo, w)
      | Some moduleFile \<Rightarrow>
          if mp_hmpName (mf_versionInfo moduleFile) \<noteq> hmpName then (repo, w)
          else if mf_imageStat moduleFile = None then
            (repo, Repository_SaveInstallerResult X path hmpName (code ERR_VERIFY_FAIL) ''img empty'' w)
          else if path \<noteq> MODULE_PREINSTALL_DIR \<and> \<not> CheckFilePath repo moduleFile path then
            (repo, Repository_SaveInstallerResult X path hmpName (code ERR_VERIFY_FAIL)
                     ''get pub key fail'' w)
          else (add_file hmpName path moduleFile repo, w))"

fun init_files ::
  "('j, 'h) ext \<Rightarrow> string \<Rightarrow> string \<Rightarrow> string list \<Rightarrow> repository \<Rightarrow> world \<Rightarrow> repository \<times> world"
where
  "init_files X hmpName path [] repo w = (repo, w)"
| "init_files X hmpName path (file # files) repo w =
     (if \<not> CheckFileSuffix file MODULE_PACKAGE_SUFFIX then init_files X hmpName path files repo w
      else if path \<noteq> MODULE_PREINSTALL_DIR \<and> VerifyModulePackageSign X w file \<noteq> 0 then
        init_files X hmpName path files repo
          (Repository_SaveInstallerResult X path hmpName (code ERR_VERIFY_FAIL) ''verify fail'' w)
      else case ProcessFile X hmpName path file repo w of
        (repo1, w1) \<Rightarrow> init_files X hmpName path files repo1 w1)"

fun init_paths ::
  "('j, 'h) ext \<Rightarrow> string \<Rightarrow> string list \<Rightarrow> repository \<Rightarrow> world \<Rightarrow> repository \<times> world"
where
  "init_paths X hmpName [] repo w = (repo, w)"
| "init_paths X hmpName (path # paths) repo w =
     (case init_files X hmpName path (x_GetDirFiles X (w_fs w) (path @ ''/'' @ hmpName)) repo w of
        (repo1, w1) \<Rightarrow> init_paths X hmpName paths repo1 w1)"

definition allPath :: "string list" where
  "allPath = [MODULE_PREINSTALL_DIR, UPDATE_INSTALL_DIR, UPDATE_ACTIVE_DIR]"

definition InitRepository ::
  "('j, 'h) ext \<Rightarrow> string \<Rightarrow> repository \<Rightarrow> world \<Rightarrow> repository \<times> world" where
  "InitRepository X hmpName repo w = init_paths X hmpName allPath (emplace hmpName [] repo) w"

text \<open>\<open>Clear\<close> frees the verified data of every file and empties the maps.\<close>

definition Repository_Clear :: "repository \<Rightarrow> repository" where
  "Repository_Clear repo = []"

section \<open>Lemmas\<close>

lemma Open_path: "ModuleFile_Open X w p = Some f \<Longrightarrow> mf_modulePath f = p"
  by (auto simp: ModuleFile_Open_def Let_def split: prod.splits bool.splits option.splits if_splits)

lemma GetModuleFile_add:
  "GetModuleFile (add_file h path f repo) q k =
     (if k = h \<and> q = path \<and> map_of repo h \<noteq> None \<and> GetModuleFile repo path h = None
      then Some f else GetModuleFile repo q k)"
  by (auto simp: GetModuleFile_def add_file_def map_of_map_entry map_of_emplace
      split: option.splits)

text \<open>No root contains a dot, so the verification failures found while the repository is filled
  are never written to the result file.\<close>

lemma allPath_silent: "path \<in> set allPath \<Longrightarrow> Repository_SaveInstallerResult X path h r i w = w"
  by (rule Repository_SaveInstallerResult_no_dot) (auto simp: allPath_def dir_consts)

lemma ProcessFile_world:
  "path \<in> set allPath \<Longrightarrow> ProcessFile X h path file repo w = (r, w') \<Longrightarrow> w' = w"
  by (auto simp: ProcessFile_def allPath_silent split: option.splits if_splits)

lemma init_files_world:
  "path \<in> set allPath \<Longrightarrow> init_files X h path files repo w = (r, w') \<Longrightarrow> w' = w"
proof (induction X h path files repo w arbitrary: r w' rule: init_files.induct)
  case (2 X h path f1 files repo w)
  obtain r1 w1 where pf: "ProcessFile X h path f1 repo w = (r1, w1)" by fastforce
  from ProcessFile_world[OF "2.prems"(1) pf] have "w1 = w" .
  with 2 pf show ?case by (auto simp: allPath_silent split: if_splits)
qed simp

lemma init_paths_world:
  "set paths \<subseteq> set allPath \<Longrightarrow> init_paths X h paths repo w = (r, w') \<Longrightarrow> w' = w"
proof (induction X h paths repo w arbitrary: r w' rule: init_paths.induct)
  case (2 X h path paths repo w)
  obtain r1 w1 where f: "init_files X h path (x_GetDirFiles X (w_fs w) (path @ ''/'' @ h)) repo w = (r1, w1)"
    by fastforce
  have "w1 = w" by (rule init_files_world[OF _ f]) (use 2 in simp)
  with 2 f show ?case by auto
qed simp

text \<open>What holds of every file of the repository.\<close>

definition file_ok :: "('j, 'h) ext \<Rightarrow> world \<Rightarrow> string \<Rightarrow> repository \<Rightarrow> string \<Rightarrow> ModuleFile \<Rightarrow> bool" where
  "file_ok X w h repo path f =
     (ModuleFile_Open X w (mf_modulePath f) = Some f
      \<and> mp_hmpName (mf_versionInfo f) = h \<and> mf_imageStat f \<noteq> None
      \<and> mf_modulePath f \<in> set (x_GetDirFiles X (w_fs w) (path @ ''/'' @ h))
      \<and> CheckFileSuffix (mf_modulePath f) MODULE_PACKAGE_SUFFIX
      \<and> (path \<noteq> MODULE_PREINSTALL_DIR \<longrightarrow>
           VerifyModulePackageSign X w (mf_modulePath f) = 0 \<and> CheckFilePath repo f path))"

definition repo_ok :: "('j, 'h) ext \<Rightarrow> world \<Rightarrow> string \<Rightarrow> repository \<Rightarrow> bool" where
  "repo_ok X w h repo =
     (map_of repo h \<noteq> None \<and> (\<forall>path f. GetModuleFile repo path h = Some f \<longrightarrow> file_ok X w h repo path f))"

lemma CheckFilePath_mono:
  "CheckFilePath repo f p \<Longrightarrow> CheckFilePath (add_file h q g repo) f p"
  by (auto simp: CheckFilePath_def GetModuleFile_add split: option.splits)

lemma map_of_add_file: "map_of repo k \<noteq> None \<Longrightarrow> map_of (add_file h p f repo) k \<noteq> None"
  by (auto simp: add_file_def map_of_map_entry split: option.splits)

lemma repo_ok_add:
  assumes "repo_ok X w h repo" and "file_ok X w h repo path f"
  shows "repo_ok X w h (add_file h path f repo)"
  using assms map_of_add_file[of repo h h path f]
  by (auto simp: repo_ok_def GetModuleFile_add file_ok_def dest: CheckFilePath_mono)

lemma ProcessFile_ok:
  assumes "repo_ok X w h repo" and "ProcessFile X h path file repo w = (repo', w')"
    and "file \<in> set (x_GetDirFiles X (w_fs w) (path @ ''/'' @ h))"
    and "CheckFileSuffix file MODULE_PACKAGE_SUFFIX"
    and "path \<noteq> MODULE_PREINSTALL_DIR \<longrightarrow> VerifyModulePackageSign X w file = 0"
  shows "repo_ok X w h repo'"
proof -
  consider "repo' = repo" | f where "ModuleFile_Open X w file = Some f"
      "mp_hmpName (mf_versionInfo f) = h" "mf_imageStat f \<noteq> None"
      "path \<noteq> MODULE_PREINSTALL_DIR \<longrightarrow> CheckFilePath repo f path" "repo' = add_file h path f repo"
    using assms(2) by (auto simp: ProcessFile_def split: option.splits if_splits)
  then show ?thesis
  proof cases
    case 2
    with Open_path[OF 2(1)] assms have "file_ok X w h repo path f" by (simp add: file_ok_def)
    with repo_ok_add[OF assms(1)] 2(5) show ?thesis by simp
  qed (use assms(1) in simp)
qed

lemma init_files_ok:
  assumes "repo_ok X w h repo" and "path \<in> set allPath"
    and "set files \<subseteq> set (x_GetDirFiles X (w_fs w) (path @ ''/'' @ h))"
  shows "repo_ok X w h (fst (init_files X h path files repo w))"
  using assms
proof (induction X h path files repo w rule: init_files.induct)
  case (2 X h path f1 files repo w)
  show ?case
  proof (cases "CheckFileSuffix f1 MODULE_PACKAGE_SUFFIX
      \<and> (path \<noteq> MODULE_PREINSTALL_DIR \<longrightarrow> VerifyModulePackageSign X w f1 = 0)")
    case False
    with 2 show ?thesis by (auto simp: allPath_silent)
  next
    case True
    obtain r1 w1 where pf: "ProcessFile X h path f1 repo w = (r1, w1)" by fastforce
    with ProcessFile_world[OF "2.prems"(2)] have [simp]: "w1 = w" by blast
    have "repo_ok X w h r1"
      using ProcessFile_ok[OF "2.prems"(1) pf] True "2.prems"(3) by simp
    with 2 True pf show ?thesis by auto
  qed
qed simp

lemma init_paths_ok:
  assumes "repo_ok X w h repo" and "set paths \<subseteq> set allPath"
  shows "repo_ok X w h (fst (init_paths X h paths repo w))"
  using assms
proof (induction X h paths repo w rule: init_paths.induct)
  case (2 X h path paths repo w)
  let ?files = "x_GetDirFiles X (w_fs w) (path @ ''/'' @ h)"
  obtain r1 w1 where f: "init_files X h path ?files repo w = (r1, w1)" by fastforce
  have "w1 = w" by (rule init_files_world[OF _ f]) (use 2 in simp)
  moreover have "repo_ok X w h r1"
    using init_files_ok[OF "2.prems"(1), of path ?files] "2.prems"(2) f by simp
  ultimately show ?case using 2 f by auto
qed simp

lemma InitRepository_ok:
  assumes "map_of repo h = None" and "InitRepository X h repo w = (repo', w')"
  shows "repo_ok X w h repo'"
proof -
  have "repo_ok X w h (emplace h [] repo)"
    using assms(1) by (simp add: repo_ok_def GetModuleFile_def map_of_emplace)
  from init_paths_ok[OF this subset_refl] assms(2) show ?thesis by (simp add: InitRepository_def)
qed

lemma InitRepository_world: "InitRepository X h repo w = (repo', w') \<Longrightarrow> w' = w"
  unfolding InitRepository_def by (rule init_paths_world[of allPath]) simp

section \<open>Properties\<close>

text \<open>C7. The repository offers nothing untrusted: every staged or active file it holds has a valid
  signature, the package's name and an image, and stands at the same relative path as the
  preinstalled file of the package, which is in the repository too.\<close>

theorem InitRepository_trusted:
  assumes "map_of repo h = None" and "InitRepository X h repo w = (repo', w')"
    and "GetModuleFile repo' path h = Some f" and "path \<noteq> MODULE_PREINSTALL_DIR"
  shows "VerifyModulePackageSign X w (mf_modulePath f) = 0
    \<and> mp_hmpName (mf_versionInfo f) = h \<and> mf_imageStat f \<noteq> None
    \<and> (\<exists>pre. GetModuleFile repo' MODULE_PREINSTALL_DIR h = Some pre
         \<and> drop (length MODULE_PREINSTALL_DIR) (mf_modulePath pre) = drop (length path) (mf_modulePath f))"
proof -
  have "file_ok X w h repo' path f"
    using InitRepository_ok[OF assms(1,2)] assms(3) by (simp add: repo_ok_def)
  with assms(4) show ?thesis
    by (auto simp: file_ok_def CheckFilePath_def substr_from_def split: option.splits)
qed

text \<open>The repository of the sample package, in any world that shows its files.\<close>

definition pk_repo :: repository where
  "pk_repo = [(''h1'', [(MODULE_PREINSTALL_DIR, pk_file ''/system/module_update/h1/module_info.zip'' ''d 1.0.0.1''),
                 (UPDATE_ACTIVE_DIR, pk_file ''/data/module_update/active/h1/module_info.zip'' ''d 1.0.0.2'')])]"

lemma pk_repository_in:
  assumes files: "x_GetDirFiles pk (w_fs w) (MODULE_PREINSTALL_DIR @ ''/'' @ ''h1'') =
       [''/system/module_update/h1/module_info.zip'', ''/system/module_update/h1/module.img'']"
     "x_GetDirFiles pk (w_fs w) (UPDATE_ACTIVE_DIR @ ''/'' @ ''h1'') =
       [''/data/module_update/active/h1/module_info.zip'', ''/data/module_update/active/h1/module.img'']"
     "x_GetDirFiles pk (w_fs w) (UPDATE_INSTALL_DIR @ ''/'' @ ''h1'') = []"
    and opened: "ModuleFile_Open pk w ''/system/module_update/h1/module_info.zip'' =
       Some (pk_file ''/system/module_update/h1/module_info.zip'' ''d 1.0.0.1'')"
     "ModuleFile_Open pk w ''/data/module_update/active/h1/module_info.zip'' =
       Some (pk_file ''/data/module_update/active/h1/module_info.zip'' ''d 1.0.0.2'')"
  shows "InitRepository pk ''h1'' [] w = (pk_repo, w)"
proof -
  have name: "mp_hmpName (mf_versionInfo (pk_file p v)) = ''h1''" "(mf_imageStat (pk_file p v) = None) = False"
    "mf_modulePath (pk_file p v) = p" for p v
    by (simp_all add: pk_file_def pk_info_def)
  have ne: "UPDATE_ACTIVE_DIR \<noteq> MODULE_PREINSTALL_DIR" by (simp add: dir_consts)
  have sf: "CheckFileSuffix ''/system/module_update/h1/module_info.zip'' MODULE_PACKAGE_SUFFIX"
    "\<not> CheckFileSuffix ''/system/module_update/h1/module.img'' MODULE_PACKAGE_SUFFIX"
    "CheckFileSuffix ''/data/module_update/active/h1/module_info.zip'' MODULE_PACKAGE_SUFFIX"
    "\<not> CheckFileSuffix ''/data/module_update/active/h1/module.img'' MODULE_PACKAGE_SUFFIX"
    by (simp_all add: CheckFileSuffix_def substr_from_def MODULE_PACKAGE_SUFFIX_def)
  have rel: "drop (length MODULE_PREINSTALL_DIR) ''/system/module_update/h1/module_info.zip'' =
      drop (length UPDATE_ACTIVE_DIR) ''/data/module_update/active/h1/module_info.zip''"
    by (simp add: dir_consts)
  show ?thesis
    using files
    by (simp add: opened pk_repo_def sf name ne ne[symmetric] rel InitRepository_def allPath_def emplace_def ProcessFile_def add_file_def
        CheckFilePath_def GetModuleFile_def substr_from_def)
qed

lemma pk_repository: "InitRepository pk ''h1'' [] pk_world = (pk_repo, pk_world)"
  by (rule pk_repository_in) (use pk_world_files pk_world_open in simp_all)

lemma InitRepository_trusted_witness:
  "VerifyModulePackageSign pk pk_world ''/data/module_update/active/h1/module_info.zip'' = 0
   \<and> (\<exists>repo'. InitRepository pk ''h1'' [] pk_world = (repo', pk_world)
        \<and> GetModuleFile repo' MODULE_PREINSTALL_DIR ''h1'' \<noteq> None)"
proof -
  have "GetModuleFile (fst (InitRepository pk ''h1'' [] pk_world)) UPDATE_ACTIVE_DIR ''h1'' =
      Some (pk_file ''/data/module_update/active/h1/module_info.zip'' ''d 1.0.0.2'')"
    by (simp add: pk_repository pk_repo_def GetModuleFile_def dir_consts)
  from InitRepository_trusted[OF _ pk_repository, of UPDATE_ACTIVE_DIR] this pk_repository
  show ?thesis by (auto simp: dir_consts pk_file_def pk_repo_def)
qed

text \<open>Filling the repository writes nothing: a file that fails its signature, has no image or
  lies at another path is passed over, and the result that \<open>InitRepository\<close> and \<open>ProcessFile\<close>
  ask \<open>SaveInstallerResult\<close> to record is never recorded, because they pass the directory where
  the function tests for the suffix of a package.\<close>

theorem InitRepository_silent: "snd (InitRepository X h repo w) = w"
  using InitRepository_world[of X h repo w] by (metis prod.collapse)

end
