(* ===== verification/Module_Loop.thy ===== *)
theory Module_Loop
  imports Module_Result
begin

text \<open>
  services/module_update/src/module_loop.cpp and module_dm.cpp: loop devices and the
  dm-verity devices on top of them.

  The kernel answers an \<open>ioctl\<close> by \<open>k_ans\<close>, which may depend on how many were made before;
  the requests it accepted, with their arguments, are kept in order in \<open>k_done\<close>. The fields
  \<open>k_LOOP_CONFIGURE\<close> and \<open>k_USER_DEBUG_MODE\<close> are build switches, \<open>k_useLoopConfigure\<close> is the
  function-local static of \<open>SetUpLoopDevice\<close>.
\<close>

record loop_info64 =
  lo_offset :: u64
  lo_sizelimit :: u64
  lo_direct_io :: bool
  lo_autoclear :: bool
  lo_crypt_name :: string

datatype request =
    LOOP_CTL_ADD u64
  | LOOP_CTL_GET_FREE
  | LOOP_CONFIGURE_PROBE
  | LOOP_CONFIGURE string loop_info64 u32
  | LOOP_SET_FD string
  | LOOP_SET_STATUS64 loop_info64
  | BLKFLSBUF
  | LOOP_SET_BLOCK_SIZE u32
  | LOOP_GET_STATUS64
  | LOOP_CLR_FD

datatype errno = EEXIST | EBADF | EOTHER

datatype ioctl_result = IoOk nat | IoErr errno

record kern =
  k_ans :: "nat \<Rightarrow> request \<Rightarrow> string \<Rightarrow> ioctl_result"
  k_tick :: nat
  k_done :: "(request \<times> string) list"
  k_block_dir :: "string list option"
  k_ctl :: bool
  k_ctl_there :: "nat \<Rightarrow> bool"
  k_clk :: "nat \<Rightarrow> nat"
  k_dev_open :: "nat \<Rightarrow> string \<Rightarrow> bool"
  k_direct_open :: "string \<Rightarrow> bool"
  k_plain_open :: "string \<Rightarrow> bool"
  k_statfs_ok :: "string \<Rightarrow> bool"
  k_rw_open :: "nat \<Rightarrow> string \<Rightarrow> bool"
  k_file_name :: "string \<Rightarrow> string"
  k_LOOP_CONFIGURE :: bool
  k_USER_DEBUG_MODE :: bool
  k_useLoopConfigure :: "bool option"

definition ioctl :: "request \<Rightarrow> string \<Rightarrow> kern \<Rightarrow> ioctl_result \<times> kern" where
  "ioctl req dev k =
     (let r = k_ans k (k_tick k) req dev;
          k1 = k\<lparr>k_tick := Suc (k_tick k)\<rparr>
      in (r, case r of IoOk _ \<Rightarrow> k1\<lparr>k_done := k_done k1 @ [(req, dev)]\<rparr> | IoErr _ \<Rightarrow> k1))"

definition io_ok :: "ioctl_result \<Rightarrow> bool" where
  "io_ok r = (case r of IoOk _ \<Rightarrow> True | IoErr _ \<Rightarrow> False)"

definition LOOP_CTL_PATH :: string where "LOOP_CTL_PATH = ''/dev/loop-control''"
definition BLOCK_DEV_PATH :: string where "BLOCK_DEV_PATH = ''/dev/block''"
definition LOOP_PREFIX :: string where "LOOP_PREFIX = ''loop''"
definition DEVICE_PREFIX :: string where "DEVICE_PREFIX = ''/dev/''"
definition SYSTEM_BLOCK_PATH :: string where "SYSTEM_BLOCK_PATH = ''/sys/block/''"
definition READ_AHEAD_NAME :: string where "READ_AHEAD_NAME = ''/queue/read_ahead_kb''"
definition READ_AHEAD_KB :: string where "READ_AHEAD_KB = ''128''"
definition MODULE_LOOP_PREFIX :: string where "MODULE_LOOP_PREFIX = ''module:''"
definition LOOP_DEV_PATH :: string where "LOOP_DEV_PATH = ''/dev/loop''"
definition LOOP_BLOCK_PATH :: string where "LOOP_BLOCK_PATH = ''/dev/block/loop''"
definition LOOP_DEVICE_RETRY_ATTEMPTS :: nat where "LOOP_DEVICE_RETRY_ATTEMPTS = 6"
definition LOOP_BLOCK_SIZE :: u32 where "LOOP_BLOCK_SIZE = 4096"
definition WAIT_FOR_LOOP_MS :: nat where "WAIT_FOR_LOOP_MS = 50000"

section \<open>Allocating loop devices\<close>

text \<open>The scan of the directory: the largest id seen so far and whether one was above it.\<close>

fun scan_loops :: "('j, 'h) ext \<Rightarrow> string list \<Rightarrow> bool \<times> u64 \<Rightarrow> bool \<times> u64" where
  "scan_loops X [] acc = acc"
| "scan_loops X (d_name # ents) (found, startId) =
     (if \<not> StartsWith d_name LOOP_PREFIX then scan_loops X ents (found, startId)
      else case x_StrToInt X (substr_from d_name (length LOOP_PREFIX)) of
        None \<Rightarrow> scan_loops X ents (found, startId)
      | Some i \<Rightarrow> if startId < word_of_int i then scan_loops X ents (True, word_of_int i)
                  else scan_loops X ents (found, startId))"

fun add_loops :: "nat \<Rightarrow> u64 \<Rightarrow> u64 \<Rightarrow> kern \<Rightarrow> bool \<times> kern" where
  "add_loops 0 i bound k = (True, k)"
| "add_loops (Suc n) i bound k =
     (if \<not> i < bound then (True, k)
      else case ioctl (LOOP_CTL_ADD i) LOOP_CTL_PATH k of
        (r, k1) \<Rightarrow>
          if \<not> io_ok r \<and> r \<noteq> IoErr EEXIST then (False, k1) else add_loops n (i + 1) bound k1)"

definition PreAllocateLoopDevices :: "('j, 'h) ext \<Rightarrow> u64 \<Rightarrow> kern \<Rightarrow> bool \<times> kern" where
  "PreAllocateLoopDevices X num k =
     (if WaitForFile (WAIT_FOR_LOOP_MS div 5 + 2) (k_clk k) (k_ctl_there k) WAIT_FOR_LOOP_MS 0
          \<noteq> Some True then (False, k)
      else if \<not> k_ctl k then (False, k)
      else case k_block_dir k of
        None \<Rightarrow> (False, k)
      | Some ents \<Rightarrow>
          (case scan_loops X ents (False, 0) of
             (found, startId0) \<Rightarrow>
               (let startId = (if found then startId0 + 1 else startId0)
                in add_loops (unat num) startId (num + startId) k)))"

section \<open>Setting up a loop device\<close>

definition basename :: "string \<Rightarrow> string" where
  "basename p = (case find_last_of CHR ''/'' p of None \<Rightarrow> p | Some i \<Rightarrow> drop (i + 1) p)"

definition ConfigureReadAhead ::
  "('j, 'h) ext \<Rightarrow> kern \<Rightarrow> string \<Rightarrow> world \<Rightarrow> bool \<times> world" where
  "ConfigureReadAhead X k devicePath w =
     (if \<not> StartsWith devicePath DEVICE_PREFIX then (False, w)
      else let sysfsDevice = SYSTEM_BLOCK_PATH @ basename devicePath @ READ_AHEAD_NAME;
               realPath = GetRealPath X w sysfsDevice
      in if realPath = [] then (False, w)
      else case sys_stat w realPath of
        StatOk fileState \<Rightarrow>
          (let mode = (case fileState of Dir m \<Rightarrow> m | Reg m _ \<Rightarrow> m);
               recoveryMode = (\<lambda>w'. snd (sys_chmod realPath mode w'));
               opened = (if k_rw_open k mode realPath then (True, w)
                         else (k_rw_open k 420 realPath, snd (sys_chmod realPath 420 w)))
           in case opened of
                (False, w1) \<Rightarrow> (False, recoveryMode w1)
              | (True, w1) \<Rightarrow>
                  if w_fault w1 OpWrite realPath then (False, recoveryMode w1)
                  else case map_of (w_fs w1) realPath of
                    Some (Reg m c) \<Rightarrow>
                      (True, recoveryMode
                         (write_file realPath m (READ_AHEAD_KB @ [CHR 0x00] @ drop 4 c) w1))
                  | _ \<Rightarrow> (False, recoveryMode w1))
      | _ \<Rightarrow> (False, w))"

definition CheckIfSupportLoopConfigure :: "string \<Rightarrow> kern \<Rightarrow> bool \<times> kern" where
  "CheckIfSupportLoopConfigure dev k =
     (if k_LOOP_CONFIGURE k
      then (case ioctl LOOP_CONFIGURE_PROBE dev k of (r, k1) \<Rightarrow> (r = IoErr EBADF, k1))
      else (False, k))"

text \<open>\<open>config.info = li\<close> copies the information before the flag is put into \<open>li\<close>.\<close>

definition ConfigureLoopDevice ::
  "string \<Rightarrow> string \<Rightarrow> loop_info64 \<Rightarrow> bool \<Rightarrow> kern \<Rightarrow> bool \<times> kern" where
  "ConfigureLoopDevice dev target li useBufferedIo k =
     (if k_LOOP_CONFIGURE k
      then let config_info = li;
               li1 = (if \<not> useBufferedIo then li\<lparr>lo_direct_io := True\<rparr> else li)
           in case ioctl (LOOP_CONFIGURE target config_info LOOP_BLOCK_SIZE) dev k of
                (r, k1) \<Rightarrow> (io_ok r, k1)
      else (False, k))"

definition SetLoopDeviceStatus :: "string \<Rightarrow> string \<Rightarrow> loop_info64 \<Rightarrow> kern \<Rightarrow> bool \<times> kern" where
  "SetLoopDeviceStatus dev target li k =
     (case ioctl (LOOP_SET_FD target) dev k of
        (r1, k1) \<Rightarrow> if \<not> io_ok r1 then (False, k1) else
     (case ioctl (LOOP_SET_STATUS64 li) dev k1 of
        (r2, k2) \<Rightarrow> if \<not> io_ok r2 then (False, k2) else
     (case ioctl BLKFLSBUF dev k2 of
        (r3, k3) \<Rightarrow> (True, snd (ioctl (LOOP_SET_BLOCK_SIZE LOOP_BLOCK_SIZE) dev k3)))))"

definition SetUpLoopDevice ::
  "('j, 'h) ext \<Rightarrow> world \<Rightarrow> string \<Rightarrow> string \<Rightarrow> u32 \<Rightarrow> u32 \<Rightarrow> kern \<Rightarrow> bool \<times> kern" where
  "SetUpLoopDevice X w dev target imageOffset imageSize k =
     (case (case k_useLoopConfigure k of
              Some b \<Rightarrow> (b, k)
            | None \<Rightarrow> (case CheckIfSupportLoopConfigure dev k of
                         (b, k') \<Rightarrow> (b, k'\<lparr>k_useLoopConfigure := Some b\<rparr>))) of
        (useLoopConfigure, k1) \<Rightarrow>
     (let realPath = GetRealPath X w target;
          li = \<lparr>lo_offset = ucast imageOffset, lo_sizelimit = ucast imageSize,
                lo_direct_io = False, lo_autoclear = True, lo_crypt_name = MODULE_LOOP_PREFIX\<rparr>
      in if realPath = [] then (False, k1)
         else if \<not> k_direct_open k1 realPath \<and> \<not> k_statfs_ok k1 realPath then (False, k1)
         else if \<not> k_direct_open k1 realPath \<and> \<not> k_plain_open k1 realPath then (False, k1)
         else let useBufferedIo = (\<not> k_direct_open k1 realPath)
         in if useLoopConfigure then ConfigureLoopDevice dev realPath li useBufferedIo k1
            else SetLoopDeviceStatus dev realPath li k1))"

text \<open>\<open>LoopbackDeviceUniqueFd\<close>: whether the descriptor is held, and the device's path.\<close>

record loopback =
  ld_fd :: bool
  ld_name :: string

definition MaybeCloseBad :: "loopback \<Rightarrow> kern \<Rightarrow> kern" where
  "MaybeCloseBad d k = (if ld_fd d then snd (ioctl LOOP_CLR_FD (ld_name d) k) else k)"

definition CloseGood :: "loopback \<Rightarrow> loopback" where
  "CloseGood d = d\<lparr>ld_fd := False\<rparr>"

fun first_open :: "('j, 'h) ext \<Rightarrow> world \<Rightarrow> kern \<Rightarrow> nat \<Rightarrow> string list \<Rightarrow> string option" where
  "first_open X w k i [] = None"
| "first_open X w k i (device # ds) =
     (let realPath = GetRealPath X w device
      in if realPath = [] then first_open X w k i ds
         else if k_dev_open k i realPath then Some realPath else first_open X w k i ds)"

fun wait_device ::
  "('j, 'h) ext \<Rightarrow> world \<Rightarrow> kern \<Rightarrow> nat \<Rightarrow> nat \<Rightarrow> string list \<Rightarrow> loopback option" where
  "wait_device X w k 0 i ds = None"
| "wait_device X w k (Suc n) i ds =
     (case first_open X w k i ds of
        Some realPath \<Rightarrow> Some \<lparr>ld_fd = True, ld_name = realPath\<rparr>
      | None \<Rightarrow> wait_device X w k n (Suc i) ds)"

definition WaitForDevice :: "('j, 'h) ext \<Rightarrow> world \<Rightarrow> kern \<Rightarrow> nat \<Rightarrow> loopback option" where
  "WaitForDevice X w k num =
     wait_device X w k LOOP_DEVICE_RETRY_ATTEMPTS 0
       [LOOP_BLOCK_PATH @ string_of_nat num, LOOP_DEV_PATH @ string_of_nat num]"

definition Loop_CreateLoopDevice ::
  "('j, 'h) ext \<Rightarrow> string \<Rightarrow> u32 \<Rightarrow> u32 \<Rightarrow> world \<Rightarrow> kern \<Rightarrow> loopback option \<times> world \<times> kern" where
  "Loop_CreateLoopDevice X target imageOffset imageSize w k =
     (if \<not> k_ctl k then (None, w, k)
      else case ioctl LOOP_CTL_GET_FREE LOOP_CTL_PATH k of
        (IoErr _, k1) \<Rightarrow> (None, w, k1)
      | (IoOk num, k1) \<Rightarrow>
     (case WaitForDevice X w k1 num of
        None \<Rightarrow> (None, w, k1)
      | Some loopDevice \<Rightarrow>
     (case SetUpLoopDevice X w (ld_name loopDevice) target imageOffset imageSize k1 of
        (False, k2) \<Rightarrow> (None, w, MaybeCloseBad loopDevice k2)
      | (True, k2) \<Rightarrow>
     (case ConfigureReadAhead X k2 (ld_name loopDevice) w of
        (False, w1) \<Rightarrow> (None, w1, MaybeCloseBad loopDevice k2)
      | (True, w1) \<Rightarrow> (Some loopDevice, w1, k2)))))"

section \<open>Taking devices down\<close>

definition CloseLoopDev :: "('j, 'h) ext \<Rightarrow> world \<Rightarrow> string \<Rightarrow> kern \<Rightarrow> bool \<times> kern" where
  "CloseLoopDev X w loopPath k =
     (case x_realpath X (w_fs w) loopPath of
        None \<Rightarrow> (False, k)
      | Some buffer \<Rightarrow>
          if \<not> k_dev_open k 0 buffer then (False, k)
          else case ioctl LOOP_CLR_FD buffer k of (r, k1) \<Rightarrow> (r = IoOk 0, k1))"

definition RemoveDmDevice :: "('j, 'h) ext \<Rightarrow> string \<Rightarrow> bool" where
  "RemoveDmDevice X deviceName =
     (if x_SUPPORT_HVB X then x_FsDmRemoveDevice X (x_ExtractFileName X deviceName) = 0 else True)"

definition ClearDmLoopDevice ::
  "('j, 'h) ext \<Rightarrow> world \<Rightarrow> string \<Rightarrow> bool \<Rightarrow> kern \<Rightarrow> bool \<times> kern" where
  "ClearDmLoopDevice X w loopDevPath clearDm k =
     (if \<not> k_USER_DEBUG_MODE k \<and> clearDm \<and> \<not> RemoveDmDevice X loopDevPath then (False, k)
      else CloseLoopDev X w loopDevPath k)"

definition RemoveDmLoopDevice_path ::
  "('j, 'h) ext \<Rightarrow> world \<Rightarrow> string \<Rightarrow> kern \<Rightarrow> bool \<times> kern" where
  "RemoveDmLoopDevice_path X w loopDevPath k =
     (if \<not> k_USER_DEBUG_MODE k \<and> \<not> RemoveDmDevice X loopDevPath then (False, k)
      else CloseLoopDev X w loopDevPath k)"

definition IsLoopDevMatchedImg :: "string \<Rightarrow> string \<Rightarrow> kern \<Rightarrow> bool \<times> kern" where
  "IsLoopDevMatchedImg loopPath imgFilePath k =
     (if \<not> k_dev_open k 0 loopPath then (False, k)
      else case ioctl LOOP_GET_STATUS64 loopPath k of
        (r, k1) \<Rightarrow> (io_ok r \<and> imgFilePath = k_file_name k loopPath, k1))"

definition IsRealPath :: "('j, 'h) ext \<Rightarrow> world \<Rightarrow> string \<Rightarrow> bool" where
  "IsRealPath X w path = (x_realpath X (w_fs w) path = Some path)"

definition sys_umount :: "string \<Rightarrow> world \<Rightarrow> world" where
  "sys_umount mnt w =
     (if w_fault w OpUmount mnt then w
      else w\<lparr>w_mounts := filter (\<lambda>(d, m). m \<noteq> mnt) (w_mounts w)\<rparr>)"

fun remove_matching ::
  "('j, 'h) ext \<Rightarrow> string \<Rightarrow> string \<Rightarrow> string list \<Rightarrow> world \<Rightarrow> kern \<Rightarrow> bool \<times> world \<times> kern"
where
  "remove_matching X mountPoint imagePath [] w k = (False, w, k)"
| "remove_matching X mountPoint imagePath (d_name # ents) w k =
     (if \<not> StartsWith d_name LOOP_PREFIX \<or> StartsWith d_name ''loop-control''
      then remove_matching X mountPoint imagePath ents w k
      else let loopDevPath = BLOCK_DEV_PATH @ ''/'' @ d_name
      in if \<not> IsRealPath X w loopDevPath then remove_matching X mountPoint imagePath ents w k
      else case IsLoopDevMatchedImg loopDevPath imagePath k of
        (False, k1) \<Rightarrow> remove_matching X mountPoint imagePath ents w k1
      | (True, k1) \<Rightarrow>
          (let w1 = sys_umount mountPoint w;
               clearDm = contains_str UPDATE_ACTIVE_DIR imagePath
           in case ClearDmLoopDevice X w1 loopDevPath clearDm k1 of (ret, k2) \<Rightarrow> (ret, w1, k2)))"

definition RemoveDmLoopDevice ::
  "('j, 'h) ext \<Rightarrow> string \<Rightarrow> string \<Rightarrow> world \<Rightarrow> kern \<Rightarrow> bool \<times> world \<times> kern" where
  "RemoveDmLoopDevice X mountPoint imagePath w k =
     (case k_block_dir k of
        None \<Rightarrow> (False, w, k)
      | Some ents \<Rightarrow> remove_matching X mountPoint imagePath ents w k)"

section \<open>dm-verity\<close>

definition CheckVerifiedData :: "('j, 'h) ext \<Rightarrow> bool \<Rightarrow> bool" where
  "CheckVerifiedData X vd = (if \<not> vd then False else x_num_loaded_certs X = 1)"

text \<open>The device on success; the name is left as it was otherwise.\<close>

definition CreateDmDevice :: "('j, 'h) ext \<Rightarrow> ModuleFile \<Rightarrow> string \<Rightarrow> bool \<times> string" where
  "CreateDmDevice X moduleFile deviceName =
     (if \<not> x_SUPPORT_HVB X then (True, deviceName)
      else if \<not> CheckVerifiedData X (mf_vd moduleFile) then (False, deviceName)
      else if x_hvb_cert_parser X \<noteq> 0 then (False, deviceName)
      else if x_FsHvbConstructVerityTarget X deviceName \<noteq> 0 then (False, deviceName)
      else case x_FsDmCreateDevice X (x_ExtractFileName X deviceName) of
        (ret, devPath) \<Rightarrow>
          if ret \<noteq> 0 then (False, deviceName)
          else if x_FsDmInitDmDev X devPath \<noteq> 0 then (False, deviceName)
          else (True, devPath))"

section \<open>Lemmas\<close>

definition no_direct_io :: "(request \<times> string) list \<Rightarrow> bool" where
  "no_direct_io ds = list_all (\<lambda>(req, d). case req of
       LOOP_CONFIGURE t li b \<Rightarrow> \<not> lo_direct_io li
     | LOOP_SET_STATUS64 li \<Rightarrow> \<not> lo_direct_io li
     | _ \<Rightarrow> True) ds"

text \<open>Requests that carry no loop information keep the property, the others if theirs is plain.\<close>

fun plain_request :: "request \<Rightarrow> bool" where
  "plain_request (LOOP_CONFIGURE t li b) = (\<not> lo_direct_io li)"
| "plain_request (LOOP_SET_STATUS64 li) = (\<not> lo_direct_io li)"
| "plain_request _ = True"

lemma ioctl_plain [simp]:
  "no_direct_io (k_done k) \<Longrightarrow> plain_request req \<Longrightarrow> no_direct_io (k_done (snd (ioctl req dev k)))"
  by (cases req) (auto simp: ioctl_def Let_def no_direct_io_def split: ioctl_result.splits)

lemma MaybeCloseBad_plain [simp]:
  "no_direct_io (k_done k) \<Longrightarrow> no_direct_io (k_done (MaybeCloseBad d k))"
  by (simp add: MaybeCloseBad_def)

lemma ConfigureLoopDevice_plain [simp]:
  "no_direct_io (k_done k) \<Longrightarrow> \<not> lo_direct_io li \<Longrightarrow>
     no_direct_io (k_done (snd (ConfigureLoopDevice dev t li b k)))"
  by (simp add: ConfigureLoopDevice_def Let_def case_prod_unfold)

lemma SetLoopDeviceStatus_plain [simp]:
  "no_direct_io (k_done k) \<Longrightarrow> \<not> lo_direct_io li \<Longrightarrow>
     no_direct_io (k_done (snd (SetLoopDeviceStatus dev t li k)))"
  by (simp add: SetLoopDeviceStatus_def case_prod_unfold)

lemma CheckIfSupport_plain [simp]:
  "no_direct_io (k_done k) \<Longrightarrow> no_direct_io (k_done (snd (CheckIfSupportLoopConfigure dev k)))"
  by (simp add: CheckIfSupportLoopConfigure_def case_prod_unfold)

lemma SetUpLoopDevice_plain [simp]:
  assumes "no_direct_io (k_done k)"
  shows "no_direct_io (k_done (snd (SetUpLoopDevice X w dev t off sz k)))"
proof -
  obtain b k1 where sel: "(case k_useLoopConfigure k of
              Some b \<Rightarrow> (b, k)
            | None \<Rightarrow> (case CheckIfSupportLoopConfigure dev k of
                         (b, k') \<Rightarrow> (b, k'\<lparr>k_useLoopConfigure := Some b\<rparr>))) = (b, k1)" by fastforce
  have "no_direct_io (k_done k1)"
    using sel assms by (auto simp: case_prod_unfold split: option.splits)
  then show ?thesis
    unfolding SetUpLoopDevice_def sel prod.case by (simp add: Let_def)
qed

lemma scan_loops_zero:
  assumes "\<forall>e \<in> set ents. StartsWith e LOOP_PREFIX \<longrightarrow>
      x_StrToInt X (drop (length LOOP_PREFIX) e) \<in> {None, Some 0}"
  shows "scan_loops X ents (False, 0) = (False, 0)"
  using assms by (induction ents) (auto simp: substr_from_def)

section \<open>Properties\<close>

text \<open>No loop device is ever set up with direct I/O, whether or not the image could be opened
  with \<open>O_DIRECT\<close>: the flag \<open>LO_FLAGS_DIRECT_IO\<close> never reaches the kernel.\<close>

theorem CreateLoopDevice_never_direct:
  assumes "no_direct_io (k_done k)"
  shows "no_direct_io (k_done (snd (snd (Loop_CreateLoopDevice X target off sz w k))))"
proof -
  have "no_direct_io (k_done k')" if "SetUpLoopDevice X w d t off sz k1 = (b, k')" "no_direct_io (k_done k1)"
    for d t b k1 k'
    using SetUpLoopDevice_plain[OF that(2), of X w d t off sz] that(1) by simp
  moreover have "no_direct_io (k_done k1)" if "ioctl LOOP_CTL_GET_FREE d k = (r, k1)" for d r k1
    using ioctl_plain[OF assms, of LOOP_CTL_GET_FREE d] that by simp
  ultimately show ?thesis
    using assms unfolding Loop_CreateLoopDevice_def
    by (simp split: ioctl_result.splits option.splits prod.splits bool.splits)
qed

text \<open>A kernel with loop device 0 that accepts every request but adding device 0 again.\<close>

definition kern0 :: kern where
  "kern0 = \<lparr>k_ans = (\<lambda>n req d. if req = LOOP_CTL_ADD 0 then IoErr EEXIST else IoOk 0),
     k_tick = 0, k_done = [], k_block_dir = Some [''loop0''], k_ctl = True, k_ctl_there = (\<lambda>i. True),
     k_clk = (\<lambda>i. 5 * i), k_dev_open = (\<lambda>i d. True), k_direct_open = (\<lambda>p. True),
     k_plain_open = (\<lambda>p. True), k_statfs_ok = (\<lambda>p. True), k_rw_open = (\<lambda>m p. True),
     k_file_name = (\<lambda>d. []), k_LOOP_CONFIGURE = True, k_USER_DEBUG_MODE = False,
     k_useLoopConfigure = Some True\<rparr>"

lemma CreateLoopDevice_never_direct_witness:
  "no_direct_io (k_done (snd (snd (Loop_CreateLoopDevice sample0 ''/i'' 0 4096
     (world0 [(''/i'', Reg 420 []), (''/dev/loop0'', Reg 420 [])]) kern0))))"
  by (rule CreateLoopDevice_never_direct) (simp add: kern0_def no_direct_io_def)

text \<open>When device 0 is the only loop device, \<open>PreAllocateLoopDevices\<close> reports success without
  adding any: the id 0 is not told from no id at all, so the one request is for the device that
  exists, and \<open>EEXIST\<close> counts as success.\<close>

theorem PreAllocate_only_loop0:
  assumes "WaitForFile (WAIT_FOR_LOOP_MS div 5 + 2) (k_clk k) (k_ctl_there k) WAIT_FOR_LOOP_MS 0 = Some True"
    and "k_ctl k" and "k_block_dir k = Some ents"
    and "\<forall>e \<in> set ents. StartsWith e LOOP_PREFIX \<longrightarrow>
      x_StrToInt X (drop (length LOOP_PREFIX) e) \<in> {None, Some 0}"
    and "k_ans k (k_tick k) (LOOP_CTL_ADD 0) LOOP_CTL_PATH = IoErr EEXIST"
  shows "fst (PreAllocateLoopDevices X 1 k) \<and> k_done (snd (PreAllocateLoopDevices X 1 k)) = k_done k"
proof -
  have "PreAllocateLoopDevices X 1 k = add_loops (Suc 0) 0 1 k"
    using assms(1-3) scan_loops_zero[OF assms(4)] 
    by (simp add: PreAllocateLoopDevices_def Let_def del: WaitForFile.simps add_loops.simps)
  then show ?thesis using assms(5) by (simp add: ioctl_def Let_def io_ok_def)
qed

lemma PreAllocate_only_loop0_witness:
  "fst (PreAllocateLoopDevices sample0 1 kern0) \<and> k_done (snd (PreAllocateLoopDevices sample0 1 kern0)) = []"
proof -
  have "WaitForFile (WAIT_FOR_LOOP_MS div 5 + 2) (k_clk kern0) (k_ctl_there kern0) WAIT_FOR_LOOP_MS 0 = Some True"
  proof -
    have "WAIT_FOR_LOOP_MS div 5 + 2 = Suc 10001" by (simp add: WAIT_FOR_LOOP_MS_def)
    then show ?thesis by (simp only: WaitForFile.simps) (simp add: kern0_def WAIT_FOR_LOOP_MS_def)
  qed
  from PreAllocate_only_loop0[OF this, of "[''loop0'']" sample0] show ?thesis
    by (simp add: kern0_def sample_defs LOOP_PREFIX_def dec_def)
qed

end
