(* ===== verification/Module_Boot.thy ===== *)
theory Module_Boot
  imports Module_Repository Module_Revert Module_Loop
begin

text \<open>
  The boot-time update: services/module_update/src/module_update.cpp (\<open>ModuleUpdate\<close>),
  module_update_task.cpp (\<open>ModuleUpdateTaskManager\<close>) and main.cpp. For every preinstalled
  package the newest trusted version is staged, mounted and, when the mount fails, reverted.

  The worker pool has one thread, so the tasks run one after the other in the order they
  are added. The clean-ups of \<open>ON_SCOPE_EXIT\<close> are written on every path out of the function.
\<close>

record ModuleUpdateStatus =
  us_hmpName :: string
  us_isPreInstalled :: bool
  us_isAllMountSuccess :: bool

definition ModuleUpdateStatus_init :: "string \<Rightarrow> ModuleUpdateStatus" where
  "ModuleUpdateStatus_init h =
     \<lparr>us_hmpName = h, us_isPreInstalled = False, us_isAllMountSuccess = False\<rparr>"

text \<open>\<open>ImageVerifyFunc\<close>: may change the file's verified data, the device name and the devices.\<close>

type_synonym verify_fn =
  "ModuleFile \<Rightarrow> string \<Rightarrow> world \<Rightarrow> kern \<Rightarrow> (bool \<times> ModuleFile \<times> string) \<times> kern"

record task_manager =
  tm_pool :: "string list"
  tm_taskResult :: bool
  tm_taskNum :: nat

record boot =
  b_w :: world
  b_k :: kern
  b_repo :: repository
  b_list :: "ModuleFile list"
  b_verify :: "verify_fn option"
  b_level :: int
  b_tasks :: task_manager

definition MAX_TASK_NUM :: nat where "MAX_TASK_NUM = 100"
definition LOOP_DEVICE_SETUP_ATTEMPTS :: nat where "LOOP_DEVICE_SETUP_ATTEMPTS = 3"
definition MOUNT_POINT_MODE :: nat where "MOUNT_POINT_MODE = 493" \<comment> \<open>0755\<close>

section \<open>Staging the update\<close>

fun stage_others :: "('j, 'h) ext \<Rightarrow> string \<Rightarrow> string list \<Rightarrow> world \<Rightarrow> bool \<times> world" where
  "stage_others X path [] w = (True, w)"
| "stage_others X path (file # files) w =
     (let targetFile = path @ x_ExtractFileName X file;
          w1 = snd (sys_unlink targetFile w)
      in case sys_link file targetFile w1 of
           (False, w2) \<Rightarrow> (False, w2)
         | (True, w2) \<Rightarrow> stage_others X path files w2)"

definition StageUpdateModulePackage ::
  "('j, 'h) ext \<Rightarrow> string \<Rightarrow> string \<Rightarrow> world \<Rightarrow> bool \<times> world" where
  "StageUpdateModulePackage X updatePath stagePath w =
     (case (if CheckPathExists w stagePath then sys_unlink stagePath w else (True, w)) of
        (False, w1) \<Rightarrow> (False, w1)
      | (True, w1) \<Rightarrow>
     (let path = x_ExtractFilePath X stagePath
      in if \<not> CheckPathExists w1 path then (False, w1)
      else case sys_link updatePath stagePath w1 of
        (False, w2) \<Rightarrow> (False, w2)
      | (True, w2) \<Rightarrow>
          (case x_GetFilesFromDirectory X (w_fs w2)
                  (substr updatePath 0 (case rfind_str ''/'' updatePath of
                                          None \<Rightarrow> length updatePath | Some i \<Rightarrow> i)) of
             (n, files) \<Rightarrow> if n \<le> 0 then (False, w2) else stage_others X path files w2)))"

definition GetLatestUpdateModulePackage ::
  "('j, 'h) ext \<Rightarrow> repository \<Rightarrow> string \<Rightarrow> world \<Rightarrow> ModuleFile option \<times> world" where
  "GetLatestUpdateModulePackage X repo hmpName w =
     (let active = GetModuleFile repo UPDATE_ACTIVE_DIR hmpName
      in case GetModuleFile repo UPDATE_INSTALL_DIR hmpName of
        None \<Rightarrow> (active, w)
      | Some updateFile \<Rightarrow>
          if (case active of None \<Rightarrow> True | Some a \<Rightarrow> CompareVersion X updateFile a) then
            (let updatePath = mf_modulePath updateFile;
                 activePath = UPDATE_ACTIVE_DIR @ substr_from updatePath (length UPDATE_INSTALL_DIR)
             in case StageUpdateModulePackage X updatePath activePath w of
                  (False, w1) \<Rightarrow> (None, w1)
                | (True, w1) \<Rightarrow> (Some (updateFile\<lparr>mf_modulePath := activePath\<rparr>), w1))
          else (active, w))"

definition CheckRevert :: "repository \<Rightarrow> string \<Rightarrow> world \<Rightarrow> bool" where
  "CheckRevert repo hmpName w =
     (if \<not> CheckPathExists w (backup_path hmpName) then False
      else case map_of repo hmpName of None \<Rightarrow> False | Some v \<Rightarrow> length v = 1)"

definition PrepareModuleFileList :: "('j, 'h) ext \<Rightarrow> ModuleUpdateStatus \<Rightarrow> boot \<Rightarrow> boot" where
  "PrepareModuleFileList X status b =
     (let h = us_hmpName status
      in case GetModuleFile (b_repo b) MODULE_PREINSTALL_DIR h of
        None \<Rightarrow> b
      | Some systemFile \<Rightarrow>
          (case GetLatestUpdateModulePackage X (b_repo b) h (b_w b) of
             (latest, w1) \<Rightarrow>
               if (case latest of None \<Rightarrow> False | Some l \<Rightarrow> CompareVersion X l systemFile)
               then b\<lparr>b_w := w1, b_list := b_list b @ [the latest]\<rparr>
               else let b1 = b\<lparr>b_w := w1, b_list := b_list b @ [systemFile]\<rparr>
                    in if CheckRevert (b_repo b) h w1
                       then b1\<lparr>b_w := Revert X h True (snd (NotifyBmsRevert X h True w1))\<rparr>
                       else b1\<lparr>b_w := snd (RemoveSpecifiedDir X (backup_path h) False
                                       (snd (RemoveSpecifiedDir X (active_path h) False w1)))\<rparr>))"

section \<open>Mounting\<close>

definition CheckMountComplete :: "world \<Rightarrow> string \<Rightarrow> bool" where
  "CheckMountComplete w hmpName = CheckPathExists w (MODULE_ROOT_DIR @ ''/'' @ hmpName)"

fun create_loop_attempts ::
  "('j, 'h) ext \<Rightarrow> nat \<Rightarrow> string \<Rightarrow> ImageStat \<Rightarrow> world \<Rightarrow> kern \<Rightarrow> loopback option \<times> world \<times> kern"
where
  "create_loop_attempts X 0 path st w k = (None, w, k)"
| "create_loop_attempts X (Suc n) path st w k =
     (case Loop_CreateLoopDevice X path (is_imageOffset st) (is_imageSize st) w k of
        (Some device, w1, k1) \<Rightarrow> (Some device, w1, k1)
      | (None, w1, k1) \<Rightarrow> create_loop_attempts X n path st w1 k1)"

definition CreateLoopDevice ::
  "('j, 'h) ext \<Rightarrow> string \<Rightarrow> ImageStat \<Rightarrow> world \<Rightarrow> kern \<Rightarrow> loopback option \<times> world \<times> kern" where
  "CreateLoopDevice X path st w k = create_loop_attempts X LOOP_DEVICE_SETUP_ATTEMPTS path st w k"

definition CheckModulePackage :: "('j, 'h) ext \<Rightarrow> world \<Rightarrow> string \<Rightarrow> ModuleFile \<Rightarrow> bool" where
  "CheckModulePackage X w mountPoint moduleFile =
     (if \<not> x_IsEmptyFolder X (w_fs w) mountPoint then False else mf_imageStat moduleFile \<noteq> None)"

definition VerifyAndCreateDm :: "('j, 'h) ext \<Rightarrow> verify_fn" where
  "VerifyAndCreateDm X moduleFile blockDevice w k =
     (case VerifyModuleVerity X w moduleFile of
        (False, f1) \<Rightarrow> ((False, f1, blockDevice), k)
      | (True, f1) \<Rightarrow>
          (case CreateDmDevice X f1 blockDevice of
             (False, dev) \<Rightarrow> ((False, f1, dev), snd (ClearDmLoopDevice X w dev False k))
           | (True, dev) \<Rightarrow> ((True, f1, dev), k)))"

definition VerifyImageAndCreateDm ::
  "verify_fn option \<Rightarrow> bool \<Rightarrow> ModuleFile \<Rightarrow> string \<Rightarrow> world \<Rightarrow> kern \<Rightarrow> (bool \<times> ModuleFile \<times> string) \<times> kern"
where
  "VerifyImageAndCreateDm verify mountOnVerity moduleFile blockDevice w k =
     (if \<not> mountOnVerity then ((True, moduleFile, blockDevice), k)
      else case verify of
        None \<Rightarrow> ((False, moduleFile, blockDevice), k)
      | Some f \<Rightarrow> f moduleFile blockDevice w k)"

text \<open>\<open>WaitDevice\<close>: how often it sleeps when \<open>there i\<close> is the answer of its i-th test.\<close>

fun wait_rounds :: "(nat \<Rightarrow> bool) \<Rightarrow> nat \<Rightarrow> nat \<Rightarrow> nat" where
  "wait_rounds there 0 i = 0"
| "wait_rounds there (Suc n) i = (if there i then 0 else Suc (wait_rounds there n (Suc i)))"

definition WaitDevice :: "(nat \<Rightarrow> bool) \<Rightarrow> nat" where
  "WaitDevice there = wait_rounds there 150 0"

definition CreateMountPoint :: "ModuleFile \<Rightarrow> world \<Rightarrow> string \<times> world" where
  "CreateMountPoint moduleFile w =
     (let mountPoint = (if mp_type (mf_versionInfo moduleFile) \<noteq> HMP_TRAIN_TYPE
                        then MODULE_ROOT_DIR @ ''/'' @ mp_hmpName (mf_versionInfo moduleFile)
                        else MODULE_ROOT_DIR)
      in case CreateDirIfNeeded mountPoint MOUNT_POINT_MODE w of
           (False, w1) \<Rightarrow> ([], w1)
         | (True, w1) \<Rightarrow> (mountPoint, w1))"

definition sys_mount :: "string \<Rightarrow> string \<Rightarrow> world \<Rightarrow> bool \<times> world" where
  "sys_mount dev mnt w =
     (if w_fault w OpMount mnt then (False, w)
      else (True, w\<lparr>w_mounts := w_mounts w @ [(dev, mnt)]\<rparr>))"

definition MountModulePackage ::
  "('j, 'h) ext \<Rightarrow> verify_fn option \<Rightarrow> ModuleFile \<Rightarrow> bool \<Rightarrow> world \<Rightarrow> kern \<Rightarrow> bool \<times> world \<times> kern" where
  "MountModulePackage X verify moduleFile mountOnVerity w k =
     (case CreateMountPoint moduleFile w of
        (mountPoint, w1) \<Rightarrow>
      if mountPoint = [] then (False, w1, k)
      else let rmDir = (\<lambda>w'. snd (sys_rmdir mountPoint w'))
      in if \<not> CheckModulePackage X w1 mountPoint moduleFile then (False, rmDir w1, k)
      else let fpInfo = x_ExtractFilePath X (mf_modulePath moduleFile) @ IMG_FILE_NAME
      in case CreateLoopDevice X fpInfo (the (mf_imageStat moduleFile)) w1 k of
        (None, w2, k2) \<Rightarrow> (False, rmDir w2, k2)
      | (Some loopbackDevice, w2, k2) \<Rightarrow>
     (case VerifyImageAndCreateDm verify mountOnVerity moduleFile (ld_name loopbackDevice) w2 k2 of
        ((False, f1, dev), k3) \<Rightarrow> (False, rmDir w2, MaybeCloseBad loopbackDevice k3)
      | ((True, f1, dev), k3) \<Rightarrow>
     (case sys_mount dev mountPoint w2 of
        (False, w3) \<Rightarrow>
          (False, rmDir w3, MaybeCloseBad loopbackDevice (snd (ClearDmLoopDevice X w3 dev True k3)))
      | (True, w3) \<Rightarrow> (True, w3, MaybeCloseBad (CloseGood loopbackDevice) k3))))"

section \<open>One task\<close>

definition ClearTask :: "task_manager \<Rightarrow> task_manager" where
  "ClearTask tm = tm\<lparr>tm_taskNum := 0\<rparr>"

definition SetTaskResult :: "bool \<Rightarrow> task_manager \<Rightarrow> task_manager" where
  "SetTaskResult result tm = tm\<lparr>tm_taskResult := tm_taskResult tm \<and> result\<rparr>"

definition ReportModuleUpdateStatus :: "('j, 'h) ext \<Rightarrow> ModuleUpdateStatus \<Rightarrow> boot \<Rightarrow> boot" where
  "ReportModuleUpdateStatus X status b =
     (let b1 = (if \<not> tm_taskResult (b_tasks b) then b\<lparr>b_tasks := ClearTask (b_tasks b)\<rparr> else b);
          h = us_hmpName status
      in if \<not> us_isAllMountSuccess status
         then b1\<lparr>b_w := Revert X h True (snd (NotifyBmsRevert X h True
                          (snd (RemoveSpecifiedDir X (install_path h) False (b_w b1)))))\<rparr>
         else b1)"

text \<open>The loop over the list ends at the first file with an image.\<close>

definition ActivateModules ::
  "('j, 'h) ext \<Rightarrow> ModuleUpdateStatus \<Rightarrow> boot \<Rightarrow> (bool \<times> ModuleUpdateStatus) \<times> boot" where
  "ActivateModules X status b =
     (case find (\<lambda>f. mf_imageStat f \<noteq> None) (b_list b) of
        None \<Rightarrow>
          ((us_isAllMountSuccess status, status), ReportModuleUpdateStatus X status b)
      | Some moduleFile \<Rightarrow>
          (let pre = IsPreInstalledModule (b_repo b) moduleFile
           in case MountModulePackage X (b_verify b) moduleFile (\<not> pre) (b_w b) (b_k b) of
                (ok, w1, k1) \<Rightarrow>
                  (let status1 = status\<lparr>us_isPreInstalled := pre, us_isAllMountSuccess := ok\<rparr>;
                       w2 = (if ok then w1
                             else Repository_SaveInstallerResult X (mf_modulePath moduleFile)
                                    (us_hmpName status) (code ERR_INSTALL_FAIL) ''mount fail'' w1)
                   in ((ok, status1), ReportModuleUpdateStatus X status1 (b\<lparr>b_w := w2, b_k := k1\<rparr>)))))"

definition ProcessHmpFile :: "('j, 'h) ext \<Rightarrow> string \<Rightarrow> ModuleUpdateStatus \<Rightarrow> boot \<Rightarrow> boot" where
  "ProcessHmpFile X hmpFile status b =
     (case ModuleFile_Open X (b_w b) hmpFile of
        None \<Rightarrow> b
      | Some _ \<Rightarrow>
          if CheckMountComplete (b_w b) (us_hmpName status) then b
          else case InitRepository X (us_hmpName status) (b_repo b) (b_w b) of
            (repo', w') \<Rightarrow> PrepareModuleFileList X status (b\<lparr>b_repo := repo', b_w := w'\<rparr>))"

fun process_files :: "('j, 'h) ext \<Rightarrow> string list \<Rightarrow> ModuleUpdateStatus \<Rightarrow> boot \<Rightarrow> boot" where
  "process_files X [] status b = b"
| "process_files X (file # files) status b =
     (if \<not> CheckFileSuffix file MODULE_PACKAGE_SUFFIX \<or> GetFileName file = []
      then process_files X files status b
      else process_files X files status (ProcessHmpFile X file status b))"

definition DoModuleUpdate ::
  "('j, 'h) ext \<Rightarrow> ModuleUpdateStatus \<Rightarrow> boot \<Rightarrow> (bool \<times> ModuleUpdateStatus) \<times> boot" where
  "DoModuleUpdate X status b =
     (let clear = (\<lambda>b'. b'\<lparr>b_repo := Repository_Clear (b_repo b'), b_list := []\<rparr>);
          files = x_GetDirFiles X (w_fs (b_w b)) (preinstall_path (us_hmpName status));
          b1 = process_files X files status b
      in if length (b_list b1) \<noteq> 1 then ((False, status), clear b1)
      else case PreAllocateLoopDevices X (of_nat (length (b_list b1))) (b_k b1) of
        (False, k1) \<Rightarrow> ((False, status), clear (b1\<lparr>b_k := k1\<rparr>))
      | (True, k1) \<Rightarrow>
          (case ActivateModules X status (b1\<lparr>b_k := k1\<rparr>) of (res, b2) \<Rightarrow> (res, clear b2)))"

section \<open>The task manager and the boot check\<close>

definition TaskCallback :: "('j, 'h) ext \<Rightarrow> string \<Rightarrow> boot \<Rightarrow> boot" where
  "TaskCallback X hmpName b =
     (case DoModuleUpdate X (ModuleUpdateStatus_init hmpName) b of
        ((ret, status), b1) \<Rightarrow> b1\<lparr>b_tasks := SetTaskResult ret (b_tasks b1)\<rparr>)"

definition Task_Start :: "task_manager \<Rightarrow> task_manager" where
  "Task_Start tm = tm\<lparr>tm_taskNum := 0\<rparr>"

definition AddTask :: "string \<Rightarrow> task_manager \<Rightarrow> bool \<times> task_manager" where
  "AddTask hmpName tm =
     (if tm_taskNum tm \<ge> MAX_TASK_NUM then (False, tm)
      else (True, tm\<lparr>tm_pool := tm_pool tm @ [hmpName], tm_taskNum := tm_taskNum tm + 1\<rparr>))"

fun add_tasks :: "string list \<Rightarrow> task_manager \<Rightarrow> task_manager" where
  "add_tasks [] tm = tm"
| "add_tasks (h # hs) tm = add_tasks hs (snd (AddTask h tm))"

text \<open>The worker takes the tasks in order; \<open>Stop\<close> returns when the pool is empty.\<close>

fun run_tasks :: "('j, 'h) ext \<Rightarrow> string list \<Rightarrow> boot \<Rightarrow> boot" where
  "run_tasks X [] b = b"
| "run_tasks X (h # hs) b = run_tasks X hs (TaskCallback X h b)"

fun preinstalled_names :: "('j, 'h) ext \<Rightarrow> world \<Rightarrow> string list \<Rightarrow> string list" where
  "preinstalled_names X w [] = []"
| "preinstalled_names X w (file # files) =
     (if CheckFileSuffix file MODULE_PACKAGE_SUFFIX \<and> ModuleFile_Open X w file \<noteq> None
         \<and> GetHmpName file \<noteq> []
      then GetHmpName file # preinstalled_names X w files
      else preinstalled_names X w files)"

text \<open>\<open>hmpNameSet\<close> is unordered; the model takes the order of the first occurrences.\<close>

definition CheckModuleUpdate :: "('j, 'h) ext \<Rightarrow> boot \<Rightarrow> boot" where
  "CheckModuleUpdate X b =
     (let hmpNameSet = remdups (preinstalled_names X (b_w b)
                                 (x_GetDirFiles X (w_fs (b_w b)) MODULE_PREINSTALL_DIR));
          tm1 = add_tasks hmpNameSet (Task_Start (b_tasks b));
          b1 = run_tasks X (tm_pool tm1) (b\<lparr>b_tasks := tm1\<lparr>tm_pool := []\<rparr>\<rparr>)
      in b1\<lparr>b_tasks := ClearTask (b_tasks b1),
            b_w := snd (force_remove X UPDATE_INSTALL_DIR (b_w b1))\<rparr>)"

definition RegisterImageVerifyFunc :: "verify_fn option \<Rightarrow> int \<Rightarrow> boot \<Rightarrow> boot" where
  "RegisterImageVerifyFunc ptr level b =
     (if level \<le> b_level b then b else b\<lparr>b_level := level, b_verify := ptr\<rparr>)"

definition RegisterImgVerifyFunc :: "('j, 'h) ext \<Rightarrow> boot \<Rightarrow> boot" where
  "RegisterImgVerifyFunc X b = RegisterImageVerifyFunc (Some (VerifyAndCreateDm X)) 1 b"

fun set_params :: "string list \<Rightarrow> world \<Rightarrow> world" where
  "set_params [] w = w"
| "set_params (line # ls) w =
     (case find_str ''='' line of
        None \<Rightarrow> set_params ls w
      | Some pos \<Rightarrow>
          set_params ls
            (w\<lparr>w_setparams := w_setparams w @ [(substr line 0 pos, substr_from line (pos + 1))]\<rparr>))"

definition SetParameterFromFile ::
  "(nat \<Rightarrow> nat) \<Rightarrow> (nat \<Rightarrow> bool) \<Rightarrow> world \<Rightarrow> world" where
  "SetParameterFromFile clk there w =
     (if WaitForFile (100 div 5 + 2) clk there 100 0 \<noteq> Some True then w
      else case read_file w MODULE_UPDATE_PARAMS_FILE of
        None \<Rightarrow> w
      | Some c \<Rightarrow> snd (sys_unlink MODULE_UPDATE_PARAMS_FILE (set_params (getlines c) w)))"

definition HandleExtraArgs ::
  "(nat \<Rightarrow> nat) \<Rightarrow> (nat \<Rightarrow> bool) \<Rightarrow> string list option \<Rightarrow> world \<Rightarrow> world" where
  "HandleExtraArgs clk there argv w =
     (case argv of
        None \<Rightarrow> w
      | Some args \<Rightarrow>
          fold (\<lambda>a w'. if a = ''setParam'' then SetParameterFromFile clk there w' else w')
            (drop 1 args) w)"

definition Boot_main ::
  "('j, 'h) ext \<Rightarrow> (nat \<Rightarrow> nat) \<Rightarrow> (nat \<Rightarrow> bool) \<Rightarrow> string list \<Rightarrow> boot \<Rightarrow> boot" where
  "Boot_main X clk there argv b =
     (if length argv \<le> 1 then CheckModuleUpdate X b
      else b\<lparr>b_w := HandleExtraArgs clk there (Some argv) (b_w b)\<rparr>)"

section \<open>Lemmas\<close>

lemma CreateDirIfNeeded_more:
  "CreateDirIfNeeded p m w = (ok, w') \<Longrightarrow> w_mounts w' = w_mounts w \<and> w_fault w' = w_fault w"
  by (auto simp: CreateDirIfNeeded_def sys_defs split: stat_result.splits node.splits bool.splits
      option.splits if_splits)

lemma sys_chmod_mounts [simp]: "w_mounts (snd (sys_chmod p m w)) = w_mounts w"
  by (simp add: sys_chmod_def split: option.splits node.splits)

lemma ConfigureReadAhead_mounts:
  "w_mounts (snd (ConfigureReadAhead X k d w)) = w_mounts w"
  by (simp add: ConfigureReadAhead_def Let_def
      split: stat_result.splits node.splits option.splits bool.splits)

lemma Loop_CreateLoopDevice_mounts:
  "Loop_CreateLoopDevice X t off sz w k = (d, w', k') \<Longrightarrow> w_mounts w' = w_mounts w"
  using ConfigureReadAhead_mounts[of X]
  by (auto simp: Loop_CreateLoopDevice_def dest: sndI
      split: if_splits ioctl_result.splits option.splits prod.splits bool.splits)

lemma create_loop_attempts_mounts:
  "create_loop_attempts X n path st w k = (d, w', k') \<Longrightarrow> w_mounts w' = w_mounts w"
  by (induction X n path st w k rule: create_loop_attempts.induct)
    (auto split: option.splits prod.splits dest: Loop_CreateLoopDevice_mounts)

lemma sys_rmdir_mounts [simp]: "w_mounts (snd (sys_rmdir p w)) = w_mounts w"
  by (simp add: sys_rmdir_def)

text \<open>What a mount did: the verification it needed has answered yes.\<close>

lemma MountModulePackage_True:
  assumes "MountModulePackage X verify f onVerity w k = (True, w', k')"
  shows "\<exists>name w2 k2 f1 dev k3 mnt.
     VerifyImageAndCreateDm verify onVerity f name w2 k2 = ((True, f1, dev), k3)
     \<and> w_mounts w' = w_mounts w @ [(dev, mnt)]
     \<and> (mnt = MODULE_ROOT_DIR \<or> mnt = MODULE_ROOT_DIR @ ''/'' @ mp_hmpName (mf_versionInfo f))
     \<and> mf_imageStat f \<noteq> None"
proof -
  obtain mnt w1 where cm: "CreateMountPoint f w = (mnt, w1)" by fastforce
  from assms cm have ne: "mnt \<noteq> []" and img: "mf_imageStat f \<noteq> None"
    by (auto simp: MountModulePackage_def CheckModulePackage_def Let_def split: if_splits)
  from cm ne have mnt: "mnt = MODULE_ROOT_DIR \<or> mnt = MODULE_ROOT_DIR @ ''/'' @ mp_hmpName (mf_versionInfo f)"
    and w1: "w_mounts w1 = w_mounts w"
    by (auto simp: CreateMountPoint_def Let_def dest: CreateDirIfNeeded_more
        split: prod.splits bool.splits if_splits)
  from assms cm ne obtain d w2 k2 where
    cl: "CreateLoopDevice X (x_ExtractFilePath X (mf_modulePath f) @ IMG_FILE_NAME)
           (the (mf_imageStat f)) w1 k = (Some d, w2, k2)"
    by (auto simp: MountModulePackage_def Let_def split: if_splits prod.splits option.splits)
  from assms cm ne cl obtain f1 dev k3 where
    v: "VerifyImageAndCreateDm verify onVerity f (ld_name d) w2 k2 = ((True, f1, dev), k3)"
    by (auto simp: MountModulePackage_def Let_def split: if_splits prod.splits bool.splits)
  from assms cm ne cl v have "w_mounts w' = w_mounts w2 @ [(dev, mnt)]"
    by (auto simp: MountModulePackage_def Let_def sys_mount_def split: if_splits prod.splits bool.splits)
  moreover have "w_mounts w2 = w_mounts w1"
    using cl unfolding CreateLoopDevice_def by (rule create_loop_attempts_mounts)
  ultimately show ?thesis using v mnt img w1
    by (intro exI[of _ "ld_name d"] exI[of _ w2] exI[of _ k2] exI[of _ f1] exI[of _ dev] exI[of _ k3]
        exI[of _ mnt]) auto
qed

lemma add_tasks_pool:
  "tm_taskNum tm \<le> MAX_TASK_NUM \<Longrightarrow>
     tm_pool (add_tasks hs tm) = tm_pool tm @ take (MAX_TASK_NUM - tm_taskNum tm) hs
     \<and> tm_taskResult (add_tasks hs tm) = tm_taskResult tm"
proof (induction hs arbitrary: tm)
  case (Cons h hs)
  show ?case
  proof (cases "tm_taskNum tm < MAX_TASK_NUM")
    case True
    then have "MAX_TASK_NUM - tm_taskNum tm = Suc (MAX_TASK_NUM - Suc (tm_taskNum tm))" by simp
    with True Cons.IH[of "snd (AddTask h tm)"] show ?thesis by (simp add: AddTask_def)
  next
    case False
    with Cons.prems Cons.IH[of tm] show ?thesis by (simp add: AddTask_def)
  qed
qed simp

section \<open>Properties\<close>

text \<open>C4. A package that is not the preinstalled one is mounted only after the registered image
  verification has accepted it, on the device the verification returned; without a registered
  verification it is never mounted.\<close>

theorem Mount_needs_verification:
  assumes "MountModulePackage X verify f True w k = (True, w', k')"
  shows "\<exists>g name w2 k2 f1 dev k3 mnt. verify = Some g \<and> g f name w2 k2 = ((True, f1, dev), k3)
     \<and> w_mounts w' = w_mounts w @ [(dev, mnt)]"
  using MountModulePackage_True[OF assms]
  by (fastforce simp: VerifyImageAndCreateDm_def split: option.splits)

definition mount_world :: world where
  "mount_world = world0 [(''/module_update'', Dir 493), (''/dev/loop0'', Reg 420 []),
     (''/sys/block/loop0/queue/read_ahead_kb'', Reg 420 ''0''), (''/a/module.img'', Reg 420 ext4_image)]"

lemma Mount_needs_verification_witness:
  "\<exists>w' k'. MountModulePackage pk (Some (VerifyAndCreateDm pk)) (pk_file ''/a/m.zip'' ''v'') True mount_world kern0
      = (True, w', k')
    \<and> (\<exists>g name w2 k2 f1 dev k3. Some (VerifyAndCreateDm pk) = Some g
        \<and> g (pk_file ''/a/m.zip'' ''v'') name w2 k2 = ((True, f1, dev), k3))"
proof -
  have "\<exists>w' k'. MountModulePackage pk (Some (VerifyAndCreateDm pk)) (pk_file ''/a/m.zip'' ''v'') True
      mount_world kern0 = (True, w', k')"
    by (simp add: MountModulePackage_def CreateMountPoint_def pk_file_def pk_info_def hmp_type_defs
        MODULE_ROOT_DIR_def CreateDirIfNeeded_def sys_defs mount_world_def world0_def fs_node_def
        parent_ok_def parent_dir_def is_dir_def CheckModulePackage_def pk_def sample_ext_def
        dir_empty_def after_slash_def IMG_FILE_NAME_def CreateLoopDevice_def
        LOOP_DEVICE_SETUP_ATTEMPTS_def numeral_3_eq_3 Loop_CreateLoopDevice_def kern0_def ioctl_def
        WaitForDevice_def LOOP_DEVICE_RETRY_ATTEMPTS_def numeral_eq_Suc LOOP_BLOCK_PATH_def
        LOOP_DEV_PATH_def GetRealPath_def CheckPathExists_def SetUpLoopDevice_def
        ConfigureLoopDevice_def io_ok_def ConfigureReadAhead_def StartsWith_prefix DEVICE_PREFIX_def
        SYSTEM_BLOCK_PATH_def basename_def READ_AHEAD_NAME_def VerifyImageAndCreateDm_def
        VerifyAndCreateDm_def VerifyModuleVerity_def CreateDmDevice_def sys_mount_def Let_def)
  then show ?thesis using Mount_needs_verification by fast
qed

section \<open>Selecting the file to mount\<close>

lemma GetLatest_source:
  assumes "GetLatestUpdateModulePackage X repo h w = (Some f, w1)"
  shows "\<exists>root g. root \<in> {UPDATE_ACTIVE_DIR, UPDATE_INSTALL_DIR} \<and> GetModuleFile repo root h = Some g
     \<and> mf_versionInfo f = mf_versionInfo g \<and> mf_imageStat f = mf_imageStat g"
  using assms
  by (auto simp: GetLatestUpdateModulePackage_def Let_def split: option.splits if_splits prod.splits bool.splits)

lemma roots_differ [simp]:
  "UPDATE_ACTIVE_DIR \<noteq> MODULE_PREINSTALL_DIR" "UPDATE_INSTALL_DIR \<noteq> MODULE_PREINSTALL_DIR"
  "MODULE_PREINSTALL_DIR \<noteq> UPDATE_ACTIVE_DIR" "MODULE_PREINSTALL_DIR \<noteq> UPDATE_INSTALL_DIR"
  "UPDATE_INSTALL_DIR \<noteq> UPDATE_ACTIVE_DIR" "UPDATE_ACTIVE_DIR \<noteq> UPDATE_INSTALL_DIR"
  by (simp_all add: dir_consts)

text \<open>C5. The file chosen for a package at boot is trusted and never a downgrade: exactly one file is
  put on the list, it carries the package's name and an image, its version is accepted over the
  preinstalled one, and it is the preinstalled file or the content of a staged or active file
  whose signature was valid.\<close>

theorem Prepare_trusted:
  assumes "map_of (b_repo b) h = None" and "InitRepository X h (b_repo b) (b_w b) = (repo', w')"
    and "GetModuleFile repo' MODULE_PREINSTALL_DIR h = Some sys" and "us_hmpName status = h"
  shows "\<exists>f. b_list (PrepareModuleFileList X status (b\<lparr>b_repo := repo', b_w := w'\<rparr>)) = b_list b @ [f]
    \<and> CompareVersion X f sys \<and> mp_hmpName (mf_versionInfo f) = h \<and> mf_imageStat f \<noteq> None
    \<and> (f = sys \<or> (\<exists>root g. root \<noteq> MODULE_PREINSTALL_DIR \<and> GetModuleFile repo' root h = Some g
          \<and> VerifyModulePackageSign X (b_w b) (mf_modulePath g) = 0
          \<and> mf_versionInfo f = mf_versionInfo g \<and> mf_imageStat f = mf_imageStat g))"
proof -
  have ok: "repo_ok X (b_w b) h repo'" by (rule InitRepository_ok[OF assms(1,2)])
  then have fok: "file_ok X (b_w b) h repo' root g" if "GetModuleFile repo' root h = Some g" for root g
    using that by (simp add: repo_ok_def)
  have sys: "mp_hmpName (mf_versionInfo sys) = h" "mf_imageStat sys \<noteq> None" "CompareVersion X sys sys"
    using fok[OF assms(3)] by (simp_all add: file_ok_def CompareVersion_def)
  obtain latest w1 where latest: "GetLatestUpdateModulePackage X repo' h w' = (latest, w1)" by fastforce
  show ?thesis
  proof (cases "case latest of None \<Rightarrow> False | Some l \<Rightarrow> CompareVersion X l sys")
    case True
    then obtain f where f: "latest = Some f" "CompareVersion X f sys" by (auto split: option.splits)
    from GetLatest_source[OF latest[unfolded f(1)]] obtain root g
      where root: "root \<in> {UPDATE_ACTIVE_DIR, UPDATE_INSTALL_DIR}" and g: "GetModuleFile repo' root h = Some g"
        "mf_versionInfo f = mf_versionInfo g" "mf_imageStat f = mf_imageStat g" by blast
    then have ne: "root \<noteq> MODULE_PREINSTALL_DIR" by auto
    have "b_list (PrepareModuleFileList X status (b\<lparr>b_repo := repo', b_w := w'\<rparr>)) = b_list b @ [f]"
      using assms(3,4) latest f by (simp add: PrepareModuleFileList_def)
    with f(2) g ne fok[OF g(1)] show ?thesis
      by (intro exI[of _ f]) (auto simp: file_ok_def)
  next
    case False
    then have "b_list (PrepareModuleFileList X status (b\<lparr>b_repo := repo', b_w := w'\<rparr>)) = b_list b @ [sys]"
      using assms(3,4) latest by (simp add: PrepareModuleFileList_def Let_def split del: option.splits)
    with sys show ?thesis by auto
  qed
qed

definition boot0 :: "world \<Rightarrow> boot" where
  "boot0 w = \<lparr>b_w = w, b_k = kern0, b_repo = [], b_list = [], b_verify = None, b_level = 0,
     b_tasks = \<lparr>tm_pool = [], tm_taskResult = True, tm_taskNum = 0\<rparr>\<rparr>"

lemma Prepare_trusted_witness:
  "\<exists>f repo'. b_list (PrepareModuleFileList pk (ModuleUpdateStatus_init ''h1'')
        ((boot0 pk_world)\<lparr>b_repo := repo', b_w := pk_world\<rparr>)) = [f]
     \<and> CompareVersion pk f (pk_file ''/system/module_update/h1/module_info.zip'' ''d 1.0.0.1'')"
proof -
  have "InitRepository pk ''h1'' (b_repo (boot0 pk_world)) (b_w (boot0 pk_world)) =
      (fst (InitRepository pk ''h1'' [] pk_world), pk_world)"
    by (simp add: boot0_def pk_repository)
  moreover have "GetModuleFile (fst (InitRepository pk ''h1'' [] pk_world)) MODULE_PREINSTALL_DIR ''h1'' =
      Some (pk_file ''/system/module_update/h1/module_info.zip'' ''d 1.0.0.1'')"
    by (simp add: pk_repository pk_repo_def GetModuleFile_def)
  moreover have "map_of (b_repo (boot0 pk_world)) ''h1'' = None"
    and "us_hmpName (ModuleUpdateStatus_init ''h1'') = ''h1''" and "b_list (boot0 pk_world) = []"
    by (simp_all add: boot0_def ModuleUpdateStatus_init_def)
  ultimately show ?thesis
    using Prepare_trusted[of "boot0 pk_world" "''h1''" pk "fst (InitRepository pk ''h1'' [] pk_world)" pk_world]
    by fastforce
qed

section \<open>A staging that fails\<close>

lemma RemoveSpecifiedDir_False:
  "RemoveSpecifiedDir X d False w = (if CheckPathExists w d then force_remove X d w else (False, w))"
  by (simp add: RemoveSpecifiedDir_def)

lemma RemoveSpecifiedDir_gone:
  assumes "rmdir_contract X" and "\<forall>d fs. fst (x_ForceRemoveDirectory X d fs)"
    and "CheckPathExists w d" and "inside d q"
  shows "map_of (w_fs (snd (RemoveSpecifiedDir X d False w))) q = None"
proof -
  obtain w1 where "force_remove X d w = (True, w1)"
    and "\<forall>q. map_of (w_fs w1) q = (if inside d q then None else map_of (w_fs w) q)"
    by (rule force_remove_ok[OF assms(1,2)])
  with assms(3,4) show ?thesis by (simp add: RemoveSpecifiedDir_False)
qed

lemma RemoveSpecifiedDir_None:
  assumes "rmdir_contract X" and "map_of (w_fs w) q = None"
  shows "map_of (w_fs (snd (RemoveSpecifiedDir X d False w))) q = None"
proof -
  obtain ok w1 where f: "force_remove X d w = (ok, w1)" by fastforce
  from force_remove_shrinks[OF assms(1) f, of q] assms(2) f show ?thesis
    by (auto simp: RemoveSpecifiedDir_False)
qed

text \<open>When a newer staged package cannot be linked into the active directory, the valid active
  package is not used either: the preinstalled one is mounted and the active tree is deleted.\<close>

theorem Stage_failure_discards_active:
  assumes "GetModuleFile (b_repo b) MODULE_PREINSTALL_DIR h = Some sys"
    and "GetModuleFile (b_repo b) UPDATE_ACTIVE_DIR h = Some a"
    and "GetModuleFile (b_repo b) UPDATE_INSTALL_DIR h = Some u"
    and "CompareVersion X u a" and "us_hmpName status = h"
    and stage: "StageUpdateModulePackage X (mf_modulePath u)
           (UPDATE_ACTIVE_DIR @ drop (length UPDATE_INSTALL_DIR) (mf_modulePath u)) (b_w b) = (False, w1)"
    and X: "rmdir_contract X" "\<forall>d fs. fst (x_ForceRemoveDirectory X d fs)"
    and "CheckPathExists w1 (active_path h)"
  shows "b_list (PrepareModuleFileList X status b) = b_list b @ [sys]
    \<and> (\<forall>q. inside (active_path h) q \<longrightarrow> map_of (w_fs (b_w (PrepareModuleFileList X status b))) q = None)"
proof -
  from assms(1,2) obtain v where v: "map_of (b_repo b) h = Some v"
    and "map_of v MODULE_PREINSTALL_DIR = Some sys" "map_of v UPDATE_ACTIVE_DIR = Some a"
    by (auto simp: GetModuleFile_def split: option.splits)
  then have "length v \<noteq> 1" by (auto simp: length_Suc_conv split: if_splits)
  with v have nr: "\<not> CheckRevert (b_repo b) h w1" by (simp add: CheckRevert_def)
  have latest: "GetLatestUpdateModulePackage X (b_repo b) h (b_w b) = (None, w1)"
    using assms(2-4) stage by (simp add: GetLatestUpdateModulePackage_def substr_from_def)
  let ?b' = "PrepareModuleFileList X status b"
  have "b_list ?b' = b_list b @ [sys]" and "b_w ?b' = snd (RemoveSpecifiedDir X (backup_path h) False
      (snd (RemoveSpecifiedDir X (active_path h) False w1)))"
    using assms(1,5) latest nr by (simp_all add: PrepareModuleFileList_def)
  with RemoveSpecifiedDir_gone[OF X assms(9)] RemoveSpecifiedDir_None[OF X(1)] show ?thesis by simp
qed

definition staged_boot :: boot where
  "staged_boot = (boot0 pk_world)\<lparr>b_repo := [(''h1'',
     [(MODULE_PREINSTALL_DIR, pk_file ''/system/module_update/h1/module_info.zip'' ''d 1.0.0.1''),
      (UPDATE_ACTIVE_DIR, pk_file ''/data/module_update/active/h1/module_info.zip'' ''d 1.0.0.1''),
      (UPDATE_INSTALL_DIR, pk_file ''/data/module_update_package/h1/module_info.zip'' ''d 1.0.0.2'')])]\<rparr>"

lemma Stage_failure_discards_active_witness:
  "b_list (PrepareModuleFileList pk (ModuleUpdateStatus_init ''h1'') staged_boot) =
     [pk_file ''/system/module_update/h1/module_info.zip'' ''d 1.0.0.1'']
   \<and> map_of (w_fs (b_w (PrepareModuleFileList pk (ModuleUpdateStatus_init ''h1'') staged_boot)))
       ''/data/module_update/active/h1/module.img'' = None"
proof -
  let ?u = "''/data/module_update_package/h1/module_info.zip''"
    and ?a = "''/data/module_update/active/h1/module_info.zip''"
  have path: "UPDATE_ACTIVE_DIR @ drop (length UPDATE_INSTALL_DIR) ?u = ?a" by (simp add: dir_consts)
  obtain ok w1 where eq: "StageUpdateModulePackage pk ?u ?a pk_world = (ok, w1)" by (rule prod.exhaust)
  have "fst (StageUpdateModulePackage pk ?u ?a pk_world) = False
      \<and> CheckPathExists (snd (StageUpdateModulePackage pk ?u ?a pk_world)) (active_path ''h1'')"
    by (simp add: StageUpdateModulePackage_def CheckPathExists_def sys_defs pk_world_def world0_def
        fs_node_def pk_def sample_ext_def after_slash_def parent_ok_def parent_dir_def is_dir_def
        UPDATE_ACTIVE_DIR_def)
  then have stage: "StageUpdateModulePackage pk ?u ?a pk_world = (False, w1)"
    and ex: "CheckPathExists w1 (active_path ''h1'')" unfolding eq fst_conv snd_conv by simp_all
  have newer: "CompareVersion pk (pk_file ?u ''d 1.0.0.2'') (pk_file ?a ''d 1.0.0.1'')"
    by (rule pk_newer) simp
  have rm: "\<forall>d fs. fst (x_ForceRemoveDirectory pk d fs)" by (simp add: pk_def sample_ext_def)
  have stage': "StageUpdateModulePackage pk (mf_modulePath (pk_file ?u ''d 1.0.0.2''))
      (UPDATE_ACTIVE_DIR @ drop (length UPDATE_INSTALL_DIR) (mf_modulePath (pk_file ?u ''d 1.0.0.2'')))
      (b_w staged_boot) = (False, w1)"
    using stage path by (simp add: pk_file_def staged_boot_def boot0_def)
  have g: "GetModuleFile (b_repo staged_boot) MODULE_PREINSTALL_DIR ''h1'' =
        Some (pk_file ''/system/module_update/h1/module_info.zip'' ''d 1.0.0.1'')"
      "GetModuleFile (b_repo staged_boot) UPDATE_ACTIVE_DIR ''h1'' = Some (pk_file ?a ''d 1.0.0.1'')"
      "GetModuleFile (b_repo staged_boot) UPDATE_INSTALL_DIR ''h1'' = Some (pk_file ?u ''d 1.0.0.2'')"
    by (simp_all add: staged_boot_def boot0_def GetModuleFile_def)
  have h: "us_hmpName (ModuleUpdateStatus_init ''h1'') = ''h1''" "b_list staged_boot = []"
    by (simp_all add: staged_boot_def boot0_def ModuleUpdateStatus_init_def)
  have ins: "inside (active_path ''h1'') ''/data/module_update/active/h1/module.img''"
    by (simp add: inside_def UPDATE_ACTIVE_DIR_def)
  note r = Stage_failure_discards_active[OF g newer h(1) stage' pk_rmdir rm ex]
  show ?thesis
    using conjunct1[OF r] conjunct2[OF r, rule_format, OF ins] unfolding h(2) append_Nil by (rule conjI)
qed

section \<open>A mount that fails\<close>

definition savefile_contract :: "('j, 'h) ext \<Rightarrow> bool" where
  "savefile_contract X =
     (\<forall>p s a fs q. q \<noteq> p \<longrightarrow> map_of (snd (x_SaveStringToFile X p s a fs)) q = map_of fs q)"

lemma notify_modules_record:
  "notify_modules X True ms r oss w = ((r', oss'), w') \<Longrightarrow> w' = w"
  by (induction X True ms r oss w rule: notify_modules.induct) (auto simp: Let_def split: if_splits)

lemma NotifyBmsRevert_record:
  assumes "savefile_contract X" and "NotifyBmsRevert X h True w = (r, w')"
  shows "w_fault w' = w_fault w" and "w_reboots w' = w_reboots w"
    and "q \<noteq> MODULE_UPDATE_PARAMS_FILE \<Longrightarrow> map_of (w_fs w') q = map_of (w_fs w) q"
  using assms
  by (auto simp: NotifyBmsRevert_def set_parameter_def Let_def savefile_contract_def
      dest!: notify_modules_record split: option.splits prod.splits)

lemma params_file_outside [simp]:
  "\<not> inside (install_path h) MODULE_UPDATE_PARAMS_FILE" "\<not> inside (active_path h) MODULE_UPDATE_PARAMS_FILE"
  "\<not> inside (backup_path h) MODULE_UPDATE_PARAMS_FILE"
  "active_path h \<noteq> MODULE_UPDATE_PARAMS_FILE" "backup_path h \<noteq> MODULE_UPDATE_PARAMS_FILE"
  "UPDATE_ACTIVE_DIR \<noteq> MODULE_UPDATE_PARAMS_FILE"
  by (simp_all add: inside_def dir_consts MODULE_UPDATE_PARAMS_FILE_def)

lemma Report_reverts:
  assumes X: "rmdir_contract X" "\<forall>d fs. fst (x_ForceRemoveDirectory X d fs)" "savefile_contract X"
    and faults: "\<forall>op p. \<not> w_fault (b_w b) op p"
    and h: "h \<noteq> []" "CHR ''/'' \<notin> set h" "us_hmpName status = h" "\<not> us_isAllMountSuccess status"
    and act: "map_of (w_fs (b_w b)) (active_path h) = Some (Dir m)"
    and bak: "map_of (w_fs (b_w b)) (backup_path h) = Some (Dir m')"
    and root: "is_dir (w_fs (b_w b)) UPDATE_ACTIVE_DIR"
    and inst: "well_rooted (w_fs (b_w b)) (install_path h)"
    and q: "inside (active_path h) q" "q \<noteq> active_path h"
  shows "map_of (w_fs (b_w (ReportModuleUpdateStatus X status b))) q =
      map_of (w_fs (b_w b)) (backup_path h @ drop (length (active_path h)) q)
    \<and> w_reboots (b_w (ReportModuleUpdateStatus X status b)) =
      w_reboots (b_w b) @ [''module_update revert.'']"
proof -
  let ?i = "install_path h" and ?a = "active_path h" and ?b = "backup_path h" and ?w = "b_w b"
  define w1 where "w1 = snd (RemoveSpecifiedDir X ?i False ?w)"
  have plain: "last ?i \<noteq> CHR ''/''" using last_no_slash[OF h(1,2)] by simp
  have "\<exists>v1. (if CheckPathExists ?w ?i then force_remove X ?i ?w else (True, ?w)) = (True, v1)
      \<and> (\<forall>q. map_of (w_fs v1) q = (if inside ?i q then None else map_of (w_fs ?w) q))
      \<and> w_fault v1 = w_fault ?w \<and> w_reboots v1 = w_reboots ?w"
    by (rule remove_if_there[OF X(1,2) faults _ plain], use inst in \<open>auto simp: well_rooted_def\<close>)
  then have m1: "\<forall>q. map_of (w_fs w1) q = (if inside ?i q then None else map_of (w_fs ?w) q)"
    and k1: "w_fault w1 = w_fault ?w" "w_reboots w1 = w_reboots ?w"
    by (auto simp: w1_def RemoveSpecifiedDir_False split: if_splits)
  obtain r w2 where w2: "NotifyBmsRevert X h True w1 = (r, w2)" by fastforce
  note n = NotifyBmsRevert_record[OF X(3) w2]
  have same: "map_of (w_fs w2) p = map_of (w_fs ?w) p"
    if "inside ?a p \<or> inside ?b p \<or> p = UPDATE_ACTIVE_DIR" for p
  proof -
    have "p \<noteq> MODULE_UPDATE_PARAMS_FILE"
      using that by (metis params_file_outside(2,3,6))
    moreover have "\<not> inside ?i p" using that by (metis trees_apart active_dir_outside(1))
    ultimately show ?thesis using m1 n(3) by simp
  qed
  have act2: "map_of (w_fs w2) ?a = Some (Dir m)" and bak2: "map_of (w_fs w2) ?b = Some (Dir m')"
    and root2: "is_dir (w_fs w2) UPDATE_ACTIVE_DIR"
    using same act bak root by (simp_all add: is_dir_def fs_node_plain UPDATE_ACTIVE_DIR_def)
  have inst2: "well_rooted (w_fs w2) ?i"
    using m1 n(3) unfolding well_rooted_def by (metis params_file_outside(1))
  have faults2: "\<forall>op p. \<not> w_fault w2 op p" using faults n(1) k1 by simp
  have w': "b_w (ReportModuleUpdateStatus X status b) = Revert X h True w2"
    using h(3,4) w2 by (simp add: ReportModuleUpdateStatus_def w1_def Let_def)
  have "map_of (w_fs w2) (?b @ drop (length ?a) q) = map_of (w_fs ?w) (?b @ drop (length ?a) q)"
    using same inside_shift[OF q(1)] by blast
  then show ?thesis
    using Revert_effect[OF X(1,2) faults2 h(1,2) act2 bak2 root2 inst2, of True q] q n(2) k1
    unfolding w' by simp
qed

text \<open>A failed mount ends in a revert: the backup of the package takes the place of its active
  directory, the staged files are gone, and the device is asked to reboot.\<close>

theorem Report_failure_reverts:
  assumes X: "rmdir_contract X" "\<forall>d fs. fst (x_ForceRemoveDirectory X d fs)" "savefile_contract X"
    and faults: "\<forall>op p. \<not> w_fault (b_w b) op p"
    and h: "h \<noteq> []" "CHR ''/'' \<notin> set h" "us_hmpName status = h" "\<not> us_isAllMountSuccess status"
    and act: "map_of (w_fs (b_w b)) (active_path h) = Some (Dir m)"
    and bak: "map_of (w_fs (b_w b)) (backup_path h) = Some (Dir m')"
    and root: "is_dir (w_fs (b_w b)) UPDATE_ACTIVE_DIR"
    and inst: "well_rooted (w_fs (b_w b)) (install_path h)"
    and q: "inside (active_path h) q" "q \<noteq> active_path h"
  shows "map_of (w_fs (b_w (ReportModuleUpdateStatus X status b))) q =
      map_of (w_fs (b_w b)) (backup_path h @ drop (length (active_path h)) q)
    \<and> w_reboots (b_w (ReportModuleUpdateStatus X status b)) =
      w_reboots (b_w b) @ [''module_update revert.'']"
  by (rule Report_reverts [OF assms])

lemma Report_failure_reverts_witness:
  "map_of (w_fs (b_w (ReportModuleUpdateStatus sample0 (ModuleUpdateStatus_init ''h1'') (boot0 revert_world))))
     ''/data/module_update/active/h1/old'' = Some (Reg 420 ''O'')
   \<and> w_reboots (b_w (ReportModuleUpdateStatus sample0 (ModuleUpdateStatus_init ''h1'') (boot0 revert_world)))
     = [''module_update revert.'']"
proof -
  have X: "rmdir_contract sample0" "\<forall>d fs. fst (x_ForceRemoveDirectory sample0 d fs)" "savefile_contract sample0"
    using sample_rmdir by (simp_all add: sample_defs savefile_contract_def)
  have wr: "well_rooted (w_fs (b_w (boot0 revert_world))) (install_path ''h1'')"
    by (auto simp: well_rooted_def revert_world_def world0_def inside_def dir_consts boot0_def)
  have e: "b_w (boot0 revert_world) = revert_world" by (simp add: boot0_def)
  have q: "inside (active_path ''h1'') ''/data/module_update/active/h1/old''"
    "''/data/module_update/active/h1/old'' \<noteq> active_path ''h1''"
    by (simp_all add: inside_def dir_consts)
  have f: "\<forall>op p. \<not> w_fault (b_w (boot0 revert_world)) op p"
    "us_hmpName (ModuleUpdateStatus_init ''h1'') = ''h1''"
    "\<not> us_isAllMountSuccess (ModuleUpdateStatus_init ''h1'')"
    "map_of (w_fs (b_w (boot0 revert_world))) (active_path ''h1'') = Some (Dir 511)"
    "map_of (w_fs (b_w (boot0 revert_world))) (backup_path ''h1'') = Some (Dir 448)"
    "is_dir (w_fs (b_w (boot0 revert_world))) UPDATE_ACTIVE_DIR"
    "w_reboots revert_world = []"
    "map_of (w_fs revert_world) (backup_path ''h1'' @
       drop (length (active_path ''h1'')) ''/data/module_update/active/h1/old'') = Some (Reg 420 ''O'')"
    by (simp_all add: boot0_def revert_world_def world0_def dir_consts is_dir_def fs_node_def ModuleUpdateStatus_init_def)
  have hh: "''h1'' \<noteq> []" "CHR ''/'' \<notin> set ''h1''" by simp_all
  note r = Report_failure_reverts[OF X f(1) hh f(2-6) wr q]
  show ?thesis using r unfolding e f(7,8) append_Nil .
qed

section \<open>The whole boot check\<close>

lemma DoModuleUpdate_clears:
  "DoModuleUpdate X status b = (res, b') \<Longrightarrow> b_repo b' = [] \<and> b_list b' = []"
  by (auto simp: DoModuleUpdate_def Repository_Clear_def Let_def split: if_splits prod.splits bool.splits)

lemma TaskCallback_clears: "b_repo (TaskCallback X h b) = [] \<and> b_list (TaskCallback X h b) = []"
  by (auto simp: TaskCallback_def dest: DoModuleUpdate_clears split: prod.splits)

lemma run_tasks_clears:
  "b_repo b = [] \<Longrightarrow> b_list b = [] \<Longrightarrow> b_repo (run_tasks X hs b) = [] \<and> b_list (run_tasks X hs b) = []"
  by (induction hs arbitrary: b) (auto simp: TaskCallback_clears)

text \<open>The boot check runs one task for each of the first 100 preinstalled packages, in order,
  carries no file or repository entry from one to the next, and always ends by removing the
  whole staging directory.\<close>

theorem CheckModuleUpdate_all:
  assumes "rmdir_contract X" and "\<forall>d fs. fst (x_ForceRemoveDirectory X d fs)"
    and "b_repo b = []" "b_list b = []" "tm_pool (b_tasks b) = []"
  defines "names \<equiv> remdups (preinstalled_names X (b_w b)
     (x_GetDirFiles X (w_fs (b_w b)) MODULE_PREINSTALL_DIR))"
  shows "\<exists>tm. tm_pool tm = [] \<and> tm_taskResult tm = tm_taskResult (b_tasks b)
      \<and> b_k (CheckModuleUpdate X b) = b_k (run_tasks X (take 100 names) (b\<lparr>b_tasks := tm\<rparr>))
      \<and> (\<forall>q. \<not> inside UPDATE_INSTALL_DIR q \<longrightarrow> map_of (w_fs (b_w (CheckModuleUpdate X b))) q =
             map_of (w_fs (b_w (run_tasks X (take 100 names) (b\<lparr>b_tasks := tm\<rparr>)))) q)
      \<and> (\<forall>q. inside UPDATE_INSTALL_DIR q \<longrightarrow> map_of (w_fs (b_w (CheckModuleUpdate X b))) q = None)
      \<and> b_repo (CheckModuleUpdate X b) = [] \<and> b_list (CheckModuleUpdate X b) = []"
proof -
  define tm1 where "tm1 = add_tasks names (Task_Start (b_tasks b))"
  have tm1: "tm_pool tm1 = take 100 names" "tm_taskResult tm1 = tm_taskResult (b_tasks b)"
    using add_tasks_pool[of "Task_Start (b_tasks b)" names] assms(5)
    by (simp_all add: tm1_def Task_Start_def MAX_TASK_NUM_def)
  define b1 where "b1 = run_tasks X (take 100 names) (b\<lparr>b_tasks := tm1\<lparr>tm_pool := []\<rparr>\<rparr>)"
  have run: "CheckModuleUpdate X b = b1\<lparr>b_tasks := ClearTask (b_tasks b1),
      b_w := snd (force_remove X UPDATE_INSTALL_DIR (b_w b1))\<rparr>"
    unfolding CheckModuleUpdate_def Let_def names_def[symmetric] tm1_def[symmetric] tm1(1) b1_def ..
  obtain w1 where w1: "force_remove X UPDATE_INSTALL_DIR (b_w b1) = (True, w1)"
    and m1: "\<forall>q. map_of (w_fs w1) q = (if inside UPDATE_INSTALL_DIR q then None else map_of (w_fs (b_w b1)) q)"
    by (rule force_remove_ok[OF assms(1,2)])
  have "b_repo b1 = [] \<and> b_list b1 = []"
    unfolding b1_def by (rule run_tasks_clears) (simp_all add: assms)
  with m1 tm1(2) show ?thesis
    by (intro exI[of _ "tm1\<lparr>tm_pool := []\<rparr>"]) (simp add: run w1 flip: b1_def)
qed

lemma CheckModuleUpdate_all_witness:
  "map_of (w_fs (b_w (CheckModuleUpdate sample0 (boot0 (world0 [(''/data/module_update_package/x'', Dir 488)])))))
     ''/data/module_update_package/x'' = None"
proof -
  have X: "rmdir_contract sample0" "\<forall>d fs. fst (x_ForceRemoveDirectory sample0 d fs)"
    using sample_rmdir by (simp_all add: sample_defs)
  have i: "inside UPDATE_INSTALL_DIR ''/data/module_update_package/x''"
    by (simp add: inside_def UPDATE_INSTALL_DIR_def)
  show ?thesis
    using CheckModuleUpdate_all[OF X, of "boot0 (world0 [(''/data/module_update_package/x'', Dir 488)])"] i
    by (auto simp: boot0_def)
qed

end
