(* ===== verification/Sample_Boot.thy ===== *)
theory Sample_Boot
  imports Module_Boot
begin

text \<open>
  One boot of the sample package, for the examples of the theory Module_Trust: the device has
  the preinstalled package \<open>h1\<close>, a newer active one, a loop device and an empty mount root; the
  lemmas evaluate each step of the boot until the active image is mounted.
\<close>

definition trust_world :: world where
  "trust_world = pk_world\<lparr>w_fs := w_fs pk_world
     @ [(''/module_update'', Dir 493), (''/dev/loop0'', Reg 420 []),
        (''/sys/block/loop0/queue/read_ahead_kb'', Reg 420 ''0'')]\<rparr>"

lemma trust_files:
  "x_GetDirFiles pk (w_fs trust_world) MODULE_PREINSTALL_DIR =
     [''/system/module_update/h1/module_info.zip'', ''/system/module_update/h1/module.img'']"
  "x_GetDirFiles pk (w_fs trust_world) (MODULE_PREINSTALL_DIR @ ''/'' @ ''h1'') =
     [''/system/module_update/h1/module_info.zip'', ''/system/module_update/h1/module.img'']"
  "x_GetDirFiles pk (w_fs trust_world) (UPDATE_ACTIVE_DIR @ ''/'' @ ''h1'') =
     [''/data/module_update/active/h1/module_info.zip'', ''/data/module_update/active/h1/module.img'']"
  "x_GetDirFiles pk (w_fs trust_world) (UPDATE_INSTALL_DIR @ ''/'' @ ''h1'') = []"
  by (simp_all add: pk_def sample_ext_def trust_world_def pk_world_def world0_def dir_consts is_reg_def fs_node_def)

lemma trust_open:
  "ModuleFile_Open pk trust_world ''/system/module_update/h1/module_info.zip'' =
     Some (pk_file ''/system/module_update/h1/module_info.zip'' ''d 1.0.0.1'')"
  "ModuleFile_Open pk trust_world ''/data/module_update/active/h1/module_info.zip'' =
     Some (pk_file ''/data/module_update/active/h1/module_info.zip'' ''d 1.0.0.2'')"
  by (rule pk_open; simp add: pk_def sample_ext_def trust_world_def pk_world_def world0_def after_slash_def IMG_FILE_NAME_def)+

lemma trust_repository: "InitRepository pk ''h1'' [] trust_world = (pk_repo, trust_world)"
  by (rule pk_repository_in) (use trust_files trust_open in simp_all)

abbreviation trust_boot :: boot where
  "trust_boot \<equiv> RegisterImgVerifyFunc pk (boot0 trust_world)"

lemma trust_process:
  "process_files pk [''/system/module_update/h1/module_info.zip'', ''/system/module_update/h1/module.img'']
     (ModuleUpdateStatus_init ''h1'') b =
   b\<lparr>b_repo := pk_repo, b_list := [pk_file ''/data/module_update/active/h1/module_info.zip'' ''d 1.0.0.2'']\<rparr>"
  if "b_w b = trust_world" "b_repo b = []" "b_list b = []" for b
proof -
  have sf: "CheckFileSuffix ''/system/module_update/h1/module_info.zip'' MODULE_PACKAGE_SUFFIX"
    "\<not> CheckFileSuffix ''/system/module_update/h1/module.img'' MODULE_PACKAGE_SUFFIX"
    "GetFileName ''/system/module_update/h1/module_info.zip'' \<noteq> []"
    by (simp_all add: CheckFileSuffix_def substr_from_def MODULE_PACKAGE_SUFFIX_def GetFileName_def substr_def Let_def)
  have mc: "\<not> CheckMountComplete trust_world ''h1''"
    by (simp add: CheckMountComplete_def CheckPathExists_def sys_stat_def fs_node_def trust_world_def
        pk_world_def world0_def MODULE_ROOT_DIR_def)
  have cv: "CompareVersion pk (pk_file ''/data/module_update/active/h1/module_info.zip'' ''d 1.0.0.2'')
      (pk_file ''/system/module_update/h1/module_info.zip'' ''d 1.0.0.1'')"
    by (rule pk_newer) simp
  show ?thesis
    using that
    by (simp add: sf ProcessHmpFile_def trust_open mc trust_repository ModuleUpdateStatus_init_def
        PrepareModuleFileList_def pk_repo_def GetModuleFile_def GetLatestUpdateModulePackage_def cv
        roots_differ)
qed

lemma kern0_control:
  "WaitForFile (WAIT_FOR_LOOP_MS div 5 + 2) (k_clk kern0) (k_ctl_there kern0) WAIT_FOR_LOOP_MS 0 = Some True"
proof -
  have "WAIT_FOR_LOOP_MS div 5 + 2 = Suc 10001" by (simp add: WAIT_FOR_LOOP_MS_def)
  then show ?thesis by (simp only: WaitForFile.simps) (simp add: kern0_def WAIT_FOR_LOOP_MS_def)
qed

lemma trust_prealloc: "PreAllocateLoopDevices pk 1 kern0 = (True, kern0\<lparr>k_tick := Suc 0\<rparr>)"
proof -
  have s: "scan_loops pk [''loop0''] (False, 0) = (False, 0)"
    by (simp add: StartsWith_prefix LOOP_PREFIX_def substr_from_def pk_def sample_ext_def dec_def)
  have k: "k_ctl kern0" "k_block_dir kern0 = Some [''loop0'']" by (simp_all add: kern0_def)
  have i: "ioctl (LOOP_CTL_ADD 0) LOOP_CTL_PATH kern0 = (IoErr EEXIST, kern0\<lparr>k_tick := Suc 0\<rparr>)"
    by (simp add: ioctl_def kern0_def Let_def)
  show ?thesis
    unfolding PreAllocateLoopDevices_def kern0_control k s
    by (simp only: option.case simp_thms if_True if_False prod.case Let_def unat_1 One_nat_def add_loops.simps) (simp del: scan_loops.simps add: k s i io_ok_def)
qed


definition trust_mounted :: world where
  "trust_mounted = snd (CreateDirIfNeeded ''/module_update/h1'' MOUNT_POINT_MODE trust_world)"

lemmas trust_world_defs = trust_world_def pk_world_def world0_def fs_node_def parent_ok_def parent_dir_def is_dir_def

lemma trust_lookup:
  "map_of (w_fs trust_mounted) ''/dev/loop0'' = Some (Reg 420 [])"
  "map_of (w_fs trust_mounted) ''/sys/block/loop0/queue/read_ahead_kb'' = Some (Reg 420 ''0'')"
  "map_of (w_fs trust_mounted) ''/data/module_update/active/h1/module.img'' = Some (Reg 420 ext4_image)"
  "dir_empty (w_fs trust_mounted) ''/module_update/h1''"
  "w_fault trust_mounted = (\<lambda>op p. False)" "w_mounts trust_mounted = []"
  by (simp_all add: trust_mounted_def CreateDirIfNeeded_def sys_stat_def sys_mkdir_def sys_chmod_def
      trust_world_defs dir_empty_def)

lemma trust_point:
  "CreateMountPoint (pk_file p v) trust_world = (''/module_update/h1'', trust_mounted)"
proof -
  have "CreateDirIfNeeded ''/module_update/h1'' MOUNT_POINT_MODE trust_world = (True, trust_mounted)"
    unfolding trust_mounted_def prod_eq_iff
    by (simp add: CreateDirIfNeeded_def sys_stat_def sys_mkdir_def trust_world_defs)
  then show ?thesis
    by (simp add: CreateMountPoint_def pk_file_def pk_info_def hmp_type_defs MODULE_ROOT_DIR_def)
qed

lemma trust_realpath:
  "GetRealPath pk trust_mounted p =
     (if map_of (w_fs trust_mounted) p = None then [] else p)" if "last p \<noteq> CHR ''/''"
  using that
  by (simp add: GetRealPath_def pk_def sample_ext_def CheckPathExists_def sys_stat_def trust_lookup fs_node_plain split: option.splits)

lemma trust_no_block: "map_of (w_fs trust_mounted) ''/dev/block/loop0'' = None"
  by (simp add: trust_mounted_def CreateDirIfNeeded_def sys_stat_def sys_mkdir_def sys_chmod_def
      trust_world_defs)

lemma trust_wait:
  "WaitForDevice pk trust_mounted (kern0\<lparr>k_tick := n, k_done := d\<rparr>) 0 = Some \<lparr>ld_fd = True, ld_name = ''/dev/loop0''\<rparr>"
proof -
  have "wait_device pk trust_mounted (kern0\<lparr>k_tick := n, k_done := d\<rparr>) (Suc m) 0
      [''/dev/block/loop0'', ''/dev/loop0''] = Some \<lparr>ld_fd = True, ld_name = ''/dev/loop0''\<rparr>" for m
    by (simp add: trust_realpath trust_no_block trust_lookup Let_def kern0_def)
  from this [of 5] show ?thesis
    by (simp add: WaitForDevice_def LOOP_DEVICE_RETRY_ATTEMPTS_def LOOP_BLOCK_PATH_def LOOP_DEV_PATH_def)
qed

lemma trust_read_ahead:
  "\<exists>w2. ConfigureReadAhead pk (kern0\<lparr>k_tick := n, k_done := d\<rparr>) ''/dev/loop0'' trust_mounted = (True, w2)
     \<and> w_mounts w2 = [] \<and> w_fault w2 = (\<lambda>op p. False)"
  by (simp add: ConfigureReadAhead_def StartsWith_prefix DEVICE_PREFIX_def SYSTEM_BLOCK_PATH_def basename_def
      READ_AHEAD_NAME_def trust_realpath Let_def sys_stat_def fs_node_plain trust_lookup write_file_def
      sys_chmod_def kern0_def)

lemma trust_setup:
  "\<exists>d. SetUpLoopDevice pk trust_mounted ''/dev/loop0'' ''/data/module_update/active/h1/module.img'' off sz
     (kern0\<lparr>k_tick := 2, k_done := d0\<rparr>) = (True, kern0\<lparr>k_tick := 3, k_done := d\<rparr>)"
  by (simp add: SetUpLoopDevice_def trust_realpath trust_lookup ConfigureLoopDevice_def Let_def ioctl_def
      kern0_def io_ok_def)

lemma trust_loop:
  "\<exists>w2 k2. CreateLoopDevice pk ''/data/module_update/active/h1/module.img'' st trust_mounted (kern0\<lparr>k_tick := Suc 0\<rparr>)
     = (Some \<lparr>ld_fd = True, ld_name = ''/dev/loop0''\<rparr>, w2, k2)
     \<and> w_mounts w2 = [] \<and> w_fault w2 = (\<lambda>op p. False)"
proof -
  have free: "\<exists>d. ioctl LOOP_CTL_GET_FREE LOOP_CTL_PATH (kern0\<lparr>k_tick := Suc 0\<rparr>) = (IoOk 0, kern0\<lparr>k_tick := 2, k_done := d\<rparr>)"
    by (simp add: ioctl_def kern0_def Let_def)
  then obtain d0 where d0: "ioctl LOOP_CTL_GET_FREE LOOP_CTL_PATH (kern0\<lparr>k_tick := Suc 0\<rparr>)
      = (IoOk 0, kern0\<lparr>k_tick := 2, k_done := d0\<rparr>)" by blast
  obtain d where d: "SetUpLoopDevice pk trust_mounted ''/dev/loop0'' ''/data/module_update/active/h1/module.img''
      (is_imageOffset st) (is_imageSize st) (kern0\<lparr>k_tick := 2, k_done := d0\<rparr>)
      = (True, kern0\<lparr>k_tick := 3, k_done := d\<rparr>)" using trust_setup by blast
  obtain w2 where "ConfigureReadAhead pk (kern0\<lparr>k_tick := 3, k_done := d\<rparr>) ''/dev/loop0'' trust_mounted = (True, w2)"
    "w_mounts w2 = []" "w_fault w2 = (\<lambda>op p. False)" using trust_read_ahead by blast
  moreover have "k_ctl (kern0\<lparr>k_tick := Suc 0\<rparr>)" by (simp add: kern0_def)
  ultimately have "Loop_CreateLoopDevice pk ''/data/module_update/active/h1/module.img'' (is_imageOffset st)
      (is_imageSize st) trust_mounted (kern0\<lparr>k_tick := Suc 0\<rparr>)
      = (Some \<lparr>ld_fd = True, ld_name = ''/dev/loop0''\<rparr>, w2, kern0\<lparr>k_tick := 3, k_done := d\<rparr>)"
    by (simp add: Loop_CreateLoopDevice_def d0 trust_wait d)
  then show ?thesis
    using \<open>w_mounts w2 = []\<close> \<open>w_fault w2 = _\<close>
    by (simp add: CreateLoopDevice_def LOOP_DEVICE_SETUP_ATTEMPTS_def numeral_3_eq_3)
qed

abbreviation trust_file :: ModuleFile where
  "trust_file \<equiv> pk_file ''/data/module_update/active/h1/module_info.zip'' ''d 1.0.0.2''"

lemma trust_mount:
  "\<exists>w' k'. MountModulePackage pk (Some (VerifyAndCreateDm pk)) trust_file True trust_world (kern0\<lparr>k_tick := Suc 0\<rparr>)
     = (True, w', k') \<and> w_mounts w' = [(''/dev/loop0'', ''/module_update/h1'')]"
proof -
  obtain w2 k2 where l: "CreateLoopDevice pk ''/data/module_update/active/h1/module.img''
      (the (mf_imageStat trust_file)) trust_mounted (kern0\<lparr>k_tick := Suc 0\<rparr>)
      = (Some \<lparr>ld_fd = True, ld_name = ''/dev/loop0''\<rparr>, w2, k2)"
    and w2: "w_mounts w2 = []" "w_fault w2 = (\<lambda>op p. False)" using trust_loop by blast
  have img: "x_ExtractFilePath pk (mf_modulePath trust_file) @ IMG_FILE_NAME = ''/data/module_update/active/h1/module.img''"
    by (simp add: pk_file_def pk_def sample_ext_def after_slash_def IMG_FILE_NAME_def)
  have chk: "CheckModulePackage pk trust_mounted ''/module_update/h1'' trust_file"
    using trust_lookup(4) by (simp add: CheckModulePackage_def pk_file_def pk_def sample_ext_def)
  have v: "\<exists>f1. VerifyAndCreateDm pk trust_file ''/dev/loop0'' w2 k2 = ((True, f1, ''/dev/loop0''), k2)"
    by (simp add: VerifyAndCreateDm_def VerifyModuleVerity_def CreateDmDevice_def pk_def sample_ext_def)
  then obtain f1 where "VerifyAndCreateDm pk trust_file ''/dev/loop0'' w2 k2 = ((True, f1, ''/dev/loop0''), k2)" ..
  then show ?thesis
    using w2 by (simp add: MountModulePackage_def trust_point chk img l VerifyImageAndCreateDm_def sys_mount_def)
qed

lemma trust_task:
  "w_mounts (b_w (TaskCallback pk ''h1'' (trust_boot\<lparr>b_tasks := t\<rparr>))) = [(''/dev/loop0'', ''/module_update/h1'')]"
proof -
  let ?b = "trust_boot\<lparr>b_tasks := t\<rparr>" and ?st = "ModuleUpdateStatus_init ''h1''"
  have b: "b_w ?b = trust_world" "b_repo ?b = []" "b_list ?b = []" "b_k ?b = kern0"
      "b_verify ?b = Some (VerifyAndCreateDm pk)"
    by (simp_all add: RegisterImgVerifyFunc_def RegisterImageVerifyFunc_def boot0_def)
  obtain w' k' where m: "MountModulePackage pk (Some (VerifyAndCreateDm pk)) trust_file True trust_world
      (kern0\<lparr>k_tick := Suc 0\<rparr>) = (True, w', k')" and w': "w_mounts w' = [(''/dev/loop0'', ''/module_update/h1'')]"
    using trust_mount by blast
  have st: "us_hmpName ?st = ''h1''" by (simp add: ModuleUpdateStatus_init_def)
  have img: "mf_imageStat trust_file \<noteq> None" and np: "\<not> IsPreInstalledModule pk_repo trust_file"
    by (simp_all add: pk_file_def pk_info_def IsPreInstalledModule_def pk_repo_def GetModuleFile_def)
  have files: "x_GetDirFiles pk (w_fs trust_world) (MODULE_PREINSTALL_DIR @ CHR ''/'' # ''h1'') =
     [''/system/module_update/h1/module_info.zip'', ''/system/module_update/h1/module.img'']"
    using trust_files(2) by simp
  show ?thesis
    using b m w' img np
    by (simp del: process_files.simps add: TaskCallback_def DoModuleUpdate_def st files
        trust_process [OF b(1-3)] trust_prealloc ActivateModules_def ReportModuleUpdateStatus_def Let_def)
qed

end
