(* ===== verification/Module_Trust.thy ===== *)
theory Module_Trust
  imports Sample_Boot
begin

text \<open>
  The boot check as a whole: the choice of a file, its mount and the loop over the packages are
  composed into one statement about every mount the boot performs. The lemmas follow the calls
  of module_update.cpp from the inside out: what leaves the mounts alone, what one pass over the
  preinstalled files puts on the list, what one task mounts, what all tasks mount.
\<close>

section \<open>What leaves the mounts alone\<close>

lemma force_remove_mounts [simp]: "w_mounts (snd (force_remove X d w)) = w_mounts w"
  by (simp add: force_remove_def split: prod.split)

lemma sys_link_mounts [simp]: "w_mounts (snd (sys_link a b w)) = w_mounts w"
  by (simp add: sys_link_def split: option.splits node.splits)

lemma sys_unlink_mounts [simp]: "w_mounts (snd (sys_unlink p w)) = w_mounts w"
  by (simp add: sys_unlink_def split: option.splits node.splits)

lemma sys_rename_mounts [simp]: "w_mounts (snd (sys_rename a b w)) = w_mounts w"
  by (simp add: sys_rename_def)

lemma RemoveSpecifiedDir_mounts [simp]:
  "w_mounts (snd (RemoveSpecifiedDir X d False w)) = w_mounts w"
  by (simp add: RemoveSpecifiedDir_False)

lemma Revert_mounts [simp]: "w_mounts (Revert X h reboot w) = w_mounts w"
  by (simp add: Revert_def Let_def do_reboot_def case_prod_unfold split: bool.split stat_result.split)

lemma notify_modules_mounts:
  "notify_modules X record_it ms r oss w = (res, w') \<Longrightarrow> w_mounts w' = w_mounts w"
  by (induction X record_it ms r oss w arbitrary: res w' rule: notify_modules.induct)
    (auto simp: Let_def set_parameter_def split: if_splits)

lemma NotifyBmsRevert_mounts [simp]: "w_mounts (snd (NotifyBmsRevert X h record_it w)) = w_mounts w"
  by (auto simp: NotifyBmsRevert_def Let_def set_parameter_def dest!: notify_modules_mounts
      split: option.split prod.split)

lemma sys_append_mounts [simp]: "w_mounts (sys_append p s w) = w_mounts w"
  by (simp add: sys_append_def write_file_def split: option.splits node.splits)

lemma CheckAndUpdateRevertResult_mounts:
  "CheckAndUpdateRevertResult X h i k w = (ok, w') \<Longrightarrow> w_mounts w' = w_mounts w"
  by (auto simp: CheckAndUpdateRevertResult_def write_file_def
      split: if_splits option.splits prod.splits node.splits)

lemma SaveInstallerResult_mounts [simp]:
  "w_mounts (Repository_SaveInstallerResult X p h r i w) = w_mounts w"
  by (auto simp: Repository_SaveInstallerResult_def Let_def dest!: CheckAndUpdateRevertResult_mounts
      split: prod.split bool.split)

lemma stage_others_mounts [simp]: "w_mounts (snd (stage_others X path files w)) = w_mounts w"
  by (induction files arbitrary: w)
    (simp_all add: Let_def case_prod_unfold split: bool.split)

lemma StageUpdateModulePackage_mounts [simp]:
  "w_mounts (snd (StageUpdateModulePackage X u st w)) = w_mounts w"
  by (simp add: StageUpdateModulePackage_def Let_def case_prod_unfold split: bool.split)

lemma GetLatest_mounts [simp]:
  "w_mounts (snd (GetLatestUpdateModulePackage X repo h w)) = w_mounts w"
  by (simp add: GetLatestUpdateModulePackage_def Let_def case_prod_unfold split: option.split bool.split)

lemma Prepare_mounts [simp]: "w_mounts (b_w (PrepareModuleFileList X status b)) = w_mounts (b_w b)"
  by (simp add: PrepareModuleFileList_def Let_def case_prod_unfold split: option.split)

lemma Mount_fails_mounts:
  assumes "MountModulePackage X verify f onVerity w k = (False, w', k')"
  shows "w_mounts w' = w_mounts w"
proof -
  obtain mnt w1 where cm: "CreateMountPoint f w = (mnt, w1)" by fastforce
  then have w1: "w_mounts w1 = w_mounts w"
    by (auto simp: CreateMountPoint_def Let_def dest: CreateDirIfNeeded_more split: prod.splits bool.splits)
  obtain d w2 k2 where
    cl: "CreateLoopDevice X (x_ExtractFilePath X (mf_modulePath f) @ IMG_FILE_NAME)
           (the (mf_imageStat f)) w1 k = (d, w2, k2)" by (metis prod.exhaust)
  have "w_mounts w2 = w_mounts w1"
    using cl unfolding CreateLoopDevice_def by (rule create_loop_attempts_mounts)
  with w1 cm cl assms show ?thesis
    by (auto simp: MountModulePackage_def Let_def sys_mount_def
        split: if_splits option.splits prod.splits bool.splits)
qed

section \<open>The choice\<close>

text \<open>Filling the repository keeps what is in it.\<close>

lemma ProcessFile_keeps:
  "GetModuleFile repo p k = Some f \<Longrightarrow> GetModuleFile (fst (ProcessFile X h path file repo w)) p k = Some f"
  by (auto simp: ProcessFile_def GetModuleFile_add split: option.split)

lemma init_files_keeps:
  "GetModuleFile repo p k = Some f \<Longrightarrow> GetModuleFile (fst (init_files X h path files repo w)) p k = Some f"
  by (induction files arbitrary: repo w) (simp_all add: case_prod_unfold ProcessFile_keeps)

lemma init_paths_keeps:
  "GetModuleFile repo p k = Some f \<Longrightarrow> GetModuleFile (fst (init_paths X h paths repo w)) p k = Some f"
  by (induction paths arbitrary: repo w) (simp_all add: case_prod_unfold init_files_keeps)

lemma InitRepository_keeps:
  assumes "GetModuleFile repo p k = Some f"
  shows "GetModuleFile (fst (InitRepository X h repo w)) p k = Some f"
proof -
  have "GetModuleFile (emplace h [] repo) p k = Some f"
    using assms by (auto simp: GetModuleFile_def map_of_emplace split: option.splits)
  then show ?thesis by (simp add: InitRepository_def init_paths_keeps)
qed

lemma InitRepository_ok_again:
  assumes "repo = [] \<or> repo_ok X w h repo" and "InitRepository X h repo w = (repo', w')"
  shows "repo_ok X w h repo'"
proof (cases "repo_ok X w h repo")
  case True
  then have "emplace h [] repo = repo" by (auto simp: emplace_def repo_ok_def)
  with init_paths_ok [OF True subset_refl] assms(2) show ?thesis by (simp add: InitRepository_def)
next
  case False
  with assms show ?thesis by (intro InitRepository_ok) auto
qed

text \<open>
  The file \<open>f\<close> is a choice for package \<open>h\<close> in the world \<open>w\<close> with the preinstalled file \<open>sys\<close>:
  it is \<open>sys\<close> or has the version and the image of a signed staged or active file, and its version
  is accepted over the one of \<open>sys\<close>.
\<close>

definition chosen_ok ::
  "('j, 'h) ext \<Rightarrow> world \<Rightarrow> string \<Rightarrow> ModuleFile \<Rightarrow> ModuleFile \<Rightarrow> bool"
where
  "chosen_ok X w h sys f =
     (ModuleFile_Open X w (mf_modulePath sys) = Some sys
      \<and> mf_modulePath sys \<in> set (x_GetDirFiles X (w_fs w) (preinstall_path h))
      \<and> mp_hmpName (mf_versionInfo f) = h \<and> mf_imageStat f \<noteq> None \<and> CompareVersion X f sys
      \<and> (f = sys
         \<or> prefix UPDATE_ACTIVE_DIR (mf_modulePath f)
           \<and> (\<exists>g. ModuleFile_Open X w (mf_modulePath g) = Some g
                 \<and> (mf_modulePath g \<in> set (x_GetDirFiles X (w_fs w) (install_path h))
                    \<or> mf_modulePath g \<in> set (x_GetDirFiles X (w_fs w) (active_path h)))
                 \<and> VerifyModulePackageSign X w (mf_modulePath g) = 0
                 \<and> mf_versionInfo f = mf_versionInfo g \<and> mf_imageStat f = mf_imageStat g)))"

lemma GetLatest_path:
  assumes "GetLatestUpdateModulePackage X repo h w = (Some f, w1)"
  shows "prefix UPDATE_ACTIVE_DIR (mf_modulePath f) \<or> GetModuleFile repo UPDATE_ACTIVE_DIR h = Some f"
  using assms
  by (auto simp: GetLatestUpdateModulePackage_def Let_def split: option.splits if_splits prod.splits bool.splits)

lemma dirfiles_prefix:
  assumes "dirfiles_contract X" and "p \<in> set (x_GetDirFiles X fs (d @ CHR ''/'' # h))"
  shows "prefix d p"
  using assms by (auto simp: dirfiles_contract_def prefix_def)

lemma Prepare_repo [simp]:
  "b_repo (PrepareModuleFileList X status b) = b_repo b"
  "b_verify (PrepareModuleFileList X status b) = b_verify b"
  by (simp_all add: PrepareModuleFileList_def Let_def case_prod_unfold split: option.split)

lemma Prepare_no_system:
  "GetModuleFile (b_repo b) MODULE_PREINSTALL_DIR (us_hmpName status) = None \<Longrightarrow>
     PrepareModuleFileList X status b = b"
  by (simp add: PrepareModuleFileList_def)

lemma Prepare_choice:
  assumes X: "dirfiles_contract X" and ok: "repo_ok X (b_w b) h (b_repo b)"
    and sys: "GetModuleFile (b_repo b) MODULE_PREINSTALL_DIR h = Some sys" and h: "us_hmpName status = h"
  shows "\<exists>f. b_list (PrepareModuleFileList X status b) = b_list b @ [f] \<and> chosen_ok X (b_w b) h sys f"
proof -
  let ?w = "b_w b"
  have fok: "file_ok X ?w h (b_repo b) root g" if "GetModuleFile (b_repo b) root h = Some g" for root g
    using ok that by (simp add: repo_ok_def)
  have s: "mp_hmpName (mf_versionInfo sys) = h" "mf_imageStat sys \<noteq> None" "CompareVersion X sys sys"
      "ModuleFile_Open X ?w (mf_modulePath sys) = Some sys"
      "mf_modulePath sys \<in> set (x_GetDirFiles X (w_fs ?w) (preinstall_path h))"
    using fok [OF sys] by (simp_all add: file_ok_def CompareVersion_def)
  obtain latest w1 where latest: "GetLatestUpdateModulePackage X (b_repo b) h ?w = (latest, w1)" by fastforce
  show ?thesis
  proof (cases "case latest of None \<Rightarrow> False | Some l \<Rightarrow> CompareVersion X l sys")
    case True
    then obtain f where f: "latest = Some f" "CompareVersion X f sys" by (auto split: option.splits)
    from GetLatest_source [OF latest [unfolded f(1)]] obtain root g
      where g: "root \<in> {UPDATE_ACTIVE_DIR, UPDATE_INSTALL_DIR}" "GetModuleFile (b_repo b) root h = Some g"
        "mf_versionInfo f = mf_versionInfo g" "mf_imageStat f = mf_imageStat g" by blast
    have "prefix UPDATE_ACTIVE_DIR (mf_modulePath f)"
      using GetLatest_path [OF latest [unfolded f(1)]] fok dirfiles_prefix [OF X]
      by (fastforce simp: file_ok_def)
    then have "chosen_ok X ?w h sys f"
      using s f(2) g fok [OF g(2)] by (auto simp: chosen_ok_def file_ok_def)
    moreover have "b_list (PrepareModuleFileList X status b) = b_list b @ [f]"
      using sys h latest f by (simp add: PrepareModuleFileList_def)
    ultimately show ?thesis by blast
  next
    case False
    then have "b_list (PrepareModuleFileList X status b) = b_list b @ [sys]"
      using sys h latest by (simp add: PrepareModuleFileList_def Let_def split del: option.splits)
    with s show ?thesis by (auto simp: chosen_ok_def)
  qed
qed

lemma Prepare_length:
  "length (b_list (PrepareModuleFileList X status b)) =
     length (b_list b)
       + (if GetModuleFile (b_repo b) MODULE_PREINSTALL_DIR (us_hmpName status) = None then 0 else 1)"
  by (simp add: PrepareModuleFileList_def Let_def case_prod_unfold split: option.split)

text \<open>
  What a pass over the preinstalled files has reached: nothing yet, one choice made in the world
  of the start, or more than one file, which ends the task.
\<close>

definition picked :: "('j, 'h) ext \<Rightarrow> world \<Rightarrow> string \<Rightarrow> boot \<Rightarrow> bool" where
  "picked X w h b =
     (b_list b = [] \<and> b_w b = w \<and> (b_repo b = [] \<or> repo_ok X w h (b_repo b))
      \<or> (\<exists>f sys. b_list b = [f] \<and> GetModuleFile (b_repo b) MODULE_PREINSTALL_DIR h = Some sys
           \<and> chosen_ok X w h sys f)
      \<or> 2 \<le> length (b_list b))"

lemma ProcessHmpFile_picked:
  assumes X: "dirfiles_contract X" and inv: "picked X w h b" and h: "us_hmpName status = h"
  shows "picked X w h (ProcessHmpFile X file status b)"
proof -
  obtain repo' w' where i: "InitRepository X h (b_repo b) (b_w b) = (repo', w')" by fastforce
  have w': "w' = b_w b" using InitRepository_world [OF i] .
  let ?b = "b\<lparr>b_repo := repo', b_w := b_w b\<rparr>"
  consider "ProcessHmpFile X file status b = b"
    | "ProcessHmpFile X file status b = PrepareModuleFileList X status ?b"
    using i h w'
    by (cases "ModuleFile_Open X (b_w b) file"; cases "CheckMountComplete (b_w b) h")
      (simp_all add: ProcessHmpFile_def)
  then show ?thesis
  proof cases
    case 2
    consider (none) "b_list b = []" "b_w b = w" "b_repo b = [] \<or> repo_ok X w h (b_repo b)"
      | (one) f sys where "b_list b = [f]" "GetModuleFile (b_repo b) MODULE_PREINSTALL_DIR h = Some sys"
      | (many) "2 \<le> length (b_list b)"
      using inv by (auto simp: picked_def)
    then show ?thesis
    proof cases
      case none
      have ok: "repo_ok X w h repo'" using InitRepository_ok_again [OF none(3)] i none(2) by simp
      show ?thesis
      proof (cases "GetModuleFile repo' MODULE_PREINSTALL_DIR h")
        case None
        then show ?thesis using 2 none ok h by (simp add: Prepare_no_system picked_def)
      next
        case (Some sys)
        then show ?thesis
          using Prepare_choice [OF X, of ?b h sys status] 2 none ok h by (auto simp: picked_def)
      qed
    next
      case (one f sys)
      have "GetModuleFile repo' MODULE_PREINSTALL_DIR h = Some sys"
        using InitRepository_keeps [OF one(2), of X h "b_w b"] i by simp
      then show ?thesis using 2 one h by (simp add: picked_def Prepare_length)
    next
      case many
      then show ?thesis using 2 by (simp add: picked_def Prepare_length)
    qed
  qed (use inv in simp)
qed

lemma ProcessHmpFile_frame [simp]:
  "w_mounts (b_w (ProcessHmpFile X file status b)) = w_mounts (b_w b)"
  "b_verify (ProcessHmpFile X file status b) = b_verify b"
  using InitRepository_silent [of X "us_hmpName status" "b_repo b" "b_w b"]
  by (simp_all add: ProcessHmpFile_def case_prod_unfold split: option.split)

lemma process_files_frame [simp]:
  "w_mounts (b_w (process_files X files status b)) = w_mounts (b_w b)"
  "b_verify (process_files X files status b) = b_verify b"
  by (induction files arbitrary: b) simp_all

lemma process_files_picked:
  assumes "dirfiles_contract X" and "picked X w h b" and "us_hmpName status = h"
  shows "picked X w h (process_files X files status b)"
  using assms(2) by (induction files arbitrary: b) (simp_all add: ProcessHmpFile_picked assms)

section \<open>One task\<close>

text \<open>A mount of package \<open>h\<close> is justified by a choice and, unless the choice is the preinstalled
  file itself, by the registered verification, which made the device.\<close>

definition justified_mount ::
  "('j, 'h) ext \<Rightarrow> verify_fn option \<Rightarrow> world \<Rightarrow> string \<Rightarrow> string \<Rightarrow> string \<Rightarrow> bool"
where
  "justified_mount X verify w h dev mnt =
     (\<exists>sys f. chosen_ok X w h sys f
        \<and> (mnt = MODULE_ROOT_DIR \<or> mnt = MODULE_ROOT_DIR @ ''/'' @ h)
        \<and> (f = sys
           \<or> (\<exists>g name w2 k2 f1 k3. verify = Some g \<and> g f name w2 k2 = ((True, f1, dev), k3))))"

lemma Report_frame [simp]:
  "w_mounts (b_w (ReportModuleUpdateStatus X status b)) = w_mounts (b_w b)"
  "b_verify (ReportModuleUpdateStatus X status b) = b_verify b"
  by (simp_all add: ReportModuleUpdateStatus_def Let_def)

lemma active_not_preinstalled:
  assumes "prefix UPDATE_ACTIVE_DIR p"
  shows "\<not> prefix MODULE_PREINSTALL_DIR p"
  using assms by (auto simp: prefix_def dir_consts)

lemma Activate_mounts:
  assumes X: "dirfiles_contract X" and f: "b_list b = [f]"
    and sys: "GetModuleFile (b_repo b) MODULE_PREINSTALL_DIR h = Some sys" and ok: "chosen_ok X w h sys f"
    and act: "ActivateModules X status b = (res, b')"
  shows "b_verify b' = b_verify b
    \<and> (w_mounts (b_w b') = w_mounts (b_w b)
       \<or> (\<exists>dev mnt. w_mounts (b_w b') = w_mounts (b_w b) @ [(dev, mnt)]
             \<and> justified_mount X (b_verify b) w h dev mnt))"
proof -
  have img: "mf_imageStat f \<noteq> None" and name: "mp_hmpName (mf_versionInfo f) = h"
    using ok by (simp_all add: chosen_ok_def)
  let ?pre = "IsPreInstalledModule (b_repo b) f"
  obtain m w1 k1 where m: "MountModulePackage X (b_verify b) f (\<not> ?pre) (b_w b) (b_k b) = (m, w1, k1)"
    by (metis prod.exhaust)
  have frame: "w_mounts (b_w b') = w_mounts w1" "b_verify b' = b_verify b"
    using act m f img by (auto simp: ActivateModules_def Let_def)
  show ?thesis
  proof (cases m)
    case False
    then show ?thesis using Mount_fails_mounts m frame by metis
  next
    case True
    with m have "MountModulePackage X (b_verify b) f (\<not> ?pre) (b_w b) (b_k b) = (True, w1, k1)" by simp
    from MountModulePackage_True [OF this]
    obtain dev0 w2 k2 f1 dev k3 mnt where
      v: "VerifyImageAndCreateDm (b_verify b) (\<not> ?pre) f dev0 w2 k2 = ((True, f1, dev), k3)"
      and app: "w_mounts w1 = w_mounts (b_w b) @ [(dev, mnt)]"
      and mnt: "mnt = MODULE_ROOT_DIR \<or> mnt = MODULE_ROOT_DIR @ ''/'' @ mp_hmpName (mf_versionInfo f)"
      by blast
    have "f = sys" if "?pre"
    proof (rule ccontr)
      assume "f \<noteq> sys"
      then have "prefix UPDATE_ACTIVE_DIR (mf_modulePath f)" using ok by (auto simp: chosen_ok_def)
      moreover have "mf_modulePath f = mf_modulePath sys"
        using that sys name by (simp add: IsPreInstalledModule_def)
      moreover have "prefix MODULE_PREINSTALL_DIR (mf_modulePath sys)"
        using ok dirfiles_prefix [OF X] by (auto simp: chosen_ok_def)
      ultimately show False using active_not_preinstalled by metis
    qed
    then have "f = sys \<or> (\<exists>g name w2 k2 f1 k3. b_verify b = Some g \<and> g f name w2 k2 = ((True, f1, dev), k3))"
      using v by (cases "b_verify b") (auto simp: VerifyImageAndCreateDm_def split: if_splits)
    then have "justified_mount X (b_verify b) w h dev mnt"
      unfolding justified_mount_def using ok mnt [unfolded name] by blast
    with frame app show ?thesis by auto
  qed
qed

lemma DoModuleUpdate_mounts:
  assumes X: "dirfiles_contract X" and fresh: "b_repo b = []" "b_list b = []"
    and act: "DoModuleUpdate X status b = (res, b')"
  shows "b_repo b' = [] \<and> b_list b' = [] \<and> b_verify b' = b_verify b
    \<and> (w_mounts (b_w b') = w_mounts (b_w b)
       \<or> (\<exists>dev mnt. w_mounts (b_w b') = w_mounts (b_w b) @ [(dev, mnt)]
             \<and> justified_mount X (b_verify b) (b_w b) (us_hmpName status) dev mnt))"
proof -
  let ?h = "us_hmpName status" and ?w = "b_w b"
  define b1 where "b1 = process_files X (x_GetDirFiles X (w_fs ?w) (preinstall_path ?h)) status b"
  have frame: "w_mounts (b_w b1) = w_mounts ?w" "b_verify b1 = b_verify b" by (simp_all add: b1_def)
  have "picked X ?w ?h b" using fresh by (simp add: picked_def)
  then have picked: "picked X ?w ?h b1" unfolding b1_def by (rule process_files_picked [OF X _ refl])
  have clear: "b_repo b' = [] \<and> b_list b' = []"
    using act by (auto simp: DoModuleUpdate_def Let_def Repository_Clear_def split: if_splits prod.splits bool.splits)
  obtain pre k1 where p: "PreAllocateLoopDevices X (of_nat (length (b_list b1))) (b_k b1) = (pre, k1)"
    by fastforce
  show ?thesis
  proof (cases "length (b_list b1) = 1 \<and> pre")
    case False
    then have "b_w b' = b_w b1 \<and> b_verify b' = b_verify b1"
      using act p unfolding b1_def by (auto simp: DoModuleUpdate_def Let_def split: if_splits)
    with frame clear show ?thesis by simp
  next
    case True
    then obtain f sys where f: "b_list b1 = [f]"
        "GetModuleFile (b_repo b1) MODULE_PREINSTALL_DIR ?h = Some sys" "chosen_ok X ?w ?h sys f"
      using picked by (auto simp: picked_def)
    obtain r b2 where a: "ActivateModules X status (b1\<lparr>b_k := k1\<rparr>) = (r, b2)" by fastforce
    have "b_w b' = b_w b2 \<and> b_verify b' = b_verify b2"
      using act p True a unfolding b1_def by (auto simp: DoModuleUpdate_def Let_def split: if_splits)
    then show ?thesis using Activate_mounts [OF X _ _ f(3) a] f(1,2) frame clear by auto
  qed
qed

section \<open>All tasks\<close>

lemma run_tasks_append: "run_tasks X (hs @ hs') b = run_tasks X hs' (run_tasks X hs b)"
  by (induction hs arbitrary: b) simp_all

lemma TaskCallback_mounts:
  assumes "dirfiles_contract X" and "b_repo b = []" "b_list b = []"
  shows "b_repo (TaskCallback X h b) = [] \<and> b_list (TaskCallback X h b) = []
    \<and> b_verify (TaskCallback X h b) = b_verify b
    \<and> (\<exists>ms. w_mounts (b_w (TaskCallback X h b)) = w_mounts (b_w b) @ ms \<and> length ms \<le> 1
          \<and> (\<forall>dev mnt. (dev, mnt) \<in> set ms \<longrightarrow> justified_mount X (b_verify b) (b_w b) h dev mnt))"
proof -
  obtain ret st b' where d: "DoModuleUpdate X (ModuleUpdateStatus_init h) b = ((ret, st), b')"
    by (metis prod.exhaust)
  have "us_hmpName (ModuleUpdateStatus_init h) = h" by (simp add: ModuleUpdateStatus_init_def)
  with DoModuleUpdate_mounts [OF assms d] d show ?thesis
    by (auto simp: TaskCallback_def intro: exI [of _ "[]"])
qed

lemma run_tasks_mounts:
  assumes X: "dirfiles_contract X" and "b_repo b = []" "b_list b = []"
  shows "b_repo (run_tasks X hs b) = [] \<and> b_list (run_tasks X hs b) = []
    \<and> b_verify (run_tasks X hs b) = b_verify b
    \<and> (\<exists>ms. w_mounts (b_w (run_tasks X hs b)) = w_mounts (b_w b) @ ms \<and> length ms \<le> length hs
          \<and> (\<forall>dev mnt. (dev, mnt) \<in> set ms \<longrightarrow> (\<exists>hs1 h hs2. hs = hs1 @ h # hs2
               \<and> justified_mount X (b_verify b) (b_w (run_tasks X hs1 b)) h dev mnt)))"
proof (induction hs rule: rev_induct)
  case (snoc h hs)
  let ?b = "run_tasks X hs b"
  from snoc obtain ms where ms: "w_mounts (b_w ?b) = w_mounts (b_w b) @ ms" "length ms \<le> length hs"
      "\<And>dev mnt. (dev, mnt) \<in> set ms \<Longrightarrow> \<exists>hs1 h hs2. hs = hs1 @ h # hs2
         \<and> justified_mount X (b_verify b) (b_w (run_tasks X hs1 b)) h dev mnt" by blast
  have fresh: "b_repo ?b = []" "b_list ?b = []" "b_verify ?b = b_verify b" using snoc by auto
  from TaskCallback_mounts [OF X fresh(1,2), of h] fresh(3) obtain ns where
    c: "b_repo (TaskCallback X h ?b) = []" "b_list (TaskCallback X h ?b) = []"
      "b_verify (TaskCallback X h ?b) = b_verify b"
    and ns: "w_mounts (b_w (TaskCallback X h ?b)) = w_mounts (b_w ?b) @ ns" "length ns \<le> 1"
      "\<And>dev mnt. (dev, mnt) \<in> set ns \<Longrightarrow> justified_mount X (b_verify b) (b_w ?b) h dev mnt" by auto
  have "\<exists>hs1 h' hs2. hs @ [h] = hs1 @ h' # hs2
      \<and> justified_mount X (b_verify b) (b_w (run_tasks X hs1 b)) h' dev mnt"
    if "(dev, mnt) \<in> set (ms @ ns)" for dev mnt
  proof (cases "(dev, mnt) \<in> set ms")
    case True
    with ms(3) obtain hs1 h' hs2 where "hs = hs1 @ h' # hs2"
      "justified_mount X (b_verify b) (b_w (run_tasks X hs1 b)) h' dev mnt" by blast
    then show ?thesis by (intro exI [of _ hs1] exI [of _ h'] exI [of _ "hs2 @ [h]"]) simp
  next
    case False
    then have "justified_mount X (b_verify b) (b_w ?b) h dev mnt" using that ns(3) by simp
    then show ?thesis by (intro exI [of _ hs] exI [of _ h] exI [of _ "[]"]) simp
  qed
  then show ?case using c ms(1,2) ns(1,2)
    by (auto simp: run_tasks_append intro!: exI [of _ "ms @ ns"])
qed (use assms in simp)

text \<open>The tasks a boot runs and the state it runs them in.\<close>

definition boot_tasks :: "('j, 'h) ext \<Rightarrow> boot \<Rightarrow> string list" where
  "boot_tasks X b =
     take 100 (remdups (preinstalled_names X (b_w b) (x_GetDirFiles X (w_fs (b_w b)) MODULE_PREINSTALL_DIR)))"

definition boot_before :: "('j, 'h) ext \<Rightarrow> string list \<Rightarrow> boot \<Rightarrow> boot" where
  "boot_before X hs b =
     run_tasks X hs
       (b\<lparr>b_tasks := (add_tasks (remdups (preinstalled_names X (b_w b)
            (x_GetDirFiles X (w_fs (b_w b)) MODULE_PREINSTALL_DIR))) (Task_Start (b_tasks b)))\<lparr>tm_pool := []\<rparr>\<rparr>)"

lemma CheckModuleUpdate_runs:
  assumes "tm_pool (b_tasks b) = []"
  shows "b_w (CheckModuleUpdate X b)
     = snd (force_remove X UPDATE_INSTALL_DIR (b_w (boot_before X (boot_tasks X b) b)))"
  using add_tasks_pool [of "Task_Start (b_tasks b)"] assms
  by (simp add: CheckModuleUpdate_def boot_before_def boot_tasks_def Let_def Task_Start_def MAX_TASK_NUM_def)

section \<open>Properties\<close>


lemma trust_names: "boot_tasks pk (trust_boot) = [''h1'']"
proof -
  have "CheckFileSuffix ''/system/module_update/h1/module_info.zip'' MODULE_PACKAGE_SUFFIX"
    "\<not> CheckFileSuffix ''/system/module_update/h1/module.img'' MODULE_PACKAGE_SUFFIX"
    by (simp_all add: CheckFileSuffix_def substr_from_def MODULE_PACKAGE_SUFFIX_def)
  moreover have "GetHmpName ''/system/module_update/h1/module_info.zip'' = ''h1''"
    by (simp add: GetHmpName_def PREFIXES_def StartsWith_prefix dir_consts substr_def Let_def)
  ultimately show ?thesis
    by (simp add: boot_tasks_def trust_files trust_open RegisterImgVerifyFunc_def RegisterImageVerifyFunc_def boot0_def)
qed


end
