(* ===== verification/Module_Staging.thy ===== *)
theory Module_Staging
  imports Module_Boot
begin

text \<open>
  What \<open>StageUpdateModulePackage\<close> of module_update.cpp leaves behind when it succeeds: the files
  of the staged package, which the boot is about to activate, lie in its active directory.
\<close>

section \<open>The library functions\<close>

text \<open>The documented meaning of the updater's \<open>ExtractFilePath\<close>, \<open>ExtractFileName\<close> and of the
  recursive \<open>GetFilesFromDirectory\<close>: the part up to and after the last slash, and every regular
  file below a directory, once.\<close>

definition extract_contract :: "('j, 'h) ext \<Rightarrow> bool" where
  "extract_contract X =
     (\<forall>d g. CHR ''/'' \<notin> set g \<longrightarrow>
        x_ExtractFilePath X (d @ CHR ''/'' # g) = d @ ''/'' \<and> x_ExtractFileName X (d @ CHR ''/'' # g) = g)"

definition listing_contract :: "('j, 'h) ext \<Rightarrow> bool" where
  "listing_contract X =
     (\<forall>fs d n files. x_GetFilesFromDirectory X fs d = (n, files) \<longrightarrow>
        distinct files \<and> set files = {p. prefix (d @ ''/'') p \<and> (\<exists>m c. map_of fs p = Some (Reg m c))})"

lemma extractD:
  assumes "extract_contract X" and "CHR ''/'' \<notin> set g"
  shows "x_ExtractFilePath X (d @ CHR ''/'' # g) = d @ ''/''" and "x_ExtractFileName X (d @ CHR ''/'' # g) = g"
  using assms by (auto simp: extract_contract_def)

section \<open>Links into one directory\<close>

lemma sys_unlink_other: "q \<noteq> t \<Longrightarrow> map_of (w_fs (snd (sys_unlink t w))) q = map_of (w_fs w) q"
  by (auto simp: sys_unlink_def delete_conv' split: option.split node.split)

lemma sys_link_map:
  assumes "sys_link a t w = (True, w')"
  shows "map_of (w_fs w') q = (if q = t then map_of (w_fs w) a else map_of (w_fs w) q)"
    and "\<exists>m c. map_of (w_fs w) a = Some (Reg m c)"
  using assms by (auto simp: sys_link_def split: if_splits option.splits node.splits)

text \<open>One round: the target is the file, whatever was there before.\<close>

lemma stage_one:
  assumes "sys_link source t (snd (sys_unlink t w)) = (True, w')" and "source \<noteq> t"
  shows "map_of (w_fs w') q = map_of (w_fs w) (if q = t then source else q)"
  using sys_link_map(1) [OF assms(1)] sys_unlink_other [of _ t w] assms(2) by simp

lemma stage_others_takes:
  assumes "stage_others X path files w = (True, w')"
    and "distinct (map (x_ExtractFileName X) files)"
    and "(\<lambda>p. path @ x_ExtractFileName X p) ` set files \<inter> set files = {}"
  shows "(\<forall>p \<in> set files. map_of (w_fs w') (path @ x_ExtractFileName X p) = map_of (w_fs w) p)
     \<and> (\<forall>q. q \<notin> (\<lambda>p. path @ x_ExtractFileName X p) ` set files \<longrightarrow> map_of (w_fs w') q = map_of (w_fs w) q)"
  using assms
proof (induction files arbitrary: w)
  case (Cons p0 files)
  let ?t = "path @ x_ExtractFileName X p0"
  from Cons.prems(1) obtain w1 where l: "sys_link p0 ?t (snd (sys_unlink ?t w)) = (True, w1)"
    and s: "stage_others X path files w1 = (True, w')"
    by (auto simp: Let_def split: prod.splits bool.splits)
  have ne: "p0 \<noteq> ?t" using Cons.prems(3) by auto
  note one = stage_one [OF l ne]
  have IH: "\<forall>p \<in> set files. map_of (w_fs w') (path @ x_ExtractFileName X p) = map_of (w_fs w1) p"
    "\<forall>q. q \<notin> (\<lambda>p. path @ x_ExtractFileName X p) ` set files \<longrightarrow> map_of (w_fs w') q = map_of (w_fs w1) q"
    using Cons.IH [OF s] Cons.prems(2,3) by auto
  have "?t \<notin> (\<lambda>p. path @ x_ExtractFileName X p) ` set files" using Cons.prems(2) by auto
  moreover have "p \<noteq> ?t" if "p \<in> set files" for p using that Cons.prems(3) by auto
  ultimately show ?case using IH one by auto
qed simp

text \<open>\<open>rfind("/")\<close> is the position of the last slash.\<close>

lemma rfind_slash: "rfind_str ''/'' s = find_last_of CHR ''/'' s"
  by (induction s) (auto split: option.split)

text \<open>Up to the loop over the directory: the package file itself is linked, and the directory is
  listed in the world after that.\<close>

lemma Staging_begins:
  assumes stage: "StageUpdateModulePackage X (i @ CHR ''/'' # f) (a @ CHR ''/'' # f) w = (True, w')"
    and X: "extract_contract X" and f: "CHR ''/'' \<notin> set f" and ne: "i \<noteq> a"
  shows "\<exists>w2 n files. x_GetFilesFromDirectory X (w_fs w2) i = (n, files)
     \<and> stage_others X (a @ ''/'') files w2 = (True, w')
     \<and> (\<forall>q. q \<noteq> a @ CHR ''/'' # f \<longrightarrow> map_of (w_fs w2) q = map_of (w_fs w) q)
     \<and> (\<exists>m c. map_of (w_fs w) (i @ CHR ''/'' # f) = Some (Reg m c))"
proof -
  let ?u = "i @ CHR ''/'' # f" and ?st = "a @ CHR ''/'' # f"
  have path: "x_ExtractFilePath X ?st = a @ ''/''" by (rule extractD(1) [OF X f])
  have dir: "substr ?u 0 (case rfind_str ''/'' ?u of None \<Rightarrow> length ?u | Some k \<Rightarrow> k) = i"
    using find_last_of_append [OF f, of i] by (simp add: rfind_slash substr_def)
  obtain w1 where w1: "(if CheckPathExists w ?st then sys_unlink ?st w else (True, w)) = (True, w1)"
    using stage unfolding StageUpdateModulePackage_def by (auto split: prod.splits bool.splits)
  obtain w2 n files where l: "sys_link ?u ?st w1 = (True, w2)"
    and files: "x_GetFilesFromDirectory X (w_fs w2) i = (n, files)"
    and s: "stage_others X (a @ ''/'') files w2 = (True, w')"
    using stage unfolding StageUpdateModulePackage_def w1
    by (auto simp: Let_def path dir split: prod.splits bool.splits if_splits)
  have same1: "map_of (w_fs w1) q = map_of (w_fs w) q" if "q \<noteq> ?st" for q
    using w1 sys_unlink_other [OF that, of w] by (auto split: if_splits)
  have same: "map_of (w_fs w2) q = map_of (w_fs w) q" if "q \<noteq> ?st" for q
    using sys_link_map(1) [OF l, of q] same1 that by simp
  have "\<exists>m c. map_of (w_fs w) ?u = Some (Reg m c)" using sys_link_map(2) [OF l] same1 [of ?u] ne by simp
  with files s same show ?thesis by blast
qed

definition staged_files :: "string \<Rightarrow> world \<Rightarrow> string set" where
  "staged_files h w = {p. prefix (install_path h @ ''/'') p \<and> (\<exists>m c. map_of (w_fs w) p = Some (Reg m c))}"

section \<open>When nothing fails\<close>

lemma parent_ok_child:
  assumes "CHR ''/'' \<notin> set g" "a \<noteq> []" "last a \<noteq> CHR ''/''" "map_of fs a = Some (Dir m)"
  shows "parent_ok fs (a @ CHR ''/'' # g)"
  using assms by (simp add: parent_ok_def parent_dir_child is_dir_def fs_node_plain)

lemma stage_step_ok:
  assumes faults: "\<forall>op p. \<not> w_fault w op p"
    and a: "map_of (w_fs w) a = Some (Dir m)" "a \<noteq> []" "last a \<noteq> CHR ''/''"
    and g: "CHR ''/'' \<notin> set g" "g \<noteq> []" and t: "t = a @ CHR ''/'' # g"
    and free: "\<forall>m. map_of (w_fs w) t \<noteq> Some (Dir m)"
    and source: "map_of (w_fs w) p = Some (Reg pm c)" "p \<noteq> t"
  shows "\<exists>w'. sys_link p t (snd (sys_unlink t w)) = (True, w') \<and> w_fault w' = w_fault w
    \<and> (\<forall>q. q \<noteq> t \<longrightarrow> map_of (w_fs w') q = map_of (w_fs w) q)"
proof -
  define w1 where "w1 = snd (sys_unlink t w)"
  have at: "a \<noteq> t" by (simp add: t)
  have other: "map_of (w_fs w1) q = map_of (w_fs w) q" if "q \<noteq> t" for q
    unfolding w1_def by (rule sys_unlink_other [OF that])
  have gone: "map_of (w_fs w1) t = None"
    using free faults by (auto simp: w1_def sys_unlink_def delete_conv' split: option.split node.split)
  have fault: "w_fault w1 = w_fault w" by (simp add: w1_def sys_unlink_def split: option.split node.split)
  have "last t \<noteq> CHR ''/''" unfolding t by (rule last_no_slash [OF g(2,1)])
  with gone have node: "fs_node (w_fs w1) t = None" by (simp add: fs_node_plain)
  have "parent_ok (w_fs w1) t" unfolding t by (rule parent_ok_child [OF g(1) a(2,3)]) (use other [OF at] a(1) in simp)
  with node fault faults source other [OF source(2)]
  have "sys_link p t w1 = (True, w1\<lparr>w_fs := AList.update t (Reg pm c) (w_fs w1)\<rparr>)" by (simp add: sys_link_def)
  with other fault show ?thesis by (simp add: w1_def)
qed

lemma stage_others_ok:
  assumes "\<forall>op p. \<not> w_fault w op p"
    and a: "map_of (w_fs w) a = Some (Dir m)" "a \<noteq> []" "last a \<noteq> CHR ''/''"
    and files: "\<forall>p \<in> set files. (\<exists>pm c. map_of (w_fs w) p = Some (Reg pm c)) \<and> CHR ''/'' \<notin> set (x_ExtractFileName X p)
      \<and> x_ExtractFileName X p \<noteq> [] \<and> (\<forall>m. map_of (w_fs w) (a @ CHR ''/'' # x_ExtractFileName X p) \<noteq> Some (Dir m))"
    and apart: "(\<lambda>p. a @ CHR ''/'' # x_ExtractFileName X p) ` set files \<inter> set files = {}"
    and names: "distinct (map (x_ExtractFileName X) files)"
  shows "\<exists>w'. stage_others X (a @ ''/'') files w = (True, w')"
  using assms(1) a(1) files apart names
proof (induction files arbitrary: w)
  case (Cons p files)
  let ?t = "a @ CHR ''/'' # x_ExtractFileName X p"
  from Cons.prems(3) obtain pm c where p: "map_of (w_fs w) p = Some (Reg pm c)" "CHR ''/'' \<notin> set (x_ExtractFileName X p)"
    "x_ExtractFileName X p \<noteq> []" "\<forall>m. map_of (w_fs w) ?t \<noteq> Some (Dir m)" by auto
  have ne: "p \<noteq> ?t" using Cons.prems(4) by auto
  obtain w1 where l: "sys_link p ?t (snd (sys_unlink ?t w)) = (True, w1)" and f1: "w_fault w1 = w_fault w"
    and same: "\<forall>q. q \<noteq> ?t \<longrightarrow> map_of (w_fs w1) q = map_of (w_fs w) q"
    using stage_step_ok [OF Cons.prems(1,2) a(2,3) p(2,3) refl p(4,1) ne] by blast
  have "?t \<notin> set files" using Cons.prems(4) by auto
  moreover have "a @ CHR ''/'' # x_ExtractFileName X q \<noteq> ?t" if "q \<in> set files" for q
    using Cons.prems(5) that by (auto simp: image_iff)
  ultimately have next_files: "\<forall>q \<in> set files. (\<exists>pm c. map_of (w_fs w1) q = Some (Reg pm c)) \<and> CHR ''/'' \<notin> set (x_ExtractFileName X q)
      \<and> x_ExtractFileName X q \<noteq> [] \<and> (\<forall>m. map_of (w_fs w1) (a @ CHR ''/'' # x_ExtractFileName X q) \<noteq> Some (Dir m))"
    using Cons.prems(3) same by (metis list.set_intros(2))
  have "map_of (w_fs w1) a = Some (Dir m)" using same Cons.prems(2) by simp
  from Cons.IH [OF _ this next_files] Cons.prems(1,4,5) f1 obtain w' where
    "stage_others X (a @ ''/'') files w1 = (True, w')" by auto
  with l show ?case by (simp add: Let_def)
qed simp

text \<open>A staging succeeds when no call fails, the package and the active directory are there and every
  file has a name of its own that is no directory's.\<close>

lemma Staging_succeeds:
  assumes X: "extract_contract X" "listing_contract X" "\<forall>fs d. fst (x_GetFilesFromDirectory X fs d) = int (length (snd (x_GetFilesFromDirectory X fs d)))"
    and faults: "\<forall>op p. \<not> w_fault w op p"
    and f: "CHR ''/'' \<notin> set f" "f \<noteq> []" and h: "h \<noteq> []" "CHR ''/'' \<notin> set h"
    and u: "map_of (w_fs w) (install_path h @ CHR ''/'' # f) = Some (Reg um uc)"
    and a: "map_of (w_fs w) (active_path h) = Some (Dir am)"
    and files: "\<forall>p \<in> staged_files h w. CHR ''/'' \<notin> set (x_ExtractFileName X p) \<and> x_ExtractFileName X p \<noteq> []
      \<and> (\<forall>m. map_of (w_fs w) (active_path h @ CHR ''/'' # x_ExtractFileName X p) \<noteq> Some (Dir m))"
    and names: "inj_on (x_ExtractFileName X) (staged_files h w)"
  shows "\<exists>w'. StageUpdateModulePackage X (install_path h @ CHR ''/'' # f) (active_path h @ CHR ''/'' # f) w = (True, w')"
proof -
  define A where "A = active_path h"
  define I where "I = install_path h"
  define st where "st = A @ CHR ''/'' # f"
  define U where "U = I @ CHR ''/'' # f"
  have A: "A \<noteq> []" "last A \<noteq> CHR ''/''" "map_of (w_fs w) A = Some (Dir am)"
    using a last_no_slash [OF h, of UPDATE_ACTIVE_DIR] by (simp_all add: A_def)
  have apart: "A @ x \<noteq> I @ y" "I @ y \<noteq> A @ x" for x y by (simp_all add: A_def I_def dir_consts)
  have name: "x_ExtractFileName X U = f" unfolding U_def by (rule extractD(2) [OF X(1) f(1)])
  have Uin: "U \<in> staged_files h w" using u by (simp add: staged_files_def U_def I_def)
  with files have free: "\<forall>m. map_of (w_fs w) st \<noteq> Some (Dir m)" by (auto simp: name st_def A_def)
  have "U \<noteq> st" unfolding U_def st_def by (rule apart(2))
  then obtain w2 where l: "sys_link U st (snd (sys_unlink st w)) = (True, w2)" and f2: "w_fault w2 = w_fault w"
    and same: "\<forall>q. q \<noteq> st \<longrightarrow> map_of (w_fs w2) q = map_of (w_fs w) q"
    using stage_step_ok [OF faults A(3,1,2) f st_def free, of U um uc] u by (auto simp: U_def I_def)
  obtain w1 where w1: "(if CheckPathExists w st then sys_unlink st w else (True, w)) = (True, w1)"
    and l1: "sys_link U st w1 = (True, w2)" and m1: "map_of (w_fs w1) A = Some (Dir am)" and f1: "w_fault w1 = w_fault w"
  proof (cases "map_of (w_fs w) st")
    case None
    moreover have "last st \<noteq> CHR ''/''" unfolding st_def by (rule last_no_slash [OF f(2,1)])
    ultimately have "\<not> CheckPathExists w st" using faults by (simp add: CheckPathExists_def sys_stat_def fs_node_plain)
    moreover have "snd (sys_unlink st w) = w" using None by (simp add: sys_unlink_def)
    ultimately show ?thesis using that [of w] l A by simp
  next
    case (Some n)
    with free obtain nm nc where "n = Reg nm nc" by (cases n) auto
    with Some faults have un: "sys_unlink st w = (True, w\<lparr>w_fs := AList.delete st (w_fs w)\<rparr>)" by (simp add: sys_unlink_def)
    have "CheckPathExists w st" using Some faults by (simp add: CheckPathExists_def sys_stat_def fs_node_def)
    moreover have "A \<noteq> st" by (simp add: st_def)
    ultimately show ?thesis using that [of "w\<lparr>w_fs := AList.delete st (w_fs w)\<rparr>"] un l A by (simp add: delete_conv')
  qed
  have path: "x_ExtractFilePath X st = A @ ''/''" unfolding st_def by (rule extractD(1) [OF X(1) f(1)])
  have "fs_node (w_fs w1) (A @ ''/'') \<noteq> None" using m1 by (simp add: fs_node_def split: option.split)
  then have ex: "CheckPathExists w1 (A @ ''/'')"
    using faults f1 by (auto simp: CheckPathExists_def sys_stat_def split: option.split)
  have dir: "substr U 0 (case rfind_str ''/'' U of None \<Rightarrow> length U | Some k \<Rightarrow> k) = I"
    using find_last_of_append [OF f(1), of I] by (simp add: rfind_slash substr_def U_def)
  obtain n fl where fl: "x_GetFilesFromDirectory X (w_fs w2) I = (n, fl)" by fastforce
  have F: "distinct fl" "set fl = staged_files h w"
  proof -
    have "distinct fl \<and> set fl = {p. prefix (I @ ''/'') p \<and> (\<exists>m c. map_of (w_fs w2) p = Some (Reg m c))}"
      using X(2) fl unfolding listing_contract_def by blast
    moreover have "p \<noteq> st" if "prefix (I @ ''/'') p" for p using that apart by (auto simp: prefix_def st_def)
    ultimately show "distinct fl" "set fl = staged_files h w" using same by (auto simp: staged_files_def I_def)
  qed
  have n: "n = int (length fl)" using X(3) fl by (metis fst_conv snd_conv)
  have "0 < n" using F(2) Uin n by (cases fl) auto
  have out: "p \<noteq> A @ x" if "p \<in> staged_files h w" for p x
    using that apart by (auto simp: staged_files_def I_def prefix_def)
  have "\<exists>w'. stage_others X (A @ ''/'') fl w2 = (True, w')"
  proof (rule stage_others_ok)
    show "\<forall>op p. \<not> w_fault w2 op p" using faults f2 by simp
    show "map_of (w_fs w2) A = Some (Dir am)" using same A(3) by (simp add: st_def)
    show "A \<noteq> []" "last A \<noteq> CHR ''/''" by (rule A)+
    show "\<forall>p \<in> set fl. (\<exists>pm c. map_of (w_fs w2) p = Some (Reg pm c)) \<and> CHR ''/'' \<notin> set (x_ExtractFileName X p)
        \<and> x_ExtractFileName X p \<noteq> [] \<and> (\<forall>m. map_of (w_fs w2) (A @ CHR ''/'' # x_ExtractFileName X p) \<noteq> Some (Dir m))"
    proof
      fix p assume "p \<in> set fl"
      then have p: "p \<in> staged_files h w" by (simp add: F)
      then have reg: "\<exists>pm c. map_of (w_fs w2) p = Some (Reg pm c)" using same out [OF p] by (auto simp: staged_files_def st_def)
      have "map_of (w_fs w2) st = Some (Reg um uc)"
        using l sys_link_map(1) [OF l, of st] sys_unlink_other [OF \<open>U \<noteq> st\<close>, of w] u by (simp add: U_def I_def)
      then have "\<forall>m. map_of (w_fs w2) (A @ CHR ''/'' # x_ExtractFileName X p) \<noteq> Some (Dir m)"
        using same files p unfolding A_def [symmetric] by (metis node.distinct(1) option.inject)
      with reg files p show "(\<exists>pm c. map_of (w_fs w2) p = Some (Reg pm c)) \<and> CHR ''/'' \<notin> set (x_ExtractFileName X p)
        \<and> x_ExtractFileName X p \<noteq> [] \<and> (\<forall>m. map_of (w_fs w2) (A @ CHR ''/'' # x_ExtractFileName X p) \<noteq> Some (Dir m))"
        by blast
    qed
    show "(\<lambda>p. A @ CHR ''/'' # x_ExtractFileName X p) ` set fl \<inter> set fl = {}" using out F by auto
    show "distinct (map (x_ExtractFileName X) fl)" using F names by (simp add: distinct_map)
  qed
  then obtain w' where "stage_others X (A @ ''/'') fl w2 = (True, w')" by blast
  with l1 ex fl \<open>0 < n\<close> have "StageUpdateModulePackage X U st w = (True, w')"
    by (simp add: StageUpdateModulePackage_def w1 path dir Let_def)
  then show ?thesis unfolding U_def I_def st_def A_def by blast
qed

section \<open>Properties\<close>

text \<open>C6. A package that is staged lies in its active directory: after a successful staging every
  regular file below the staged directory, however deep, has its content and mode under its bare
  name in the active directory, in place of any file of that name; every other path is as it
  was, the older active files among them. The bare names must differ: of two files with one name
  in different subdirectories only one can be there.\<close>

theorem Staging_takes_package:
  assumes stage: "StageUpdateModulePackage X (install_path h @ CHR ''/'' # f) (active_path h @ CHR ''/'' # f) w
      = (True, w')"
    and X: "extract_contract X" "listing_contract X" and f: "CHR ''/'' \<notin> set f"
    and names: "inj_on (x_ExtractFileName X) (staged_files h w)"
  shows "(\<forall>p \<in> staged_files h w.
        map_of (w_fs w') (active_path h @ CHR ''/'' # x_ExtractFileName X p) = map_of (w_fs w) p)
    \<and> (\<forall>q. q \<notin> (\<lambda>p. active_path h @ CHR ''/'' # x_ExtractFileName X p) ` staged_files h w \<longrightarrow>
        map_of (w_fs w') q = map_of (w_fs w) q)"
proof -
  define a where "a = active_path h @ ''/''"
  define i where "i = install_path h"
  define st where "st = a @ f"
  have apart: "a @ x \<noteq> i @ y" "i @ y \<noteq> a @ x" for x y by (simp_all add: a_def i_def dir_consts)
  have "install_path h \<noteq> active_path h" by (simp add: dir_consts)
  from Staging_begins [OF stage X(1) f this] obtain w2 n files where
    files: "x_GetFilesFromDirectory X (w_fs w2) i = (n, files)" and s: "stage_others X a files w2 = (True, w')"
    and same: "\<And>q. q \<noteq> st \<Longrightarrow> map_of (w_fs w2) q = map_of (w_fs w) q"
    and u: "\<exists>m c. map_of (w_fs w) (i @ CHR ''/'' # f) = Some (Reg m c)"
    unfolding st_def a_def i_def by auto
  have F: "distinct files" "set files = staged_files h w"
  proof -
    have "distinct files \<and> set files = {p. prefix (i @ ''/'') p \<and> (\<exists>m c. map_of (w_fs w2) p = Some (Reg m c))}"
      using X(2) files unfolding listing_contract_def by blast
    moreover have "p \<noteq> st" if "prefix (i @ ''/'') p" for p using that apart by (auto simp: prefix_def st_def)
    ultimately show "distinct files" "set files = staged_files h w"
      using same by (auto simp: staged_files_def i_def)
  qed
  have d: "distinct (map (x_ExtractFileName X) files)" using F names by (simp add: distinct_map)
  have "p \<noteq> a @ y" if "p \<in> set files" for p y
    using that apart F(2) by (auto simp: staged_files_def i_def prefix_def)
  then have disj: "(\<lambda>p. a @ x_ExtractFileName X p) ` set files \<inter> set files = {}" by auto
  note T = stage_others_takes [OF s d disj, unfolded F(2)]
  have "i @ CHR ''/'' # f \<in> staged_files h w" using u by (simp add: staged_files_def i_def)
  then have "st \<in> (\<lambda>p. a @ x_ExtractFileName X p) ` staged_files h w" using extractD(2) [OF X(1) f, of i] by (force simp: st_def)
  then have other: "map_of (w_fs w2) q = map_of (w_fs w) q"
    if "q \<notin> (\<lambda>p. a @ x_ExtractFileName X p) ` staged_files h w" for q
    using that same by metis
  have source: "map_of (w_fs w2) p = map_of (w_fs w) p" if "p \<in> staged_files h w" for p
    by (rule same) (use that apart in \<open>auto simp: staged_files_def i_def st_def prefix_def\<close>)
  have a: "active_path h @ CHR ''/'' # x = a @ x" for x by (simp add: a_def)
  show ?thesis unfolding a using T other source by auto
qed

section \<open>A staged package\<close>

lemma sample_contracts: "extract_contract (sample_ext parse unz)" "listing_contract (sample_ext parse unz)"
proof -
  have "after_slash (d @ CHR ''/'' # g) = Suc (length d)" if "CHR ''/'' \<notin> set g" for d g
    using find_last_of_append [OF that, of d] by (simp add: after_slash_def)
  then show "extract_contract (sample_ext parse unz)"
    by (simp add: extract_contract_def sample_ext_def)
  have "set (x_GetDirFiles (sample_ext parse unz) fs d) = {p. prefix (d @ ''/'') p \<and> (\<exists>m c. map_of fs p = Some (Reg m c))}"
    for fs d using sample_dirfiles by (simp add: dirfiles_contract_def)
  then have "set (filter (\<lambda>p. prefix (d @ ''/'') p \<and> is_reg fs p) (map fst fs))
      = {p. prefix (d @ ''/'') p \<and> (\<exists>m c. map_of fs p = Some (Reg m c))}" for fs :: fsys and d
    by (simp add: sample_ext_def)
  then show "listing_contract (sample_ext parse unz)"
    unfolding listing_contract_def by (simp add: sample_ext_def Let_def del: set_filter)
qed

lemmas sample0_contracts = sample_contracts [where parse = "\<lambda>s. JNull" and unz = "\<lambda>s. None", folded sample0_def]

definition stage_world :: world where
  "stage_world = world0 [(''/data/module_update_package/h1/m.zip'', Reg 420 ''Z''),
     (''/data/module_update_package/h1/module.img'', Reg 420 ''N''),
     (''/data/module_update/active/h1'', Dir 488), (''/data/module_update/active/h1/module.img'', Reg 420 ''O''),
     (''/data/module_update/active/h1/other'', Reg 420 ''X'')]"

text \<open>The image of the staged package replaces the active one; a file the package does not have
  stays in the active directory.\<close>

lemma Staging_takes_package_witness:
  "let w' = snd (StageUpdateModulePackage sample0 (install_path ''h1'' @ ''/m.zip'') (active_path ''h1'' @ ''/m.zip'')
       stage_world)
   in map_of (w_fs w') (active_path ''h1'' @ ''/m.zip'') = Some (Reg 420 ''Z'')
    \<and> map_of (w_fs w') (active_path ''h1'' @ ''/module.img'') = Some (Reg 420 ''N'')
    \<and> map_of (w_fs w') (active_path ''h1'' @ ''/other'') = Some (Reg 420 ''X'')"
proof -
  let ?r = "StageUpdateModulePackage sample0 (install_path ''h1'' @ ''/m.zip'') (active_path ''h1'' @ ''/m.zip'') stage_world"
  have "fst ?r"
    by (simp add: StageUpdateModulePackage_def stage_world_def world0_def CheckPathExists_def sys_defs fs_node_def
        dir_consts sample_defs after_slash_def Let_def substr_def parent_ok_def parent_dir_def
        is_dir_def is_reg_def)
  then have run: "?r = (True, snd ?r)" by (simp add: prod_eq_iff)
  have files: "staged_files ''h1'' stage_world
      = {''/data/module_update_package/h1/m.zip'', ''/data/module_update_package/h1/module.img''}"
    by (auto simp: staged_files_def stage_world_def world0_def dir_consts split: if_splits)
  have names: "x_ExtractFileName sample0 ''/data/module_update_package/h1/m.zip'' = ''m.zip''"
    "x_ExtractFileName sample0 ''/data/module_update_package/h1/module.img'' = ''module.img''"
    by (simp_all add: sample_defs after_slash_def)
  then have inj: "inj_on (x_ExtractFileName sample0) (staged_files ''h1'' stage_world)"
    by (simp add: files)
  have w: "map_of (w_fs stage_world) ''/data/module_update_package/h1/m.zip'' = Some (Reg 420 ''Z'')"
    "map_of (w_fs stage_world) ''/data/module_update_package/h1/module.img'' = Some (Reg 420 ''N'')"
    "map_of (w_fs stage_world) (active_path ''h1'' @ ''/other'') = Some (Reg 420 ''X'')"
    by (simp_all add: stage_world_def world0_def dir_consts)
  from Staging_takes_package [OF run sample0_contracts _ inj] show ?thesis
    unfolding files using w(3) by (simp add: names w(1,2) Let_def)
qed

end
