(* ===== verification/Module_Isolation.thy ===== *)
theory Module_Isolation
  imports Module_Trust Module_Staging
begin

text \<open>
  What one package's boot task can change. The world before and after a call agree on a set of
  paths and on the faults to come; this relation is an equivalence, so each call of module_update.cpp
  and of what it calls has one rewrite rule, and the whole task follows by the simplifier.
\<close>

section \<open>Worlds that agree\<close>

definition same :: "(string \<Rightarrow> bool) \<Rightarrow> world \<Rightarrow> world \<Rightarrow> bool" where
  "same P w w' = (w_fault w' = w_fault w \<and> (\<forall>q. P q \<longrightarrow> map_of (w_fs w') q = map_of (w_fs w) q))"

lemma same_refl [simp]: "same P w w"
  by (simp add: same_def)

lemma same_trans [trans]: "same P u v \<Longrightarrow> same P v w \<Longrightarrow> same P u w"
  by (simp add: same_def)

lemma sameD: "same P w w' \<Longrightarrow> P q \<Longrightarrow> map_of (w_fs w') q = map_of (w_fs w) q"
  by (simp add: same_def)

lemma same_fault: "same P w w' \<Longrightarrow> w_fault w' = w_fault w"
  by (simp add: same_def)

lemma same_mono: "same P w w' \<Longrightarrow> (\<And>q. Q q \<Longrightarrow> P q) \<Longrightarrow> same Q w w'"
  by (simp add: same_def)

lemma same_step: "same P w w' \<Longrightarrow> same P v w' = same P v w"
  by (auto simp: same_def)

section \<open>System calls and library functions\<close>

lemma same_CreateDir [simp]: "\<not> P p \<Longrightarrow> same P v (snd (CreateDirIfNeeded p md w)) = same P v w"
  by (rule same_step)
    (auto simp: same_def CreateDirIfNeeded_def sys_defs split: stat_result.split node.split bool.split option.split)

lemma same_link [simp]: "\<not> P b \<Longrightarrow> same P v (snd (sys_link a b w)) = same P v w"
  by (rule same_step) (auto simp: same_def sys_link_def split: option.split node.split)

lemma same_unlink [simp]: "\<not> P b \<Longrightarrow> same P v (snd (sys_unlink b w)) = same P v w"
  by (rule same_step) (auto simp: same_def sys_unlink_def delete_conv' split: option.split node.split)

lemma same_chmod [simp]: "\<not> P p \<Longrightarrow> same P v (snd (sys_chmod p md w)) = same P v w"
  by (rule same_step) (auto simp: same_def sys_chmod_def split: option.split node.split)

lemma same_rmdir [simp]: "\<not> P p \<Longrightarrow> same P v (snd (sys_rmdir p w)) = same P v w"
  by (rule same_step) (auto simp: same_def sys_rmdir_def delete_conv')

lemma same_rename:
  assumes "\<not> inside a b" "\<not> inside b a" and "\<And>q. P q \<Longrightarrow> \<not> inside a q \<and> \<not> inside b q"
  shows "same P v (snd (sys_rename a b w)) = same P v w"
  by (rule same_step)
    (use assms in \<open>auto simp: same_def sys_rename_def rename_map_of\<close>)

lemma same_write [simp]: "\<not> P p \<Longrightarrow> same P v (write_file p md c w) = same P v w"
  by (rule same_step) (auto simp: same_def write_file_def)

lemma same_set_parameter [simp]: "same P v (snd (set_parameter X k c w)) = same P v w"
  by (simp add: same_def set_parameter_def)

lemma same_reboot [simp]: "same P v (do_reboot c w) = same P v w"
  by (simp add: same_def do_reboot_def)

lemma same_mount [simp]: "same P v (snd (sys_mount d p w)) = same P v w"
  by (simp add: same_def sys_mount_def)

lemma same_force_remove:
  assumes "rmdir_contract X" and "\<And>q. P q \<Longrightarrow> \<not> inside d q"
  shows "same P v (snd (force_remove X d w)) = same P v w"
proof (rule same_step)
  obtain ok w1 where f: "force_remove X d w = (ok, w1)" by fastforce
  with force_remove_frame [OF assms(1) f] force_remove_more [OF f] assms(2)
  show "same P w (snd (force_remove X d w))" by (simp add: same_def)
qed

lemma same_RemoveSpecifiedDir:
  "rmdir_contract X \<Longrightarrow> (\<And>q. P q \<Longrightarrow> \<not> inside d q) \<Longrightarrow>
     same P v (snd (RemoveSpecifiedDir X d False w)) = same P v w"
  by (simp add: RemoveSpecifiedDir_False same_force_remove)

section \<open>The functions of the boot\<close>

lemma same_result [simp]:
  assumes "\<not> P MODULE_RESULT_PATH"
  shows "same P v (Repository_SaveInstallerResult X p h r i w) = same P v w"
proof (rule same_step)
  have append: "w_fault (sys_append a s u) = w_fault u" for a s u
    by (simp add: sys_append_def split: option.split node.split)
  have merge: "w_fault (snd (CheckAndUpdateRevertResult X h m k u)) = w_fault u" for m k u
    by (simp add: CheckAndUpdateRevertResult_def case_prod_unfold split: option.split node.split)
  have "w_fault (Repository_SaveInstallerResult X p h r i w) = w_fault w"
    by (simp add: Repository_SaveInstallerResult_def Let_def case_prod_unfold append merge split: bool.split)
  then show "same P w (Repository_SaveInstallerResult X p h r i w)"
    using assms by (metis Repository_SaveInstallerResult_frame same_def)
qed

lemma same_notify [simp]:
  assumes "savefile_contract X" and "\<not> P MODULE_UPDATE_PARAMS_FILE"
  shows "same P v (snd (NotifyBmsRevert X h True w)) = same P v w"
proof (rule same_step)
  obtain r w1 where n: "NotifyBmsRevert X h True w = (r, w1)" by fastforce
  from NotifyBmsRevert_record [OF assms(1) n] assms(2) show "same P w (snd (NotifyBmsRevert X h True w))"
    unfolding n snd_conv same_def by metis
qed

lemma same_Revert:
  assumes "rmdir_contract X"
    and P: "\<And>q. P q \<Longrightarrow> \<not> inside (install_path h) q" "\<And>q. P q \<Longrightarrow> \<not> inside (active_path h) q"
      "\<And>q. P q \<Longrightarrow> \<not> inside (backup_path h) q"
  shows "same P v (Revert X h reboot w) = same P v w"
proof (rule same_step)
  have a: "\<not> P (active_path h)" using P(2) [of "active_path h"] inside_refl by blast
  note move = same_rename [OF roots_apart0(8) [of h h] roots_apart0(5) [of h h], of P]
  show "same P w (Revert X h reboot w)"
    by (simp add: Revert_def Let_def case_prod_unfold same_force_remove assms(1) P a move
        split: bool.split stat_result.split)
qed

section \<open>Staging\<close>

lemma same_stage_others:
  assumes "\<And>r. \<not> P (a @ CHR ''/'' # r)"
  shows "same P v (snd (stage_others X (a @ CHR ''/'' # d) files w)) = same P v w"
proof (induction files arbitrary: w)
  case (Cons p files)
  have "\<not> P ((a @ CHR ''/'' # d) @ x_ExtractFileName X p)" using assms by simp
  with Cons.IH show ?case by (simp add: Let_def case_prod_unfold split: bool.split)
qed simp

lemma extract_below:
  assumes "extract_contract X"
  shows "\<exists>d. x_ExtractFilePath X (a @ CHR ''/'' # r) = a @ CHR ''/'' # d"
proof (cases "CHR ''/'' \<in> set r")
  case True
  then obtain d g where r: "r = d @ CHR ''/'' # g" "CHR ''/'' \<notin> set g" by (meson split_list_last)
  then show ?thesis
    using extractD(1) [OF assms r(2), of "a @ CHR ''/'' # d"] by (intro exI [of _ "d @ ''/''"]) simp
next
  case False
  then show ?thesis using extractD(1) [OF assms False, of a] by (intro exI [of _ "[]"]) simp
qed

lemma same_Stage:
  assumes "extract_contract X" and "\<And>r. \<not> P (a @ CHR ''/'' # r)"
  shows "same P v (snd (StageUpdateModulePackage X u (a @ CHR ''/'' # r) w)) = same P v w"
proof -
  obtain d where d: "x_ExtractFilePath X (a @ CHR ''/'' # r) = a @ CHR ''/'' # d"
    using extract_below [OF assms(1)] by blast
  show ?thesis
    by (simp add: StageUpdateModulePackage_def Let_def case_prod_unfold d assms(2)
        same_stage_others [of P a, OF assms(2)] split: bool.split)
qed

section \<open>The choice\<close>

text \<open>Every file of the repository lies in the directory it was found in.\<close>

definition repo_paths :: "repository \<Rightarrow> bool" where
  "repo_paths repo =
     (\<forall>root h f. GetModuleFile repo root h = Some f \<longrightarrow> prefix (root @ ''/'' @ h @ ''/'') (mf_modulePath f))"

lemma repo_paths_Nil [simp]: "repo_paths []"
  by (simp add: repo_paths_def GetModuleFile_def)

lemma ProcessFile_paths:
  assumes "repo_paths repo" and "prefix (path @ ''/'' @ h @ ''/'') file"
  shows "repo_paths (fst (ProcessFile X h path file repo w))"
  using assms
  by (auto simp: ProcessFile_def repo_paths_def GetModuleFile_add dest: Open_path split: option.split if_splits)

lemma init_files_paths:
  assumes "repo_paths repo" and "\<forall>f \<in> set files. prefix (path @ ''/'' @ h @ ''/'') f"
  shows "repo_paths (fst (init_files X h path files repo w))"
  using assms by (induction files arbitrary: repo w) (simp_all add: case_prod_unfold ProcessFile_paths)

lemma init_paths_paths:
  assumes "dirfiles_contract X" and "repo_paths repo"
  shows "repo_paths (fst (init_paths X h paths repo w))"
  using assms(2)
proof (induction paths arbitrary: repo w)
  case (Cons path paths)
  have "\<forall>f \<in> set (x_GetDirFiles X (w_fs w) (path @ CHR ''/'' # h)). prefix (path @ ''/'' @ h @ ''/'') f"
    using assms(1) by (auto simp: dirfiles_contract_def)
  with Cons show ?case by (simp add: case_prod_unfold init_files_paths)
qed simp

lemma InitRepository_paths:
  assumes "dirfiles_contract X" and "repo_paths repo" and "InitRepository X h repo w = (repo', w')"
  shows "repo_paths repo'"
proof -
  have "repo_paths (emplace h [] repo)"
    using assms(2) by (auto simp: repo_paths_def GetModuleFile_def map_of_emplace split: option.splits if_splits)
  from init_paths_paths [OF assms(1) this] assms(3) show ?thesis by (metis InitRepository_def fst_conv)
qed

lemma same_GetLatest:
  assumes X: "extract_contract X" and repo: "repo_paths repo" and P: "\<And>r. \<not> P (active_path h @ CHR ''/'' # r)"
  shows "same P v (snd (GetLatestUpdateModulePackage X repo h w)) = same P v w"
proof (cases "GetModuleFile repo UPDATE_INSTALL_DIR h")
  case (Some u)
  with repo obtain r where r: "mf_modulePath u = install_path h @ CHR ''/'' # r"
    by (fastforce simp: repo_paths_def prefix_def)
  have "UPDATE_ACTIVE_DIR @ substr_from (mf_modulePath u) (length UPDATE_INSTALL_DIR) = active_path h @ CHR ''/'' # r"
    by (simp add: r substr_from_def)
  with Some same_Stage [of X P "active_path h", OF X P] show ?thesis
    by (simp add: GetLatestUpdateModulePackage_def Let_def case_prod_unfold split: bool.split)
qed (simp add: GetLatestUpdateModulePackage_def)

text \<open>The paths a task of package \<open>h\<close> leaves alone: all but the package's three trees, the two
  record files, the mount points and the attributes of devices.\<close>

definition own :: "string \<Rightarrow> string \<Rightarrow> bool" where
  "own h q = (inside (install_path h) q \<or> inside (active_path h) q \<or> inside (backup_path h) q)"

definition beyond :: "string \<Rightarrow> string \<Rightarrow> bool" where
  "beyond h q = (\<not> own h q \<and> q \<noteq> MODULE_UPDATE_PARAMS_FILE \<and> q \<noteq> MODULE_RESULT_PATH
     \<and> \<not> inside MODULE_ROOT_DIR q \<and> \<not> prefix ''/sys/'' q)"

lemma beyondD:
  "beyond h q \<Longrightarrow> \<not> inside (install_path h) q"
  "beyond h q \<Longrightarrow> \<not> inside (active_path h) q"
  "beyond h q \<Longrightarrow> \<not> inside (backup_path h) q"
  by (simp_all add: beyond_def own_def)

lemma not_beyond [simp]:
  "\<not> beyond h MODULE_UPDATE_PARAMS_FILE" "\<not> beyond h MODULE_RESULT_PATH" "\<not> beyond h MODULE_ROOT_DIR"
  "\<not> beyond h (MODULE_ROOT_DIR @ CHR ''/'' # m)"
  by (simp_all add: beyond_def)

lemma active_not_beyond: "\<not> beyond h (active_path h @ CHR ''/'' # r)"
  unfolding beyond_def own_def using inside_child by blast

text \<open>What a boot relies on.\<close>

definition sysfs_contract :: "('j, 'h) ext \<Rightarrow> bool" where
  "sysfs_contract X =
     (\<forall>fs p r. prefix SYSTEM_BLOCK_PATH p \<and> x_realpath X fs p = Some r \<longrightarrow> prefix ''/sys/'' r)"

definition boot_contracts :: "('j, 'h) ext \<Rightarrow> bool" where
  "boot_contracts X = (rmdir_contract X \<and> dirfiles_contract X \<and> savefile_contract X \<and> extract_contract X
     \<and> sysfs_contract X)"

lemma same_Prepare:
  assumes X: "boot_contracts X" and repo: "repo_paths (b_repo b)" and h: "us_hmpName status = h"
  shows "same (beyond h) v (b_w (PrepareModuleFileList X status b)) = same (beyond h) v (b_w b)"
proof -
  have C: "rmdir_contract X" "extract_contract X" "savefile_contract X"
    using X by (simp_all add: boot_contracts_def)
  note trees = same_RemoveSpecifiedDir [OF C(1), of "beyond h", OF beyondD(2) [of h]]
    same_RemoveSpecifiedDir [OF C(1), of "beyond h", OF beyondD(3) [of h]]
  show ?thesis
    by (simp add: PrepareModuleFileList_def Let_def case_prod_unfold h trees C
        same_Revert [OF C(1) beyondD] same_GetLatest [of X _ "beyond h" h, OF C(2) repo active_not_beyond] split: option.split)
qed

lemma ProcessHmpFile_same:
  assumes X: "boot_contracts X" and repo: "repo_paths (b_repo b)" and h: "us_hmpName status = h"
  shows "same (beyond h) v (b_w (ProcessHmpFile X file status b)) = same (beyond h) v (b_w b)
    \<and> repo_paths (b_repo (ProcessHmpFile X file status b))"
proof -
  obtain repo' w' where i: "InitRepository X h (b_repo b) (b_w b) = (repo', w')" by fastforce
  have "repo_paths repo'"
    using InitRepository_paths [OF _ repo i] X by (simp add: boot_contracts_def)
  moreover have "w' = b_w b" using InitRepository_world [OF i] .
  ultimately show ?thesis
    using same_Prepare [OF X, of "b\<lparr>b_repo := repo', b_w := b_w b\<rparr>" status h v] i h repo
    by (simp add: ProcessHmpFile_def split: option.split)
qed

lemma process_files_same:
  assumes X: "boot_contracts X" and h: "us_hmpName status = h" and repo: "repo_paths (b_repo b)"
  shows "same (beyond h) v (b_w (process_files X files status b)) = same (beyond h) v (b_w b)
    \<and> repo_paths (b_repo (process_files X files status b))"
  using repo by (induction files arbitrary: b) (simp_all add: ProcessHmpFile_same [OF X _ h])

section \<open>Mounting\<close>

definition no_device :: "string \<Rightarrow> bool" where
  "no_device q = (\<not> inside MODULE_ROOT_DIR q \<and> \<not> prefix ''/sys/'' q)"

lemma same_ReadAhead:
  assumes X: "sysfs_contract X"
  shows "same no_device v (snd (ConfigureReadAhead X k d w)) = same no_device v w"
proof -
  let ?p = "SYSTEM_BLOCK_PATH @ basename d @ READ_AHEAD_NAME"
  have "GetRealPath X w ?p = [] \<or> \<not> no_device (GetRealPath X w ?p)"
  proof (cases "x_realpath X (w_fs w) ?p")
    case (Some r)
    have "prefix SYSTEM_BLOCK_PATH ?p" by simp
    with X Some have "prefix ''/sys/'' r" unfolding sysfs_contract_def by blast
    with Some show ?thesis by (simp add: GetRealPath_def no_device_def)
  qed (simp add: GetRealPath_def)
  then show ?thesis
    by (auto simp: ConfigureReadAhead_def Let_def split: stat_result.split node.split option.split bool.split)
qed

lemma Loop_CreateLoopDevice_same:
  assumes "sysfs_contract X" and "Loop_CreateLoopDevice X t off sz w k = (d, w', k')"
  shows "same no_device w w'"
proof -
  have "w' = w \<or> (\<exists>k1 dev. w' = snd (ConfigureReadAhead X k1 dev w))"
    using assms(2)
    by (auto simp: Loop_CreateLoopDevice_def dest: sndI
        split: if_splits ioctl_result.splits option.splits prod.splits bool.splits)
  then show ?thesis using same_ReadAhead [OF assms(1), of w] by auto
qed

lemma create_loop_attempts_same:
  assumes "sysfs_contract X" and "create_loop_attempts X n path st w k = (d, w', k')"
  shows "same no_device w w'"
  using assms(2)
proof (induction n arbitrary: w k)
  case (Suc n)
  obtain d1 w1 k1 where l: "Loop_CreateLoopDevice X path (is_imageOffset st) (is_imageSize st) w k = (d1, w1, k1)"
    by (metis prod.exhaust)
  note one = Loop_CreateLoopDevice_same [OF assms(1) l]
  show ?case
  proof (cases d1)
    case None
    with Suc.prems l have "create_loop_attempts X n path st w1 k1 = (d, w', k')" by simp
    from same_trans [OF one Suc.IH [OF this]] show ?thesis .
  qed (use Suc.prems l one in auto)
qed simp

lemma same_MountPoint:
  assumes "CreateMountPoint f w = (mnt, w1)"
  shows "same no_device w w1 \<and> (mnt = [] \<or> \<not> no_device mnt)"
proof -
  let ?m = "if mp_type (mf_versionInfo f) \<noteq> HMP_TRAIN_TYPE
    then MODULE_ROOT_DIR @ ''/'' @ mp_hmpName (mf_versionInfo f) else MODULE_ROOT_DIR"
  have m: "\<not> no_device ?m" by (simp add: no_device_def)
  obtain ok w' where c: "CreateDirIfNeeded ?m MOUNT_POINT_MODE w = (ok, w')" by fastforce
  from same_CreateDir [of no_device ?m w MOUNT_POINT_MODE w, OF m] c have "same no_device w w'" by simp
  moreover from assms c have "w1 = w' \<and> (mnt = [] \<or> mnt = ?m)"
    unfolding CreateMountPoint_def Let_def c by (cases ok) auto
  ultimately show ?thesis using m by auto
qed

lemma Mount_same:
  assumes X: "sysfs_contract X" and m: "MountModulePackage X verify f on w k = (ok, w', k')"
  shows "same no_device w w'"
proof -
  obtain mnt w1 where cm: "CreateMountPoint f w = (mnt, w1)" by fastforce
  note mp = same_MountPoint [OF cm]
  obtain d w2 k2 where
    cl: "CreateLoopDevice X (x_ExtractFilePath X (mf_modulePath f) @ IMG_FILE_NAME)
           (the (mf_imageStat f)) w1 k = (d, w2, k2)" by (metis prod.exhaust)
  from create_loop_attempts_same [OF X cl [unfolded CreateLoopDevice_def]] mp
  have w2: "same no_device w w2" by (auto dest: same_trans)
  show ?thesis
  proof (cases "mnt = []")
    case True
    with m cm mp show ?thesis by (simp add: MountModulePackage_def)
  next
    case False
    with mp have rm: "same no_device u (snd (sys_rmdir mnt x)) = same no_device u x" for u x by simp
    have mount: "same no_device u y" if "sys_mount a c x = (b, y)" "same no_device u x" for a b c u x y
      using that same_mount [of no_device u a c x] by simp
    show ?thesis
    proof (cases "CheckModulePackage X w1 mnt f")
      case False
      with m cm mp rm \<open>mnt \<noteq> []\<close> show ?thesis by (auto simp: MountModulePackage_def Let_def)
    next
      case True
      with m cm cl \<open>mnt \<noteq> []\<close> w2 rm mount show ?thesis
        by (auto simp: MountModulePackage_def Let_def split: option.splits prod.splits bool.splits)
    qed
  qed
qed

section \<open>One task and all tasks\<close>

lemma same_Report:
  assumes X: "boot_contracts X" and h: "us_hmpName status = h"
  shows "same (beyond h) v (b_w (ReportModuleUpdateStatus X status b)) = same (beyond h) v (b_w b)"
proof -
  have C: "rmdir_contract X" "savefile_contract X" using X by (simp_all add: boot_contracts_def)
  show ?thesis
    by (simp add: ReportModuleUpdateStatus_def Let_def h C same_Revert [OF C(1) beyondD]
        same_RemoveSpecifiedDir [OF C(1), of "beyond h", OF beyondD(1) [of h]])
qed

lemma Activate_same:
  assumes X: "boot_contracts X" and h: "us_hmpName status = h" and a: "ActivateModules X status b = (res, b')"
  shows "same (beyond h) (b_w b) (b_w b')"
proof (cases "find (\<lambda>f. mf_imageStat f \<noteq> None) (b_list b)")
  case None
  with a show ?thesis using same_Report [OF X h, of "b_w b" b] by (auto simp: ActivateModules_def)
next
  case (Some f)
  let ?pre = "IsPreInstalledModule (b_repo b) f"
  obtain ok w1 k1 where m: "MountModulePackage X (b_verify b) f (\<not> ?pre) (b_w b) (b_k b) = (ok, w1, k1)"
    by (metis prod.exhaust)
  have "same no_device (b_w b) w1" using Mount_same [OF _ m] X by (simp add: boot_contracts_def)
  then have w1: "same (beyond h) (b_w b) w1"
    by (rule same_mono) (simp add: beyond_def no_device_def)
  have r: "same (beyond h) (b_w b) (b_w (ReportModuleUpdateStatus X (status\<lparr>us_isPreInstalled := p, us_isAllMountSuccess := c\<rparr>)
      (b\<lparr>b_w := u, b_k := kk\<rparr>))) = same (beyond h) (b_w b) u" for p c u kk
    using same_Report [OF X, of "status\<lparr>us_isPreInstalled := p, us_isAllMountSuccess := c\<rparr>" h] h by simp
  show ?thesis using a Some m w1 r by (auto simp: ActivateModules_def Let_def)
qed

lemma DoModuleUpdate_same:
  assumes X: "boot_contracts X" and h: "us_hmpName status = h" and repo: "b_repo b = []"
    and d: "DoModuleUpdate X status b = (res, b')"
  shows "same (beyond h) (b_w b) (b_w b')"
proof -
  define b1 where "b1 = process_files X (x_GetDirFiles X (w_fs (b_w b)) (preinstall_path h)) status b"
  have b1: "same (beyond h) (b_w b) (b_w b1)"
    using process_files_same [OF X h, of b "b_w b"] repo by (simp add: b1_def)
  obtain pre k1 where p: "PreAllocateLoopDevices X (of_nat (length (b_list b1))) (b_k b1) = (pre, k1)" by fastforce
  obtain r b2 where a: "ActivateModules X status (b1\<lparr>b_k := k1\<rparr>) = (r, b2)" by fastforce
  have "same (beyond h) (b_w b1) (b_w b2)" using Activate_same [OF X h a] by simp
  with b1 have "same (beyond h) (b_w b) (b_w b2)" by (rule same_trans)
  with b1 d p a h show ?thesis
    unfolding b1_def by (auto simp: DoModuleUpdate_def Let_def split: if_splits bool.splits)
qed

lemma TaskCallback_same:
  assumes X: "boot_contracts X" and repo: "b_repo b = []"
  shows "same (beyond h) (b_w b) (b_w (TaskCallback X h b))"
proof -
  obtain ret st b' where d: "DoModuleUpdate X (ModuleUpdateStatus_init h) b = ((ret, st), b')"
    by (metis prod.exhaust)
  have "us_hmpName (ModuleUpdateStatus_init h) = h" by (simp add: ModuleUpdateStatus_init_def)
  from DoModuleUpdate_same [OF X this repo d] d show ?thesis by (simp add: TaskCallback_def)
qed

lemma run_tasks_same:
  assumes X: "boot_contracts X" and "b_repo b = []" and "\<And>h q. h \<in> set hs \<Longrightarrow> P q \<Longrightarrow> beyond h q"
  shows "same P (b_w b) (b_w (run_tasks X hs b))"
  using assms(2,3)
proof (induction hs arbitrary: b)
  case (Cons h hs)
  have "same P (b_w b) (b_w (TaskCallback X h b))"
    using TaskCallback_same [OF X Cons.prems(1)] by (rule same_mono) (use Cons.prems(2) in simp)
  also have "same P \<dots> (b_w (run_tasks X hs (TaskCallback X h b)))"
    by (rule Cons.IH) (use Cons.prems(2) TaskCallback_clears [of X h b] in auto)
  finally show ?case by simp
qed simp

text \<open>The trees of two packages with plain names never meet.\<close>

lemma plain_names:
  assumes "h @ s = k @ t" and "CHR ''/'' \<notin> set h" "CHR ''/'' \<notin> set k"
    and "s = [] \<or> (\<exists>u. s = CHR ''/'' # u)" "t = [] \<or> (\<exists>u. t = CHR ''/'' # u)"
  shows "h = k"
proof -
  from assms(1) consider us where "h = k @ us" "us @ s = t" | us where "k = h @ us" "us @ t = s"
    by (auto simp: append_eq_append_conv2)
  then show ?thesis
  proof cases
    case 1
    with assms(2,5) show ?thesis by (cases us) auto
  next
    case 2
    with assms(3,4) show ?thesis by (cases us) auto
  qed
qed

lemma inside_plain:
  assumes "inside (root @ CHR ''/'' # h) q" "inside (root @ CHR ''/'' # k) q"
    and "CHR ''/'' \<notin> set h" "CHR ''/'' \<notin> set k"
  shows "h = k"
proof -
  from assms(1,2) obtain s t where "q = (root @ CHR ''/'' # h) @ s" "q = (root @ CHR ''/'' # k) @ t"
    and st: "s = [] \<or> (\<exists>u. s = CHR ''/'' # u)" "t = [] \<or> (\<exists>u. t = CHR ''/'' # u)"
    unfolding inside_iff by blast
  then have "h @ s = k @ t" by simp
  from plain_names [OF this assms(3,4) st] show ?thesis .
qed

lemma own_beyond:
  assumes "own h q" and "CHR ''/'' \<notin> set h" "CHR ''/'' \<notin> set k" and "k \<noteq> h"
  shows "beyond k q"
proof -
  have in_trees: "(\<exists>r. q = install_path h @ r) \<or> (\<exists>r. q = active_path h @ r) \<or> (\<exists>r. q = backup_path h @ r)"
    using assms(1) by (auto simp: own_def inside_iff)
  have "\<not> own k q"
  proof
    assume k: "own k q"
    from assms(1) consider "inside (install_path h) q" | "inside (active_path h) q" | "inside (backup_path h) q"
      by (auto simp: own_def)
    then show False
    proof cases
      case 1
      then have "\<not> inside (active_path k) q" "\<not> inside (backup_path k) q"
        using inside_apart [of "install_path h" q "active_path k"] inside_apart [of "install_path h" q "backup_path k"]
          roots_apart0 [of h k] roots_apart0 [of k h] by argo+
      with k have "inside (install_path k) q" by (simp add: own_def)
      from inside_plain [OF this 1 assms(3,2)] assms(4) show False by simp
    next
      case 2
      then have "\<not> inside (install_path k) q" "\<not> inside (backup_path k) q"
        using inside_apart [of "active_path h" q "install_path k"] inside_apart [of "active_path h" q "backup_path k"]
          roots_apart0 [of h k] roots_apart0 [of k h] by argo+
      with k have "inside (active_path k) q" by (simp add: own_def)
      from inside_plain [OF this 2 assms(3,2)] assms(4) show False by simp
    next
      case 3
      then have "\<not> inside (install_path k) q" "\<not> inside (active_path k) q"
        using inside_apart [of "backup_path h" q "install_path k"] inside_apart [of "backup_path h" q "active_path k"]
          roots_apart0 [of h k] roots_apart0 [of k h] by argo+
      with k have "inside (backup_path k) q" by (simp add: own_def)
      from inside_plain [OF this 3 assms(3,2)] assms(4) show False by simp
    qed
  qed
  moreover have "q \<noteq> MODULE_UPDATE_PARAMS_FILE" "q \<noteq> MODULE_RESULT_PATH" "\<not> inside MODULE_ROOT_DIR q"
    "\<not> prefix ''/sys/'' q"
    using in_trees
    by (auto simp: MODULE_UPDATE_PARAMS_FILE_def MODULE_RESULT_PATH_def MODULE_ROOT_DIR_def dir_consts inside_def)
  ultimately show ?thesis by (simp add: beyond_def)
qed

lemma boot_tasks_distinct: "distinct (boot_tasks X b)"
  by (simp add: boot_tasks_def)

text \<open>The boot around the task of one package, for the paths of that package.\<close>

lemma boot_before_same:
  assumes X: "boot_contracts X" and repo: "b_repo b = []" and "\<forall>k \<in> set hs. CHR ''/'' \<notin> set k"
    and h: "CHR ''/'' \<notin> set h" "h \<notin> set hs"
  shows "same (\<lambda>q. own h q \<or> q = UPDATE_ACTIVE_DIR) (b_w b) (b_w (boot_before X hs b))" (is "same ?P _ _")
proof -
  have root: "beyond k UPDATE_ACTIVE_DIR" for k
    by (simp add: beyond_def own_def)
      (simp add: MODULE_UPDATE_PARAMS_FILE_def MODULE_RESULT_PATH_def MODULE_ROOT_DIR_def dir_consts inside_def)
  have "beyond k q" if "k \<in> set hs" "?P q" for k q
    using own_beyond [of h q k] root that h assms(3) by auto
  then have run: "same ?P (b_w c) (b_w (run_tasks X hs c))" if "b_repo c = []" for c
    using run_tasks_same [OF X that, of hs ?P] by simp
  have "same ?P (b_w b) (b_w (run_tasks X hs (b\<lparr>b_tasks := t\<rparr>)))" for t
    using run [of "b\<lparr>b_tasks := t\<rparr>"] repo by simp
  then show ?thesis by (simp add: boot_before_def)
qed

lemma boot_after_same:
  assumes X: "boot_contracts X" and fresh: "b_repo b = []" and pool: "tm_pool (b_tasks b) = []"
    and names: "\<forall>k \<in> set (boot_tasks X b). CHR ''/'' \<notin> set k"
    and tasks: "boot_tasks X b = hs1 @ hs2" and h: "CHR ''/'' \<notin> set h" "h \<notin> set hs2"
    and base: "b_repo (boot_before X hs1 b) = []"
  shows "same (\<lambda>q. own h q \<and> \<not> inside UPDATE_INSTALL_DIR q) (b_w (boot_before X hs1 b)) (b_w (CheckModuleUpdate X b))"
proof -
  let ?P = "\<lambda>q. own h q \<and> \<not> inside UPDATE_INSTALL_DIR q" and ?b1 = "boot_before X hs1 b"
  have "same ?P (b_w ?b1) (b_w (run_tasks X hs2 ?b1))"
    by (rule run_tasks_same [OF X base]) (use own_beyond h names tasks in auto)
  also have "run_tasks X hs2 ?b1 = boot_before X (boot_tasks X b) b"
    by (simp add: boot_before_def tasks run_tasks_append)
  also have "same ?P (b_w \<dots>) (b_w (CheckModuleUpdate X b))"
    unfolding CheckModuleUpdate_runs [OF pool]
    by (subst same_force_remove) (use X in \<open>auto simp: boot_contracts_def\<close>)
  finally show ?thesis .
qed

section \<open>Properties\<close>

text \<open>C3. One package cannot damage another at boot: in the trees of package \<open>h\<close> (staged, active,
  backup) the task of \<open>h\<close> finds what the boot found, whatever the tasks before it did, and what it
  leaves in its active and backup trees is there when the boot check ends, whatever the tasks after
  it do, their failures, reversions and the final clean-up of the staging directory included. A
  package without a task keeps its active and backup files. System calls may fail anywhere.\<close>

theorem Boot_isolates_packages:
  assumes X: "boot_contracts X" and fresh: "b_repo b = []" "b_list b = []" "tm_pool (b_tasks b) = []"
    and names: "\<forall>k \<in> set (boot_tasks X b). CHR ''/'' \<notin> set k"
    and h: "CHR ''/'' \<notin> set h" and q: "own h q"
  shows "(\<forall>hs1 hs2. boot_tasks X b = hs1 @ h # hs2 \<longrightarrow>
        map_of (w_fs (b_w (boot_before X hs1 b))) q = map_of (w_fs (b_w b)) q
        \<and> (\<not> inside UPDATE_INSTALL_DIR q \<longrightarrow> map_of (w_fs (b_w (CheckModuleUpdate X b))) q
             = map_of (w_fs (b_w (TaskCallback X h (boot_before X hs1 b)))) q))
    \<and> (h \<notin> set (boot_tasks X b) \<and> \<not> inside UPDATE_INSTALL_DIR q \<longrightarrow>
        map_of (w_fs (b_w (CheckModuleUpdate X b))) q = map_of (w_fs (b_w b)) q)"
proof (intro conjI allI impI)
  fix hs1 hs2 assume t: "boot_tasks X b = hs1 @ h # hs2"
  with boot_tasks_distinct [of X b] have "h \<notin> set hs1" "h \<notin> set hs2" by simp_all
  have repo: "b_repo (boot_before X hs b) = []" for hs
    using run_tasks_clears [of "b\<lparr>b_tasks := tt\<rparr>" X hs for tt] fresh by (simp add: boot_before_def)
  from sameD [OF boot_before_same [OF X fresh(1) _ h \<open>h \<notin> set hs1\<close>], of q] q names t
  show "map_of (w_fs (b_w (boot_before X hs1 b))) q = map_of (w_fs (b_w b)) q" by simp
  have after: "boot_before X (hs1 @ [h]) b = TaskCallback X h (boot_before X hs1 b)"
    by (simp add: boot_before_def run_tasks_append)
  have t': "boot_tasks X b = (hs1 @ [h]) @ hs2" using t by simp
  note s = boot_after_same [OF X fresh(1,3) names t' h \<open>h \<notin> set hs2\<close> repo, unfolded after]
  assume "\<not> inside UPDATE_INSTALL_DIR q"
  with sameD [OF s, of q] q show "map_of (w_fs (b_w (CheckModuleUpdate X b))) q
      = map_of (w_fs (b_w (TaskCallback X h (boot_before X hs1 b)))) q" by simp
next
  assume a: "h \<notin> set (boot_tasks X b) \<and> \<not> inside UPDATE_INSTALL_DIR q"
  have b0: "b_repo (boot_before X [] b) = []" "b_w (boot_before X [] b) = b_w b"
    using fresh by (simp_all add: boot_before_def)
  have t0: "boot_tasks X b = [] @ boot_tasks X b" by simp
  from sameD [OF boot_after_same [OF X fresh(1,3) names t0 h _ b0(1)], of q] a q b0(2)
  show "map_of (w_fs (b_w (CheckModuleUpdate X b))) q = map_of (w_fs (b_w b)) q" by simp
qed

text \<open>The sample boot with a file of a second package: no verification is registered, so the mount of
  \<open>h1\<close> fails and \<open>h1\<close> is reverted; the other package's file is still there.\<close>

definition iso_boot :: boot where
  "iso_boot = boot0 (trust_world\<lparr>w_fs := w_fs trust_world @ [(''/data/module_update/active/h2/a'', Reg 420 ''A'')]\<rparr>)"

lemma pk_contracts: "boot_contracts pk"
proof -
  have "savefile_contract pk" "sysfs_contract pk"
    by (auto simp: savefile_contract_def sysfs_contract_def pk_def sample_ext_def SYSTEM_BLOCK_PATH_def prefix_def
        split: if_splits)
  then show ?thesis
    using sample_contracts(1) by (simp add: boot_contracts_def) (simp add: pk_def)
qed

lemma iso_tasks: "boot_tasks pk iso_boot = [''h1'']"
proof -
  have "CheckFileSuffix ''/system/module_update/h1/module_info.zip'' MODULE_PACKAGE_SUFFIX"
    "\<not> CheckFileSuffix ''/system/module_update/h1/module.img'' MODULE_PACKAGE_SUFFIX"
    by (simp_all add: CheckFileSuffix_def substr_from_def MODULE_PACKAGE_SUFFIX_def)
  moreover have "GetHmpName ''/system/module_update/h1/module_info.zip'' = ''h1''"
    by (simp add: GetHmpName_def PREFIXES_def StartsWith_prefix dir_consts substr_def Let_def)
  moreover have "x_GetDirFiles pk (w_fs (b_w iso_boot)) MODULE_PREINSTALL_DIR =
     [''/system/module_update/h1/module_info.zip'', ''/system/module_update/h1/module.img'']"
    by (simp add: iso_boot_def boot0_def pk_def sample_ext_def trust_world_def pk_world_def world0_def dir_consts
        is_reg_def fs_node_def)
  moreover have "ModuleFile_Open pk (b_w iso_boot) ''/system/module_update/h1/module_info.zip'' =
     Some (pk_file ''/system/module_update/h1/module_info.zip'' ''d 1.0.0.1'')"
    by (rule pk_open; simp add: pk_def sample_ext_def iso_boot_def boot0_def trust_world_def pk_world_def world0_def
        after_slash_def IMG_FILE_NAME_def)
  ultimately show ?thesis by (simp add: boot_tasks_def)
qed

lemma Boot_isolates_packages_witness:
  "boot_tasks pk iso_boot = [''h1'']
   \<and> map_of (w_fs (b_w (CheckModuleUpdate pk iso_boot))) ''/data/module_update/active/h2/a'' = Some (Reg 420 ''A'')"
proof -
  have b: "b_repo iso_boot = []" "b_list iso_boot = []" "tm_pool (b_tasks iso_boot) = []"
    and f: "map_of (w_fs (b_w iso_boot)) ''/data/module_update/active/h2/a'' = Some (Reg 420 ''A'')"
    by (simp_all add: iso_boot_def boot0_def trust_world_def pk_world_def world0_def)
  have q: "own ''h2'' ''/data/module_update/active/h2/a''" "CHR ''/'' \<notin> set ''h2''"
      "\<not> inside UPDATE_INSTALL_DIR ''/data/module_update/active/h2/a''"
    and names: "\<forall>k \<in> set (boot_tasks pk iso_boot). CHR ''/'' \<notin> set k" "''h2'' \<notin> set (boot_tasks pk iso_boot)"
    by (simp_all add: own_def inside_def dir_consts iso_tasks)
  from Boot_isolates_packages [OF pk_contracts b names(1) q(2,1)] f q(3) names(2) iso_tasks show ?thesis by simp
qed

end
