(* ===== verification/Module_Rollback.thy ===== *)
theory Module_Rollback
  imports Module_Main
begin

text \<open>
  Installation and reversion together: what \<open>BackupActiveModules\<close> of module_update_main.cpp saves
  before an installation is what \<open>Revert\<close> of module_utils.cpp brings back, however many boots and
  other operations lie in between, as long as none of them touches the backup.
\<close>

section \<open>A backup is a mirror\<close>

lemma CreateDirIfNeeded_regs:
  assumes "CreateDirIfNeeded p md w = (True, w')"
  shows "map_of (w_fs w') q = Some (Reg m c) \<longleftrightarrow> map_of (w_fs w) q = Some (Reg m c)"
  using assms
  by (auto simp: CreateDirIfNeeded_def sys_defs fs_node_def split: stat_result.splits node.splits
      bool.splits option.splits if_splits)

lemma sys_link_regs:
  assumes "sys_link a b w = (True, w')"
  shows "map_of (w_fs w') q = Some (Reg m c) \<longleftrightarrow>
     map_of (w_fs w) (if q = b then a else q) = Some (Reg m c)"
  using assms by (auto simp: sys_link_def fs_node_def split: if_splits option.splits node.splits)

lemma active_prefix: "UPDATE_ACTIVE_DIR \<in> set PREFIXES"
  by (simp add: PREFIXES_def)

lemma GetHmpName_active:
  assumes "h \<noteq> []" and "CHR ''/'' \<notin> set f"
  shows "GetHmpName (active_path h @ CHR ''/'' # f) = h"
proof -
  have "find_last_of CHR ''/'' ((UPDATE_ACTIVE_DIR @ CHR ''/'' # h) @ CHR ''/'' # f)
      = Some (length UPDATE_ACTIVE_DIR + 1 + length h)"
    using find_last_of_append[OF assms(2), of "UPDATE_ACTIVE_DIR @ CHR ''/'' # h"] by simp
  then show ?thesis
    using find_PREFIXES[OF active_prefix, of "h @ CHR ''/'' # f"] assms(1)
    by (simp add: GetHmpName_def substr_def)
qed

lemma GetFileAllName_child: "CHR ''/'' \<notin> set f \<Longrightarrow> GetFileAllName (d @ CHR ''/'' # f) = f"
  by (simp add: GetFileAllName_def find_last_of_append substr_from_def)

text \<open>A path that ends in a file name.\<close>

definition ends_in_name :: "string \<Rightarrow> bool" where
  "ends_in_name r \<longleftrightarrow> r \<noteq> [] \<and> last r \<noteq> CHR ''/''"

lemma BackupFile_mirrors:
  assumes "BackupFile (active_path h @ CHR ''/'' # r) w = (True, w')" and "h \<noteq> []" and "ends_in_name r"
  shows "map_of (w_fs w') q = Some (Reg m c) \<longleftrightarrow>
     map_of (w_fs w) (if q = backup_path h @ CHR ''/'' # r then active_path h @ CHR ''/'' # r else q) = Some (Reg m c)"
proof -
  have "\<exists>H f. active_path h @ CHR ''/'' # r = active_path H @ CHR ''/'' # f
      \<and> backup_path h @ CHR ''/'' # r = backup_path H @ CHR ''/'' # f
      \<and> H \<noteq> [] \<and> f \<noteq> [] \<and> CHR ''/'' \<notin> set f"
  proof (cases "CHR ''/'' \<in> set r")
    case False
    with assms show ?thesis by (auto simp: ends_in_name_def)
  next
    case True
    then obtain d f where r: "r = d @ CHR ''/'' # f" "CHR ''/'' \<notin> set f" by (meson split_list_last)
    with assms(3) have "f \<noteq> []" by (auto simp: ends_in_name_def)
    with r show ?thesis by (intro exI [of _ "h @ CHR ''/'' # d"] exI [of _ f]) simp
  qed
  then obtain H f where p: "active_path h @ CHR ''/'' # r = active_path H @ CHR ''/'' # f"
      "backup_path h @ CHR ''/'' # r = backup_path H @ CHR ''/'' # f"
    and f: "H \<noteq> []" "f \<noteq> []" "CHR ''/'' \<notin> set f" by blast
  have n: "GetFileAllName (active_path H @ CHR ''/'' # f) = f" "GetHmpName (active_path H @ CHR ''/'' # f) = H"
    by (rule GetFileAllName_child[OF f(3)], rule GetHmpName_active[OF f(1,3)])
  from assms(1) f obtain w1 where c: "CreateDirIfNeeded (backup_path H) DIR_MODE w = (True, w1)"
    and l: "sys_link (active_path H @ CHR ''/'' # f) (backup_path H @ CHR ''/'' # f) w1 = (True, w')"
    unfolding p BackupFile_def n Let_def by (auto split: prod.splits bool.splits)
  show ?thesis unfolding p sys_link_regs [OF l] CreateDirIfNeeded_regs [OF c] ..
qed

lemma BackupFile_no_name:
  assumes "BackupFile (d @ CHR ''/'' # r) w = (True, w')" and "\<not> ends_in_name r"
  shows "w' = w"
proof -
  have "GetFileAllName ((d @ butlast (CHR ''/'' # r)) @ CHR ''/'' # []) = []"
    by (rule GetFileAllName_child) simp
  moreover have "last (CHR ''/'' # r) = CHR ''/''" using assms(2) by (auto simp: ends_in_name_def)
  then have "butlast (CHR ''/'' # r) @ [CHR ''/''] = CHR ''/'' # r"
    by (metis append_butlast_last_id list.distinct(1))
  ultimately show ?thesis using assms(1) by (simp add: BackupFile_def)
qed

lemma active_not_backup: "active_path h @ s \<noteq> backup_path k @ t"
  using roots_apart(8) [of k h s] inside_iff [of "backup_path k"] by (simp add: dir_consts)

lemma BackupFile_regs:
  assumes "BackupFile (a @ CHR ''/'' # r) w = (True, w')" and "a = active_path h" "b = backup_path h" and "h \<noteq> []"
  shows "map_of (w_fs w') x = Some (Reg m c) \<longleftrightarrow>
     map_of (w_fs w) (if ends_in_name r \<and> x = b @ CHR ''/'' # r then a @ CHR ''/'' # r else x) = Some (Reg m c)"
  using BackupFile_mirrors [of h r w w' x m c] BackupFile_no_name [of a r w w'] assms
  by (cases "ends_in_name r") simp_all

lemma backup_files_other:
  assumes "backup_files fs w = (True, w')" and ab: "a = active_path h" "b = backup_path h" and h: "h \<noteq> []"
    and "\<forall>p \<in> set fs. \<exists>r. p = a @ CHR ''/'' # r"
    and "\<forall>r. ends_in_name r \<and> a @ CHR ''/'' # r \<in> set fs \<longrightarrow> q \<noteq> b @ CHR ''/'' # r"
  shows "map_of (w_fs w') q = Some (Reg m c) \<longleftrightarrow> map_of (w_fs w) q = Some (Reg m c)"
  using assms(1,5,6)
proof (induction fs arbitrary: w)
  case (Cons p fs)
  then obtain w1 r where w1: "BackupFile (a @ CHR ''/'' # r) w = (True, w1)" and b: "backup_files fs w1 = (True, w')"
    and p: "p = a @ CHR ''/'' # r" by (auto split: prod.splits bool.splits)
  have "\<not> (ends_in_name r \<and> q = b @ CHR ''/'' # r)" using Cons.prems(3) p by auto
  with BackupFile_regs [OF w1 ab h, of q m c] Cons.IH [OF b] Cons.prems(2,3) show ?case by simp
qed simp

lemma backup_files_mirror:
  assumes "backup_files fs w = (True, w')" and ab: "a = active_path h" "b = backup_path h" and h: "h \<noteq> []"
    and "\<forall>p \<in> set fs. \<exists>r. p = a @ CHR ''/'' # r"
    and s: "a @ CHR ''/'' # s \<in> set fs" "ends_in_name s"
  shows "map_of (w_fs w') (b @ CHR ''/'' # s) = Some (Reg m c) \<longleftrightarrow>
         map_of (w_fs w) (a @ CHR ''/'' # s) = Some (Reg m c)"
  using assms(1,5) s(1)
proof (induction fs arbitrary: w)
  case (Cons p fs)
  then obtain w1 r where w1: "BackupFile (a @ CHR ''/'' # r) w = (True, w1)" and b: "backup_files fs w1 = (True, w')"
    and p: "p = a @ CHR ''/'' # r" by (auto split: prod.splits bool.splits)
  note one = BackupFile_regs [OF w1 ab h]
  show ?case
  proof (cases "a @ CHR ''/'' # s \<in> set fs")
    case True
    have "a @ CHR ''/'' # s \<noteq> b @ CHR ''/'' # r" using active_not_backup ab by metis
    with Cons.IH [OF b _ True] Cons.prems(2) one show ?thesis by simp
  next
    case False
    then have r: "r = s" using Cons.prems(3) p by simp
    have "map_of (w_fs w') (b @ CHR ''/'' # s) = Some (Reg m c) \<longleftrightarrow>
        map_of (w_fs w1) (b @ CHR ''/'' # s) = Some (Reg m c)"
      using False Cons.prems(2) by (intro backup_files_other [OF b ab h]) auto
    with one s(2) show ?thesis by (simp add: r)
  qed
qed simp

lemma Backup_mirrors:
  assumes "BackupActiveModules X h w = (True, w')" and "CheckPathExists w (active_path h)"
    and X: "rmdir_contract X" "dirfiles_contract X"
    and h: "h \<noteq> []" and root: "well_rooted (w_fs w) (backup_path h)" and r: "ends_in_name r"
  shows "map_of (w_fs w') (backup_path h @ CHR ''/'' # r) = Some (Reg m c) \<longleftrightarrow>
     map_of (w_fs w) (active_path h @ CHR ''/'' # r) = Some (Reg m c)"
proof -
  define a where "a = active_path h"
  define b where "b = backup_path h"
  note ab = a_def b_def
  from assms(1,2) obtain w1 w2 where
    w1: "(if CheckPathExists w b then force_remove X b w else (True, w)) = (True, w1)"
    and w2: "CreateDirIfNeeded b DIR_MODE w1 = (True, w2)"
    and fs: "backup_files (x_GetDirFiles X (w_fs w2) a) w2 = (True, w')"
    by (auto simp: BackupActiveModules_def Let_def ab split: prod.splits bool.splits if_splits)
  have k1: "map_of (w_fs w1) q = (if inside b q then None else map_of (w_fs w) q)" for q
  proof (cases "CheckPathExists w b")
    case True
    with w1 have "force_remove X b w = (True, w1)" by simp
    then show ?thesis using force_remove_frame [OF X(1)] force_remove_gone [OF X(1)] by auto
  next
    case False
    then have "w1 = w" "map_of (w_fs w) b = None" using w1 w2
      by (auto simp: CheckPathExists_def CreateDirIfNeeded_def sys_stat_def fs_node_def
          split: if_splits option.splits stat_result.splits)
    then show ?thesis using root by (simp add: well_rooted_def ab)
  qed
  have "\<not> inside b (a @ CHR ''/'' # r)" using roots_apart(8) [of h h "CHR ''/'' # r"] by (simp add: ab)
  then have a2: "map_of (w_fs w2) (a @ CHR ''/'' # r) = Some (Reg m c) \<longleftrightarrow>
      map_of (w_fs w) (a @ CHR ''/'' # r) = Some (Reg m c)" for m c
    using CreateDirIfNeeded_regs [OF w2] k1 by simp
  have b2: "map_of (w_fs w2) (b @ CHR ''/'' # r) \<noteq> Some (Reg m c)" for m c
    using CreateDirIfNeeded_regs [OF w2] k1 by simp
  have children: "\<forall>p \<in> set (x_GetDirFiles X (w_fs w2) a). \<exists>r. p = a @ CHR ''/'' # r"
    using X(2) by (auto simp: dirfiles_contract_def prefix_def)
  show ?thesis
  proof (cases "a @ CHR ''/'' # r \<in> set (x_GetDirFiles X (w_fs w2) a)")
    case True
    from backup_files_mirror [OF fs ab h children True r] a2 show ?thesis by (simp add: ab)
  next
    case False
    then have "map_of (w_fs w') (b @ CHR ''/'' # r) \<noteq> Some (Reg m c)"
      using backup_files_other [OF fs ab h children, of "b @ CHR ''/'' # r"] b2 by auto
    moreover have "map_of (w_fs w2) (a @ CHR ''/'' # r) \<noteq> Some (Reg m c)"
      using False X(2) by (auto simp: dirfiles_contract_def)
    ultimately show ?thesis using a2 by (simp add: ab)
  qed
qed

section \<open>Properties\<close>

text \<open>C24. A successful backup followed, at any later time, by a reversion restores the active files:
  the regular files below the package's active directory are afterwards exactly those that were
  there before the backup, in every subdirectory, with their contents and modes, whatever became
  of the active directory in between and whether or not the device is rebooted. The files of an
  earlier backup do not come back.\<close>

theorem Backup_then_Revert:
  assumes backup: "BackupActiveModules X h w = (True, w1)" "CheckPathExists w (active_path h)"
      "well_rooted (w_fs w) (backup_path h)"
    and X: "rmdir_contract X" "dirfiles_contract X" "\<forall>d fs. fst (x_ForceRemoveDirectory X d fs)"
    and h: "h \<noteq> []" "CHR ''/'' \<notin> set h"
    and kept: "\<forall>q. inside (backup_path h) q \<longrightarrow> map_of (w_fs w2) q = map_of (w_fs w1) q"
    and later: "\<forall>op p. \<not> w_fault w2 op p" "map_of (w_fs w2) (active_path h) = Some (Dir m)"
      "map_of (w_fs w2) (backup_path h) = Some (Dir m')" "is_dir (w_fs w2) UPDATE_ACTIVE_DIR"
      "well_rooted (w_fs w2) (install_path h)"
    and r: "ends_in_name r"
  shows "map_of (w_fs (Revert X h reboot w2)) (active_path h @ CHR ''/'' # r) = Some (Reg md c) \<longleftrightarrow>
     map_of (w_fs w) (active_path h @ CHR ''/'' # r) = Some (Reg md c)"
proof -
  define a where "a = active_path h"
  define b where "b = backup_path h"
  have "map_of (w_fs (Revert X h reboot w2)) (a @ CHR ''/'' # r) = map_of (w_fs w2) (b @ CHR ''/'' # r)"
    using Revert_effect [OF X(1,3) later(1) h later(2-5), of reboot "active_path h @ CHR ''/'' # r"]
    unfolding a_def [symmetric] b_def [symmetric] by simp
  also have "\<dots> = map_of (w_fs w1) (b @ CHR ''/'' # r)"
    using kept inside_child [of "backup_path h" r] unfolding b_def by blast
  finally show ?thesis
    unfolding a_def b_def using Backup_mirrors [OF backup(1,2) X(1,2) h(1) backup(3) r] by simp
qed

text \<open>The world some time after the backup: another file has replaced the active one.\<close>

definition later_world :: "world \<Rightarrow> world" where
  "later_world w = w\<lparr>w_fs := AList.update (active_path ''h1'' @ ''/b'') (Reg 420 ''B'')
     (AList.delete (active_path ''h1'' @ ''/a'') (w_fs w))\<rparr>"

lemma Backup_then_Revert_witness:
  "let w1 = snd (BackupActiveModules sample0 ''h1'' backup_world);
       w3 = Revert sample0 ''h1'' False (later_world w1)
   in map_of (w_fs w3) (active_path ''h1'' @ ''/a'') = Some (Reg 420 ''A'')
    \<and> map_of (w_fs w3) (active_path ''h1'' @ ''/b'') \<noteq> Some (Reg 420 ''B'')
    \<and> map_of (w_fs w3) (active_path ''h1'' @ ''/old'') \<noteq> Some (Reg 420 ''O'')"
proof -
  define w1 where "w1 = snd (BackupActiveModules sample0 ''h1'' backup_world)"
  have X: "rmdir_contract sample0" "dirfiles_contract sample0" "\<forall>d fs. fst (x_ForceRemoveDirectory sample0 d fs)"
    using sample_rmdir sample_dirfiles by (simp_all add: sample_defs)
  have run: "BackupActiveModules sample0 ''h1'' backup_world
      = (True, world0 [(''/data/module_update/active'', Dir 488),
     (''/data/module_update/active/h1'', Dir 488), (''/data/module_update/active/h1/a'', Reg 420 ''A''),
     (''/data/module_update/backup'', Dir 488), (''/data/module_update/backup/h1'', Dir DIR_MODE),
     (''/data/module_update/backup/h1/a'', Reg 420 ''A'')])"
    by (simp add: BackupActiveModules_def CheckPathExists_def sys_defs backup_world_def world0_def
        fs_node_def dir_consts force_remove_def sample_defs inside_def CreateDirIfNeeded_def parent_ok_def
        parent_dir_def is_dir_def is_reg_def BackupFile_def GetFileAllName_def substr_from_def GetHmpName_def
        StartsWith_def substr_def PREFIXES_def Let_def)
  then have backup: "BackupActiveModules sample0 ''h1'' backup_world = (True, w1)" by (simp add: w1_def)
  from run have w1: "w1 = world0 [(''/data/module_update/active'', Dir 488),
     (''/data/module_update/active/h1'', Dir 488), (''/data/module_update/active/h1/a'', Reg 420 ''A''),
     (''/data/module_update/backup'', Dir 488), (''/data/module_update/backup/h1'', Dir DIR_MODE),
     (''/data/module_update/backup/h1/a'', Reg 420 ''A'')]" by (simp add: w1_def)
  have before: "CheckPathExists backup_world (active_path ''h1'')" "well_rooted (w_fs backup_world) (backup_path ''h1'')"
    by (simp_all add: CheckPathExists_def sys_defs backup_world_def world0_def fs_node_def dir_consts well_rooted_def)
  have kept: "\<forall>q. inside (backup_path ''h1'') q \<longrightarrow> map_of (w_fs (later_world w1)) q = map_of (w_fs w1) q"
    by (auto simp: later_world_def map_of_AList_update map_of_AList_delete dir_consts inside_def)
  have later: "\<forall>op p. \<not> w_fault (later_world w1) op p"
      "map_of (w_fs (later_world w1)) (active_path ''h1'') = Some (Dir 488)"
      "map_of (w_fs (later_world w1)) (backup_path ''h1'') = Some (Dir DIR_MODE)"
      "is_dir (w_fs (later_world w1)) UPDATE_ACTIVE_DIR"
      "well_rooted (w_fs (later_world w1)) (install_path ''h1'')"
    by (auto simp: later_world_def w1 world0_def dir_consts is_dir_def fs_node_def well_rooted_def inside_def)
  note restored = Backup_then_Revert [OF backup before X _ _ kept later]
  have files: "map_of (w_fs backup_world) (active_path ''h1'' @ ''/a'') = Some (Reg 420 ''A'')"
      "map_of (w_fs backup_world) (active_path ''h1'' @ ''/b'') = None"
      "map_of (w_fs backup_world) (active_path ''h1'' @ ''/old'') = None"
    by (simp_all add: backup_world_def world0_def dir_consts)
  show ?thesis
    using restored [of "''a''" False 420 "''A''"] restored [of "''b''" False 420 "''B''"]
      restored [of "''old''" False 420 "''O''"] files
    unfolding w1_def [symmetric] Let_def by (simp add: ends_in_name_def)
qed

end
