(* ===== verification/Sample_Cycle.thy ===== *)
theory Sample_Cycle
  imports Module_Rollback Sample_Boot
begin

text \<open>
  One bad update of the sample package, for the example of the theory Module_Cycle: version 1 is
  preinstalled and active, version 2 is unpacked in the staging directory; the lemmas evaluate the
  installation and the choice of the next boot.
\<close>

definition cycle_world :: "fsys \<Rightarrow> world" where
  "cycle_world ex = world0
     ([(''/system/module_update'', Dir 493), (''/system/module_update/h1'', Dir 493),
       (''/system/module_update/h1/module_info.zip'', Reg 420 ''P1''),
       (''/system/module_update/h1/module.img'', Reg 420 ext4_image),
       (''/data/module_update'', Dir 488), (''/data/module_update/backup'', Dir 488),
       (''/data/module_update/active'', Dir 488), (''/data/module_update/active/h1'', Dir DIR_MODE),
       (''/data/module_update/active/h1/module_info.zip'', Reg 400 ''P1''),
       (''/data/module_update/active/h1/module.img'', Reg 400 ext4_image),
       (''/data/module_update_package'', Dir DIR_MODE), (''/data/module_update_package/h1'', Dir DIR_MODE),
       (''/data/module_update_package/h1/module_info.zip'', Reg 420 ''P2''),
       (''/data/module_update_package/h1/module.img'', Reg 420 ext4_image)] @ ex)"

definition cycle_backup :: fsys where
  "cycle_backup = [(''/data/module_update/backup/h1'', Dir DIR_MODE),
     (''/data/module_update/backup/h1/module_info.zip'', Reg 400 ''P1''),
     (''/data/module_update/backup/h1/module.img'', Reg 400 ext4_image)]"

lemmas cycle_defs = cycle_world_def cycle_backup_def world0_def dir_consts DIR_MODE_def

lemma cycle_open:
  "ModuleFile_Open pk (cycle_world ex) ''/system/module_update/h1/module_info.zip'' =
     Some (pk_file ''/system/module_update/h1/module_info.zip'' ''d 1.0.0.1'')"
  "ModuleFile_Open pk (cycle_world ex) ''/data/module_update/active/h1/module_info.zip'' =
     Some (pk_file ''/data/module_update/active/h1/module_info.zip'' ''d 1.0.0.1'')"
  "ModuleFile_Open pk (cycle_world ex) ''/data/module_update_package/h1/module_info.zip'' =
     Some (pk_file ''/data/module_update_package/h1/module_info.zip'' ''d 1.0.0.2'')"
  by (rule pk_open; simp add: pk_def sample_ext_def cycle_world_def world0_def after_slash_def IMG_FILE_NAME_def)+

text \<open>With distinct paths each entry can be tested by itself.\<close>

lemma pk_files:
  assumes "distinct (map fst fs)"
  shows "x_GetDirFiles pk fs d =
     map fst (filter (\<lambda>(p, n). prefix (d @ ''/'') p \<and> (case n of Reg _ _ \<Rightarrow> True | Dir _ \<Rightarrow> False)) fs)"
proof -
  have "is_reg fs p = (case n of Reg _ _ \<Rightarrow> True | Dir _ \<Rightarrow> False)" if "(p, n) \<in> set fs" for p n
    using map_of_is_SomeI [OF assms that] by (simp add: is_reg_def fs_node_def split: node.split)
  then have "filter ((\<lambda>p. prefix (d @ ''/'') p \<and> is_reg fs p) \<circ> fst) fs
      = filter (\<lambda>(p, n). prefix (d @ ''/'') p \<and> (case n of Reg _ _ \<Rightarrow> True | Dir _ \<Rightarrow> False)) fs"
    by (intro filter_cong) auto
  then show ?thesis by (simp add: pk_def sample_ext_def filter_map)
qed

lemma cycle_distinct: "ex = [] \<or> ex = cycle_backup \<Longrightarrow> distinct (map fst (w_fs (cycle_world ex)))"
  by (elim disjE; simp add: cycle_world_def cycle_backup_def world0_def)

lemma cycle_files:
  assumes "ex = [] \<or> ex = cycle_backup"
  shows "x_GetDirFiles pk (w_fs (cycle_world ex)) MODULE_PREINSTALL_DIR =
      [''/system/module_update/h1/module_info.zip'', ''/system/module_update/h1/module.img'']"
    "x_GetDirFiles pk (w_fs (cycle_world ex)) (preinstall_path ''h1'') =
      [''/system/module_update/h1/module_info.zip'', ''/system/module_update/h1/module.img'']"
    "x_GetDirFiles pk (w_fs (cycle_world ex)) (active_path ''h1'') =
      [''/data/module_update/active/h1/module_info.zip'', ''/data/module_update/active/h1/module.img'']"
    "x_GetDirFiles pk (w_fs (cycle_world ex)) (install_path ''h1'') =
      [''/data/module_update_package/h1/module_info.zip'', ''/data/module_update_package/h1/module.img'']"
  unfolding pk_files [OF cycle_distinct [OF assms]]
  by (rule disjE [OF assms]; simp add: cycle_defs)+

lemma cycle_suffix:
  "CheckFileSuffix ''/system/module_update/h1/module_info.zip'' MODULE_PACKAGE_SUFFIX"
  "\<not> CheckFileSuffix ''/system/module_update/h1/module.img'' MODULE_PACKAGE_SUFFIX"
  "CheckFileSuffix ''/data/module_update/active/h1/module_info.zip'' MODULE_PACKAGE_SUFFIX"
  "\<not> CheckFileSuffix ''/data/module_update/active/h1/module.img'' MODULE_PACKAGE_SUFFIX"
  "CheckFileSuffix ''/data/module_update_package/h1/module_info.zip'' MODULE_PACKAGE_SUFFIX"
  "\<not> CheckFileSuffix ''/data/module_update_package/h1/module.img'' MODULE_PACKAGE_SUFFIX"
  "GetFileName ''/system/module_update/h1/module_info.zip'' \<noteq> []"
  "GetFileName ''/data/module_update_package/h1/module_info.zip'' \<noteq> []"
  by (simp_all add: CheckFileSuffix_def substr_from_def MODULE_PACKAGE_SUFFIX_def GetFileName_def substr_def Let_def)

section \<open>The installation\<close>

lemma cycle_check: "CheckHmpName pk ''h1'' (mmain0 (cycle_world [])) = (0, mmain0 (cycle_world []))"
  by (simp add: CheckHmpName_def CreateModuleDirs_def CreateDirIfNeeded_def mmain0_def sys_defs fs_node_def cycle_defs)

lemma cycle_install_file:
  "InstallModuleFile pk ''h1'' ''/data/module_update_package/h1/module_info.zip'' (mmain0 (cycle_world [])) =
     (0, (mmain0 (cycle_world []))\<lparr>mm_installModule :=
        Some (pk_file ''/data/module_update_package/h1/module_info.zip'' ''d 1.0.0.2'')\<rparr>)"
proof -
  let ?f = "''/data/module_update_package/h1/module_info.zip''" and ?w = "cycle_world []"
  have "map_of (w_fs ?w) ?f = Some (Reg 420 ''P2'')" by (simp add: cycle_world_def world0_def)
  from pk_extract(2) [OF this refl] have incr: "IsIncrementPackage pk ?w ?f = False"
    by (auto simp: IsIncrementPackage_def GetContentFromZip_def GetPackageType_def json_str_def
        pk_def sample_ext_def pk_parse_def pack_json_def Let_def)
  have img: "mf_imageStat (pk_file ?f ''d 1.0.0.2'') = None \<longleftrightarrow> False" by (simp add: pk_file_def)
  have paths: "preinstall_path ''h1'' @ ''/'' @ HMP_INFO_NAME = ''/system/module_update/h1/module_info.zip''"
    "active_path ''h1'' @ ''/'' @ HMP_INFO_NAME = ''/data/module_update/active/h1/module_info.zip''"
    by (simp_all add: dir_consts HMP_INFO_NAME_def)
  have w: "mm_w (mmain0 ?w) = ?w" by (simp add: mmain0_def)
  have hvb: "x_SUPPORT_HVB pk = False" by (simp add: pk_def sample_ext_def)
  have "ValidateVersion pk ?w (pk_file ?f ''d 1.0.0.2'') ''h1'' = (0, pk_file ?f ''d 1.0.0.2'')"
    unfolding ValidateVersion_def paths Let_def
    by (simp add: cycle_open pk_newer VerifyModuleVerity_def hvb)
  then show ?thesis by (simp add: InstallModuleFile_def cycle_suffix incr w cycle_open img)
qed

lemma cycle_backed_up: "BackupActiveModules pk ''h1'' (cycle_world []) = (True, cycle_world cycle_backup)"
proof -
  have files: "x_GetDirFiles pk (w_fs (cycle_world [(''/data/module_update/backup/h1'', Dir 488)])) (active_path ''h1'') =
      [''/data/module_update/active/h1/module_info.zip'', ''/data/module_update/active/h1/module.img'']"
    by (simp add: pk_def sample_ext_def cycle_defs is_reg_def fs_node_def)
  have dir: "CreateDirIfNeeded (backup_path ''h1'') DIR_MODE (cycle_world [])
      = (True, cycle_world [(''/data/module_update/backup/h1'', Dir 488)])"
    by (simp add: CreateDirIfNeeded_def sys_defs fs_node_def cycle_defs parent_ok_def parent_dir_def is_dir_def)
  have ex: "CheckPathExists (cycle_world []) (active_path ''h1'')" "\<not> CheckPathExists (cycle_world []) (backup_path ''h1'')"
    by (simp_all add: CheckPathExists_def sys_defs fs_node_def cycle_defs)
  have names: "GetFileAllName ''/data/module_update/active/h1/module_info.zip'' = ''module_info.zip''"
    "GetFileAllName ''/data/module_update/active/h1/module.img'' = ''module.img''"
    "GetHmpName ''/data/module_update/active/h1/module_info.zip'' = ''h1''"
    "GetHmpName ''/data/module_update/active/h1/module.img'' = ''h1''"
    by (simp_all add: GetFileAllName_def substr_from_def GetHmpName_def StartsWith_def substr_def PREFIXES_def dir_consts Let_def)
  have "backup_files [''/data/module_update/active/h1/module_info.zip'', ''/data/module_update/active/h1/module.img'']
      (cycle_world [(''/data/module_update/backup/h1'', Dir 488)]) = (True, cycle_world cycle_backup)"
    by (simp add: BackupFile_def names CreateDirIfNeeded_def sys_defs fs_node_def cycle_defs parent_ok_def parent_dir_def
        is_dir_def Let_def)
  with files dir ex show ?thesis by (simp add: BackupActiveModules_def Let_def)
qed

lemma cycle_installed:
  "\<exists>m'. ReallyInstallModulePackage pk ''/d/h1.zip'' False (mmain0 (cycle_world [])) = (0, m')
     \<and> w_fs (mm_w m') = w_fs (cycle_world cycle_backup)"
proof -
  let ?m = "mmain0 (cycle_world [])" and ?f = "''/data/module_update_package/h1/module_info.zip''"
  have h: "GetFileName ''/d/h1.zip'' = ''h1''" by (simp add: GetFileName_def substr_def Let_def)
  have w: "mm_w ?m = cycle_world []" by (simp add: mmain0_def)
  have p: "PrepareFileToDestDir pk ''/d/h1.zip'' (install_path ''h1'' @ ''/'') (cycle_world []) = (True, cycle_world [])"
    by (simp add: PrepareFileToDestDir_def pk_def sample_ext_def)
  define m3 where "m3 = ?m\<lparr>mm_installModule := Some (pk_file ?f ''d 1.0.0.2'')\<rparr>"
  have i: "install_files pk ''h1'' False n 1 [?f, ''/data/module_update_package/h1/module.img''] ?m = (0, m3)" for n
    by (simp add: cycle_install_file m3_def InstallModuleFile_def [of pk "''h1''" "''/data/module_update_package/h1/module.img''"]
        cycle_suffix)
  have d: "CreateDirIfNeeded (active_path ''h1'') DIR_MODE (snd (set_parameter pk BMS_START_INSTALL BMS_UPDATE (cycle_world cycle_backup)))
      = (True, snd (set_parameter pk BMS_START_INSTALL BMS_UPDATE (cycle_world cycle_backup)))"
    by (simp add: CreateDirIfNeeded_def set_parameter_def sys_defs fs_node_def cycle_defs)
  have m3: "mm_w m3 = cycle_world []" "mm_installModule m3 = Some (pk_file ?f ''d 1.0.0.2'')"
    by (simp_all add: m3_def w)
  have s: "fst (set_parameter pk BMS_START_INSTALL BMS_UPDATE v) = 0" for v
    by (simp add: set_parameter_def pk_def sample_ext_def)
  have "\<exists>m'. PrepareResourceForReboot pk ''h1'' m3 = (0, m') \<and> w_fs (mm_w m') = w_fs (cycle_world cycle_backup)"
    using d s [of "cycle_world cycle_backup"]
    by (simp add: PrepareResourceForReboot_def m3 cycle_backed_up VerityInfoWrite_def case_prod_unfold)
      (simp add: set_parameter_def)
  then obtain m' where r: "PrepareResourceForReboot pk ''h1'' m3 = (0, m')" "w_fs (mm_w m') = w_fs (cycle_world cycle_backup)"
    by blast
  have u: "?m\<lparr>mm_w := cycle_world []\<rparr> = ?m" by (simp add: mmain0_def)
  define fl where "fl = [?f, ''/data/module_update_package/h1/module.img'']"
  have fl: "x_GetDirFiles pk (w_fs (cycle_world [])) (install_path ''h1'') = fl"
    by (simp add: fl_def cycle_files(4))
  note i' = i [of "length fl", folded fl_def]
  have "ReallyInstallModulePackage pk ''/d/h1.zip'' False ?m = (0, m')"
    unfolding ReallyInstallModulePackage_def h Let_def cycle_check prod.case w p bool.case fl u i' r(1) by simp
  with r(2) show ?thesis by blast
qed

end
