(* ===== verification/Module_Cycle.thy ===== *)
theory Module_Cycle
  imports Module_Isolation Sample_Cycle
begin

text \<open>
  The whole cycle of a bad update: the service installs a package (module_update_main.cpp), the
  next boot stages it and fails to mount it (module_update.cpp), and the reversion brings the old
  package back. The lemmas say what the installation leaves for the boot, what the boot's choice
  changes, and what the failed mount does with both.
\<close>

section \<open>The installation\<close>

text \<open>The documented meaning of two functions of the updater: extracting writes below the destination
  only, applying a patch writes the new image only.\<close>

definition extract_dir_contract :: "('j, 'h) ext \<Rightarrow> bool" where
  "extract_dir_contract X =
     (\<forall>p d fs r fs' q. x_ExtraPackageDir X p d fs = (r, fs') \<and> \<not> prefix d q \<longrightarrow> map_of fs' q = map_of fs q)"

definition patch_contract :: "('j, 'h) ext \<Rightarrow> bool" where
  "patch_contract X =
     (\<forall>p s d fs r fs' q. x_ApplyPatch X p s d fs = (r, fs') \<and> q \<noteq> d \<longrightarrow> map_of fs' q = map_of fs q)"

definition install_contracts :: "('j, 'h) ext \<Rightarrow> bool" where
  "install_contracts X = (rmdir_contract X \<and> dirfiles_contract X \<and> extract_contract X
     \<and> extract_dir_contract X \<and> patch_contract X)"

text \<open>Up to the backup only the staged tree changes.\<close>

definition unstaged :: "string \<Rightarrow> string \<Rightarrow> bool" where
  "unstaged h q = (\<not> inside (install_path h) q \<and> q \<noteq> UPDATE_INSTALL_DIR)"

lemma staged_not_unstaged [simp]:
  "\<not> unstaged h (install_path h)" "\<not> unstaged h UPDATE_INSTALL_DIR"
  by (simp_all add: unstaged_def)

lemma below_not_unstaged: "\<not> unstaged h (install_path h @ CHR ''/'' # r)"
  unfolding unstaged_def using inside_child by blast

lemma CheckHmpName_same:
  assumes "CheckHmpName X h m = (0, m1)"
  shows "same (unstaged h) (mm_w m) (mm_w m1) \<and> mm_installModule m1 = mm_installModule m"
proof -
  from assms obtain w1 where c: "CreateModuleDirs h (mm_w m) = (0, w1)" and m1: "m1 = m\<lparr>mm_w := w1\<rparr>"
    by (auto simp: CheckHmpName_def split: if_splits prod.splits)
  from c obtain w0 where "CreateDirIfNeeded UPDATE_INSTALL_DIR DIR_MODE (mm_w m) = (True, w0)"
    and "CreateDirIfNeeded (install_path h) DIR_MODE w0 = (True, w1)"
    by (auto simp: CreateModuleDirs_def split: prod.splits bool.splits)
  then have "w1 = snd (CreateDirIfNeeded (install_path h) DIR_MODE (snd (CreateDirIfNeeded UPDATE_INSTALL_DIR DIR_MODE (mm_w m))))"
    by simp
  with m1 show ?thesis by simp
qed

lemma Restore_same:
  assumes X: "install_contracts X" and r: "RestorePackage X (install_path h @ CHR ''/'' # r) src w = (ok, w')"
  shows "same (unstaged h) w w'"
proof -
  have C: "extract_contract X" "patch_contract X" using X by (simp_all add: install_contracts_def)
  obtain d where d: "x_ExtractFilePath X (install_path h @ CHR ''/'' # r) = install_path h @ CHR ''/'' # d"
    using extract_below [OF C(1)] by blast
  define img where "img = x_ExtractFilePath X (install_path h @ CHR ''/'' # r) @ IMG_FILE_NAME"
  define diff where "diff = x_ExtractFilePath X (install_path h @ CHR ''/'' # r) @ IMG_DIFF_FILE_NAME"
  have n: "\<not> unstaged h img" "\<not> unstaged h diff"
    using below_not_unstaged [of h "d @ IMG_FILE_NAME"] below_not_unstaged [of h "d @ IMG_DIFF_FILE_NAME"]
    unfolding img_def diff_def d by simp_all
  obtain res fs1 where p: "x_ApplyPatch X diff src img (w_fs w) = (res, fs1)" by fastforce
  have "map_of fs1 q = map_of (w_fs w) q" if "unstaged h q" for q
    using C(2) p n(1) that unfolding patch_contract_def by metis
  then have "same (unstaged h) w (w\<lparr>w_fs := fs1\<rparr>)" by (simp add: same_def)
  then have "same (unstaged h) w (snd (sys_unlink diff (w\<lparr>w_fs := fs1\<rparr>)))" using n(2) by simp
  with \<open>same (unstaged h) w (w\<lparr>w_fs := fs1\<rparr>)\<close> r p show ?thesis
    unfolding RestorePackage_def img_def [symmetric] diff_def [symmetric] Let_def
    by (auto split: if_splits option.splits)
qed

lemma InstallModuleFile_same:
  assumes X: "install_contracts X" and i: "InstallModuleFile X h (install_path h @ CHR ''/'' # r) m = (ret, m')"
  shows "same (unstaged h) (mm_w m) (mm_w m')"
proof -
  let ?f = "install_path h @ CHR ''/'' # r"
  have restore: "same (unstaged h) (mm_w m) w1"
    if "GetWorkHmpImagePath X h m = (img, m1)" "RestorePackage X ?f img (mm_w m1) = (ok, w1)" for img m1 ok w1
    using Restore_same [OF X that(2)] GetWorkHmpImagePath_w [OF that(1)] by simp
  show ?thesis
    using i by (auto simp: InstallModuleFile_def dest!: restore split: if_splits prod.splits bool.splits option.splits)
qed

lemma install_files_same:
  assumes X: "install_contracts X" and "\<forall>f \<in> set fs. \<exists>r. f = install_path h @ CHR ''/'' # r"
    and "install_files X h cb n i fs m = (ret, m')"
  shows "same (unstaged h) (mm_w m) (mm_w m')"
  using assms(2,3)
proof (induction fs arbitrary: i m)
  case (Cons f fs)
  obtain r1 m1 where f: "InstallModuleFile X h f m = (r1, m1)" by fastforce
  have one: "same (unstaged h) (mm_w m) (mm_w m1)"
    using InstallModuleFile_same [OF X, of h _ m r1 m1] f Cons.prems(1) by auto
  show ?case
  proof (cases "r1 = 0")
    case True
    let ?m2 = "if cb then m1\<lparr>mm_reports := mm_reports m1 @ [(UPDATE_STATE_ONGOING, int (float_percent i n), [])]\<rparr> else m1"
    have "install_files X h cb n (i + 1) fs ?m2 = (ret, m')" using Cons.prems(2) f True by simp
    from Cons.IH [OF _ this] Cons.prems(1) have "same (unstaged h) (mm_w ?m2) (mm_w m')" by simp
    with one show ?thesis by (auto dest: same_trans split: if_splits)
  qed (use Cons.prems(2) f one in auto)
qed simp

section \<open>The backup\<close>

lemma CreateDir_makes_dir:
  assumes "CreateDirIfNeeded p md w = (True, w')" and "last p \<noteq> CHR ''/''"
  shows "\<exists>m. map_of (w_fs w') p = Some (Dir m)"
  using assms
  by (auto simp: CreateDirIfNeeded_def sys_defs fs_node_plain split: stat_result.splits node.splits
      bool.splits option.splits if_splits)

lemma CreateDir_keeps_dir:
  assumes "CreateDirIfNeeded p md w = (ok, w')" and "map_of (w_fs w) d = Some (Dir m)"
  shows "\<exists>m. map_of (w_fs w') d = Some (Dir m)"
  using assms
  by (auto simp: CreateDirIfNeeded_def sys_defs split: stat_result.splits node.splits
      bool.splits option.splits if_splits)

lemma sys_link_keeps_dir:
  assumes "sys_link a b w = (ok, w')" and "map_of (w_fs w) d = Some (Dir m)"
  shows "map_of (w_fs w') d = Some (Dir m)"
  using assms by (auto simp: sys_link_def fs_node_def split: if_splits option.splits node.splits)

lemma BackupFile_keeps_dir:
  assumes "BackupFile f w = (ok, w')" and "map_of (w_fs w) d = Some (Dir m)"
  shows "\<exists>m. map_of (w_fs w') d = Some (Dir m)"
proof (cases "GetFileAllName f = [] \<or> GetHmpName f = []")
  case False
  obtain ok1 w1 where c: "CreateDirIfNeeded (backup_path (GetHmpName f)) DIR_MODE w = (ok1, w1)" by fastforce
  obtain m1 where "map_of (w_fs w1) d = Some (Dir m1)" using CreateDir_keeps_dir [OF c assms(2)] by blast
  with c assms(1) False sys_link_keeps_dir show ?thesis
    by (cases ok1) (auto simp: BackupFile_def Let_def)
qed (use assms in \<open>auto simp: BackupFile_def Let_def\<close>)

lemma backup_files_keeps_dir:
  assumes "backup_files fs w = (ok, w')" and "map_of (w_fs w) d = Some (Dir m)"
  shows "\<exists>m. map_of (w_fs w') d = Some (Dir m)"
  using assms
proof (induction fs arbitrary: w m)
  case (Cons f fs)
  obtain ok1 w1 where b: "BackupFile f w = (ok1, w1)" by fastforce
  obtain m1 where m1: "map_of (w_fs w1) d = Some (Dir m1)" using BackupFile_keeps_dir [OF b Cons.prems(2)] by blast
  with Cons.prems(1) Cons.IH [OF _ m1] b show ?case by (cases ok1) auto
qed simp

lemma Backup_directory:
  assumes "BackupActiveModules X h w = (True, w')" and "CheckPathExists w (active_path h)"
    and "last (backup_path h) \<noteq> CHR ''/''"
  shows "\<exists>m. map_of (w_fs w') (backup_path h) = Some (Dir m)"
proof -
  from assms(1,2) obtain w1 w2 where "CreateDirIfNeeded (backup_path h) DIR_MODE w1 = (True, w2)"
    and b: "backup_files (x_GetDirFiles X (w_fs w2) (active_path h)) w2 = (True, w')"
    by (auto simp: BackupActiveModules_def Let_def split: prod.splits bool.splits if_splits)
  from CreateDir_makes_dir [OF this(1) assms(3)] obtain m where "map_of (w_fs w2) (backup_path h) = Some (Dir m)" by blast
  from backup_files_keeps_dir [OF b this] show ?thesis .
qed

text \<open>The backup of a file writes below the backup of the package.\<close>

lemma BackupFile_same:
  assumes h: "h \<noteq> []" and P: "\<And>q. P q \<Longrightarrow> \<not> inside (backup_path h) q"
    and b: "BackupFile (active_path h @ CHR ''/'' # r) w = (ok, w')"
  shows "same P w w'"
proof (cases "ends_in_name r")
  case False
  have "GetFileAllName ((active_path h @ butlast (CHR ''/'' # r)) @ CHR ''/'' # []) = []"
    by (rule GetFileAllName_child) simp
  moreover have "last (CHR ''/'' # r) = CHR ''/''" using False by (auto simp: ends_in_name_def)
  then have "butlast (CHR ''/'' # r) @ [CHR ''/''] = CHR ''/'' # r"
    by (metis append_butlast_last_id list.distinct(1))
  ultimately show ?thesis using b by (simp add: BackupFile_def)
next
  case True
  have "\<exists>d H f. H = h @ d \<and> (d = [] \<or> (\<exists>u. d = CHR ''/'' # u)) \<and> CHR ''/'' # r = d @ CHR ''/'' # f
      \<and> f \<noteq> [] \<and> CHR ''/'' \<notin> set f"
  proof (cases "CHR ''/'' \<in> set r")
    case False
    with True show ?thesis by (intro exI [of _ "[]"] exI [of _ h] exI [of _ r]) (simp add: ends_in_name_def)
  next
    case sl: True
    then obtain u f where r: "r = u @ CHR ''/'' # f" "CHR ''/'' \<notin> set f" by (meson split_list_last)
    with True have "f \<noteq> []" by (auto simp: ends_in_name_def)
    with r show ?thesis by (intro exI [of _ "CHR ''/'' # u"] exI [of _ "h @ CHR ''/'' # u"] exI [of _ f]) simp
  qed
  then obtain d H f where H: "H = h @ d" "d = [] \<or> (\<exists>u. d = CHR ''/'' # u)"
    and r: "CHR ''/'' # r = d @ CHR ''/'' # f" and f: "f \<noteq> []" "CHR ''/'' \<notin> set f" by blast
  have p: "active_path h @ CHR ''/'' # r = active_path H @ CHR ''/'' # f" using r by (simp add: H)
  have "H \<noteq> []" using h H by simp
  then have n: "GetFileAllName (active_path H @ CHR ''/'' # f) = f" "GetHmpName (active_path H @ CHR ''/'' # f) = H"
    by (rule_tac [2] GetHmpName_active [OF _ f(2)]) (rule GetFileAllName_child [OF f(2)])
  have "inside (backup_path h) (backup_path H)" "inside (backup_path h) (backup_path H @ CHR ''/'' # f)"
    using H by (auto simp: inside_iff)
  then have np: "\<not> P (backup_path H)" "\<not> P (backup_path H @ CHR ''/'' # f)" using P by blast+
  obtain ok1 w1 where c: "CreateDirIfNeeded (backup_path H) DIR_MODE w = (ok1, w1)" by fastforce
  have one: "same P w w1" using same_CreateDir [of P _ w DIR_MODE w, OF np(1)] c by simp
  obtain ok2 w2 where l: "sys_link (active_path H @ CHR ''/'' # f) (backup_path H @ CHR ''/'' # f) w1 = (ok2, w2)" by fastforce
  have two: "same P w w2" using same_link [of P _ w "active_path H @ CHR ''/'' # f" w1, OF np(2)] l one by simp
  from b have "BackupFile (active_path H @ CHR ''/'' # f) w = (ok, w')" unfolding p .
  then have "w' = w1 \<or> w' = w2"
    using c l f \<open>H \<noteq> []\<close> unfolding BackupFile_def n Let_def by (cases ok1) auto
  with one two show ?thesis by blast
qed

lemma backup_files_same:
  assumes h: "h \<noteq> []" and P: "\<And>q. P q \<Longrightarrow> \<not> inside (backup_path h) q"
    and "\<forall>f \<in> set fs. \<exists>r. f = active_path h @ CHR ''/'' # r" and "backup_files fs w = (ok, w')"
  shows "same P w w'"
  using assms(3,4)
proof (induction fs arbitrary: w)
  case (Cons f fs)
  obtain ok1 w1 where b: "BackupFile f w = (ok1, w1)" by fastforce
  have one: "same P w w1" using BackupFile_same [of h P, OF h P] Cons.prems(1) b by auto
  with Cons b show ?case by (cases ok1) (auto dest: same_trans)
qed simp

lemma Backup_same:
  assumes X: "rmdir_contract X" "dirfiles_contract X" and h: "h \<noteq> []"
    and b: "BackupActiveModules X h w = (True, w')"
  shows "same (\<lambda>q. \<not> inside (backup_path h) q) w w'" (is "same ?P _ _")
proof (cases "CheckPathExists w (active_path h)")
  case True
  with b obtain w1 w2 where
    w1: "(if CheckPathExists w (backup_path h) then force_remove X (backup_path h) w else (True, w)) = (True, w1)"
    and w2: "CreateDirIfNeeded (backup_path h) DIR_MODE w1 = (True, w2)"
    and fs: "backup_files (x_GetDirFiles X (w_fs w2) (active_path h)) w2 = (True, w')"
    by (auto simp: BackupActiveModules_def Let_def split: prod.splits bool.splits if_splits)
  have "same ?P w (snd (force_remove X (backup_path h) w))" by (simp add: same_force_remove X)
  with w1 have "same ?P w w1" by (auto split: if_splits)
  also have "same ?P w1 w2" using same_CreateDir [of ?P "backup_path h" w1 DIR_MODE w1] w2 by simp
  also have "same ?P w2 w'"
    by (rule backup_files_same [OF h _ _ fs]) (use X(2) in \<open>auto simp: dirfiles_contract_def prefix_def\<close>)
  finally show ?thesis .
qed (use b in \<open>simp add: BackupActiveModules_def\<close>)

section \<open>What an installation leaves for the boot\<close>

lemma Install_leaves:
  assumes inst: "ReallyInstallModulePackage X pkg cb m = (0, m')" and h: "h = GetFileName pkg"
    and X: "install_contracts X" and faults: "\<forall>op p. \<not> w_fault (mm_w m) op p"
    and act: "map_of (w_fs (mm_w m)) (active_path h) = Some (Dir md)"
    and roots: "well_rooted (w_fs (mm_w m)) (backup_path h)"
    and r: "ends_in_name r"
  shows "h \<noteq> [] \<and> (\<exists>a. map_of (w_fs (mm_w m')) (active_path h) = Some (Dir a))
    \<and> (\<exists>b. map_of (w_fs (mm_w m')) (backup_path h) = Some (Dir b))
    \<and> map_of (w_fs (mm_w m')) UPDATE_ACTIVE_DIR = map_of (w_fs (mm_w m)) UPDATE_ACTIVE_DIR
    \<and> (\<forall>c n. map_of (w_fs (mm_w m')) (backup_path h @ CHR ''/'' # r) = Some (Reg c n) \<longleftrightarrow>
             map_of (w_fs (mm_w m)) (active_path h @ CHR ''/'' # r) = Some (Reg c n))"
proof -
  have C: "rmdir_contract X" "dirfiles_contract X" "extract_dir_contract X"
    using X by (simp_all add: install_contracts_def)
  from inst [folded h [symmetric]] obtain m1 w2 m3 where
    c: "CheckHmpName X h m = (0, m1)"
    and p: "PrepareFileToDestDir X pkg (install_path h @ ''/'') (mm_w m1) = (True, w2)"
    and i: "install_files X h cb (length (x_GetDirFiles X (w_fs w2) (install_path h))) 1
        (x_GetDirFiles X (w_fs w2) (install_path h)) (m1\<lparr>mm_w := w2\<rparr>) = (0, m3)"
    and r4: "PrepareResourceForReboot X h m3 = (0, m')"
    by (auto simp: ReallyInstallModulePackage_def Let_def h split: prod.splits bool.splits if_splits)
  have hne: "h \<noteq> []" and plain: "CHR ''/'' \<notin> set h"
    using c GetFileName_no_slash by (auto simp: CheckHmpName_def h split: if_splits)
  obtain res fs2 where e: "x_ExtraPackageDir X pkg (install_path h @ ''/'') (w_fs (mm_w m1)) = (res, fs2)" by fastforce
  have "\<not> prefix (install_path h @ ''/'') q" if "unstaged h q" for q
    using that below_not_unstaged [of h] by (auto simp: prefix_def)
  with C(3) e have "map_of fs2 q = map_of (w_fs (mm_w m1)) q" if "unstaged h q" for q
    using that unfolding extract_dir_contract_def by blast
  moreover have "w2 = (mm_w m1)\<lparr>w_fs := fs2\<rparr>" using p e unfolding PrepareFileToDestDir_def by simp
  ultimately have "same (unstaged h) (mm_w m1) w2" by (simp add: same_def)
  with CheckHmpName_same [OF c] have "same (unstaged h) (mm_w m) w2" by (blast intro: same_trans)
  also have "same (unstaged h) w2 (mm_w m3)"
    using install_files_same [OF X _ i] C(2) by (fastforce simp: dirfiles_contract_def prefix_def)
  finally have s3: "same (unstaged h) (mm_w m) (mm_w m3)" .
  from r4 obtain wb w4 where b: "BackupActiveModules X h (mm_w m3) = (True, wb)"
    and d: "CreateDirIfNeeded (active_path h) DIR_MODE (snd (set_parameter X BMS_START_INSTALL BMS_UPDATE wb)) = (True, w4)"
    and m': "mm_w m' = w4"
    by (auto simp: PrepareResourceForReboot_def split: option.splits prod.splits bool.splits if_splits)
  note sb = Backup_same [OF C(1,2) hne b]
  have trees: "unstaged h q" if "inside (active_path h) q \<or> inside (backup_path h) q \<or> q = UPDATE_ACTIVE_DIR" for q
  proof -
    have "\<not> inside (active_path h) UPDATE_INSTALL_DIR" "\<not> inside (backup_path h) UPDATE_INSTALL_DIR"
      by (simp_all add: inside_def dir_consts)
    then have "q \<noteq> UPDATE_INSTALL_DIR" using that roots_differ by metis
    moreover have "\<not> inside (install_path h) q"
      using that trees_apart [of h q] active_dir_outside(1) [of h] by blast
    ultimately show ?thesis by (simp add: unstaged_def)
  qed
  have act3: "map_of (w_fs (mm_w m3)) (active_path h) = Some (Dir md)"
    using sameD [OF s3 trees] act by simp
  have lasts: "last (active_path h) \<noteq> CHR ''/''" "last (backup_path h) \<noteq> CHR ''/''"
    using last_no_slash [OF hne plain] by simp_all
  have ex: "CheckPathExists (mm_w m3) (active_path h)"
    using act3 faults same_fault [OF s3] lasts(1) by (simp add: CheckPathExists_def sys_stat_def fs_node_plain)
  have root3: "well_rooted (w_fs (mm_w m3)) (backup_path h)"
    using roots sameD [OF s3 trees] by (simp add: well_rooted_def)
  obtain bd where bd: "map_of (w_fs wb) (backup_path h) = Some (Dir bd)" using Backup_directory [OF b ex lasts(2)] by blast
  have s4: "same (\<lambda>q. q \<noteq> active_path h) wb w4"
    using same_CreateDir [of "\<lambda>q. q \<noteq> active_path h" "active_path h" wb DIR_MODE] d
    by (metis same_refl same_set_parameter snd_conv)
  have "backup_path h \<noteq> active_path h" by (simp add: dir_consts)
  then have bak4: "map_of (w_fs w4) (backup_path h) = Some (Dir bd)" using sameD [OF s4] bd by simp
  have mirror: "map_of (w_fs w4) (backup_path h @ CHR ''/'' # r) = Some (Reg c n) \<longleftrightarrow>
      map_of (w_fs (mm_w m)) (active_path h @ CHR ''/'' # r) = Some (Reg c n)" for c n
  proof -
    have "backup_path h @ CHR ''/'' # r \<noteq> active_path h" by (simp add: dir_consts)
    then have "map_of (w_fs w4) (backup_path h @ CHR ''/'' # r) = map_of (w_fs wb) (backup_path h @ CHR ''/'' # r)"
      using sameD [OF s4] by blast
    moreover have "map_of (w_fs (mm_w m3)) (active_path h @ CHR ''/'' # r) = map_of (w_fs (mm_w m)) (active_path h @ CHR ''/'' # r)"
      using sameD [OF s3 trees] inside_child by blast
    ultimately show ?thesis using Backup_mirrors [OF b ex C(1,2) hne root3 r] by simp
  qed
  have "map_of (w_fs w4) UPDATE_ACTIVE_DIR = map_of (w_fs wb) UPDATE_ACTIVE_DIR"
    using sameD [OF s4] by simp
  also have "\<dots> = map_of (w_fs (mm_w m3)) UPDATE_ACTIVE_DIR" using sameD [OF sb] by simp
  also have "\<dots> = map_of (w_fs (mm_w m)) UPDATE_ACTIVE_DIR" using sameD [OF s3 trees] by simp
  finally show ?thesis unfolding m' using hne CreateDir_makes_dir [OF d lasts(1)] bak4 mirror by blast
qed

section \<open>The boot's choice\<close>

text \<open>Choosing an active or staged file changes nothing but the content of the active directory.\<close>

definition not_below_active :: "string \<Rightarrow> string \<Rightarrow> bool" where
  "not_below_active h q = (\<not> (\<exists>r. q = active_path h @ CHR ''/'' # r))"

lemma below_active [simp]: "\<not> not_below_active h (active_path h @ CHR ''/'' # r)"
  by (auto simp: not_below_active_def)

definition chose :: "string \<Rightarrow> world \<Rightarrow> boot \<Rightarrow> bool" where
  "chose h w b =
     (b_list b = [] \<and> b_w b = w
      \<or> (\<exists>f. b_list b = [f] \<and> (prefix UPDATE_ACTIVE_DIR (mf_modulePath f) \<longrightarrow> same (not_below_active h) w (b_w b)))
      \<or> 2 \<le> length (b_list b))"

lemma Prepare_chose:
  assumes X: "extract_contract X" and repo: "repo_paths (b_repo b)" and h: "us_hmpName status = h" and c: "chose h w b"
  shows "chose h w (PrepareModuleFileList X status b)"
proof (cases "GetModuleFile (b_repo b) MODULE_PREINSTALL_DIR h")
  case (Some sys)
  consider "b_list b = []" "b_w b = w" | "b_list b \<noteq> []" using c by (cases "b_list b = []") (auto simp: chose_def)
  then show ?thesis
  proof cases
    case 1
    obtain latest w1 where l: "GetLatestUpdateModulePackage X (b_repo b) h (b_w b) = (latest, w1)" by fastforce
    from same_GetLatest [of X _ "not_below_active h" h, OF X repo below_active, of w "b_w b"] l 1
    have w1: "same (not_below_active h) w w1" by simp
    have "prefix MODULE_PREINSTALL_DIR (mf_modulePath sys)"
      using repo Some by (fastforce simp: repo_paths_def prefix_def)
    then have sys: "\<not> prefix UPDATE_ACTIVE_DIR (mf_modulePath sys)" using active_not_preinstalled by blast
    show ?thesis
    proof (cases "case latest of None \<Rightarrow> False | Some l \<Rightarrow> CompareVersion X l sys")
      case True
      then show ?thesis using 1 w1 l Some h by (simp add: chose_def PrepareModuleFileList_def)
    next
      case False
      then have "b_list (PrepareModuleFileList X status b) = [sys]"
        using 1 l Some h by (simp add: PrepareModuleFileList_def Let_def split del: option.splits)
      with sys show ?thesis by (simp add: chose_def)
    qed
  next
    case 2
    then show ?thesis using Some h by (cases "b_list b") (simp_all add: chose_def Prepare_length)
  qed
qed (use c h in \<open>simp add: Prepare_no_system\<close>)

lemma process_files_chose:
  assumes X: "boot_contracts X" and h: "us_hmpName status = h" and "repo_paths (b_repo b)" and "chose h w b"
  shows "chose h w (process_files X files status b)"
  using assms(3,4)
proof (induction files arbitrary: b)
  case (Cons pre files)
  obtain repo' w' where i: "InitRepository X h (b_repo b) (b_w b) = (repo', w')" by fastforce
  have r: "repo_paths repo'" using InitRepository_paths [OF _ Cons.prems(1) i] X by (simp add: boot_contracts_def)
  have "w' = b_w b" using InitRepository_world [OF i] .
  moreover have "chose h w (b\<lparr>b_repo := repo', b_w := b_w b\<rparr>)" using Cons.prems(2) by (simp add: chose_def)
  ultimately have "chose h w (ProcessHmpFile X pre status b)"
    using Prepare_chose [OF _ _ h, of X "b\<lparr>b_repo := repo', b_w := b_w b\<rparr>" w] X r i h Cons.prems(2)
    by (simp add: ProcessHmpFile_def boot_contracts_def split: option.split)
  with Cons ProcessHmpFile_same [OF X Cons.prems(1) h] show ?case by simp
qed simp

section \<open>A mount that fails\<close>

text \<open>The task of package \<open>h\<close> chooses one file of the active directory and its mount fails.\<close>

definition update_fails :: "('j, 'h) ext \<Rightarrow> string \<Rightarrow> boot \<Rightarrow> bool" where
  "update_fails X h b =
     (let b1 = process_files X (x_GetDirFiles X (w_fs (b_w b)) (preinstall_path h)) (ModuleUpdateStatus_init h) b
      in case b_list b1 of
           [f] \<Rightarrow> prefix UPDATE_ACTIVE_DIR (mf_modulePath f)
             \<and> (case PreAllocateLoopDevices X 1 (b_k b1) of (pre, k1) \<Rightarrow>
                  pre \<and> \<not> fst (MountModulePackage X (b_verify b1) f (\<not> IsPreInstalledModule (b_repo b1) f) (b_w b1) k1))
         | _ \<Rightarrow> False)"

lemma Task_reverts:
  assumes X: "boot_contracts X" and rm: "\<forall>d fs. fst (x_ForceRemoveDirectory X d fs)"
    and fresh: "b_repo b = []" "b_list b = []" and faults: "\<forall>op p. \<not> w_fault (b_w b) op p"
    and h: "h \<noteq> []" "CHR ''/'' \<notin> set h"
    and act: "map_of (w_fs (b_w b)) (active_path h) = Some (Dir m)"
    and bak: "map_of (w_fs (b_w b)) (backup_path h) = Some (Dir m')"
    and root: "is_dir (w_fs (b_w b)) UPDATE_ACTIVE_DIR"
    and inst: "well_rooted (w_fs (b_w b)) (install_path h)"
    and fails: "update_fails X h b"
  shows "map_of (w_fs (b_w (TaskCallback X h b))) (active_path h @ CHR ''/'' # r)
      = map_of (w_fs (b_w b)) (backup_path h @ CHR ''/'' # r)
    \<and> (\<exists>rs. w_reboots (b_w (TaskCallback X h b)) = rs @ [''module_update revert.''])"
proof -
  let ?st = "ModuleUpdateStatus_init h"
  have C: "rmdir_contract X" "savefile_contract X" "sysfs_contract X" "dirfiles_contract X"
    using X by (simp_all add: boot_contracts_def)
  have st: "us_hmpName ?st = h" by (simp add: ModuleUpdateStatus_init_def)
  define b1 where "b1 = process_files X (x_GetDirFiles X (w_fs (b_w b)) (preinstall_path h)) ?st b"
  have ch: "chose h (b_w b) b1"
    unfolding b1_def by (rule process_files_chose [OF X st]) (simp_all add: fresh chose_def)
  have pick: "picked X (b_w b) h b1"
    unfolding b1_def by (rule process_files_picked [OF C(4) _ st]) (simp add: fresh picked_def)
  from fails obtain f k1 where f: "b_list b1 = [f]" "prefix UPDATE_ACTIVE_DIR (mf_modulePath f)"
    and pre: "PreAllocateLoopDevices X 1 (b_k b1) = (True, k1)"
    and nm: "\<not> fst (MountModulePackage X (b_verify b1) f (\<not> IsPreInstalledModule (b_repo b1) f) (b_w b1) k1)"
    unfolding update_fails_def b1_def [symmetric] Let_def by (auto split: list.splits prod.splits)
  have img: "mf_imageStat f \<noteq> None" using pick f(1) by (auto simp: picked_def chosen_ok_def)
  let ?pre = "IsPreInstalledModule (b_repo b1) f"
  obtain w2 k2 where mount: "MountModulePackage X (b_verify b1) f (\<not> ?pre) (b_w b1) k1 = (False, w2, k2)"
    using nm by (metis (full_types) prod.collapse)
  define w3 where "w3 = Repository_SaveInstallerResult X (mf_modulePath f) h (code ERR_INSTALL_FAIL) ''mount fail'' w2"
  define P where "P q = (not_below_active h q \<and> no_device q \<and> q \<noteq> MODULE_RESULT_PATH)" for q
  have "same P (b_w b) (b_w b1)" using ch f by (auto simp: chose_def P_def intro: same_mono)
  also have "same P (b_w b1) w2"
    using Mount_same [OF C(3) mount] by (rule same_mono) (simp add: P_def)
  also have "same P w2 w3" unfolding w3_def by (simp add: P_def)
  finally have s3: "same P (b_w b) w3" .
  have P: "P q" if "inside (install_path h) q \<or> q = active_path h \<or> inside (backup_path h) q \<or> q = UPDATE_ACTIVE_DIR" for q
  proof -
    have "inside (active_path h) (active_path h @ CHR ''/'' # r)" for r by (rule inside_child)
    then have "not_below_active h q"
      using that trees_apart(1) [of h] active_dir_outside(2) [of h] unfolding not_below_active_def by fastforce
    moreover have "no_device q \<and> q \<noteq> MODULE_RESULT_PATH"
      using that by (auto simp: no_device_def MODULE_RESULT_PATH_def MODULE_ROOT_DIR_def dir_consts inside_iff prefix_def)
    ultimately show ?thesis by (simp add: P_def)
  qed
  define st3 where "st3 = ?st\<lparr>us_isPreInstalled := ?pre, us_isAllMountSuccess := False\<rparr>"
  define b3 where "b3 = b1\<lparr>b_w := w3, b_k := k2\<rparr>"
  have w3: "b_w b3 = w3" by (simp add: b3_def)
  have run: "ActivateModules X ?st (b1\<lparr>b_k := k1\<rparr>) = ((False, st3), ReportModuleUpdateStatus X st3 b3)"
    using f(1) img mount by (simp add: ActivateModules_def Let_def st3_def b3_def w3_def st)
  have "process_files X (x_GetDirFiles X (w_fs (b_w b)) (preinstall_path h)) ?st b = b1" by (simp add: b1_def)
  with f(1) pre run have end_: "b_w (TaskCallback X h b) = b_w (ReportModuleUpdateStatus X st3 b3)"
    by (simp add: TaskCallback_def DoModuleUpdate_def st Let_def)
  have faults3: "\<forall>op p. \<not> w_fault (b_w b3) op p" using faults same_fault [OF s3] w3 by simp
  have st3: "us_hmpName st3 = h" "\<not> us_isAllMountSuccess st3" by (simp_all add: st3_def st)
  have act3: "map_of (w_fs (b_w b3)) (active_path h) = Some (Dir m)"
    and bak3: "map_of (w_fs (b_w b3)) (backup_path h) = Some (Dir m')"
    and root3: "is_dir (w_fs (b_w b3)) UPDATE_ACTIVE_DIR"
    using sameD [OF s3 P] act bak root unfolding w3 by (simp_all add: is_dir_def fs_node_plain UPDATE_ACTIVE_DIR_def)
  have inst3: "well_rooted (w_fs (b_w b3)) (install_path h)"
    using sameD [OF s3 P] inst unfolding w3 well_rooted_def by simp
  have "map_of (w_fs w3) (backup_path h @ CHR ''/'' # r) = map_of (w_fs (b_w b)) (backup_path h @ CHR ''/'' # r)"
    using sameD [OF s3 P] inside_child by blast
  with Report_reverts [OF C(1) rm C(2) faults3 h st3 act3 bak3 root3 inst3, of "active_path h @ CHR ''/'' # r"]
  show ?thesis unfolding end_ w3 using inside_child [of "active_path h" r] by auto
qed

section \<open>Properties\<close>

text \<open>C2. A bad update is undone completely: a package is installed over an active one, the next boot
  chooses a file of its active directory (the staged update, or what was active) and cannot mount
  it. Then, after the whole boot check, with the tasks of all other packages before and after it,
  the regular files below the active directory are exactly those from before the installation,
  in every subdirectory, with content and mode, and the task has asked for a reboot.\<close>

theorem Bad_update_undone:
  assumes inst: "ReallyInstallModulePackage X pkg cb m = (0, m')" and h: "h = GetFileName pkg"
    and X: "install_contracts X" "boot_contracts X" "\<forall>d fs. fst (x_ForceRemoveDirectory X d fs)"
    and before: "\<forall>op p. \<not> w_fault (mm_w m) op p" "map_of (w_fs (mm_w m)) (active_path h) = Some (Dir md)"
      "is_dir (w_fs (mm_w m)) UPDATE_ACTIVE_DIR" "well_rooted (w_fs (mm_w m)) (backup_path h)"
    and boot: "w_fs (b_w b) = w_fs (mm_w m')" "\<forall>op p. \<not> w_fault (b_w b) op p" "b_repo b = []" "b_list b = []"
      "tm_pool (b_tasks b) = []" "well_rooted (w_fs (b_w b)) (install_path h)"
    and names: "\<forall>k \<in> set (boot_tasks X b). CHR ''/'' \<notin> set k"
    and tasks: "boot_tasks X b = hs1 @ h # hs2" and fails: "update_fails X h (boot_before X hs1 b)"
    and r: "ends_in_name r"
  shows "(map_of (w_fs (b_w (CheckModuleUpdate X b))) (active_path h @ CHR ''/'' # r) = Some (Reg c n) \<longleftrightarrow>
      map_of (w_fs (mm_w m)) (active_path h @ CHR ''/'' # r) = Some (Reg c n))
    \<and> (\<exists>rs. w_reboots (b_w (TaskCallback X h (boot_before X hs1 b))) = rs @ [''module_update revert.''])"
proof -
  let ?b1 = "boot_before X hs1 b"
  note left = Install_leaves [OF inst h X(1) before(1,2,4) r]
  then obtain a bk where act: "map_of (w_fs (b_w b)) (active_path h) = Some (Dir a)"
    and bak: "map_of (w_fs (b_w b)) (backup_path h) = Some (Dir bk)" using boot(1) by auto
  have hs: "h \<notin> set hs1" "h \<notin> set hs2" using boot_tasks_distinct [of X b] tasks by simp_all
  have plain: "CHR ''/'' \<notin> set h" using names tasks by simp
  have "\<forall>k \<in> set hs1. CHR ''/'' \<notin> set k" using names tasks by simp
  note s1 = boot_before_same [OF X(2) boot(3) this plain hs(1)]
  have trees: "own h (install_path h)" "own h (active_path h)" "own h (backup_path h)"
    "own h (backup_path h @ CHR ''/'' # r)" "\<And>q. inside (install_path h) q \<Longrightarrow> own h q"
    unfolding own_def using inside_refl inside_child by blast+
  have fresh: "b_repo (boot_before X hs b) = []" "b_list (boot_before X hs b) = []" for hs
    using run_tasks_clears [of "b\<lparr>b_tasks := tt\<rparr>" X hs for tt] boot(3,4) by (simp_all add: boot_before_def)
  have faults1: "\<forall>op p. \<not> w_fault (b_w ?b1) op p" using boot(2) same_fault [OF s1] by simp
  have act1: "map_of (w_fs (b_w ?b1)) (active_path h) = Some (Dir a)"
    and bak1: "map_of (w_fs (b_w ?b1)) (backup_path h) = Some (Dir bk)"
    using sameD [OF s1] trees act bak by simp_all
  have root1: "is_dir (w_fs (b_w ?b1)) UPDATE_ACTIVE_DIR"
    using sameD [OF s1, of UPDATE_ACTIVE_DIR] left before(3) boot(1)
    by (simp add: is_dir_def fs_node_plain UPDATE_ACTIVE_DIR_def)
  have inst1: "well_rooted (w_fs (b_w ?b1)) (install_path h)"
    using boot(6) sameD [OF s1] trees(1,5) unfolding well_rooted_def by metis
  have hne: "h \<noteq> []" using left by simp
  note task = Task_reverts [OF X(2,3) fresh faults1 hne plain act1 bak1 root1 inst1 fails, of r]
  have t': "boot_tasks X b = (hs1 @ [h]) @ hs2" using tasks by simp
  have after: "boot_before X (hs1 @ [h]) b = TaskCallback X h ?b1" by (simp add: boot_before_def run_tasks_append)
  have q: "own h (active_path h @ CHR ''/'' # r)" "\<not> inside UPDATE_INSTALL_DIR (active_path h @ CHR ''/'' # r)"
    unfolding own_def using inside_child [of "active_path h" r] by (simp_all add: inside_def dir_consts)
  from sameD [OF boot_after_same [OF X(2) boot(3,5) names t' plain hs(2) fresh(1)], of "active_path h @ CHR ''/'' # r"] q
  have "map_of (w_fs (b_w (CheckModuleUpdate X b))) (active_path h @ CHR ''/'' # r)
      = map_of (w_fs (b_w (TaskCallback X h ?b1))) (active_path h @ CHR ''/'' # r)" unfolding after by simp
  also have "\<dots> = map_of (w_fs (b_w b)) (backup_path h @ CHR ''/'' # r)"
    using task sameD [OF s1, of "backup_path h @ CHR ''/'' # r"] trees(4) by simp
  finally show ?thesis using left task boot(1) by simp
qed

section \<open>An update that is undone\<close>

abbreviation cycle_boot :: boot where
  "cycle_boot \<equiv> boot0 (cycle_world cycle_backup)"

definition cycle_repo :: repository where
  "cycle_repo = [(''h1'',
     [(MODULE_PREINSTALL_DIR, pk_file ''/system/module_update/h1/module_info.zip'' ''d 1.0.0.1''),
      (UPDATE_INSTALL_DIR, pk_file ''/data/module_update_package/h1/module_info.zip'' ''d 1.0.0.2''),
      (UPDATE_ACTIVE_DIR, pk_file ''/data/module_update/active/h1/module_info.zip'' ''d 1.0.0.1'')])]"

lemma cycle_repository: "InitRepository pk ''h1'' [] (cycle_world cycle_backup) = (cycle_repo, cycle_world cycle_backup)"
proof -
  have name: "mp_hmpName (mf_versionInfo (pk_file p v)) = ''h1''" "(mf_imageStat (pk_file p v) = None) = False"
    "mf_modulePath (pk_file p v) = p" for p v
    by (simp_all add: pk_file_def pk_info_def)
  have rel: "drop (length MODULE_PREINSTALL_DIR) ''/system/module_update/h1/module_info.zip'' = ''/h1/module_info.zip''"
    "drop (length UPDATE_ACTIVE_DIR) ''/data/module_update/active/h1/module_info.zip'' = ''/h1/module_info.zip''"
    "drop (length UPDATE_INSTALL_DIR) ''/data/module_update_package/h1/module_info.zip'' = ''/h1/module_info.zip''"
    by (simp_all add: dir_consts)
  note files = cycle_files [of cycle_backup, OF disjI2, OF refl]
  show ?thesis
    by (simp add: files cycle_open cycle_repo_def cycle_suffix name rel InitRepository_def allPath_def emplace_def
        ProcessFile_def add_file_def CheckFilePath_def GetModuleFile_def substr_from_def)
qed

lemma cycle_lookup:
  "map_of (w_fs (cycle_world cycle_backup)) (install_path ''h1'') = Some (Dir DIR_MODE)"
  "map_of (w_fs (cycle_world cycle_backup)) ''/data/module_update_package/h1/module_info.zip'' = Some (Reg 420 ''P2'')"
  "map_of (w_fs (cycle_world cycle_backup)) (active_path ''h1'') = Some (Dir DIR_MODE)"
  "map_of (w_fs (cycle_world cycle_backup)) ''/data/module_update/active/h1/module_info.zip'' = Some (Reg 400 ''P1'')"
  "map_of (w_fs (cycle_world cycle_backup)) ''/data/module_update/active/h1/module.img'' = Some (Reg 400 ext4_image)"
  by (simp_all add: cycle_world_def world0_def dir_consts)

lemma cycle_staged:
  "\<exists>w1. StageUpdateModulePackage pk ''/data/module_update_package/h1/module_info.zip''
      ''/data/module_update/active/h1/module_info.zip'' (cycle_world cycle_backup) = (True, w1)"
proof -
  let ?w = "cycle_world cycle_backup"
  have "dirfiles_contract pk" by simp
  then have "staged_files ''h1'' ?w = set (x_GetDirFiles pk (w_fs ?w) (install_path ''h1''))"
    unfolding dirfiles_contract_def staged_files_def by blast
  then have files: "staged_files ''h1'' ?w
      = {''/data/module_update_package/h1/module_info.zip'', ''/data/module_update_package/h1/module.img''}"
    by (simp add: cycle_files(4))
  have names: "x_ExtractFileName pk ''/data/module_update_package/h1/module_info.zip'' = ''module_info.zip''"
    "x_ExtractFileName pk ''/data/module_update_package/h1/module.img'' = ''module.img''"
    by (simp_all add: pk_def sample_ext_def after_slash_def)
  have paths: "install_path ''h1'' @ CHR ''/'' # ''module_info.zip'' = ''/data/module_update_package/h1/module_info.zip''"
    "active_path ''h1'' @ CHR ''/'' # ''module_info.zip'' = ''/data/module_update/active/h1/module_info.zip''"
    "active_path ''h1'' @ CHR ''/'' # ''module.img'' = ''/data/module_update/active/h1/module.img''"
    by (simp_all add: dir_consts)
  have X: "extract_contract pk" "listing_contract pk"
    using sample_contracts by (simp_all add: pk_def)
  have len: "\<forall>fs d. fst (x_GetFilesFromDirectory pk fs d) = int (length (snd (x_GetFilesFromDirectory pk fs d)))"
    by (simp add: pk_def sample_ext_def Let_def)
  have faults: "\<forall>op p. \<not> w_fault ?w op p" by (simp add: cycle_world_def world0_def)
  have f: "CHR ''/'' \<notin> set ''module_info.zip''" "''module_info.zip'' \<noteq> []" "''h1'' \<noteq> []" "CHR ''/'' \<notin> set ''h1''" by simp_all
  have ok: "\<forall>p \<in> staged_files ''h1'' ?w. CHR ''/'' \<notin> set (x_ExtractFileName pk p) \<and> x_ExtractFileName pk p \<noteq> []
      \<and> (\<forall>m. map_of (w_fs ?w) (active_path ''h1'' @ CHR ''/'' # x_ExtractFileName pk p) \<noteq> Some (Dir m))"
    unfolding files ball_simps names paths cycle_lookup by simp
  have inj: "inj_on (x_ExtractFileName pk) (staged_files ''h1'' ?w)" unfolding files by (simp add: names)
  show ?thesis
    using Staging_succeeds [OF X len faults f _ cycle_lookup(3) ok inj, of 420 "''P2''"] cycle_lookup(2)
    unfolding paths by simp
qed

lemma cycle_chosen:
  "\<exists>w1. process_files pk [''/system/module_update/h1/module_info.zip'', ''/system/module_update/h1/module.img'']
     (ModuleUpdateStatus_init ''h1'') b
   = b\<lparr>b_repo := cycle_repo, b_w := w1,
        b_list := [pk_file ''/data/module_update/active/h1/module_info.zip'' ''d 1.0.0.2'']\<rparr>"
  if "b_w b = cycle_world cycle_backup" "b_repo b = []" "b_list b = []" for b
proof -
  let ?w = "cycle_world cycle_backup"
  let ?u = "''/data/module_update_package/h1/module_info.zip''" and ?a = "''/data/module_update/active/h1/module_info.zip''"
  obtain w1 where s: "StageUpdateModulePackage pk ?u ?a ?w = (True, w1)" using cycle_staged by blast
  have mc: "\<not> CheckMountComplete ?w ''h1''"
    by (simp add: CheckMountComplete_def CheckPathExists_def sys_stat_def fs_node_def cycle_defs MODULE_ROOT_DIR_def)
  have path: "UPDATE_ACTIVE_DIR @ drop (length UPDATE_INSTALL_DIR) ?u = ?a" by (simp add: dir_consts)
  have cv: "CompareVersion pk (pk_file ?u ''d 1.0.0.2'') (pk_file ?a ''d 1.0.0.1'')"
    "CompareVersion pk (pk_file ?a ''d 1.0.0.2'') (pk_file ''/system/module_update/h1/module_info.zip'' ''d 1.0.0.1'')"
    by (rule pk_newer; simp)+
  have f: "mf_modulePath (pk_file ?u v) = ?u" "(pk_file ?u v)\<lparr>mf_modulePath := ?a\<rparr> = pk_file ?a v" for v
    by (simp_all add: pk_file_def)
  have l: "GetLatestUpdateModulePackage pk cycle_repo ''h1'' ?w = (Some (pk_file ?a ''d 1.0.0.2''), w1)"
    by (simp add: GetLatestUpdateModulePackage_def cycle_repo_def GetModuleFile_def cv f substr_from_def path s)
  have "GetModuleFile cycle_repo MODULE_PREINSTALL_DIR ''h1''
      = Some (pk_file ''/system/module_update/h1/module_info.zip'' ''d 1.0.0.1'')"
    by (simp add: cycle_repo_def GetModuleFile_def)
  with that l cv(2) show ?thesis
    by (intro exI [of _ w1])
      (simp add: cycle_suffix ProcessHmpFile_def cycle_open mc cycle_repository ModuleUpdateStatus_init_def PrepareModuleFileList_def)
qed

lemma cycle_fails: "update_fails pk ''h1'' (boot_before pk [] cycle_boot)"
proof -
  let ?b = "boot_before pk [] cycle_boot" and ?f = "pk_file ''/data/module_update/active/h1/module_info.zip'' ''d 1.0.0.2''"
  have b: "b_w ?b = cycle_world cycle_backup" "b_repo ?b = []" "b_list ?b = []" "b_k ?b = kern0" "b_verify ?b = None"
    by (simp_all add: boot_before_def boot0_def)
  obtain w1 where c: "process_files pk [''/system/module_update/h1/module_info.zip'', ''/system/module_update/h1/module.img'']
     (ModuleUpdateStatus_init ''h1'') ?b = ?b\<lparr>b_repo := cycle_repo, b_w := w1, b_list := [?f]\<rparr>"
    using cycle_chosen [OF b(1-3)] by blast
  have np: "\<not> IsPreInstalledModule cycle_repo ?f"
    by (simp add: IsPreInstalledModule_def cycle_repo_def GetModuleFile_def pk_file_def pk_info_def)
  have "\<not> fst (MountModulePackage pk None ?f True w k)" for w k
  proof -
    obtain ok w' k' where m: "MountModulePackage pk None ?f True w k = (ok, w', k')" by (rule prod_cases3)
    show ?thesis
    proof (cases ok)
      case True
      with MountModulePackage_True [of pk None ?f True w k w' k'] m show ?thesis by (simp add: VerifyImageAndCreateDm_def)
    qed (simp add: m)
  qed
  then have m: "\<not> fst (MountModulePackage pk (b_verify b1) ?f (\<not> IsPreInstalledModule (b_repo b1) ?f) (b_w b1) k)"
    if "b1 = ?b\<lparr>b_repo := cycle_repo, b_w := w1, b_list := [?f]\<rparr>" for b1 k
    using np b(5) that by simp
  have pre: "prefix UPDATE_ACTIVE_DIR (mf_modulePath ?f)" by (simp add: pk_file_def dir_consts)
  define b1 where "b1 = ?b\<lparr>b_repo := cycle_repo, b_w := w1, b_list := [?f]\<rparr>"
  have b1: "b_list b1 = [?f]" "b_k b1 = kern0" using b(4) by (simp_all add: b1_def)
  note files = cycle_files(2) [of cycle_backup, OF disjI2, OF refl]
  show ?thesis
    unfolding update_fails_def b(1) files c b1_def [symmetric] Let_def b1 trust_prealloc
    using m [OF b1_def] pre by simp
qed

lemma Bad_update_undone_witness:
  "map_of (w_fs (b_w (CheckModuleUpdate pk cycle_boot))) (active_path ''h1'' @ CHR ''/'' # ''module_info.zip'')
     = Some (Reg 400 ''P1'')"
proof -
  let ?m = "mmain0 (cycle_world [])"
  obtain m' where inst: "ReallyInstallModulePackage pk ''/d/h1.zip'' False ?m = (0, m')"
    and w': "w_fs (mm_w m') = w_fs (cycle_world cycle_backup)" using cycle_installed by blast
  have h: "''h1'' = GetFileName ''/d/h1.zip''" by (simp add: GetFileName_def substr_def Let_def)
  have "extract_dir_contract pk" "patch_contract pk"
    by (simp_all add: extract_dir_contract_def patch_contract_def pk_def sample_ext_def)
  then have X: "install_contracts pk" using pk_contracts by (simp add: install_contracts_def boot_contracts_def)
  have rm: "\<forall>d fs. fst (x_ForceRemoveDirectory pk d fs)" by (simp add: pk_def sample_ext_def)
  have w: "mm_w ?m = cycle_world []" by (simp add: mmain0_def)
  have faults: "\<forall>op p. \<not> w_fault (mm_w ?m) op p" "\<forall>op p. \<not> w_fault (b_w cycle_boot) op p"
    by (simp_all add: mmain0_def boot0_def cycle_world_def world0_def)
  have act: "map_of (w_fs (mm_w ?m)) (active_path ''h1'') = Some (Dir DIR_MODE)" and root: "is_dir (w_fs (mm_w ?m)) UPDATE_ACTIVE_DIR"
    and old: "map_of (w_fs (mm_w ?m)) (active_path ''h1'' @ CHR ''/'' # ''module_info.zip'') = Some (Reg 400 ''P1'')"
    unfolding w by (simp_all add: cycle_world_def world0_def dir_consts is_dir_def fs_node_def)
  have wr: "well_rooted (w_fs (mm_w ?m)) (backup_path ''h1'')"
    unfolding w by (auto simp: well_rooted_def cycle_world_def world0_def dir_consts inside_def prefix_def)
  have boot: "w_fs (b_w cycle_boot) = w_fs (mm_w m')" "b_repo cycle_boot = []" "b_list cycle_boot = []"
      "tm_pool (b_tasks cycle_boot) = []" "well_rooted (w_fs (b_w cycle_boot)) (install_path ''h1'')"
    using cycle_lookup(1) by (simp_all add: boot0_def w' well_rooted_def)
  have hmp: "GetHmpName ''/system/module_update/h1/module_info.zip'' = ''h1''"
    by (simp add: GetHmpName_def PREFIXES_def StartsWith_prefix dir_consts substr_def Let_def)
  have "b_w cycle_boot = cycle_world cycle_backup" by (simp add: boot0_def)
  then have tasks: "boot_tasks pk cycle_boot = [] @ ''h1'' # []"
    using cycle_files(1) [of cycle_backup] by (simp add: boot_tasks_def cycle_open cycle_suffix hmp)
  then have names: "\<forall>k \<in> set (boot_tasks pk cycle_boot). CHR ''/'' \<notin> set k" by simp
  have r: "ends_in_name ''module_info.zip''" by (simp add: ends_in_name_def)
  from Bad_update_undone [OF inst h X pk_contracts rm faults(1) act root wr boot(1) faults(2) boot(2-5) names tasks cycle_fails r]
    old show ?thesis by simp
qed

end
