(* ===== verification/Module_Ipc.thy ===== *)
theory Module_Ipc
  imports Module_Service Module_Boot
begin

text \<open>
  services/module_update/util module_ipc_helper and the parcelables of imodule_update.h: how
  package records travel between the client and the service of module update.

  The parcel is the parameter \<open>P\<close>: \<open>MessageParcel\<close>'s reads and writes and string_ex's string
  conversions. What the code relies on is \<open>parcel_contract\<close>: while there is room, a write
  appends one item to the content (\<open>items\<close>) and a read of the kind of the first item answers it
  and removes it. A \<open>std::u16string\<close> is a list of 16-bit units.
\<close>

section \<open>The parcel\<close>

type_synonym u16string = "u16 list"

datatype 'o parcel_item =
    PInt32 int
  | PUint32 u32
  | PBool bool
  | PString16 u16string
  | PToken u16string
  | PRemote 'o
  | PParcelable
  | PBuffer "u8 list"

record ('p, 'o) parcel_ops =
  pc_new :: 'p
  pc_WriteInt32 :: "int \<Rightarrow> 'p \<Rightarrow> bool \<times> 'p"
  pc_ReadInt32 :: "'p \<Rightarrow> int \<times> 'p"
  pc_WriteUint32 :: "u32 \<Rightarrow> 'p \<Rightarrow> bool \<times> 'p"
  pc_ReadUint32 :: "'p \<Rightarrow> u32 \<times> 'p"
  pc_WriteBool :: "bool \<Rightarrow> 'p \<Rightarrow> bool \<times> 'p"
  pc_ReadBool :: "'p \<Rightarrow> bool \<times> 'p"
  pc_WriteString16 :: "u16string \<Rightarrow> 'p \<Rightarrow> bool \<times> 'p"
  pc_ReadString16 :: "'p \<Rightarrow> u16string \<times> 'p"
  pc_WriteInterfaceToken :: "u16string \<Rightarrow> 'p \<Rightarrow> bool \<times> 'p"
  pc_ReadInterfaceToken :: "'p \<Rightarrow> u16string \<times> 'p"
  pc_WriteRemoteObject :: "'o \<Rightarrow> 'p \<Rightarrow> bool \<times> 'p"
  pc_ReadRemoteObject :: "'p \<Rightarrow> 'o option \<times> 'p"
  pc_WriteParcelable :: "('p \<Rightarrow> bool \<times> 'p) \<Rightarrow> 'p \<Rightarrow> bool \<times> 'p"
  pc_ReadParcelable_HmpVersionInfo ::
    "('p \<Rightarrow> HmpVersionInfo option \<times> 'p) \<Rightarrow> 'p \<Rightarrow> HmpVersionInfo option \<times> 'p"
  pc_ReadParcelable_HmpUpdateInfo ::
    "('p \<Rightarrow> HmpUpdateInfo option \<times> 'p) \<Rightarrow> 'p \<Rightarrow> HmpUpdateInfo option \<times> 'p"
  pc_WriteBuffer :: "u8 list \<Rightarrow> u32 \<Rightarrow> 'p \<Rightarrow> bool \<times> 'p"
  pc_ReadBuffer :: "u32 \<Rightarrow> 'p \<Rightarrow> u8 list option \<times> 'p"
  pc_Str8ToStr16 :: "string \<Rightarrow> u16string"
  pc_Str16ToStr8 :: "u16string \<Rightarrow> string"

definition int32 :: "int \<Rightarrow> bool" where
  "int32 i = (- (2 ^ 31) \<le> i \<and> i < 2 ^ 31)"

text \<open>A write of \<open>w\<close> appends \<open>xs\<close>; a read \<open>f\<close> of a content that starts with \<open>xs\<close> answers \<open>a\<close>.\<close>

definition appends :: "('p \<Rightarrow> 'i list) \<Rightarrow> ('p \<Rightarrow> bool \<times> 'p) \<Rightarrow> 'i list \<Rightarrow> bool" where
  "appends items w xs = (\<forall>p. fst (w p) \<and> items (snd (w p)) = items p @ xs)"

definition parses :: "('p \<Rightarrow> 'i list) \<Rightarrow> ('p \<Rightarrow> 'a \<times> 'p) \<Rightarrow> 'i list \<Rightarrow> 'a \<Rightarrow> bool" where
  "parses items f xs a =
     (\<forall>p r. items p = xs @ r \<longrightarrow> (\<exists>p1. f p = (a, p1) \<and> items p1 = r))"

text \<open>\<open>v8\<close>: the strings that survive the conversion to 16-bit units and back.\<close>

definition parcel_contract ::
  "('p, 'o) parcel_ops \<Rightarrow> ('p \<Rightarrow> 'o parcel_item list) \<Rightarrow> (string \<Rightarrow> bool) \<Rightarrow> bool"
where
  "parcel_contract P items v8 =
     (items (pc_new P) = []
      \<and> (\<forall>i. appends items (pc_WriteInt32 P i) [PInt32 i])
      \<and> (\<forall>i. int32 i \<longrightarrow> parses items (pc_ReadInt32 P) [PInt32 i] i)
      \<and> (\<forall>u. appends items (pc_WriteUint32 P u) [PUint32 u])
      \<and> (\<forall>u. parses items (pc_ReadUint32 P) [PUint32 u] u)
      \<and> (\<forall>b. appends items (pc_WriteBool P b) [PBool b])
      \<and> (\<forall>b. parses items (pc_ReadBool P) [PBool b] b)
      \<and> (\<forall>s. appends items (pc_WriteString16 P s) [PString16 s])
      \<and> (\<forall>s. parses items (pc_ReadString16 P) [PString16 s] s)
      \<and> (\<forall>s. appends items (pc_WriteInterfaceToken P s) [PToken s])
      \<and> (\<forall>s. parses items (pc_ReadInterfaceToken P) [PToken s] s)
      \<and> (\<forall>ob. appends items (pc_WriteRemoteObject P ob) [PRemote ob])
      \<and> (\<forall>ob. parses items (pc_ReadRemoteObject P) [PRemote ob] (Some ob))
      \<and> (\<forall>m xs. appends items m xs \<longrightarrow> appends items (pc_WriteParcelable P m) (PParcelable # xs))
      \<and> (\<forall>u xs a. parses items u xs a \<longrightarrow>
           parses items (pc_ReadParcelable_HmpVersionInfo P u) (PParcelable # xs) a)
      \<and> (\<forall>u xs a. parses items u xs a \<longrightarrow>
           parses items (pc_ReadParcelable_HmpUpdateInfo P u) (PParcelable # xs) a)
      \<and> (\<forall>b n. unat n \<le> length b \<longrightarrow> appends items (pc_WriteBuffer P b n) [PBuffer (take (unat n) b)])
      \<and> (\<forall>b n. length b = unat n \<longrightarrow> parses items (pc_ReadBuffer P n) [PBuffer b] (Some b))
      \<and> (\<forall>s. v8 s \<longrightarrow> pc_Str16ToStr8 P (pc_Str8ToStr16 P s) = s))"

section \<open>The helper\<close>

definition IPC_MIN_SIZE :: int where "IPC_MIN_SIZE = 0"
definition IPC_MAX_SIZE :: int where "IPC_MAX_SIZE = 128"

definition WriteString :: "('p, 'o) parcel_ops \<Rightarrow> string \<Rightarrow> 'p \<Rightarrow> 'p" where
  "WriteString P s p = snd (pc_WriteString16 P (pc_Str8ToStr16 P s) p)"

definition ReadString :: "('p, 'o) parcel_ops \<Rightarrow> 'p \<Rightarrow> string \<times> 'p" where
  "ReadString P p = (case pc_ReadString16 P p of (s, p1) \<Rightarrow> (pc_Str16ToStr8 P s, p1))"

text \<open>\<open>static_cast<int32_t>(list.size())\<close>.\<close>

definition size_int32 :: "nat \<Rightarrow> int" where
  "size_int32 n = sint (of_nat n :: 32 word)"

definition WriteList ::
  "('p, 'o) parcel_ops \<Rightarrow> (('p, 'o) parcel_ops \<Rightarrow> 'a \<Rightarrow> 'p \<Rightarrow> 'p) \<Rightarrow> 'a list \<Rightarrow> 'p \<Rightarrow> 'p"
where
  "WriteList P wr xs p = fold (wr P) xs (snd (pc_WriteInt32 P (size_int32 (length xs)) p))"

fun read_items :: "nat \<Rightarrow> ('p \<Rightarrow> 'a \<times> 'p) \<Rightarrow> 'a list \<Rightarrow> 'p \<Rightarrow> 'a list \<times> 'p" where
  "read_items 0 rd xs p = (xs, p)"
| "read_items (Suc n) rd xs p = (case rd p of (x, p1) \<Rightarrow> read_items n rd (xs @ [x]) p1)"

text \<open>\<open>fresh\<close> is the default-constructed item every read fills.\<close>

definition ReadList ::
  "('p, 'o) parcel_ops \<Rightarrow> (('p, 'o) parcel_ops \<Rightarrow> 'a \<Rightarrow> 'p \<Rightarrow> 'a \<times> 'p) \<Rightarrow> 'a \<Rightarrow> 'a list \<Rightarrow> 'p
   \<Rightarrow> 'a list \<times> 'p"
where
  "ReadList P rd fresh xs p =
     (case pc_ReadInt32 P p of (n, p1) \<Rightarrow>
        if n > IPC_MAX_SIZE \<or> n < IPC_MIN_SIZE then (xs, p1)
        else read_items (nat n) (rd P fresh) xs p1)"

definition WriteSaVersion :: "('p, 'o) parcel_ops \<Rightarrow> SaVersion \<Rightarrow> 'p \<Rightarrow> 'p" where
  "WriteSaVersion P v p =
     (let p1 = snd (pc_WriteUint32 P (sv_apiVersion v) p);
          p2 = snd (pc_WriteUint32 P (sv_versionCode v) p1)
      in snd (pc_WriteUint32 P (sv_patchVersion v) p2))"

definition ReadSaVersion :: "('p, 'o) parcel_ops \<Rightarrow> SaVersion \<Rightarrow> 'p \<Rightarrow> SaVersion \<times> 'p" where
  "ReadSaVersion P v p =
     (case pc_ReadUint32 P p of (a, p1) \<Rightarrow>
      case pc_ReadUint32 P p1 of (b, p2) \<Rightarrow>
      case pc_ReadUint32 P p2 of (c, p3) \<Rightarrow>
        (v\<lparr>sv_apiVersion := a, sv_versionCode := b, sv_patchVersion := c\<rparr>, p3))"

definition WriteSaInfo :: "('p, 'o) parcel_ops \<Rightarrow> SaInfo \<Rightarrow> 'p \<Rightarrow> 'p" where
  "WriteSaInfo P i p =
     (let p1 = WriteString P (si_saName i) p;
          p2 = snd (pc_WriteInt32 P (si_saId i) p1)
      in WriteSaVersion P (si_version i) p2)"

definition ReadSaInfo :: "('p, 'o) parcel_ops \<Rightarrow> SaInfo \<Rightarrow> 'p \<Rightarrow> SaInfo \<times> 'p" where
  "ReadSaInfo P i p =
     (case ReadString P p of (name, p1) \<Rightarrow>
      case pc_ReadInt32 P p1 of (said, p2) \<Rightarrow>
      case ReadSaVersion P (si_version i) p2 of (v, p3) \<Rightarrow>
        (i\<lparr>si_saName := name, si_saId := said, si_version := v\<rparr>, p3))"

definition WriteBundleInfo :: "('p, 'o) parcel_ops \<Rightarrow> BundleInfo \<Rightarrow> 'p \<Rightarrow> 'p" where
  "WriteBundleInfo P i p = WriteString P (bi_bundleVersion i) (WriteString P (bi_bundleName i) p)"

definition ReadBundleInfo :: "('p, 'o) parcel_ops \<Rightarrow> BundleInfo \<Rightarrow> 'p \<Rightarrow> BundleInfo \<times> 'p" where
  "ReadBundleInfo P i p =
     (case ReadString P p of (name, p1) \<Rightarrow>
      case ReadString P p1 of (version, p2) \<Rightarrow>
        (i\<lparr>bi_bundleName := name, bi_bundleVersion := version\<rparr>, p2))"

definition SaInfo_init :: SaInfo where
  "SaInfo_init = \<lparr>si_saName = [], si_saId = 0,
     si_version = \<lparr>sv_apiVersion = 0, sv_versionCode = 0, sv_patchVersion = 0\<rparr>\<rparr>"

definition BundleInfo_init :: BundleInfo where
  "BundleInfo_init = \<lparr>bi_bundleName = [], bi_bundleVersion = []\<rparr>"

definition ModuleInfo_init :: ModuleInfo where
  "ModuleInfo_init = \<lparr>mi_saInfoList = [], mi_bundleInfoList = []\<rparr>"

definition WriteModule :: "('p, 'o) parcel_ops \<Rightarrow> string \<times> ModuleInfo \<Rightarrow> 'p \<Rightarrow> 'p" where
  "WriteModule P kv p =
     (case kv of (key, v) \<Rightarrow>
        let p1 = WriteString P key p;
            p2 = WriteList P WriteSaInfo (mi_saInfoList v) p1
        in WriteList P WriteBundleInfo (mi_bundleInfoList v) p2)"

definition WriteModulePackageInfo :: "('p, 'o) parcel_ops \<Rightarrow> ModulePackageInfo \<Rightarrow> 'p \<Rightarrow> 'p" where
  "WriteModulePackageInfo P i p =
     (let p1 = WriteString P (mp_hmpName i) p;
          p2 = WriteString P (mp_version i) p1;
          p3 = WriteString P (mp_saSdkVersion i) p2;
          p4 = WriteString P (mp_type i) p3;
          p5 = snd (pc_WriteInt32 P (mp_apiVersion i) p4)
      in WriteList P WriteModule (mp_moduleMap i) p5)"

definition ReadModule :: "('p, 'o) parcel_ops \<Rightarrow> string \<times> ModuleInfo \<Rightarrow> 'p \<Rightarrow> (string \<times> ModuleInfo) \<times> 'p" where
  "ReadModule P kv p =
     (case ReadString P p of (name, p1) \<Rightarrow>
      case ReadList P ReadSaInfo SaInfo_init (mi_saInfoList (snd kv)) p1 of (sas, p2) \<Rightarrow>
      case ReadList P ReadBundleInfo BundleInfo_init (mi_bundleInfoList (snd kv)) p2 of (bs, p3) \<Rightarrow>
        ((name, \<lparr>mi_saInfoList = sas, mi_bundleInfoList = bs\<rparr>), p3))"

text \<open>The reader's loop: \<open>emplace\<close> keeps the first module of a name.\<close>

fun read_modules ::
  "('p, 'o) parcel_ops \<Rightarrow> nat \<Rightarrow> (string \<times> ModuleInfo) list \<Rightarrow> 'p \<Rightarrow> (string \<times> ModuleInfo) list \<times> 'p"
where
  "read_modules P 0 m p = (m, p)"
| "read_modules P (Suc n) m p =
     (case ReadModule P ([], ModuleInfo_init) p of ((name, infoTmp), p1) \<Rightarrow>
        read_modules P n (emplace name infoTmp m) p1)"

definition ReadModulePackageInfo ::
  "('p, 'o) parcel_ops \<Rightarrow> ModulePackageInfo \<Rightarrow> 'p \<Rightarrow> ModulePackageInfo \<times> 'p"
where
  "ReadModulePackageInfo P i p =
     (case ReadString P p of (hmpName, p1) \<Rightarrow>
      case ReadString P p1 of (version, p2) \<Rightarrow>
      case ReadString P p2 of (saSdkVersion, p3) \<Rightarrow>
      case ReadString P p3 of (ty, p4) \<Rightarrow>
      case pc_ReadInt32 P p4 of (api, p5) \<Rightarrow>
      case pc_ReadInt32 P p5 of (moduleSize, p6) \<Rightarrow>
      let i1 = i\<lparr>mp_hmpName := hmpName, mp_version := version, mp_saSdkVersion := saSdkVersion,
                 mp_type := ty, mp_apiVersion := api\<rparr>
      in if moduleSize > IPC_MAX_SIZE \<or> moduleSize < IPC_MIN_SIZE then (i1, p6)
         else case read_modules P (nat moduleSize) (mp_moduleMap i1) p6 of (m, p7) \<Rightarrow>
                (i1\<lparr>mp_moduleMap := m\<rparr>, p7))"

definition ReadModulePackageInfos ::
  "('p, 'o) parcel_ops \<Rightarrow> ModulePackageInfo list \<Rightarrow> 'p \<Rightarrow> ModulePackageInfo list \<times> 'p"
where
  "ReadModulePackageInfos P infos p = ReadList P ReadModulePackageInfo ModulePackageInfo_init infos p"

definition WriteModulePackageInfos :: "('p, 'o) parcel_ops \<Rightarrow> ModulePackageInfo list \<Rightarrow> 'p \<Rightarrow> 'p" where
  "WriteModulePackageInfos P infos p = WriteList P WriteModulePackageInfo infos p"

definition ReadModuleUpdateStatus ::
  "('p, 'o) parcel_ops \<Rightarrow> ModuleUpdateStatus \<Rightarrow> 'p \<Rightarrow> ModuleUpdateStatus \<times> 'p"
where
  "ReadModuleUpdateStatus P st p =
     (case ReadString P p of (name, p1) \<Rightarrow>
      case pc_ReadBool P p1 of (pre, p2) \<Rightarrow>
      case pc_ReadBool P p2 of (mounted, p3) \<Rightarrow>
        (st\<lparr>us_hmpName := name, us_isPreInstalled := pre, us_isAllMountSuccess := mounted\<rparr>, p3))"

definition WriteModuleUpdateStatus :: "('p, 'o) parcel_ops \<Rightarrow> ModuleUpdateStatus \<Rightarrow> 'p \<Rightarrow> 'p" where
  "WriteModuleUpdateStatus P st p =
     (let p1 = WriteString P (us_hmpName st) p;
          p2 = snd (pc_WriteBool P (us_isPreInstalled st) p1)
      in snd (pc_WriteBool P (us_isAllMountSuccess st) p2))"

section \<open>Sequences of reads and writes\<close>

lemma parses_bind:
  "parses items f xs a \<Longrightarrow> parses items (g a) ys b \<Longrightarrow> zs = xs @ ys \<Longrightarrow>
     parses items (\<lambda>p. case f p of (x, p1) \<Rightarrow> g x p1) zs b"
  unfolding parses_def by fastforce

lemma parses_cons:
  "parses items f [x] a \<Longrightarrow> parses items (g a) ys b \<Longrightarrow>
     parses items (\<lambda>p. case f p of (y, p1) \<Rightarrow> g y p1) (x # ys) b"
  by (rule parses_bind) auto

lemma parses_return: "parses items (\<lambda>p. (a, p)) [] a"
  by (simp add: parses_def)

lemma parses_map: "parses items f xs a \<Longrightarrow> b = h a \<Longrightarrow> parses items (\<lambda>p. case f p of (x, p1) \<Rightarrow> (h x, p1)) xs b"
  unfolding parses_def by fastforce

lemma parses_cong: "parses items f xs a \<Longrightarrow> xs = ys \<Longrightarrow> a = b \<Longrightarrow> parses items f ys b"
  by simp

lemma int32_size: "n < 2 ^ 31 \<Longrightarrow> size_int32 n = int n"
  by (simp add: size_int32_def signed_of_nat signed_take_bit_int_eq_self)

text \<open>The laws of the contract, one by one.\<close>

lemma contract_simps:
  assumes "parcel_contract P items v8"
  shows "items (pc_new P) = []"
    and "items (snd (pc_WriteInt32 P i p)) = items p @ [PInt32 i]"
    and "items (snd (pc_WriteUint32 P u p)) = items p @ [PUint32 u]"
    and "items (snd (pc_WriteBool P b p)) = items p @ [PBool b]"
    and "items (WriteString P s p) = items p @ [PString16 (pc_Str8ToStr16 P s)]"
    and "fst (pc_WriteInterfaceToken P t p) \<and>
         items (snd (pc_WriteInterfaceToken P t p)) = items p @ [PToken t]"
    and "fst (pc_WriteRemoteObject P ob p) \<and>
         items (snd (pc_WriteRemoteObject P ob p)) = items p @ [PRemote ob]"
    and "fst (pc_WriteInt32 P i p)" and "fst (pc_WriteString16 P t p)"
  using assms by (auto simp: parcel_contract_def appends_def WriteString_def)

lemma contract_parses:
  assumes "parcel_contract P items v8"
  shows "int32 i \<Longrightarrow> parses items (pc_ReadInt32 P) [PInt32 i] i"
    and "parses items (pc_ReadUint32 P) [PUint32 u] u"
    and "parses items (pc_ReadBool P) [PBool b] b"
    and "parses items (pc_ReadInterfaceToken P) [PToken t] t"
    and "parses items (pc_ReadRemoteObject P) [PRemote ob] (Some ob)"
    and "parses items u1 xs a \<Longrightarrow> parses items (pc_ReadParcelable_HmpVersionInfo P u1) (PParcelable # xs) a"
    and "parses items u2 xs b2 \<Longrightarrow> parses items (pc_ReadParcelable_HmpUpdateInfo P u2) (PParcelable # xs) b2"
  using assms by (auto simp: parcel_contract_def)

lemma ReadString_parses:
  assumes "parcel_contract P items v8" and "v8 s"
  shows "parses items (ReadString P) [PString16 (pc_Str8ToStr16 P s)] s"
proof -
  have "parses items (pc_ReadString16 P) [PString16 (pc_Str8ToStr16 P s)] (pc_Str8ToStr16 P s)"
    using assms(1) by (simp add: parcel_contract_def)
  moreover have "pc_Str16ToStr8 P (pc_Str8ToStr16 P s) = s"
    using assms by (simp add: parcel_contract_def)
  ultimately show ?thesis
    unfolding ReadString_def by (intro parses_map [OF _ sym])
qed

section \<open>Codecs\<close>

definition enc_list ::
  "(('p, 'o) parcel_ops \<Rightarrow> 'a \<Rightarrow> 'o parcel_item list) \<Rightarrow> ('p, 'o) parcel_ops \<Rightarrow> 'a list \<Rightarrow> 'o parcel_item list"
where
  "enc_list enc P xs = PInt32 (size_int32 (length xs)) # concat (map (enc P) xs)"

text \<open>
  A writer and a reader of one type: the writer appends \<open>enc\<close>, and the reader, started on the
  default-constructed \<open>fresh\<close>, answers \<open>norm\<close> of every value that is \<open>ok\<close>.
\<close>

locale codec =
  fixes wr :: "('p, 'o) parcel_ops \<Rightarrow> 'a \<Rightarrow> 'p \<Rightarrow> 'p"
    and rd :: "('p, 'o) parcel_ops \<Rightarrow> 'a \<Rightarrow> 'p \<Rightarrow> 'a \<times> 'p"
    and enc :: "('p, 'o) parcel_ops \<Rightarrow> 'a \<Rightarrow> 'o parcel_item list"
    and fresh :: 'a
    and norm :: "'a \<Rightarrow> 'a"
    and ok :: "(string \<Rightarrow> bool) \<Rightarrow> 'a \<Rightarrow> bool"
  assumes writes: "parcel_contract P items v8 \<Longrightarrow> items (wr P a p) = items p @ enc P a"
    and reads: "parcel_contract P items v8 \<Longrightarrow> ok v8 a \<Longrightarrow> parses items (rd P fresh) (enc P a) (norm a)"
begin

lemma fold_writes:
  "parcel_contract P items v8 \<Longrightarrow> items (fold (wr P) xs p) = items p @ concat (map (enc P) xs)"
  by (induction xs arbitrary: p) (simp_all add: writes)

lemma WriteList_writes:
  "parcel_contract P items v8 \<Longrightarrow> items (WriteList P wr xs p) = items p @ enc_list enc P xs"
  by (simp add: WriteList_def fold_writes contract_simps enc_list_def)

lemma read_items_parses:
  "parcel_contract P items v8 \<Longrightarrow> list_all (ok v8) xs \<Longrightarrow>
     parses items (read_items (length xs) (rd P fresh) ys) (concat (map (enc P) xs)) (ys @ map norm xs)"
proof (induction xs arbitrary: ys)
  case Nil
  then show ?case by (simp add: parses_def)
next
  case (Cons x xs)
  have "parses items (rd P fresh) (enc P x) (norm x)" using Cons.prems by (simp add: reads)
  moreover have "parses items (read_items (length xs) (rd P fresh) (ys @ [norm x]))
      (concat (map (enc P) xs)) ((ys @ [norm x]) @ map norm xs)"
    using Cons.IH [of "ys @ [norm x]"] Cons.prems by simp
  ultimately show ?case
    using parses_bind [of items "rd P fresh" "enc P x" "norm x"
        "\<lambda>x. read_items (length xs) (rd P fresh) (ys @ [x])"] by (simp add: parses_def)
qed

lemma ReadList_parses:
  assumes "parcel_contract P items v8" and "list_all (ok v8) xs" and "length xs \<le> 128"
  shows "parses items (ReadList P rd fresh ys) (enc_list enc P xs) (ys @ map norm xs)"
proof -
  have n: "size_int32 (length xs) = int (length xs)" using assms(3) by (simp add: int32_size)
  have "parses items (pc_ReadInt32 P) [PInt32 (int (length xs))] (int (length xs))"
    using assms by (intro contract_parses) (auto simp: int32_def)
  then show ?thesis
    unfolding ReadList_def enc_list_def n
    using read_items_parses [OF assms(1,2), of ys] assms(3)
    by (intro parses_bind) (auto simp: IPC_MAX_SIZE_def IPC_MIN_SIZE_def)
qed

text \<open>A longer list is not read, and its items stay in the parcel in front of what follows.\<close>

lemma ReadList_over_limit:
  assumes "parcel_contract P items v8" and "128 < length xs" and "length xs < 2 ^ 31"
    and "items p = enc_list enc P xs @ r"
  shows "\<exists>p1. ReadList P rd fresh ys p = (ys, p1) \<and> items p1 = concat (map (enc P) xs) @ r"
proof -
  have n: "size_int32 (length xs) = int (length xs)" using assms(3) by (simp add: int32_size)
  have "parses items (pc_ReadInt32 P) [PInt32 (int (length xs))] (int (length xs))"
    using assms by (intro contract_parses) (auto simp: int32_def)
  then obtain p1 where "pc_ReadInt32 P p = (int (length xs), p1)"
      "items p1 = concat (map (enc P) xs) @ r"
    using assms(4) n by (auto simp: parses_def enc_list_def)
  then show ?thesis using assms(2) by (simp add: ReadList_def IPC_MAX_SIZE_def)
qed

end

section \<open>The codecs of module update\<close>

definition enc_string :: "('p, 'o) parcel_ops \<Rightarrow> string \<Rightarrow> 'o parcel_item" where
  "enc_string P s = PString16 (pc_Str8ToStr16 P s)"

definition enc_SaInfo :: "('p, 'o) parcel_ops \<Rightarrow> SaInfo \<Rightarrow> 'o parcel_item list" where
  "enc_SaInfo P i = [enc_string P (si_saName i), PInt32 (si_saId i),
     PUint32 (sv_apiVersion (si_version i)), PUint32 (sv_versionCode (si_version i)),
     PUint32 (sv_patchVersion (si_version i))]"

definition enc_BundleInfo :: "('p, 'o) parcel_ops \<Rightarrow> BundleInfo \<Rightarrow> 'o parcel_item list" where
  "enc_BundleInfo P i = [enc_string P (bi_bundleName i), enc_string P (bi_bundleVersion i)]"

definition enc_Module :: "('p, 'o) parcel_ops \<Rightarrow> string \<times> ModuleInfo \<Rightarrow> 'o parcel_item list" where
  "enc_Module P kv = enc_string P (fst kv) # enc_list enc_SaInfo P (mi_saInfoList (snd kv))
     @ enc_list enc_BundleInfo P (mi_bundleInfoList (snd kv))"

definition enc_ModulePackageInfo :: "('p, 'o) parcel_ops \<Rightarrow> ModulePackageInfo \<Rightarrow> 'o parcel_item list" where
  "enc_ModulePackageInfo P i =
     [enc_string P (mp_hmpName i), enc_string P (mp_version i), enc_string P (mp_saSdkVersion i),
      enc_string P (mp_type i), PInt32 (mp_apiVersion i)] @ enc_list enc_Module P (mp_moduleMap i)"

definition SaInfo_ok :: "(string \<Rightarrow> bool) \<Rightarrow> SaInfo \<Rightarrow> bool" where
  "SaInfo_ok v8 i = (v8 (si_saName i) \<and> int32 (si_saId i))"

definition BundleInfo_ok :: "(string \<Rightarrow> bool) \<Rightarrow> BundleInfo \<Rightarrow> bool" where
  "BundleInfo_ok v8 i = (v8 (bi_bundleName i) \<and> v8 (bi_bundleVersion i))"

definition Module_ok :: "(string \<Rightarrow> bool) \<Rightarrow> string \<times> ModuleInfo \<Rightarrow> bool" where
  "Module_ok v8 kv =
     (v8 (fst kv)
      \<and> list_all (SaInfo_ok v8) (mi_saInfoList (snd kv)) \<and> length (mi_saInfoList (snd kv)) \<le> 128
      \<and> list_all (BundleInfo_ok v8) (mi_bundleInfoList (snd kv))
      \<and> length (mi_bundleInfoList (snd kv)) \<le> 128)"

text \<open>The lists fit the limit, the module names differ, as the keys of a map do.\<close>

definition ModulePackageInfo_ok :: "(string \<Rightarrow> bool) \<Rightarrow> ModulePackageInfo \<Rightarrow> bool" where
  "ModulePackageInfo_ok v8 i =
     (v8 (mp_hmpName i) \<and> v8 (mp_version i) \<and> v8 (mp_saSdkVersion i) \<and> v8 (mp_type i)
      \<and> int32 (mp_apiVersion i) \<and> list_all (Module_ok v8) (mp_moduleMap i)
      \<and> distinct (map fst (mp_moduleMap i)) \<and> length (mp_moduleMap i) \<le> 128)"

lemma SaVersion_parses:
  assumes "parcel_contract P items v8"
  shows "parses items (ReadSaVersion P v0)
     [PUint32 (sv_apiVersion v), PUint32 (sv_versionCode v), PUint32 (sv_patchVersion v)] v"
  unfolding ReadSaVersion_def
  by (intro parses_cons [OF contract_parses(2) [OF assms]] parses_map [OF contract_parses(2) [OF assms]])
    simp

interpretation sa: codec WriteSaInfo ReadSaInfo enc_SaInfo SaInfo_init id SaInfo_ok
proof
  fix P :: "('p, 'o) parcel_ops" and items v8 and a :: SaInfo and p
  assume c: "parcel_contract P items v8"
  show "items (WriteSaInfo P a p) = items p @ enc_SaInfo P a"
    by (simp add: WriteSaInfo_def WriteSaVersion_def enc_SaInfo_def enc_string_def contract_simps [OF c] Let_def)
  assume "SaInfo_ok v8 a"
  then show "parses items (ReadSaInfo P SaInfo_init) (enc_SaInfo P a) (id a)"
    unfolding ReadSaInfo_def enc_SaInfo_def enc_string_def SaInfo_ok_def
    by (intro parses_cons [OF ReadString_parses [OF c]] parses_cons [OF contract_parses(1) [OF c]]
        parses_map [OF SaVersion_parses [OF c]]) simp_all
qed

interpretation bundl: codec WriteBundleInfo ReadBundleInfo enc_BundleInfo BundleInfo_init id BundleInfo_ok
proof
  fix P :: "('p, 'o) parcel_ops" and items v8 and a :: BundleInfo and p
  assume c: "parcel_contract P items v8"
  show "items (WriteBundleInfo P a p) = items p @ enc_BundleInfo P a"
    by (simp add: WriteBundleInfo_def enc_BundleInfo_def enc_string_def contract_simps [OF c])
  assume "BundleInfo_ok v8 a"
  then show "parses items (ReadBundleInfo P BundleInfo_init) (enc_BundleInfo P a) (id a)"
    unfolding ReadBundleInfo_def enc_BundleInfo_def enc_string_def BundleInfo_ok_def
    by (intro parses_cons [OF ReadString_parses [OF c]] parses_map [OF ReadString_parses [OF c]]) simp_all
qed

interpretation mods: codec WriteModule ReadModule enc_Module "([], ModuleInfo_init)" id Module_ok
proof
  fix P :: "('p, 'o) parcel_ops" and items v8 and a :: "string \<times> ModuleInfo" and p
  assume c: "parcel_contract P items v8"
  show "items (WriteModule P a p) = items p @ enc_Module P a"
    by (simp add: WriteModule_def enc_Module_def enc_string_def contract_simps [OF c] Let_def
        sa.WriteList_writes [OF c] bundl.WriteList_writes [OF c] split: prod.split)
  assume ok: "Module_ok v8 a"
  have 1: "parses items (ReadList P ReadSaInfo SaInfo_init []) (enc_list enc_SaInfo P (mi_saInfoList (snd a)))
      (mi_saInfoList (snd a))"
    using sa.ReadList_parses [OF c, of "mi_saInfoList (snd a)" "[]"] ok by (simp add: Module_ok_def)
  have 2: "parses items (ReadList P ReadBundleInfo BundleInfo_init [])
      (enc_list enc_BundleInfo P (mi_bundleInfoList (snd a))) (mi_bundleInfoList (snd a))"
    using bundl.ReadList_parses [OF c, of "mi_bundleInfoList (snd a)" "[]"] ok by (simp add: Module_ok_def)
  have 3: "parses items (\<lambda>p. case ReadList P ReadBundleInfo BundleInfo_init [] p of (bs, p3) \<Rightarrow>
        ((fst a, \<lparr>mi_saInfoList = mi_saInfoList (snd a), mi_bundleInfoList = bs\<rparr>), p3))
      (enc_list enc_BundleInfo P (mi_bundleInfoList (snd a))) (id a)"
    by (rule parses_map [OF 2]) (simp add: prod_eq_iff)
  have "v8 (fst a)" using ok by (simp add: Module_ok_def)
  then show "parses items (ReadModule P ([], ModuleInfo_init)) (enc_Module P a) (id a)"
    unfolding ReadModule_def enc_Module_def enc_string_def ModuleInfo_init_def snd_conv ModuleInfo.simps
    by (intro parses_cons [OF ReadString_parses [OF c]] parses_bind [OF 1 _ refl] 3)
qed

text \<open>The reader's map loop: modules of new names are appended in order.\<close>

lemma read_modules_parses:
  assumes c: "parcel_contract P items v8"
  shows "list_all (Module_ok v8) ms \<Longrightarrow> distinct (map fst (m @ ms)) \<Longrightarrow>
    parses items (read_modules P (length ms) m) (concat (map (enc_Module P) ms)) (m @ ms)"
proof (induction ms arbitrary: m)
  case Nil
  then show ?case by (simp add: parses_def)
next
  case (Cons kv ms)
  obtain k v where kv: "kv = (k, v)" by (rule prod.exhaust)
  have "map_of m k = None" using Cons.prems(2) kv by (auto simp: map_of_eq_None_iff)
  then have e: "emplace k v m = m @ [(k, v)]" by (simp add: emplace_def)
  have 1: "parses items (ReadModule P ([], ModuleInfo_init)) (enc_Module P kv) (k, v)"
    using mods.reads [OF c, of kv] Cons.prems(1) kv by simp
  have 2: "parses items (read_modules P (length ms) (m @ [(k, v)])) (concat (map (enc_Module P) ms))
      (m @ kv # ms)"
    using Cons.IH [of "m @ [(k, v)]"] Cons.prems kv by simp
  show ?case
    using parses_bind [OF 1, of "\<lambda>x. read_modules P (length ms) (emplace (fst x) (snd x) m)"] 2 e
    by (simp add: parses_def case_prod_unfold)
qed

definition drop_displayVersion :: "ModulePackageInfo \<Rightarrow> ModulePackageInfo" where
  "drop_displayVersion i = i\<lparr>mp_displayVersion := []\<rparr>"

interpretation pkg: codec WriteModulePackageInfo ReadModulePackageInfo enc_ModulePackageInfo
  ModulePackageInfo_init drop_displayVersion ModulePackageInfo_ok
proof
  fix P :: "('p, 'o) parcel_ops" and items v8 and a :: ModulePackageInfo and p
  assume c: "parcel_contract P items v8"
  show "items (WriteModulePackageInfo P a p) = items p @ enc_ModulePackageInfo P a"
    by (simp add: WriteModulePackageInfo_def enc_ModulePackageInfo_def enc_string_def
        contract_simps [OF c] mods.WriteList_writes [OF c] Let_def)
  assume ok: "ModulePackageInfo_ok v8 a"
  let ?n = "length (mp_moduleMap a)"
  have n: "size_int32 ?n = int ?n" "int32 (int ?n)"
    using ok by (auto simp: ModulePackageInfo_ok_def int32_size int32_def)
  have "parses items (read_modules P ?n []) (concat (map (enc_Module P) (mp_moduleMap a))) (mp_moduleMap a)"
    using read_modules_parses [OF c, of "mp_moduleMap a" "[]"] ok by (simp add: ModulePackageInfo_ok_def)
  then have 1: "parses items (\<lambda>p. case read_modules P ?n [] p of (m, p7) \<Rightarrow>
        (ModulePackageInfo_init\<lparr>mp_hmpName := mp_hmpName a, mp_version := mp_version a,
           mp_saSdkVersion := mp_saSdkVersion a, mp_type := mp_type a,
           mp_apiVersion := mp_apiVersion a, mp_moduleMap := m\<rparr>, p7))
      (concat (map (enc_Module P) (mp_moduleMap a))) (drop_displayVersion a)"
    by (rule parses_map) (simp add: drop_displayVersion_def ModulePackageInfo_init_def)
  show "parses items (ReadModulePackageInfo P ModulePackageInfo_init) (enc_ModulePackageInfo P a)
      (drop_displayVersion a)"
    unfolding ReadModulePackageInfo_def enc_ModulePackageInfo_def enc_string_def enc_list_def n(1)
      append_Cons append_Nil Let_def
    using ok 1 n(2)
    by (intro parses_cons [OF ReadString_parses [OF c]] parses_cons [OF contract_parses(1) [OF c]])
      (auto simp: ModulePackageInfo_ok_def ModulePackageInfo_init_def IPC_MAX_SIZE_def IPC_MIN_SIZE_def)
qed

section \<open>The parcelables\<close>

definition HmpVersionInfo_Marshalling ::
  "('p, 'o) parcel_ops \<Rightarrow> HmpVersionInfo \<Rightarrow> 'p \<Rightarrow> bool \<times> 'p"
where
  "HmpVersionInfo_Marshalling P i p =
     (case pc_WriteString16 P (pc_Str8ToStr16 P (hv_name i)) p of (ok1, p1) \<Rightarrow>
      if \<not> ok1 then (False, p1) else
      case pc_WriteString16 P (pc_Str8ToStr16 P (hv_laneCode i)) p1 of (ok2, p2) \<Rightarrow>
      if \<not> ok2 then (False, p2) else
      case pc_WriteString16 P (pc_Str8ToStr16 P (hv_compatibleVersion i)) p2 of (ok3, p3) \<Rightarrow>
      if \<not> ok3 then (False, p3) else
      case pc_WriteString16 P (pc_Str8ToStr16 P (hv_version i)) p3 of (ok4, p4) \<Rightarrow>
      if \<not> ok4 then (False, p4) else (True, p4))"

text \<open>\<open>Unmarshalling\<close> into a new object; \<open>ReadFromParcel\<close> never fails.\<close>

definition HmpVersionInfo_Unmarshalling ::
  "('p, 'o) parcel_ops \<Rightarrow> 'p \<Rightarrow> HmpVersionInfo option \<times> 'p"
where
  "HmpVersionInfo_Unmarshalling P p =
     (case ReadString P p of (name, p1) \<Rightarrow>
      case ReadString P p1 of (laneCode, p2) \<Rightarrow>
      case ReadString P p2 of (compatibleVersion, p3) \<Rightarrow>
      case ReadString P p3 of (version, p4) \<Rightarrow>
        (Some \<lparr>hv_name = name, hv_laneCode = laneCode, hv_compatibleVersion = compatibleVersion,
               hv_version = version\<rparr>, p4))"

definition HmpUpdateInfo_Marshalling ::
  "('p, 'o) parcel_ops \<Rightarrow> HmpUpdateInfo \<Rightarrow> 'p \<Rightarrow> bool \<times> 'p"
where
  "HmpUpdateInfo_Marshalling P i p =
     (case pc_WriteString16 P (pc_Str8ToStr16 P (hu_path i)) p of (ok1, p1) \<Rightarrow>
      if \<not> ok1 then (False, p1) else
      case pc_WriteInt32 P (hu_result i) p1 of (ok2, p2) \<Rightarrow>
      if \<not> ok2 then (False, p2) else
      case pc_WriteString16 P (pc_Str8ToStr16 P (hu_resultMsg i)) p2 of (ok3, p3) \<Rightarrow>
      if \<not> ok3 then (False, p3) else (True, p3))"

definition HmpUpdateInfo_Unmarshalling ::
  "('p, 'o) parcel_ops \<Rightarrow> 'p \<Rightarrow> HmpUpdateInfo option \<times> 'p"
where
  "HmpUpdateInfo_Unmarshalling P p =
     (case ReadString P p of (path, p1) \<Rightarrow>
      case pc_ReadInt32 P p1 of (result, p2) \<Rightarrow>
      case ReadString P p2 of (resultMsg, p3) \<Rightarrow>
        (Some \<lparr>hu_path = path, hu_result = result, hu_resultMsg = resultMsg\<rparr>, p3))"

definition HmpVersionInfo_ok :: "(string \<Rightarrow> bool) \<Rightarrow> HmpVersionInfo \<Rightarrow> bool" where
  "HmpVersionInfo_ok v8 i =
     (v8 (hv_name i) \<and> v8 (hv_laneCode i) \<and> v8 (hv_compatibleVersion i) \<and> v8 (hv_version i))"

definition HmpUpdateInfo_ok :: "(string \<Rightarrow> bool) \<Rightarrow> HmpUpdateInfo \<Rightarrow> bool" where
  "HmpUpdateInfo_ok v8 i = (v8 (hu_path i) \<and> int32 (hu_result i) \<and> v8 (hu_resultMsg i))"

definition enc_HmpVersionInfo :: "('p, 'o) parcel_ops \<Rightarrow> HmpVersionInfo \<Rightarrow> 'o parcel_item list" where
  "enc_HmpVersionInfo P i = [PParcelable, enc_string P (hv_name i), enc_string P (hv_laneCode i),
     enc_string P (hv_compatibleVersion i), enc_string P (hv_version i)]"

definition enc_HmpUpdateInfo :: "('p, 'o) parcel_ops \<Rightarrow> HmpUpdateInfo \<Rightarrow> 'o parcel_item list" where
  "enc_HmpUpdateInfo P i = [PParcelable, enc_string P (hu_path i), PInt32 (hu_result i),
     enc_string P (hu_resultMsg i)]"

lemma WriteString16_appends:
  "parcel_contract P items v8 \<Longrightarrow> fst (pc_WriteString16 P s p)
     \<and> items (snd (pc_WriteString16 P s p)) = items p @ [PString16 s]"
  by (simp add: parcel_contract_def appends_def)

lemma HmpVersionInfo_appends:
  assumes c: "parcel_contract P items v8"
  shows "appends items (pc_WriteParcelable P (HmpVersionInfo_Marshalling P i)) (enc_HmpVersionInfo P i)"
proof -
  have "appends items (HmpVersionInfo_Marshalling P i) (tl (enc_HmpVersionInfo P i))"
    using WriteString16_appends [OF c]
    by (simp add: appends_def HmpVersionInfo_Marshalling_def enc_HmpVersionInfo_def enc_string_def
        case_prod_unfold)
  then show ?thesis using c by (simp add: parcel_contract_def enc_HmpVersionInfo_def)
qed

lemma HmpUpdateInfo_appends:
  assumes c: "parcel_contract P items v8"
  shows "appends items (pc_WriteParcelable P (HmpUpdateInfo_Marshalling P i)) (enc_HmpUpdateInfo P i)"
proof -
  have "appends items (HmpUpdateInfo_Marshalling P i) (tl (enc_HmpUpdateInfo P i))"
    using WriteString16_appends [OF c] contract_simps(2,8) [OF c]
    by (simp add: appends_def HmpUpdateInfo_Marshalling_def enc_HmpUpdateInfo_def enc_string_def
        case_prod_unfold)
  then show ?thesis using c by (simp add: parcel_contract_def enc_HmpUpdateInfo_def)
qed

lemma HmpVersionInfo_parses:
  assumes c: "parcel_contract P items v8" and "HmpVersionInfo_ok v8 i"
  shows "parses items (pc_ReadParcelable_HmpVersionInfo P (HmpVersionInfo_Unmarshalling P))
           (enc_HmpVersionInfo P i) (Some i)"
  using assms(2)
  unfolding enc_HmpVersionInfo_def HmpVersionInfo_Unmarshalling_def enc_string_def HmpVersionInfo_ok_def
  by (intro contract_parses(6) [OF c] parses_cons [OF ReadString_parses [OF c]]
      parses_map [OF ReadString_parses [OF c]]) simp_all

lemma HmpUpdateInfo_parses:
  assumes c: "parcel_contract P items v8" and "HmpUpdateInfo_ok v8 i"
  shows "parses items (pc_ReadParcelable_HmpUpdateInfo P (HmpUpdateInfo_Unmarshalling P))
           (enc_HmpUpdateInfo P i) (Some i)"
  using assms(2)
  unfolding enc_HmpUpdateInfo_def HmpUpdateInfo_Unmarshalling_def enc_string_def HmpUpdateInfo_ok_def
  by (intro contract_parses(7) [OF c] parses_cons [OF ReadString_parses [OF c]]
      parses_cons [OF contract_parses(1) [OF c]] parses_map [OF ReadString_parses [OF c]]) simp_all

section \<open>Properties\<close>

text \<open>C28. What the service writes of its package records the client reads back, except the
  display version, which does not travel, when every list fits the limit.\<close>

theorem PackageInfos_roundtrip:
  assumes "parcel_contract P items v8"
    and "list_all (ModulePackageInfo_ok v8) infos" and "length infos \<le> 128"
  shows "\<exists>p1. ReadModulePackageInfos P [] (WriteModulePackageInfos P infos (pc_new P))
           = (map drop_displayVersion infos, p1) \<and> items p1 = []"
proof -
  have "items (WriteModulePackageInfos P infos (pc_new P)) = enc_list enc_ModulePackageInfo P infos @ []"
    by (simp add: WriteModulePackageInfos_def pkg.WriteList_writes [OF assms(1)]
        contract_simps(1) [OF assms(1)])
  then show ?thesis
    using pkg.ReadList_parses [OF assms, of "[]"]
    unfolding parses_def ReadModulePackageInfos_def by fastforce
qed

text \<open>With more packages than the limit the client reads none, and the records stay in the
  parcel in front of whatever was written after them.\<close>

theorem PackageInfos_over_limit:
  assumes "parcel_contract P items v8" and "128 < length infos" and "length infos < 2 ^ 31"
    and "items p = items (WriteModulePackageInfos P infos (pc_new P)) @ rest"
  shows "\<exists>p1. ReadModulePackageInfos P [] p = ([], p1)
           \<and> items p1 = concat (map (enc_ModulePackageInfo P) infos) @ rest"
  unfolding ReadModulePackageInfos_def
  by (rule pkg.ReadList_over_limit [OF assms(1-3)])
    (simp add: assms(4) WriteModulePackageInfos_def pkg.WriteList_writes [OF assms(1)]
      contract_simps(1) [OF assms(1)])

section \<open>A parcel\<close>

text \<open>A parcel that is its content, for strings of 7-bit characters.\<close>

definition list_parcel :: "('o parcel_item list, 'o) parcel_ops" where
  "list_parcel = \<lparr>
     pc_new = [],
     pc_WriteInt32 = (\<lambda>i p. (True, p @ [PInt32 i])),
     pc_ReadInt32 = (\<lambda>p. case p of PInt32 i # r \<Rightarrow> (i, r) | _ \<Rightarrow> (0, p)),
     pc_WriteUint32 = (\<lambda>i p. (True, p @ [PUint32 i])),
     pc_ReadUint32 = (\<lambda>p. case p of PUint32 i # r \<Rightarrow> (i, r) | _ \<Rightarrow> (0, p)),
     pc_WriteBool = (\<lambda>i p. (True, p @ [PBool i])),
     pc_ReadBool = (\<lambda>p. case p of PBool i # r \<Rightarrow> (i, r) | _ \<Rightarrow> (False, p)),
     pc_WriteString16 = (\<lambda>i p. (True, p @ [PString16 i])),
     pc_ReadString16 = (\<lambda>p. case p of PString16 i # r \<Rightarrow> (i, r) | _ \<Rightarrow> ([], p)),
     pc_WriteInterfaceToken = (\<lambda>i p. (True, p @ [PToken i])),
     pc_ReadInterfaceToken = (\<lambda>p. case p of PToken i # r \<Rightarrow> (i, r) | _ \<Rightarrow> ([], p)),
     pc_WriteRemoteObject = (\<lambda>i p. (True, p @ [PRemote i])),
     pc_ReadRemoteObject = (\<lambda>p. case p of PRemote i # r \<Rightarrow> (Some i, r) | _ \<Rightarrow> (None, p)),
     pc_WriteParcelable = (\<lambda>m p. m (p @ [PParcelable])),
     pc_ReadParcelable_HmpVersionInfo =
       (\<lambda>u p. case p of PParcelable # r \<Rightarrow> u r | _ \<Rightarrow> (None, p)),
     pc_ReadParcelable_HmpUpdateInfo =
       (\<lambda>u p. case p of PParcelable # r \<Rightarrow> u r | _ \<Rightarrow> (None, p)),
     pc_WriteBuffer = (\<lambda>b n p. (True, p @ [PBuffer (take (unat n) b)])),
     pc_ReadBuffer = (\<lambda>n p. case p of PBuffer b # r \<Rightarrow> (Some b, r) | _ \<Rightarrow> (None, p)),
     pc_Str8ToStr16 = List.map (\<lambda>c. word_of_nat (of_char c)),
     pc_Str16ToStr8 = List.map (\<lambda>u. char_of (unat u))\<rparr>"

lemma list_parcel_string: "map ((\<lambda>u. char_of (unat u)) \<circ> (\<lambda>c. word_of_nat (of_char c) :: u16)) s = s"
proof -
  have "of_char c < (65536 :: nat)" for c :: char
    using nat_of_char_less_256 [of c] by linarith
  then have "char_of (unat (word_of_nat (of_char c) :: u16)) = c" for c :: char
    by (simp add: unat_of_nat)
  then show ?thesis by (simp add: map_idI)
qed

lemma list_parcel_contract: "parcel_contract list_parcel id (\<lambda>s. True)"
  using list_parcel_string by (simp add: parcel_contract_def list_parcel_def appends_def parses_def)

definition sample_infos :: "ModulePackageInfo list" where
  "sample_infos =
     [ModulePackageInfo_init\<lparr>mp_hmpName := ''hmp_a'', mp_displayVersion := ''one'', mp_apiVersion := 12,
        mp_moduleMap := [(''m'', \<lparr>mi_saInfoList = [SaInfo_init\<lparr>si_saName := ''sa'', si_saId := 301\<rparr>],
                                mi_bundleInfoList = [\<lparr>bi_bundleName = ''b'', bi_bundleVersion = ''2''\<rparr>]\<rparr>)]\<rparr>,
      ModulePackageInfo_init\<lparr>mp_hmpName := ''hmp_b''\<rparr>]"

theorem PackageInfos_roundtrip_witness:
  "fst (ReadModulePackageInfos list_parcel []
          (WriteModulePackageInfos list_parcel sample_infos (pc_new list_parcel :: unit parcel_item list)))
     = map drop_displayVersion sample_infos"
proof -
  have "list_all (ModulePackageInfo_ok (\<lambda>s. True)) sample_infos"
    by (simp add: sample_infos_def ModulePackageInfo_ok_def ModulePackageInfo_init_def Module_ok_def
        SaInfo_ok_def SaInfo_init_def BundleInfo_ok_def int32_def)
  moreover have "length sample_infos \<le> 128" by (simp add: sample_infos_def)
  ultimately obtain p1 where "ReadModulePackageInfos list_parcel []
       (WriteModulePackageInfos list_parcel sample_infos (pc_new list_parcel :: unit parcel_item list))
       = (map drop_displayVersion sample_infos, p1)"
    using PackageInfos_roundtrip [OF list_parcel_contract] by blast
  then show ?thesis by simp
qed

theorem PackageInfos_over_limit_witness:
  "fst (ReadModulePackageInfos list_parcel []
          (WriteModulePackageInfos list_parcel (replicate 129 ModulePackageInfo_init)
             (pc_new list_parcel :: unit parcel_item list))) = []"
proof -
  have "\<exists>p1. ReadModulePackageInfos list_parcel []
          (WriteModulePackageInfos list_parcel (replicate 129 ModulePackageInfo_init)
             (pc_new list_parcel :: unit parcel_item list)) = ([], p1)
       \<and> id p1 = concat (map (enc_ModulePackageInfo list_parcel) (replicate 129 ModulePackageInfo_init)) @ []"
    by (rule PackageInfos_over_limit [OF list_parcel_contract])
      (simp_all only: length_replicate id_apply append_Nil2, simp_all)
  then show ?thesis by (metis fst_conv)
qed

end
