(* ===== verification/Status_Manager.thy ===== *)
theory Status_Manager
  imports Update_Status
begin

text \<open>
  frameworks/status_manager: \<open>StatusManager\<close>, the progress of one installation task, and
  \<open>StreamStatusManager\<close>, its counterpart for streams. A client is known by a number;
  \<open>sm_told\<close> and \<open>ss_told\<close> are the calls the managers made on their clients' callbacks, in
  order, with the client they went to.
\<close>

section \<open>StatusManager\<close>

record StatusManager =
  sm_updateStatus :: UpdateStatus
  sm_resultMsg :: string
  sm_percent :: int
  sm_updateCallback :: "nat option"
  sm_told :: "(nat \<times> report) list"

definition StatusManager_new :: StatusManager where
  "StatusManager_new =
     \<lparr>sm_updateStatus = UPDATE_STATE_INIT, sm_resultMsg = [], sm_percent = 0,
      sm_updateCallback = None, sm_told = []\<rparr>"

definition Status_Init :: "StatusManager \<Rightarrow> StatusManager" where
  "Status_Init s = s\<lparr>sm_updateStatus := UPDATE_STATE_INIT, sm_percent := 0\<rparr>"

definition OnUpgradeProgress :: "nat \<Rightarrow> report \<Rightarrow> StatusManager \<Rightarrow> StatusManager" where
  "OnUpgradeProgress cb r s = s\<lparr>sm_told := sm_told s @ [(cb, r)]\<rparr>"

definition Status_SetUpdateCallback :: "nat option \<Rightarrow> StatusManager \<Rightarrow> int \<times> StatusManager" where
  "Status_SetUpdateCallback updateCallback s =
     (case updateCallback of
        None \<Rightarrow> (-1, s)
      | Some cb \<Rightarrow>
          (0, OnUpgradeProgress cb (sm_updateStatus s, sm_percent s, [])
                (s\<lparr>sm_updateCallback := Some cb\<rparr>)))"

definition Status_GetUpdateStatus :: "StatusManager \<Rightarrow> int" where
  "Status_GetUpdateStatus s = int (status_value (sm_updateStatus s))"

definition Status_UpdateCallback ::
  "UpdateStatus \<Rightarrow> int \<Rightarrow> string \<Rightarrow> StatusManager \<Rightarrow> StatusManager"
where
  "Status_UpdateCallback updateStatus percent resultMsg s =
     (case sm_updateCallback s of
        None \<Rightarrow> s
      | Some cb \<Rightarrow>
          if updateStatus > UPDATE_STATE_MAX then s
          else if sm_updateStatus s = updateStatus \<and> percent = sm_percent s then s
          else let p = (if updateStatus = UPDATE_STATE_SUCCESSFUL \<or> updateStatus = UPDATE_STATE_FAILED
                        then 100
                        else if percent \<ge> 0 \<and> percent \<le> 100 \<and> percent > sm_percent s then percent
                        else sm_percent s)
               in OnUpgradeProgress cb (updateStatus, p, resultMsg)
                    (s\<lparr>sm_percent := p, sm_updateStatus := updateStatus\<rparr>))"

definition CallbackWithoutCheck ::
  "UpdateStatus \<Rightarrow> int \<Rightarrow> string \<Rightarrow> StatusManager \<Rightarrow> StatusManager"
where
  "CallbackWithoutCheck updateStatus percent resultMsg s =
     (case sm_updateCallback s of
        None \<Rightarrow> s
      | Some cb \<Rightarrow>
          if sm_updateStatus s = updateStatus \<and> percent = sm_percent s \<and> sm_resultMsg s = resultMsg then s
          else if updateStatus > UPDATE_STATE_MAX then s
          else OnUpgradeProgress cb (updateStatus, sm_percent s, resultMsg)
                 (s\<lparr>sm_resultMsg := resultMsg, sm_updateStatus := updateStatus\<rparr>))"

definition SetUpdatePercent :: "int \<Rightarrow> StatusManager \<Rightarrow> StatusManager" where
  "SetUpdatePercent percent s = Status_UpdateCallback (sm_updateStatus s) percent [] s"

text \<open>\<open>GetUpdateProgress\<close>, in hundredths: the code divides the percentage by 100.0.\<close>

definition GetUpdateProgress :: "StatusManager \<Rightarrow> int" where
  "GetUpdateProgress s = sm_percent s"

text \<open>\<open>UpdateFeatureStatus\<close> changes no field: the record it passes on, with the client it goes to.\<close>

definition Status_UpdateFeatureStatus :: "'f \<Rightarrow> StatusManager \<Rightarrow> (nat \<times> 'f) list" where
  "Status_UpdateFeatureStatus statusInfo s =
     (case sm_updateCallback s of None \<Rightarrow> [] | Some cb \<Rightarrow> [(cb, statusInfo)])"

section \<open>StreamStatusManager\<close>

record StreamStatusManager =
  ss_updateStatus :: UpdateStatus
  ss_updateCallback :: "nat option"
  ss_told :: "(nat \<times> report) list"

definition StreamStatusManager_new :: StreamStatusManager where
  "StreamStatusManager_new =
     \<lparr>ss_updateStatus = UPDATE_STATE_INIT, ss_updateCallback = None, ss_told = []\<rparr>"

definition StreamStatus_Init :: "StreamStatusManager \<Rightarrow> StreamStatusManager" where
  "StreamStatus_Init s = s\<lparr>ss_updateStatus := UPDATE_STATE_INIT\<rparr>"

definition StreamStatus_SetUpdateCallback ::
  "nat option \<Rightarrow> StreamStatusManager \<Rightarrow> int \<times> StreamStatusManager"
where
  "StreamStatus_SetUpdateCallback updateCallback s =
     (case updateCallback of
        None \<Rightarrow> (-1, s)
      | Some cb \<Rightarrow> (0, s\<lparr>ss_updateCallback := Some cb\<rparr>))"

definition StreamStatus_GetUpdateStatus :: "StreamStatusManager \<Rightarrow> int" where
  "StreamStatus_GetUpdateStatus s = int (status_value (ss_updateStatus s))"

definition StreamStatus_UpdateCallback ::
  "UpdateStatus \<Rightarrow> int \<Rightarrow> string \<Rightarrow> StreamStatusManager \<Rightarrow> StreamStatusManager"
where
  "StreamStatus_UpdateCallback updateStatus dealLen resultMsg s =
     (case ss_updateCallback s of
        None \<Rightarrow> s
      | Some cb \<Rightarrow>
          if updateStatus > UPDATE_STATE_MAX then s
          else s\<lparr>ss_updateStatus := updateStatus,
                 ss_told := ss_told s @ [(cb, updateStatus, dealLen, resultMsg)]\<rparr>)"

section \<open>What a status sink promises\<close>

text \<open>
  Both managers promise their users the same: an update tells at most the registered client,
  at most once, a named status, which is then the current one; without a client it is
  ignored. \<open>updates\<close> runs a sequence of updates.
\<close>

definition updates ::
  "(UpdateStatus \<Rightarrow> int \<Rightarrow> string \<Rightarrow> 's \<Rightarrow> 's) \<Rightarrow> report list \<Rightarrow> 's \<Rightarrow> 's"
where
  "updates update rs s = fold (\<lambda>(st, n, msg). update st n msg) rs s"

lemma updates_simps [simp]:
  "updates update [] s = s"
  "updates update ((st, n, msg) # rs) s = updates update rs (update st n msg s)"
  by (simp_all add: updates_def)

locale status_sink =
  fixes update :: "UpdateStatus \<Rightarrow> int \<Rightarrow> string \<Rightarrow> 's \<Rightarrow> 's"
    and client :: "'s \<Rightarrow> nat option"
    and told :: "'s \<Rightarrow> (nat \<times> report) list"
    and current :: "'s \<Rightarrow> UpdateStatus"
  assumes no_client: "client s = None \<Longrightarrow> update st n msg s = s"
    and with_client: "client s = Some c \<Longrightarrow> update st n msg s \<noteq> s \<Longrightarrow>
          \<exists>k. st \<le> UPDATE_STATE_MAX \<and> told (update st n msg s) = told s @ [(c, st, k, msg)]
              \<and> current (update st n msg s) = st"
    and client_same: "client (update st n msg s) = client s"
begin

lemma updates_client: "client (updates update rs s) = client s"
  by (induction rs arbitrary: s) (auto simp: client_same)

lemma updates_silent: "client s = None \<Longrightarrow> updates update rs s = s"
  by (induction rs arbitrary: s) (auto simp: no_client)

lemma updates_told:
  "client s = Some c \<Longrightarrow>
   \<exists>new. told (updates update rs s) = told s @ new \<and> length new \<le> length rs
     \<and> (\<forall>(d, st, k, msg) \<in> set new. d = c \<and> st \<le> UPDATE_STATE_MAX)
     \<and> current (updates update rs s) = (if new = [] then current s else fst (snd (last new)))"
proof (induction rs arbitrary: s)
  case (Cons r rs)
  obtain st n msg where r: "r = (st, n, msg)" by (cases r)
  let ?s = "update st n msg s"
  obtain new where IH: "told (updates update rs ?s) = told ?s @ new" "length new \<le> length rs"
      "\<forall>(d, st, k, msg) \<in> set new. d = c \<and> st \<le> UPDATE_STATE_MAX"
      "current (updates update rs ?s) = (if new = [] then current ?s else fst (snd (last new)))"
    using Cons.IH [of ?s] Cons.prems by (auto simp: client_same)
  show ?case
  proof (cases "?s = s")
    case True
    then show ?thesis using IH by (intro exI [of _ new]) (auto simp: r)
  next
    case False
    then obtain k where "st \<le> UPDATE_STATE_MAX" "told ?s = told s @ [(c, st, k, msg)]" "current ?s = st"
      using with_client [OF Cons.prems] by blast
    then show ?thesis using IH by (intro exI [of _ "(c, st, k, msg) # new"]) (auto simp: r)
  qed
qed simp

end

interpretation task: status_sink Status_UpdateCallback sm_updateCallback sm_told sm_updateStatus
  by unfold_locales
    (auto simp: Status_UpdateCallback_def OnUpgradeProgress_def Let_def not_less
      split: option.splits if_splits)

interpretation stream: status_sink StreamStatus_UpdateCallback ss_updateCallback ss_told ss_updateStatus
  by unfold_locales
    (auto simp: StreamStatus_UpdateCallback_def not_less split: option.splits if_splits)

section \<open>Progress only grows\<close>

datatype status_op =
    OpSetCallback "nat option"
  | OpUpdate UpdateStatus int string
  | OpWithoutCheck UpdateStatus int string
  | OpPercent int

fun status_step :: "status_op \<Rightarrow> StatusManager \<Rightarrow> StatusManager" where
  "status_step (OpSetCallback cb) s = snd (Status_SetUpdateCallback cb s)"
| "status_step (OpUpdate st n msg) s = Status_UpdateCallback st n msg s"
| "status_step (OpWithoutCheck st n msg) s = CallbackWithoutCheck st n msg s"
| "status_step (OpPercent n) s = SetUpdatePercent n s"

definition percents :: "StatusManager \<Rightarrow> int list" where
  "percents s = map (\<lambda>(c, st, p, msg). p) (sm_told s)"

definition status_ok :: "StatusManager \<Rightarrow> bool" where
  "status_ok s =
     (0 \<le> sm_percent s \<and> sm_percent s \<le> 100 \<and> sm_updateStatus s \<le> UPDATE_STATE_MAX
      \<and> sorted (percents s @ [sm_percent s]) \<and> (\<forall>p \<in> set (percents s). 0 \<le> p)
      \<and> (\<forall>(c, st, p, msg) \<in> set (sm_told s). st \<le> UPDATE_STATE_MAX)
      \<and> (sm_updateCallback s = None \<longrightarrow> sm_told s = []))"

lemma status_le [simp]: "UPDATE_STATE_INIT \<le> UPDATE_STATE_MAX"
  by (simp add: less_eq_UpdateStatus_def)

lemma status_ok_new: "status_ok StatusManager_new"
  by (simp add: status_ok_def StatusManager_new_def percents_def)

lemma status_ok_tell:
  assumes "status_ok s" and "sm_percent s \<le> sm_percent t" and "sm_percent t \<le> 100"
    and "sm_updateStatus t \<le> UPDATE_STATE_MAX" and "sm_updateCallback t = Some cb"
    and "sm_told t = sm_told s @ [(cb, sm_updateStatus t, sm_percent t, msg)]"
  shows "status_ok t"
proof -
  have "percents t = percents s @ [sm_percent t]" using assms(6) by (simp add: percents_def)
  moreover have "\<forall>p \<in> set (percents s). p \<le> sm_percent t"
    using assms(1,2) by (auto simp: status_ok_def sorted_append)
  ultimately show ?thesis
    using assms by (simp add: status_ok_def sorted_append)
qed

lemma status_ok_update: "status_ok s \<Longrightarrow> status_ok (Status_UpdateCallback st n msg s)"
proof (cases "sm_updateCallback s")
  case (Some cb)
  assume ok: "status_ok s"
  then have "sm_percent s \<le> 100" by (simp add: status_ok_def)
  then show ?thesis using Some ok
    by (simp add: Status_UpdateCallback_def Let_def not_less)
      (auto intro!: status_ok_tell [OF ok, where cb = cb and msg = msg] simp: OnUpgradeProgress_def)
qed (simp add: Status_UpdateCallback_def)

lemma status_ok_unchecked: "status_ok s \<Longrightarrow> status_ok (CallbackWithoutCheck st n msg s)"
proof (cases "sm_updateCallback s")
  case (Some cb)
  assume ok: "status_ok s"
  then have "sm_percent s \<le> 100" by (simp add: status_ok_def)
  then show ?thesis using Some ok
    by (simp add: CallbackWithoutCheck_def not_less)
      (auto intro!: status_ok_tell [OF ok, where cb = cb and msg = msg] simp: OnUpgradeProgress_def)
qed (simp add: CallbackWithoutCheck_def)

lemma status_ok_register: "status_ok s \<Longrightarrow> status_ok (snd (Status_SetUpdateCallback cb s))"
proof (cases cb)
  case (Some c)
  assume ok: "status_ok s"
  then have "sm_percent s \<le> 100" "sm_updateStatus s \<le> UPDATE_STATE_MAX"
    by (simp_all add: status_ok_def)
  then show ?thesis using Some
    by (simp add: Status_SetUpdateCallback_def)
      (auto intro!: status_ok_tell [OF ok, where cb = c and msg = "[]"] simp: OnUpgradeProgress_def)
qed (simp add: Status_SetUpdateCallback_def)

lemma status_ok_step: "status_ok s \<Longrightarrow> status_ok (status_step op s)"
  by (cases op) (simp_all add: status_ok_update status_ok_unchecked status_ok_register SetUpdatePercent_def)

text \<open>A client never sees its progress go back or leave the range: whatever sequence of
  updates and registrations a task goes through, the percentages it reports never decrease,
  lie between 0 and 100 and end at the current one, and every status reported is a named one.\<close>

theorem Status_reports_monotone:
  "let s = fold status_step ops StatusManager_new
   in sorted (percents s @ [sm_percent s]) \<and> set (percents s) \<subseteq> {0..100}
    \<and> (\<lambda>(c, st, p, msg). st) ` set (sm_told s) \<subseteq> {..UPDATE_STATE_MAX}"
proof -
  have "status_ok s \<Longrightarrow> status_ok (fold status_step ops s)" for s
    by (induction ops arbitrary: s) (simp_all add: status_ok_step)
  then have "status_ok (fold status_step ops StatusManager_new)" by (simp add: status_ok_new)
  then show ?thesis
    by (fastforce simp: status_ok_def Let_def sorted_append)
qed

text \<open>Without a callback a task's status is not kept: whatever is reported before a client
  registers is lost, so a task that has failed or ended by then still answers INIT, and the
  client that registers afterwards is told INIT at 0 percent.\<close>

theorem Status_lost_without_callback:
  "Status_GetUpdateStatus (updates Status_UpdateCallback rs (Status_Init StatusManager_new)) = 0
   \<and> sm_told (snd (Status_SetUpdateCallback (Some c)
        (updates Status_UpdateCallback rs (Status_Init StatusManager_new))))
     = [(c, UPDATE_STATE_INIT, 0, [])]"
proof -
  have "updates Status_UpdateCallback rs (Status_Init StatusManager_new) = Status_Init StatusManager_new"
    by (rule task.updates_silent) (simp add: Status_Init_def StatusManager_new_def)
  then show ?thesis
    by (simp add: Status_Init_def StatusManager_new_def Status_GetUpdateStatus_def
        Status_SetUpdateCallback_def OnUpgradeProgress_def)
qed

end
