(* ===== verification/Action_Processer.thy ===== *)
theory Action_Processer
  imports Complex_Main Status_Manager Installer_Prelude
begin

text \<open>
  frameworks/action_processer with the two actions the open-source build queues, \<open>PkgVerify\<close>
  (frameworks/actions/verify_action) and \<open>ABUpdate\<close> (services/ab_update). Status managers are
  shared objects: they live in a store and are named by their address, None being a null
  pointer. The updater library that verifies and installs packages is the parameter \<open>U\<close>.
\<close>

section \<open>Codes and the updater library\<close>

datatype InstallerErrCode =
    SYS_UPDATE_SUCCESS | SYS_PKG_NOT_EXIST | SYS_UPDATE_RETRY_SUCCESS | SYS_AUTH_CHECK_FAIL
  | SYS_SIGN_VERIFY_FAIL | SYS_VERSION_VERIFY_FAIL | SYS_PACKAGE_TRANS_FAIL | SYS_INSTALL_FAIL
  | SYS_INSTALL_PARA_FAIL | SYS_INSTALL_CANCEL

datatype InstallerMode =
  SYS_BACKGROUND_UPDATE_MODE | SYS_FOREGROUND_UPDATE_MODE | SYS_ALLCORES_UPDATE_MODE

text \<open>The client's mode; \<open>OTHER_UPDATE_MODE\<close> stands for any number that names none.\<close>

datatype UpdateVabMode =
  BACKGROUND_UPDATE_MODE | FOREGROUND_UPDATE_MODE | ALLCORES_UPDATE_MODE | OTHER_UPDATE_MODE

datatype SysInstallerInitEvent =
    SYS_PRE_INIT_EVENT | SYS_POST_INIT_EVENT | SYS_POST_FAILED_EVENT | SYS_POST_SUCCESS_EVENT
  | SYS_APP_QUICKFIX_EVENT | SYS_INIT_EVENT_BUTT

text \<open>
  What the updater library answers: the real path of a package, the result of its signature
  verification (0 is success), whether a package instance can be made, whether the slot and
  the suffix parameters can be set, and for an installation that starts at a progress in
  percent the values of the progress callback and the status at the end.
\<close>

record updlib =
  u_PathToRealPath :: "string \<Rightarrow> string option"
  u_VerifyPackage :: "string \<Rightarrow> int"
  u_CreatePackageInstance :: bool
  u_SetUpdateSlotParam :: "string \<Rightarrow> int"
  u_SetUpdateSuffixParam :: int
  u_DoInstallUpdaterPackage :: "string \<Rightarrow> int \<Rightarrow> rat list \<times> int"
  u_UPDATE_SUCCESS :: int
  u_UPDATE_ERROR :: int

section \<open>The store and the traces\<close>

text \<open>
  The store of status managers and, as traces, what the code does outside: the events raised,
  how often the active slot was switched, how many package instances are open and how often a
  certificate helper was registered.
\<close>

record installer =
  in_heap :: "nat \<Rightarrow> StatusManager"
  in_events :: "SysInstallerInitEvent list"
  in_slots :: nat
  in_packages :: int
  in_certs :: nat

definition InvokeEvent :: "SysInstallerInitEvent \<Rightarrow> installer \<Rightarrow> installer" where
  "InvokeEvent e s = s\<lparr>in_events := in_events s @ [e]\<rparr>"

text \<open>
  \<open>SysInstallerManagerInit\<close> of sys_installer_manager.h: the handlers of each event, in the order
  of their subscription; one may be null. Nothing in this repository subscribes: what the
  subscribers of another module do is theirs, and \<open>InvokeEvent\<close> above only records the event.
\<close>

type_synonym 's init_events = "SysInstallerInitEvent \<Rightarrow> ('s \<Rightarrow> 's) option list"

definition SubscribeEvent ::
  "SysInstallerInitEvent \<Rightarrow> ('s \<Rightarrow> 's) option \<Rightarrow> 's init_events \<Rightarrow> 's init_events"
where
  "SubscribeEvent eventId handler initEvent =
     (if eventId = SYS_INIT_EVENT_BUTT then initEvent
      else initEvent(eventId := initEvent eventId @ [handler]))"

definition invoke_subscribers :: "SysInstallerInitEvent \<Rightarrow> 's init_events \<Rightarrow> 's \<Rightarrow> 's" where
  "invoke_subscribers eventId initEvent s =
     (if eventId = SYS_INIT_EVENT_BUTT then s
      else fold (\<lambda>handler t. case handler of None \<Rightarrow> t | Some f \<Rightarrow> f t) (initEvent eventId) s)"

text \<open>A subscriber runs after those before it, once for each subscription, and a null one not at all.\<close>

lemma invoke_subscribers_snoc:
  "e \<noteq> SYS_INIT_EVENT_BUTT \<Longrightarrow>
   invoke_subscribers e (SubscribeEvent e h ev) s
     = (case h of None \<Rightarrow> invoke_subscribers e ev s | Some f \<Rightarrow> f (invoke_subscribers e ev s))"
  by (simp add: invoke_subscribers_def SubscribeEvent_def split: option.split)

definition heap_update :: "nat \<Rightarrow> (StatusManager \<Rightarrow> StatusManager) \<Rightarrow> installer \<Rightarrow> installer" where
  "heap_update a f s = s\<lparr>in_heap := (in_heap s)(a := f (in_heap s a))\<rparr>"

lemma heap_update_simps [simp]:
  "in_events (heap_update a f s) = in_events s" "in_slots (heap_update a f s) = in_slots s"
  "in_packages (heap_update a f s) = in_packages s" "in_certs (heap_update a f s) = in_certs s"
  "in_heap (heap_update a f s) b = (if b = a then f (in_heap s a) else in_heap s b)"
  by (simp_all add: heap_update_def)

section \<open>PkgVerify\<close>

definition PKG_VERIFY_PERCENT :: nat where
  "PKG_VERIFY_PERCENT = 4"

text \<open>The quotient is taken in doubles, which truncate to the quotient of the naturals here.\<close>

fun verify_pkgs ::
  "updlib \<Rightarrow> nat \<Rightarrow> nat \<Rightarrow> string list \<Rightarrow> nat \<Rightarrow> installer \<Rightarrow> int \<times> installer"
where
  "verify_pkgs U a pkgNum [] count s = (0, s)"
| "verify_pkgs U a pkgNum (pkg # pkgs) count s =
     (let count1 = count + 1
      in case u_PathToRealPath U pkg of
        None \<Rightarrow> (-1, s)
      | Some realpath \<Rightarrow>
          let ret = u_VerifyPackage U realpath
          in if ret \<noteq> 0 then (ret, s)
             else let percent = int (PKG_VERIFY_PERCENT * count1 div pkgNum)
                  in verify_pkgs U a pkgNum pkgs count1 (heap_update a (SetUpdatePercent (percent + 1)) s))"

definition Verify :: "updlib \<Rightarrow> nat option \<Rightarrow> string list \<Rightarrow> installer \<Rightarrow> int \<times> installer" where
  "Verify U statusManager pkgPath s =
     (case statusManager of
        None \<Rightarrow> (-1, s)
      | Some a \<Rightarrow>
          let s1 = s\<lparr>in_certs := in_certs s + 1\<rparr>;
              pkgList = filter (\<lambda>pkg. pkg \<noteq> []) pkgPath;
              pkgNum = length pkgList
          in if pkgNum = 0 then (0, s1)
             else case verify_pkgs U a pkgNum pkgList 0 (heap_update a (SetUpdatePercent 1) s1) of
               (ret, s2) \<Rightarrow>
                 if ret \<noteq> 0 then (ret, s2) else (0, heap_update a (SetUpdatePercent 5) s2))"

definition PkgVerify_PerformAction ::
  "updlib \<Rightarrow> nat option \<Rightarrow> string list \<Rightarrow> installer \<Rightarrow> (InstallerErrCode \<times> string) \<times> installer"
where
  "PkgVerify_PerformAction U a pkgPath s =
     (case Verify U a pkgPath s of
        (ret, s1) \<Rightarrow>
          ((if ret \<noteq> 0 then (SYS_SIGN_VERIFY_FAIL, string_of_int ret) else (SYS_UPDATE_SUCCESS, [])), s1))"

section \<open>ABUpdate\<close>

definition PATCH_PACKAGE_NAME :: string where
  "PATCH_PACKAGE_NAME = ''/updater.zip''"

text \<open>\<open>static_cast<int>\<close> of a float truncates towards zero.\<close>

definition trunc :: "rat \<Rightarrow> int" where
  "trunc v = (if 0 \<le> v then \<lfloor>v\<rfloor> else \<lceil>v\<rceil>)"

definition SetProgress :: "nat option \<Rightarrow> rat \<Rightarrow> installer \<Rightarrow> installer" where
  "SetProgress statusManager v s =
     (case statusManager of None \<Rightarrow> s | Some a \<Rightarrow> heap_update a (SetUpdatePercent (trunc v)) s)"

definition StartABUpdate :: "updlib \<Rightarrow> nat option \<Rightarrow> string \<Rightarrow> installer \<Rightarrow> int \<times> installer" where
  "StartABUpdate U statusManager pkgPath s =
     (case statusManager of
        None \<Rightarrow> (u_UPDATE_ERROR U, s)
      | Some a \<Rightarrow>
          if \<not> u_CreatePackageInstance U then (u_UPDATE_ERROR U, s)
          else let s1 = s\<lparr>in_packages := in_packages s + 1\<rparr>;
                   release = (\<lambda>t. t\<lparr>in_packages := in_packages t - 1\<rparr>)
          in if contains_str PATCH_PACKAGE_NAME pkgPath \<and> u_SetUpdateSlotParam U pkgPath \<noteq> u_UPDATE_SUCCESS U
             then (u_UPDATE_ERROR U, release s1)
             else if u_SetUpdateSuffixParam U \<noteq> u_UPDATE_SUCCESS U then (u_UPDATE_ERROR U, s1)
             else case u_DoInstallUpdaterPackage U pkgPath (GetUpdateProgress (in_heap s1 a)) of
               (values, updateRet) \<Rightarrow>
                 let s2 = fold (SetProgress (Some a)) values s1
                 in if updateRet \<noteq> u_UPDATE_SUCCESS U then (updateRet, release s2)
                    else let s3 = (if contains_str PATCH_PACKAGE_NAME pkgPath
                                   then InvokeEvent SYS_APP_QUICKFIX_EVENT s2 else s2);
                             s4 = release s3
                         in (updateRet, s4\<lparr>in_slots := in_slots s4 + 1\<rparr>))"

definition ABUpdate_PerformAction ::
  "updlib \<Rightarrow> nat option \<Rightarrow> string \<Rightarrow> installer \<Rightarrow> (InstallerErrCode \<times> string) \<times> installer"
where
  "ABUpdate_PerformAction U a pkgPath s =
     (case StartABUpdate U a pkgPath s of
        (updateRet, s1) \<Rightarrow>
          ((if updateRet \<noteq> u_UPDATE_SUCCESS U then (SYS_INSTALL_PARA_FAIL, string_of_int updateRet)
            else (SYS_UPDATE_SUCCESS, [])), s1))"

section \<open>The processer\<close>

datatype action = PkgVerify "nat option" "string list" | ABUpdate "nat option" string

fun PerformAction :: "updlib \<Rightarrow> action \<Rightarrow> installer \<Rightarrow> (InstallerErrCode \<times> string) \<times> installer" where
  "PerformAction U (PkgVerify a pkgPath) s = PkgVerify_PerformAction U a pkgPath s"
| "PerformAction U (ABUpdate a pkgPath) s = ABUpdate_PerformAction U a pkgPath s"

text \<open>The defaults of \<open>IAction\<close>, which neither action overrides.\<close>

definition TerminateAction :: "action \<Rightarrow> bool" where
  "TerminateAction a = False"

definition SetUpdateModeAction :: "InstallerMode \<Rightarrow> action \<Rightarrow> bool" where
  "SetUpdateModeAction mode a = True"

record ActionProcesser =
  ap_statusManager :: nat
  ap_actionQue :: "action list"
  ap_curAction :: "action option"
  ap_isRunning :: bool
  ap_installMode :: InstallerMode

definition ActionProcesser_new :: "nat \<Rightarrow> ActionProcesser" where
  "ActionProcesser_new a =
     \<lparr>ap_statusManager = a, ap_actionQue = [], ap_curAction = None, ap_isRunning = False,
      ap_installMode = SYS_BACKGROUND_UPDATE_MODE\<rparr>"

definition AddAction :: "action option \<Rightarrow> ActionProcesser \<Rightarrow> ActionProcesser" where
  "AddAction act p =
     (case act of
        None \<Rightarrow> p
      | Some a \<Rightarrow> if ap_isRunning p then p else p\<lparr>ap_actionQue := ap_actionQue p @ [a]\<rparr>)"

text \<open>The first component tells whether the next action is to be started.\<close>

definition CompletedAction ::
  "InstallerErrCode \<Rightarrow> string \<Rightarrow> ActionProcesser \<times> installer \<Rightarrow> bool \<times> ActionProcesser \<times> installer"
where
  "CompletedAction errCode errStr ps =
     (case ps of (p, s) \<Rightarrow>
        if ap_curAction p = None then (False, p, s)
        else let p1 = p\<lparr>ap_curAction := None\<rparr>
             in if errCode \<noteq> SYS_UPDATE_SUCCESS \<and> errCode \<noteq> SYS_UPDATE_RETRY_SUCCESS then
                  let retStatus = (if errCode = SYS_INSTALL_CANCEL then UPDATE_STATE_CANCEL
                                   else UPDATE_STATE_FAILED)
                  in (False, p1\<lparr>ap_isRunning := False, ap_actionQue := []\<rparr>,
                      InvokeEvent SYS_POST_FAILED_EVENT
                        (heap_update (ap_statusManager p)
                           (Status_UpdateCallback retStatus 100 errStr) s))
                else (True, p1, InvokeEvent SYS_POST_SUCCESS_EVENT s))"

definition StartNextAction ::
  "InstallerErrCode \<Rightarrow> ActionProcesser \<times> installer \<Rightarrow> action option \<times> ActionProcesser \<times> installer"
where
  "StartNextAction errCode ps =
     (case ps of (p, s) \<Rightarrow>
        (case ap_actionQue p of
           [] \<Rightarrow> (None, p\<lparr>ap_isRunning := False\<rparr>,
                 heap_update (ap_statusManager p)
                   (Status_UpdateCallback
                      (if errCode = SYS_UPDATE_RETRY_SUCCESS then UPDATE_STATE_RETRY_SUCCESSFUL
                       else UPDATE_STATE_SUCCESSFUL) 100 []) s)
         | a # as \<Rightarrow> (Some a, p\<lparr>ap_curAction := Some a, ap_actionQue := as\<rparr>, s)))"

text \<open>
  \<open>PerformAction\<close> of the current action, its completion callback, and with it the next action:
  the callbacks call one another until the queue is empty or an action fails.
\<close>

function perform_chain ::
  "updlib \<Rightarrow> action \<Rightarrow> ActionProcesser \<times> installer \<Rightarrow> ActionProcesser \<times> installer"
where
  "perform_chain U a (p, s) =
     (case PerformAction U a s of ((errCode, errStr), s1) \<Rightarrow>
      (case CompletedAction errCode errStr (p, s1) of (goon, p2, s2) \<Rightarrow>
         if \<not> goon then (p2, s2)
         else case StartNextAction errCode (p2, s2) of
                (None, ps3) \<Rightarrow> ps3
              | (Some b, ps3) \<Rightarrow> perform_chain U b ps3))"
  by pat_completeness auto
termination
  by (relation "measure (\<lambda>(U, a, p, s). length (ap_actionQue p))")
    (auto simp: CompletedAction_def StartNextAction_def Let_def split: if_splits list.splits)

declare perform_chain.simps [simp del]

definition Processer_Start :: "updlib \<Rightarrow> ActionProcesser \<times> installer \<Rightarrow> ActionProcesser \<times> installer" where
  "Processer_Start U ps =
     (case ps of (p, s) \<Rightarrow>
        if ap_isRunning p then (p, s)
        else case ap_actionQue p of
          [] \<Rightarrow> (p, s)
        | a # as \<Rightarrow>
            perform_chain U a
              (p\<lparr>ap_isRunning := True, ap_curAction := Some a, ap_actionQue := as\<rparr>,
               heap_update (ap_statusManager p) (Status_UpdateCallback UPDATE_STATE_ONGOING 0 []) s))"

definition Processer_Stop :: "ActionProcesser \<Rightarrow> bool \<times> ActionProcesser" where
  "Processer_Stop p =
     (if \<not> ap_isRunning p then (False, p)
      else let ret = (case ap_curAction p of None \<Rightarrow> False | Some a \<Rightarrow> TerminateAction a)
           in if \<not> ret then (False, p) else (ret, p\<lparr>ap_isRunning := False, ap_actionQue := []\<rparr>))"

fun installer_mode :: "UpdateVabMode \<Rightarrow> InstallerMode" where
  "installer_mode BACKGROUND_UPDATE_MODE = SYS_BACKGROUND_UPDATE_MODE"
| "installer_mode FOREGROUND_UPDATE_MODE = SYS_FOREGROUND_UPDATE_MODE"
| "installer_mode ALLCORES_UPDATE_MODE = SYS_ALLCORES_UPDATE_MODE"
| "installer_mode OTHER_UPDATE_MODE = SYS_BACKGROUND_UPDATE_MODE"

definition SetUpdateMode :: "UpdateVabMode \<Rightarrow> ActionProcesser \<Rightarrow> bool \<times> ActionProcesser" where
  "SetUpdateMode mode p =
     (let p1 = p\<lparr>ap_installMode := installer_mode mode\<rparr>
      in case ap_curAction p1 of
           None \<Rightarrow> (False, p1)
         | Some a \<Rightarrow> if \<not> ap_isRunning p1 then (False, p1)
                     else (SetUpdateModeAction (ap_installMode p1) a, p1))"

section \<open>The queue runs in order\<close>

text \<open>The specification of a run: the actions one after the other until one fails.\<close>

definition failed_code :: "InstallerErrCode \<Rightarrow> bool" where
  "failed_code e = (e \<noteq> SYS_UPDATE_SUCCESS \<and> e \<noteq> SYS_UPDATE_RETRY_SUCCESS)"

fun in_order ::
  "updlib \<Rightarrow> nat \<Rightarrow> action list \<Rightarrow> InstallerErrCode \<Rightarrow> installer \<Rightarrow> installer"
where
  "in_order U m [] e s =
     heap_update m (Status_UpdateCallback
       (if e = SYS_UPDATE_RETRY_SUCCESS then UPDATE_STATE_RETRY_SUCCESSFUL else UPDATE_STATE_SUCCESSFUL)
       100 []) s"
| "in_order U m (a # acts) e0 s =
     (case PerformAction U a s of ((e, msg), s1) \<Rightarrow>
        if failed_code e then
          InvokeEvent SYS_POST_FAILED_EVENT
            (heap_update m (Status_UpdateCallback
               (if e = SYS_INSTALL_CANCEL then UPDATE_STATE_CANCEL else UPDATE_STATE_FAILED) 100 msg) s1)
        else in_order U m acts e (InvokeEvent SYS_POST_SUCCESS_EVENT s1))"

definition idle :: "ActionProcesser \<Rightarrow> ActionProcesser" where
  "idle p = p\<lparr>ap_actionQue := [], ap_curAction := None, ap_isRunning := False\<rparr>"

lemma perform_chain_in_order:
  "ap_curAction p = Some a \<Longrightarrow>
   perform_chain U a (p, s) = (idle p, in_order U (ap_statusManager p) (a # ap_actionQue p) e0 s)"
proof (induction "length (ap_actionQue p)" arbitrary: a p s e0 rule: less_induct)
  case less
  obtain e msg s1 where pa: "PerformAction U a s = ((e, msg), s1)" by (metis prod.exhaust)
  show ?case
  proof (cases "failed_code e")
    case True
    then show ?thesis
      using less.prems pa
      by (subst perform_chain.simps) (simp add: CompletedAction_def failed_code_def Let_def idle_def)
  next
    case False
    then have c: "CompletedAction e msg (p, s1)
        = (True, p\<lparr>ap_curAction := None\<rparr>, InvokeEvent SYS_POST_SUCCESS_EVENT s1)"
      using less.prems by (auto simp: CompletedAction_def failed_code_def Let_def)
    show ?thesis
    proof (cases "ap_actionQue p")
      case Nil
      then show ?thesis
        using pa c False
        by (subst perform_chain.simps) (simp add: StartNextAction_def idle_def)
    next
      case (Cons b bs)
      let ?p = "p\<lparr>ap_curAction := Some b, ap_actionQue := bs\<rparr>"
      have n: "StartNextAction e (p\<lparr>ap_curAction := None\<rparr>, InvokeEvent SYS_POST_SUCCESS_EVENT s1)
          = (Some b, ?p, InvokeEvent SYS_POST_SUCCESS_EVENT s1)"
        using Cons by (simp add: StartNextAction_def)
      have step: "perform_chain U a (p, s) = perform_chain U b (?p, InvokeEvent SYS_POST_SUCCESS_EVENT s1)"
        using pa c n by (subst perform_chain.simps) simp
      have "perform_chain U b (?p, InvokeEvent SYS_POST_SUCCESS_EVENT s1)
          = (idle ?p, in_order U (ap_statusManager ?p) (b # ap_actionQue ?p) e
              (InvokeEvent SYS_POST_SUCCESS_EVENT s1))"
        by (rule less.hyps) (simp_all add: Cons)
      then show ?thesis using pa False Cons step by (simp add: idle_def)
    qed
  qed
qed

text \<open>C22. A started queue is worked off in order and leaves the processer idle: the result is that
  of running the actions one after the other after the report ONGOING, each success raising
  its event, up to the first failure, which is reported with its message and drops the rest,
  or to the end, which is reported as success; no action is left and none is current.\<close>

theorem Processer_runs_in_order:
  assumes "\<not> ap_isRunning p" and "ap_actionQue p \<noteq> []"
  shows "Processer_Start U (p, s)
       = (p\<lparr>ap_actionQue := [], ap_curAction := None, ap_isRunning := False\<rparr>,
          in_order U (ap_statusManager p) (ap_actionQue p) SYS_UPDATE_SUCCESS
            (heap_update (ap_statusManager p) (Status_UpdateCallback UPDATE_STATE_ONGOING 0 []) s))"
proof -
  obtain a acts where q: "ap_actionQue p = a # acts" using assms(2) by (cases "ap_actionQue p") auto
  let ?p = "p\<lparr>ap_isRunning := True, ap_curAction := Some a, ap_actionQue := acts\<rparr>"
  have "Processer_Start U (p, s) = perform_chain U a
      (?p, heap_update (ap_statusManager p) (Status_UpdateCallback UPDATE_STATE_ONGOING 0 []) s)"
    using assms(1) q by (simp add: Processer_Start_def)
  then show ?thesis
    using perform_chain_in_order [of ?p a U] q by (simp add: idle_def)
qed

section \<open>What the two actions do outside\<close>

lemma heap_update_outside:
  "in_slots (fold (SetProgress m) vs s) = in_slots s"
  "in_packages (fold (SetProgress m) vs s) = in_packages s"
  "in_events (fold (SetProgress m) vs s) = in_events s"
  by (induction vs arbitrary: s) (simp_all add: SetProgress_def split: option.splits)

lemma verify_pkgs_outside:
  "in_slots (snd (verify_pkgs U a n ps k s)) = in_slots s
   \<and> in_packages (snd (verify_pkgs U a n ps k s)) = in_packages s"
  by (induction U a n ps k s rule: verify_pkgs.induct) (simp_all add: Let_def split: option.splits)

lemma verify_pkgs_signed:
  "fst (verify_pkgs U a n ps k s) = 0 \<Longrightarrow>
   \<forall>p \<in> set ps. \<exists>rp. u_PathToRealPath U p = Some rp \<and> u_VerifyPackage U rp = 0"
  by (induction U a n ps k s rule: verify_pkgs.induct) (auto simp: Let_def split: option.splits if_splits)

lemma Verify_outside:
  "in_slots (snd (Verify U m ps s)) = in_slots s \<and> in_packages (snd (Verify U m ps s)) = in_packages s"
  by (auto simp: Verify_def Let_def split: option.splits prod.splits)
    (metis heap_update_simps(2,3) installer.select_convs(3,4) installer.surjective installer.update_convs(5) snd_conv verify_pkgs_outside)+

lemma Verify_signed:
  "fst (Verify U m ps s) = 0 \<Longrightarrow> p \<in> set ps \<Longrightarrow> p \<noteq> [] \<Longrightarrow>
   \<exists>rp. u_PathToRealPath U p = Some rp \<and> u_VerifyPackage U rp = 0"
proof -
  assume ok: "fst (Verify U m ps s) = 0" and p: "p \<in> set ps" "p \<noteq> []"
  let ?l = "filter (\<lambda>pkg. pkg \<noteq> []) ps"
  have ne: "p \<in> set ?l" using p by simp
  then have l: "0 < length ?l" by (metis length_pos_if_in_set)
  show ?thesis
  proof (cases m)
    case None
    then show ?thesis using ok by (simp add: Verify_def)
  next
    case (Some a)
    let ?s = "heap_update a (SetUpdatePercent 1) (s\<lparr>in_certs := in_certs s + 1\<rparr>)"
    have "fst (verify_pkgs U a (length ?l) ?l 0 ?s) = 0"
      using ok l Some by (auto simp: Verify_def Let_def split: prod.splits if_splits)
    then show ?thesis using verify_pkgs_signed ne by blast
  qed
qed

definition suffix_failure :: "updlib \<Rightarrow> string \<Rightarrow> bool" where
  "suffix_failure U pkgPath =
     (u_CreatePackageInstance U
      \<and> \<not> (contains_str PATCH_PACKAGE_NAME pkgPath \<and> u_SetUpdateSlotParam U pkgPath \<noteq> u_UPDATE_SUCCESS U)
      \<and> u_SetUpdateSuffixParam U \<noteq> u_UPDATE_SUCCESS U)"

text \<open>\<open>StartABUpdate\<close> releases the package instance it makes on every path but one: when
  the suffix parameter cannot be set it returns with the instance still open. The active slot
  is switched exactly when the update succeeded.\<close>

theorem ABUpdate_leaks_package:
  "let s1 = snd (StartABUpdate U (Some a) pkgPath s)
   in in_packages s1 = in_packages s + (if suffix_failure U pkgPath then 1 else 0)
    \<and> (u_UPDATE_ERROR U = u_UPDATE_SUCCESS U
       \<or> in_slots s1 = in_slots s + (if fst (StartABUpdate U (Some a) pkgPath s) = u_UPDATE_SUCCESS U then 1 else 0))"
  by (auto simp: StartABUpdate_def suffix_failure_def Let_def InvokeEvent_def heap_update_outside
      split: prod.splits)

section \<open>Samples\<close>

definition good_updlib :: updlib where
  "good_updlib =
     \<lparr>u_PathToRealPath = Some, u_VerifyPackage = (\<lambda>p. 0), u_CreatePackageInstance = True,
      u_SetUpdateSlotParam = (\<lambda>p. 0), u_SetUpdateSuffixParam = 0,
      u_DoInstallUpdaterPackage = (\<lambda>p n. ([], 0)), u_UPDATE_SUCCESS = 0, u_UPDATE_ERROR = -1\<rparr>"

definition no_installer :: installer where
  "no_installer =
     \<lparr>in_heap = (\<lambda>a. StatusManager_new), in_events = [], in_slots = 0, in_packages = 0, in_certs = 0\<rparr>"

text \<open>A package whose signature is refused: the update behind it in the queue is dropped.\<close>

theorem Processer_runs_in_order_witness:
  "let U = good_updlib\<lparr>u_VerifyPackage := \<lambda>p. 1\<rparr>;
       r = Processer_Start U ((ActionProcesser_new 0)\<lparr>ap_actionQue :=
             [PkgVerify (Some 0) [''/p.zip''], ABUpdate (Some 0) ''/p.zip'']\<rparr>, no_installer)
   in fst r = ActionProcesser_new 0 \<and> in_events (snd r) = [SYS_POST_FAILED_EVENT] \<and> in_slots (snd r) = 0"
proof -
  let ?p = "(ActionProcesser_new 0)\<lparr>ap_actionQue :=
    [PkgVerify (Some 0) [''/p.zip''], ABUpdate (Some 0) ''/p.zip'']\<rparr>"
  have "\<not> ap_isRunning ?p" "ap_actionQue ?p \<noteq> []" by (simp_all add: ActionProcesser_new_def)
  from Processer_runs_in_order [OF this] show ?thesis
    by (simp add: ActionProcesser_new_def Let_def PkgVerify_PerformAction_def Verify_def good_updlib_def
        no_installer_def failed_code_def InvokeEvent_def split: prod.splits)
qed

end
