(* ===== verification/Installer_Manager.thy ===== *)
theory Installer_Manager
  imports Action_Processer
begin

text \<open>
  frameworks/installer_manager: \<open>SysInstallerManagerHelper\<close>, which keeps a status manager and
  an action processer per task, and \<open>SysInstallerManager\<close>, which creates the helper and
  forwards to it. The two maps have a lock each; \<open>SysInstallerInit\<close> and \<open>GetUpdateResult\<close> take
  them one after the other, so each is given as its critical sections and as their
  composition.
\<close>

section \<open>The helper\<close>

record helper =
  hp_in :: installer
  hp_next :: nat
  hp_statusManagerMap :: "(string \<times> nat) list"
  hp_actionProcesserMap :: "(string \<times> ActionProcesser) list"

definition Helper_new :: helper where
  "Helper_new =
     \<lparr>hp_in = \<lparr>in_heap = (\<lambda>a. StatusManager_new), in_events = [], in_slots = 0, in_packages = 0, in_certs = 0\<rparr>,
      hp_next = 0, hp_statusManagerMap = [], hp_actionProcesserMap = []\<rparr>"

definition GetStatusManager :: "string \<Rightarrow> helper \<Rightarrow> nat option" where
  "GetStatusManager taskId h = map_of (hp_statusManagerMap h) taskId"

definition GetActionProcesser :: "string \<Rightarrow> helper \<Rightarrow> ActionProcesser option" where
  "GetActionProcesser taskId h = map_of (hp_actionProcesserMap h) taskId"

text \<open>\<open>make_shared<StatusManager>\<close> at a fresh address, entered and initialised under \<open>statusLock_\<close>.\<close>

definition init_status :: "string \<Rightarrow> helper \<Rightarrow> nat option \<times> helper" where
  "init_status taskId h =
     (if GetStatusManager taskId h \<noteq> None then (None, h)
      else let a = hp_next h
           in (Some a, h\<lparr>hp_in := heap_update a (\<lambda>_. Status_Init StatusManager_new) (hp_in h),
                        hp_next := a + 1,
                        hp_statusManagerMap := (taskId, a) # hp_statusManagerMap h\<rparr>))"

text \<open>\<open>emplace\<close> keeps an entry that is there.\<close>

definition init_processer :: "string \<Rightarrow> nat \<Rightarrow> helper \<Rightarrow> helper" where
  "init_processer taskId a h =
     (if GetActionProcesser taskId h \<noteq> None then h
      else h\<lparr>hp_actionProcesserMap := (taskId, ActionProcesser_new a) # hp_actionProcesserMap h\<rparr>)"

definition Helper_SysInstallerInit :: "string \<Rightarrow> helper \<Rightarrow> int \<times> helper" where
  "Helper_SysInstallerInit taskId h =
     (case init_status taskId h of
        (None, h1) \<Rightarrow> (0, h1)
      | (Some a, h1) \<Rightarrow> (0, init_processer taskId a h1))"

definition Helper_StartUpdatePackageZip ::
  "updlib \<Rightarrow> string \<Rightarrow> string \<Rightarrow> helper \<Rightarrow> int \<times> helper"
where
  "Helper_StartUpdatePackageZip U taskId pkgPath h =
     (case GetStatusManager taskId h of
        None \<Rightarrow> (-1, h)
      | Some a \<Rightarrow>
     (case GetActionProcesser taskId h of
        None \<Rightarrow> (-1, h)
      | Some p \<Rightarrow>
          if ap_isRunning p then (-1, h)
          else let p1 = AddAction (Some (PkgVerify (Some a) [pkgPath])) p;
                   p2 = AddAction (Some (ABUpdate (Some a) pkgPath)) p1
               in case Processer_Start U (p2, hp_in h) of
                    (p3, s) \<Rightarrow>
                      (0, h\<lparr>hp_in := s,
                            hp_actionProcesserMap := AList.update taskId p3 (hp_actionProcesserMap h)\<rparr>)))"

definition Helper_SetUpdateCallback :: "string \<Rightarrow> nat option \<Rightarrow> helper \<Rightarrow> int \<times> helper" where
  "Helper_SetUpdateCallback taskId cb h =
     (case GetStatusManager taskId h of
        None \<Rightarrow> (-1, h)
      | Some a \<Rightarrow>
          (fst (Status_SetUpdateCallback cb (in_heap (hp_in h) a)),
           h\<lparr>hp_in := heap_update a (\<lambda>m. snd (Status_SetUpdateCallback cb m)) (hp_in h)\<rparr>))"

definition Helper_GetUpdateStatus :: "string \<Rightarrow> helper \<Rightarrow> int" where
  "Helper_GetUpdateStatus taskId h =
     (case GetStatusManager taskId h of
        None \<Rightarrow> -1
      | Some a \<Rightarrow> Status_GetUpdateStatus (in_heap (hp_in h) a))"

definition result_check :: "string \<Rightarrow> helper \<Rightarrow> string option" where
  "result_check taskId h =
     (case GetActionProcesser taskId h of
        None \<Rightarrow> Some ''has not task''
      | Some p \<Rightarrow> if ap_isRunning p then Some ''task is running'' else None)"

definition erase_status :: "string \<Rightarrow> helper \<Rightarrow> helper" where
  "erase_status taskId h =
     h\<lparr>hp_statusManagerMap := AList.delete taskId (hp_statusManagerMap h)\<rparr>"

definition erase_processer :: "string \<Rightarrow> helper \<Rightarrow> helper" where
  "erase_processer taskId h =
     h\<lparr>hp_actionProcesserMap := AList.delete taskId (hp_actionProcesserMap h)\<rparr>"

definition Helper_GetUpdateResult :: "string \<Rightarrow> helper \<Rightarrow> string \<times> helper" where
  "Helper_GetUpdateResult taskId h =
     (case result_check taskId h of
        Some err \<Rightarrow> (err, h)
      | None \<Rightarrow> (''success'', erase_processer taskId (erase_status taskId h)))"

definition Helper_IsTaskRunning :: "helper \<Rightarrow> bool" where
  "Helper_IsTaskRunning h = list_ex (\<lambda>(taskId, p). ap_isRunning p) (hp_actionProcesserMap h)"

text \<open>The calls the open-source helper leaves to a vendor's subclass, in two groups as in the code.\<close>

datatype package_call =
    StartUpdateParaZip | StartDeleteParaZip | AccDecompressAndVerifyPkg | AccDeleteDir
  | StartUpdateVabPackageZip | StartUpdateSingularPackageZip | StartUpdateABPackageZip
  | CancelUpdateVabPackageZip | GetPartitionAvailableSize | StartVabMerge
  | CreateVabSnapshotCowImg | ClearVabMetadataAndCow

datatype vendor_call =
    VabUpdateActive | GetMetadataResult | StartAbSync | SetAiMergeState | SetUpdateVabMode
  | InstallCloudRom | UninstallCloudRom | GetFeatureStatus | GetAllFeatureStatus | ClearCloudRom
  | UpdateCloudRomVersion | ClearVabPatch | GetPartitionStashSize

fun Helper_package_call :: "package_call \<Rightarrow> int" where
  "Helper_package_call StartUpdateParaZip = -1"
| "Helper_package_call StartDeleteParaZip = -1"
| "Helper_package_call AccDecompressAndVerifyPkg = -1"
| "Helper_package_call AccDeleteDir = -1"
| "Helper_package_call StartUpdateVabPackageZip = -1"
| "Helper_package_call StartUpdateSingularPackageZip = -1"
| "Helper_package_call StartUpdateABPackageZip = -1"
| "Helper_package_call CancelUpdateVabPackageZip = -1"
| "Helper_package_call GetPartitionAvailableSize = -1"
| "Helper_package_call StartVabMerge = -1"
| "Helper_package_call CreateVabSnapshotCowImg = -1"
| "Helper_package_call ClearVabMetadataAndCow = -1"

fun Helper_vendor_call :: "vendor_call \<Rightarrow> int" where
  "Helper_vendor_call VabUpdateActive = -1"
| "Helper_vendor_call GetMetadataResult = -1"
| "Helper_vendor_call StartAbSync = -1"
| "Helper_vendor_call SetAiMergeState = -1"
| "Helper_vendor_call SetUpdateVabMode = -1"
| "Helper_vendor_call InstallCloudRom = -1"
| "Helper_vendor_call UninstallCloudRom = -1"
| "Helper_vendor_call GetFeatureStatus = -1"
| "Helper_vendor_call GetAllFeatureStatus = -1"
| "Helper_vendor_call ClearCloudRom = -1"
| "Helper_vendor_call UpdateCloudRomVersion = -1"
| "Helper_vendor_call ClearVabPatch = -1"
| "Helper_vendor_call GetPartitionStashSize = -1"

section \<open>The manager\<close>

text \<open>
  \<open>helper_\<close> is None until the first \<open>SysInstallerInit\<close>. The handlers other modules subscribe
  to \<open>SYS_PRE_INIT_EVENT\<close> and to the updater's two start-up events are the parameter \<open>H\<close>; they
  may register a helper of their own.
\<close>

type_synonym manager = "helper option"

definition RegisterDump :: "helper \<Rightarrow> manager \<Rightarrow> manager" where
  "RegisterDump h m = Some h"

definition Manager_SysInstallerInit ::
  "(manager \<Rightarrow> manager) list \<Rightarrow> string \<Rightarrow> manager \<Rightarrow> int \<times> manager"
where
  "Manager_SysInstallerInit H taskId m =
     (let m1 = (if m = None then
                  (let m2 = fold (\<lambda>handler x. handler x) H m
                   in if m2 = None then RegisterDump Helper_new m2 else m2)
                else m)
      in case m1 of
           None \<Rightarrow> (-1, m1)
         | Some h \<Rightarrow> (case Helper_SysInstallerInit taskId h of (r, h1) \<Rightarrow> (r, Some h1)))"

definition Manager_StartUpdatePackageZip ::
  "updlib \<Rightarrow> string \<Rightarrow> string \<Rightarrow> manager \<Rightarrow> int \<times> manager"
where
  "Manager_StartUpdatePackageZip U taskId pkgPath m =
     (case m of
        None \<Rightarrow> (-1, m)
      | Some h \<Rightarrow> (case Helper_StartUpdatePackageZip U taskId pkgPath h of (r, h1) \<Rightarrow> (r, Some h1)))"

definition Manager_SetUpdateCallback :: "string \<Rightarrow> nat option \<Rightarrow> manager \<Rightarrow> int \<times> manager" where
  "Manager_SetUpdateCallback taskId cb m =
     (case m of
        None \<Rightarrow> (-1, m)
      | Some h \<Rightarrow> (case Helper_SetUpdateCallback taskId cb h of (r, h1) \<Rightarrow> (r, Some h1)))"

definition Manager_GetUpdateStatus :: "string \<Rightarrow> manager \<Rightarrow> int" where
  "Manager_GetUpdateStatus taskId m =
     (case m of None \<Rightarrow> -1 | Some h \<Rightarrow> Helper_GetUpdateStatus taskId h)"

definition Manager_package_call :: "package_call \<Rightarrow> manager \<Rightarrow> int" where
  "Manager_package_call c m = (case m of None \<Rightarrow> -1 | Some h \<Rightarrow> Helper_package_call c)"

definition Manager_GetUpdateResult :: "string \<Rightarrow> manager \<Rightarrow> string \<times> manager" where
  "Manager_GetUpdateResult taskId m =
     (case m of
        None \<Rightarrow> ('''', m)
      | Some h \<Rightarrow> (case Helper_GetUpdateResult taskId h of (r, h1) \<Rightarrow> (r, Some h1)))"

definition Manager_vendor_call :: "vendor_call \<Rightarrow> manager \<Rightarrow> int" where
  "Manager_vendor_call c m = (case m of None \<Rightarrow> -1 | Some h \<Rightarrow> Helper_vendor_call c)"

definition Manager_IsTaskRunning :: "manager \<Rightarrow> bool" where
  "Manager_IsTaskRunning m = (case m of None \<Rightarrow> False | Some h \<Rightarrow> Helper_IsTaskRunning h)"

section \<open>Runs of the helper\<close>

datatype helper_op =
    HInit string | HStart string string | HCallback string "nat option" | HResult string

fun op_task :: "helper_op \<Rightarrow> string" where
  "op_task (HInit t) = t"
| "op_task (HStart t p) = t"
| "op_task (HCallback t cb) = t"
| "op_task (HResult t) = t"

fun helper_step :: "updlib \<Rightarrow> helper_op \<Rightarrow> helper \<Rightarrow> helper" where
  "helper_step U (HInit t) h = snd (Helper_SysInstallerInit t h)"
| "helper_step U (HStart t p) h = snd (Helper_StartUpdatePackageZip U t p h)"
| "helper_step U (HCallback t cb) h = snd (Helper_SetUpdateCallback t cb h)"
| "helper_step U (HResult t) h = snd (Helper_GetUpdateResult t h)"

definition helper_run :: "updlib \<Rightarrow> helper_op list \<Rightarrow> helper \<Rightarrow> helper" where
  "helper_run U ops h = fold (helper_step U) ops h"

text \<open>What a task's client can see: its status object and its processer.\<close>

definition task_view :: "string \<Rightarrow> helper \<Rightarrow> StatusManager option \<times> ActionProcesser option" where
  "task_view t h =
     (map_option (in_heap (hp_in h)) (GetStatusManager t h), GetActionProcesser t h)"

definition helper_ok :: "helper \<Rightarrow> bool" where
  "helper_ok h =
     (distinct (map fst (hp_statusManagerMap h)) \<and> distinct (map fst (hp_actionProcesserMap h))
      \<and> (\<forall>t. map_option ap_statusManager (GetActionProcesser t h) = GetStatusManager t h)
      \<and> (\<forall>t a. GetStatusManager t h = Some a \<longrightarrow> a < hp_next h)
      \<and> (\<forall>t u a. GetStatusManager t h = Some a \<longrightarrow> GetStatusManager u h = Some a \<longrightarrow> t = u)
      \<and> (\<forall>t p. GetActionProcesser t h = Some p \<longrightarrow> idle p = p))"

section \<open>Tasks do not touch each other\<close>

fun action_status :: "action \<Rightarrow> nat option" where
  "action_status (PkgVerify m ps) = m"
| "action_status (ABUpdate m p) = m"

lemma verify_pkgs_frame: "b \<noteq> a \<Longrightarrow> in_heap (snd (verify_pkgs U a n ps k s)) b = in_heap s b"
  by (induction U a n ps k s rule: verify_pkgs.induct) (simp_all add: Let_def split: option.splits)

lemma SetProgress_frame: "m \<noteq> Some b \<Longrightarrow> in_heap (fold (SetProgress m) vs s) b = in_heap s b"
  by (induction vs arbitrary: s) (auto simp: SetProgress_def split: option.splits)

lemma PerformAction_frame:
  assumes "action_status x = Some a" and "b \<noteq> a"
  shows "in_heap (snd (PerformAction U x s)) b = in_heap s b"
proof (cases x)
  case (PkgVerify m ps)
  let ?l = "filter (\<lambda>pkg. pkg \<noteq> []) ps"
  let ?s = "heap_update a (SetUpdatePercent 1) (s\<lparr>in_certs := in_certs s + 1\<rparr>)"
  obtain r s2 where v: "verify_pkgs U a (length ?l) ?l 0 ?s = (r, s2)" by (rule prod.exhaust)
  have "in_heap s2 b = in_heap s b"
    using verify_pkgs_frame [of b a U "length ?l" ?l 0 ?s] v assms(2) by simp
  then show ?thesis
    using PkgVerify assms v by (simp add: PkgVerify_PerformAction_def Verify_def Let_def)
next
  case (ABUpdate m p)
  then show ?thesis
    using assms SetProgress_frame [of "Some a" b]
    by (auto simp: ABUpdate_PerformAction_def StartABUpdate_def Let_def InvokeEvent_def split: prod.splits)
qed

lemma in_order_frame:
  "\<forall>x \<in> set xs. action_status x = Some a \<Longrightarrow> b \<noteq> a \<Longrightarrow>
   in_heap (in_order U a xs e s) b = in_heap s b"
proof (induction xs arbitrary: e s)
  case (Cons x xs)
  obtain e1 msg s1 where pa: "PerformAction U x s = ((e1, msg), s1)" by (metis prod.exhaust)
  then have "in_heap s1 b = in_heap s b"
    using PerformAction_frame [of x a b U s] Cons.prems by simp
  then show ?case using Cons pa by (simp add: InvokeEvent_def)
qed simp

text \<open>What a start of an idle task comes to.\<close>

lemma Helper_Start_idle:
  assumes "GetStatusManager t h = Some a" and "GetActionProcesser t h = Some p" and "idle p = p"
  shows "Helper_StartUpdatePackageZip U t pkg h =
     (0, h\<lparr>hp_in := in_order U (ap_statusManager p) [PkgVerify (Some a) [pkg], ABUpdate (Some a) pkg]
               SYS_UPDATE_SUCCESS
               (heap_update (ap_statusManager p) (Status_UpdateCallback UPDATE_STATE_ONGOING 0 []) (hp_in h)),
           hp_actionProcesserMap := AList.update t p (hp_actionProcesserMap h)\<rparr>)"
proof -
  have i: "ap_actionQue p = []" "\<not> ap_isRunning p" "ap_curAction p = None"
    using assms(3) by (cases p; simp add: idle_def)+
  let ?q = "p\<lparr>ap_actionQue := [PkgVerify (Some a) [pkg], ABUpdate (Some a) pkg]\<rparr>"
  have "AddAction (Some (ABUpdate (Some a) pkg)) (AddAction (Some (PkgVerify (Some a) [pkg])) p) = ?q"
    using i by (simp add: AddAction_def)
  moreover have "Processer_Start U (?q, hp_in h) = (p, in_order U (ap_statusManager p)
      [PkgVerify (Some a) [pkg], ABUpdate (Some a) pkg] SYS_UPDATE_SUCCESS
      (heap_update (ap_statusManager p) (Status_UpdateCallback UPDATE_STATE_ONGOING 0 []) (hp_in h)))"
  proof -
    have "idle ?q = p" using assms(3) by (cases p) (simp add: idle_def)
    moreover have "Processer_Start U (?q, hp_in h) = perform_chain U (PkgVerify (Some a) [pkg])
       (?q\<lparr>ap_isRunning := True, ap_curAction := Some (PkgVerify (Some a) [pkg]),
           ap_actionQue := [ABUpdate (Some a) pkg]\<rparr>,
        heap_update (ap_statusManager p) (Status_UpdateCallback UPDATE_STATE_ONGOING 0 []) (hp_in h))"
      using i by (simp add: Processer_Start_def)
    ultimately show ?thesis
      using perform_chain_in_order [of "?q\<lparr>ap_isRunning := True,
          ap_curAction := Some (PkgVerify (Some a) [pkg]), ap_actionQue := [ABUpdate (Some a) pkg]\<rparr>"
          "PkgVerify (Some a) [pkg]" U _ SYS_UPDATE_SUCCESS]
      by (simp add: idle_def del: in_order.simps)
  qed
  ultimately show ?thesis
    using assms i by (simp add: Helper_StartUpdatePackageZip_def Let_def del: in_order.simps)
qed

lemma helper_ok_new: "helper_ok Helper_new"
  by (simp add: helper_ok_def Helper_new_def GetStatusManager_def GetActionProcesser_def)

lemma helper_okD:
  assumes "helper_ok h" and "GetStatusManager t h = Some a"
  shows "\<exists>p. GetActionProcesser t h = Some p \<and> ap_statusManager p = a \<and> idle p = p"
  using assms by (metis (no_types, lifting) helper_ok_def map_option_eq_Some)

lemma AList_update_same:
  "map_of m k = Some v \<Longrightarrow> map_of (AList.update k v m) = map_of m"
  by (metis fun_upd_idem update_conv')

lemma helper_ok_Init: "helper_ok h \<Longrightarrow> helper_ok (snd (Helper_SysInstallerInit t h))"
proof -
  assume ok: "helper_ok h"
  show ?thesis
  proof (cases "GetStatusManager t h")
    case (Some a)
    then show ?thesis using ok by (simp add: Helper_SysInstallerInit_def init_status_def)
  next
    case None
    then have n: "GetActionProcesser t h = None"
      using ok by (metis helper_ok_def option.map_disc_iff)
    have d: "t \<notin> fst ` set (hp_statusManagerMap h)" "t \<notin> fst ` set (hp_actionProcesserMap h)"
      using None n by (simp_all add: GetStatusManager_def GetActionProcesser_def map_of_eq_None_iff)
    have lt: "\<And>u a. GetStatusManager u h = Some a \<Longrightarrow> a < hp_next h"
      using ok by (simp add: helper_ok_def)
    show ?thesis
      using ok None n d lt
      by (auto simp: Helper_SysInstallerInit_def init_status_def init_processer_def helper_ok_def Let_def
          GetStatusManager_def GetActionProcesser_def ActionProcesser_new_def idle_def
          less_Suc_eq split: if_splits dest: less_imp_neq)
  qed
qed

lemma helper_ok_Result: "helper_ok h \<Longrightarrow> helper_ok (snd (Helper_GetUpdateResult t h))"
  by (cases "result_check t h")
    (auto simp: Helper_GetUpdateResult_def helper_ok_def erase_status_def erase_processer_def
      GetStatusManager_def GetActionProcesser_def delete_conv' distinct_delete split: if_splits)

lemma helper_ok_Callback: "helper_ok h \<Longrightarrow> helper_ok (snd (Helper_SetUpdateCallback t cb h))"
  by (auto simp: Helper_SetUpdateCallback_def helper_ok_def GetStatusManager_def GetActionProcesser_def
      split: option.splits)

lemma helper_ok_Start: "helper_ok h \<Longrightarrow> helper_ok (snd (Helper_StartUpdatePackageZip U t pkg h))"
proof (cases "GetStatusManager t h")
  case None
  then show "helper_ok h \<Longrightarrow> ?thesis" by (simp add: Helper_StartUpdatePackageZip_def)
next
  case (Some a)
  assume ok: "helper_ok h"
  obtain p where p: "GetActionProcesser t h = Some p" "ap_statusManager p = a" "idle p = p"
    using helper_okD [OF ok Some] by blast
  have "map_of (AList.update t p (hp_actionProcesserMap h)) = map_of (hp_actionProcesserMap h)"
    using p(1) unfolding GetActionProcesser_def by (rule AList_update_same)
  then show ?thesis
    using ok unfolding Helper_Start_idle [OF Some p(1,3)]
    by (simp add: helper_ok_def GetStatusManager_def GetActionProcesser_def distinct_update del: in_order.simps)
qed

lemma helper_ok_run: "helper_ok h \<Longrightarrow> helper_ok (helper_run U ops h)"
proof (induction ops arbitrary: h)
  case (Cons op ops)
  have "helper_ok (helper_step U op h)"
    using Cons.prems
    by (cases op) (simp_all add: helper_ok_Init helper_ok_Start helper_ok_Callback helper_ok_Result)
  then show ?case using Cons.IH by (simp add: helper_run_def)
qed (simp add: helper_run_def)

lemma task_view_step:
  assumes ok: "helper_ok h" and ne: "op_task op \<noteq> t"
  shows "task_view t (helper_step U op h) = task_view t h"
proof (cases op)
  case (HInit u)
  have "GetStatusManager t h = Some a \<Longrightarrow> a < hp_next h" for a using ok by (simp add: helper_ok_def)
  then show ?thesis using HInit ne
    by (cases "GetStatusManager t h")
      (auto simp: task_view_def Helper_SysInstallerInit_def init_status_def init_processer_def Let_def
        GetStatusManager_def GetActionProcesser_def)
next
  case (HStart u pkg)
  show ?thesis
  proof (cases "GetStatusManager u h")
    case None
    then show ?thesis using HStart by (simp add: Helper_StartUpdatePackageZip_def)
  next
    case (Some a)
    obtain p where p: "GetActionProcesser u h = Some p" "ap_statusManager p = a" "idle p = p"
      using helper_okD [OF ok Some] by blast
    have "GetStatusManager t h = Some b \<Longrightarrow> b \<noteq> a" for b
      using ok Some ne HStart unfolding helper_ok_def by (metis op_task.simps(2))
    then show ?thesis
      using HStart ne p(2)
      by (cases "GetStatusManager t h")
        (simp_all add: Helper_Start_idle [OF Some p(1,3)] task_view_def in_order_frame
          GetStatusManager_def GetActionProcesser_def update_conv' del: in_order.simps)
  qed
next
  case (HCallback u cb)
  have "GetStatusManager t h = Some b \<Longrightarrow> GetStatusManager u h \<noteq> Some b" for b
    using ok ne HCallback unfolding helper_ok_def by (metis op_task.simps(3))
  then show ?thesis using HCallback
    by (cases "GetStatusManager t h")
      (auto simp: task_view_def Helper_SetUpdateCallback_def GetStatusManager_def GetActionProcesser_def
        split: option.splits)
next
  case (HResult u)
  then show ?thesis using ne
    by (auto simp: task_view_def Helper_GetUpdateResult_def erase_status_def erase_processer_def
        GetStatusManager_def GetActionProcesser_def delete_conv' split: option.splits)
qed

text \<open>C20. Tasks are isolated: whatever calls other tasks make, from any state the service can
  reach by complete calls, a task keeps its status object, with everything told to its client,
  and its processer.\<close>

theorem Task_isolation:
  assumes "\<forall>op \<in> set ops. op_task op \<noteq> t"
  shows "task_view t (helper_run U ops (helper_run U before Helper_new))
       = task_view t (helper_run U before Helper_new)"
proof -
  have "helper_ok h \<Longrightarrow> task_view t (helper_run U ops h) = task_view t h" for h
    using assms
  proof (induction ops arbitrary: h)
    case (Cons op ops)
    have "helper_ok (helper_step U op h)"
      using helper_ok_run [OF Cons.prems(1), of U "[op]"] by (simp add: helper_run_def)
    then show ?case
      using Cons.IH [of "helper_step U op h"] task_view_step [OF Cons.prems(1), of op t U] Cons.prems(2)
      by (simp add: helper_run_def)
  qed (simp add: helper_run_def)
  then show ?thesis by (simp add: helper_ok_run helper_ok_new)
qed

section \<open>The active slot\<close>

definition signed :: "updlib \<Rightarrow> string \<Rightarrow> bool" where
  "signed U pkg = (\<exists>rp. u_PathToRealPath U pkg = Some rp \<and> u_VerifyPackage U rp = 0)"

lemma SetProgress_slots: "in_slots (fold (SetProgress m) vs s) = in_slots s"
  by (induction vs arbitrary: s) (auto simp: SetProgress_def split: option.split)

lemma StartABUpdate_slots: "in_slots (snd (StartABUpdate U m pkg s)) \<le> Suc (in_slots s)"
  by (auto simp: StartABUpdate_def Let_def SetProgress_slots InvokeEvent_def split: option.split prod.split)

text \<open>The start of a package pays for one switch when its real path passes the signature
  verification, or when its path is empty, which \<open>PkgVerify\<close> skips.\<close>

definition pays :: "updlib \<Rightarrow> string \<Rightarrow> nat" where
  "pays U pkg = (if pkg = [] \<or> signed U pkg then 1 else 0)"

lemma in_order_slots:
  "in_slots (in_order U m [PkgVerify (Some a) [pkg], ABUpdate (Some a) pkg] e s) \<le> in_slots s + pays U pkg"
proof -
  obtain r s1 where v: "Verify U (Some a) [pkg] s = (r, s1)" by (rule prod.exhaust)
  have s1: "in_slots s1 = in_slots s" using Verify_outside [of U "Some a" "[pkg]" s] v by simp
  have "pkg = [] \<or> signed U pkg" if "r = 0"
    using Verify_signed [of U "Some a" "[pkg]" s pkg] v that by (auto simp: signed_def)
  then show ?thesis
    using s1 v StartABUpdate_slots [of U "Some a" pkg "InvokeEvent SYS_POST_SUCCESS_EVENT s1"]
    by (auto simp: PkgVerify_PerformAction_def ABUpdate_PerformAction_def failed_code_def InvokeEvent_def pays_def
        split: prod.split)
qed

lemma Start_slots:
  assumes "helper_ok h"
  shows "in_slots (hp_in (snd (Helper_StartUpdatePackageZip U t pkg h))) \<le> in_slots (hp_in h) + pays U pkg"
proof (cases "GetStatusManager t h")
  case None
  then show ?thesis by (simp add: Helper_StartUpdatePackageZip_def)
next
  case (Some a)
  obtain p where p: "GetActionProcesser t h = Some p" "idle p = p"
    using helper_okD [OF assms Some] by blast
  show ?thesis
    using in_order_slots [of U "ap_statusManager p" a pkg SYS_UPDATE_SUCCESS
        "heap_update (ap_statusManager p) (Status_UpdateCallback UPDATE_STATE_ONGOING 0 []) (hp_in h)"]
    by (simp add: Helper_Start_idle [OF Some p] del: in_order.simps)
qed

lemma other_calls_slots:
  "in_slots (hp_in (snd (Helper_SysInstallerInit t h))) = in_slots (hp_in h)"
  "in_slots (hp_in (snd (Helper_SetUpdateCallback t cb h))) = in_slots (hp_in h)"
  "in_slots (hp_in (snd (Helper_GetUpdateResult t h))) = in_slots (hp_in h)"
  by (auto simp: Helper_SysInstallerInit_def init_status_def init_processer_def Let_def
      Helper_SetUpdateCallback_def Helper_GetUpdateResult_def erase_status_def erase_processer_def
      split: option.split)

section \<open>A race between GetUpdateResult and SysInstallerInit\<close>

text \<open>
  \<open>GetUpdateResult\<close> has found the task idle and erased its status manager; then another call
  initialises the task again; then \<open>GetUpdateResult\<close> erases the action processer.
\<close>

definition result_init_race :: "string \<Rightarrow> helper \<Rightarrow> helper" where
  "result_init_race t h =
     (if result_check t h \<noteq> None then h
      else case init_status t (erase_status t h) of
        (None, h1) \<Rightarrow> erase_processer t h1
      | (Some a, h1) \<Rightarrow> erase_processer t (init_processer t a h1))"

lemma wedged_step:
  assumes "GetStatusManager t h \<noteq> None" and "GetActionProcesser t h = None"
  shows "GetStatusManager t (helper_step U op h) \<noteq> None \<and> GetActionProcesser t (helper_step U op h) = None"
proof (cases op)
  case (HStart u pkg)
  then show ?thesis using assms
    by (cases "u = t")
      (auto simp: Helper_StartUpdatePackageZip_def GetStatusManager_def GetActionProcesser_def Let_def
        update_conv' split: option.splits prod.splits)
next
  case (HResult u)
  then show ?thesis using assms
    by (cases "u = t")
      (auto simp: Helper_GetUpdateResult_def result_check_def erase_status_def erase_processer_def
        GetStatusManager_def GetActionProcesser_def delete_conv' split: option.splits)
next
  case (HInit u)
  then show ?thesis using assms
    by (cases "u = t")
      (auto simp: Helper_SysInstallerInit_def init_status_def init_processer_def Let_def
        GetStatusManager_def GetActionProcesser_def)
next
  case (HCallback u cb)
  then show ?thesis using assms
    by (auto simp: Helper_SetUpdateCallback_def GetStatusManager_def GetActionProcesser_def
        split: option.splits)
qed

text \<open>C39. A task can be wedged: when \<open>SysInstallerInit\<close> of a task falls between the two
  critical sections in which \<open>GetUpdateResult\<close> removes it, the task keeps a status manager and
  loses its processer, and no sequence of calls repairs that: every initialisation answers 0
  and does nothing, every start fails, and the task can never be removed.\<close>

theorem Init_race_wedges:
  assumes "result_check t h = None"
  shows "let h1 = helper_run U ops (result_init_race t h)
         in Helper_SysInstallerInit t h1 = (0, h1)
          \<and> Helper_StartUpdatePackageZip U t pkg h1 = (-1, h1)
          \<and> Helper_GetUpdateResult t h1 = (''has not task'', h1)"
proof -
  let ?w = "\<lambda>h. GetStatusManager t h \<noteq> None \<and> GetActionProcesser t h = None"
  have "?w (result_init_race t h)"
    using assms by (simp add: result_init_race_def init_status_def init_processer_def erase_status_def erase_processer_def
        GetStatusManager_def GetActionProcesser_def delete_conv' Let_def)
  moreover have "?w h \<Longrightarrow> ?w (helper_run U ops h)" for h
    unfolding helper_run_def
  proof (induction ops arbitrary: h)
    case (Cons op ops)
    then show ?case using wedged_step [of t h U op] by simp
  qed simp
  ultimately have "?w (helper_run U ops (result_init_race t h))" by blast
  then show ?thesis
    by (auto simp: Let_def Helper_SysInstallerInit_def init_status_def Helper_StartUpdatePackageZip_def
        Helper_GetUpdateResult_def result_check_def split: option.splits)
qed


section \<open>Samples\<close>

theorem Task_isolation_witness:
  "task_view ''a'' (helper_run good_updlib [HInit ''b'', HCallback ''b'' (Some 7)]
       (helper_run good_updlib [HInit ''a''] Helper_new))
   = task_view ''a'' (helper_run good_updlib [HInit ''a''] Helper_new)"
  by (rule Task_isolation) simp

theorem Init_race_wedges_witness:
  "let h = helper_run good_updlib [HInit ''a''] Helper_new;
       h1 = helper_run good_updlib [HResult ''a'', HInit ''a''] (result_init_race ''a'' h)
   in Helper_StartUpdatePackageZip good_updlib ''a'' ''/p.zip'' h1 = (-1, h1)
    \<and> Helper_GetUpdateResult ''a'' h1 = (''has not task'', h1)"
  using Init_race_wedges [of "''a''" "helper_run good_updlib [HInit ''a''] Helper_new" good_updlib
      "[HResult ''a'', HInit ''a'']" "''/p.zip''"]
  by (simp add: Let_def result_check_def helper_run_def Helper_SysInstallerInit_def init_status_def
      init_processer_def Helper_new_def GetStatusManager_def GetActionProcesser_def ActionProcesser_new_def)

end
