(* ===== verification/Stream_Install.thy ===== *)
theory Stream_Install
  imports Status_Manager Installer_Prelude
begin

text \<open>
  services/stream_update, \<open>StreamInstallProcesser\<close>, and the stream half of
  frameworks/installer_manager. The updater library's ring buffer, chunk updater and suffix
  parameter are the parameter \<open>L\<close>; the consumer thread is one step per round of its loop.
\<close>

section \<open>The updater library\<close>

datatype UpdateResultCode =
  STREAM_UPDATE_SUCCESS | STREAM_UPDATE_FAILURE | STREAM_UPDATE_COMPLETE | STREAM_UPDATE_OTHER

record ('r, 'b) streamlib =
  l_SetUpdateSuffixParam :: bool
  l_Init :: "nat \<Rightarrow> nat \<Rightarrow> 'r \<Rightarrow> bool \<times> 'r"
  l_Push :: "u8 list \<Rightarrow> 'r \<Rightarrow> bool \<times> 'r"
  l_Pop :: "'r \<Rightarrow> u8 list option \<times> 'r"
  l_Stop :: "'r \<Rightarrow> 'r"
  l_Reset :: "'r \<Rightarrow> 'r"
  l_BinChunkUpdate :: "nat \<Rightarrow> 'b"
  l_StartBinChunkUpdate :: "u8 list \<Rightarrow> 'b \<Rightarrow> (UpdateResultCode \<times> int) \<times> 'b"
  l_new_thread :: bool

definition BUFFER_SIZE :: nat where
  "BUFFER_SIZE = 50 * 1024"

definition MAX_RING_BUFFER_NUM :: nat where
  "MAX_RING_BUFFER_NUM = 2"

definition MAX_UPDATER_BUFFER_SIZE :: nat where
  "MAX_UPDATER_BUFFER_SIZE = 2 * BUFFER_SIZE"

section \<open>The processer\<close>

datatype consumer_thread = NoThread | Consuming | Returned

record ('r, 'b) streamer =
  sp_ringBuffer :: 'r
  sp_binChunkUpdate :: "'b option"
  sp_isExitThread :: bool
  sp_thread :: consumer_thread
  sp_isRunning :: bool
  sp_statusManager :: "StreamStatusManager option"
  sp_slots :: nat

definition UpdateResult ::
  "UpdateStatus \<Rightarrow> int \<Rightarrow> string \<Rightarrow> ('r, 'b) streamer \<Rightarrow> ('r, 'b) streamer"
where
  "UpdateResult updateStatus dealLen resultMsg s =
     (case sp_statusManager s of
        None \<Rightarrow> s
      | Some m \<Rightarrow>
          s\<lparr>sp_statusManager := Some (StreamStatus_UpdateCallback updateStatus dealLen resultMsg m)\<rparr>)"

definition Stream_Start :: "('r, 'b) streamlib \<Rightarrow> ('r, 'b) streamer \<Rightarrow> int \<times> ('r, 'b) streamer" where
  "Stream_Start L s =
     (if \<not> l_SetUpdateSuffixParam L then (-1, s)
      else case l_Init L BUFFER_SIZE MAX_RING_BUFFER_NUM (sp_ringBuffer s) of
        (ok, r) \<Rightarrow>
          let s1 = s\<lparr>sp_ringBuffer := r\<rparr>
          in if \<not> ok then (-1, s1)
             else let s2 = s1\<lparr>sp_binChunkUpdate := Some (l_BinChunkUpdate L MAX_UPDATER_BUFFER_SIZE),
                              sp_isExitThread := False, sp_isRunning := True\<rparr>
             in if \<not> l_new_thread L then (-1, s2\<lparr>sp_thread := NoThread\<rparr>)
                else (0, UpdateResult UPDATE_STATE_INIT 0 [] (s2\<lparr>sp_thread := Consuming\<rparr>)))"

definition ThreadExitProc :: "('r, 'b) streamlib \<Rightarrow> ('r, 'b) streamer \<Rightarrow> ('r, 'b) streamer" where
  "ThreadExitProc L s =
     s\<lparr>sp_isRunning := False, sp_isExitThread := True,
       sp_ringBuffer := l_Reset L (l_Stop L (sp_ringBuffer s))\<rparr>"

text \<open>\<open>join\<close>: the thread tests the exit flag before its next round and returns.\<close>

definition Stream_Stop :: "('r, 'b) streamlib \<Rightarrow> ('r, 'b) streamer \<Rightarrow> ('r, 'b) streamer" where
  "Stream_Stop L s =
     (if \<not> sp_isRunning s then s
      else ThreadExitProc L
             (s\<lparr>sp_isRunning := False, sp_isExitThread := True,
                sp_ringBuffer := l_Stop L (sp_ringBuffer s), sp_thread := NoThread\<rparr>))"

text \<open>One round of \<open>ThreadExecuteFunc\<close>.\<close>

definition ThreadExecuteFunc :: "('r, 'b) streamlib \<Rightarrow> ('r, 'b) streamer \<Rightarrow> ('r, 'b) streamer" where
  "ThreadExecuteFunc L s =
     (if sp_thread s \<noteq> Consuming then s
      else if sp_isExitThread s then s\<lparr>sp_thread := Returned\<rparr>
      else case l_Pop L (sp_ringBuffer s) of
        (None, r) \<Rightarrow> s\<lparr>sp_ringBuffer := r, sp_thread := Returned\<rparr>
      | (Some buffer, r) \<Rightarrow>
          (case sp_binChunkUpdate s of
             None \<Rightarrow> s\<lparr>sp_ringBuffer := r\<rparr>
           | Some b \<Rightarrow>
               (case l_StartBinChunkUpdate L buffer b of
                  ((ret, dealLen), b1) \<Rightarrow>
                    let s1 = s\<lparr>sp_ringBuffer := r, sp_binChunkUpdate := Some b1\<rparr>
                    in if ret = STREAM_UPDATE_SUCCESS then UpdateResult UPDATE_STATE_ONGOING dealLen [] s1
                       else if ret = STREAM_UPDATE_FAILURE then
                         (UpdateResult UPDATE_STATE_FAILED dealLen [] s1)\<lparr>sp_thread := Returned\<rparr>
                       else if ret = STREAM_UPDATE_COMPLETE then
                         (let s2 = UpdateResult UPDATE_STATE_SUCCESSFUL dealLen [] s1
                          in s2\<lparr>sp_slots := sp_slots s2 + 1, sp_thread := Returned\<rparr>)
                       else s1)))"

text \<open>\<open>memcpy_s\<close> into a buffer of \<open>BUFFER_SIZE\<close> fails for a null source and for more bytes.\<close>

definition Stream_ProcessStreamData ::
  "('r, 'b) streamlib \<Rightarrow> u8 list option \<Rightarrow> ('r, 'b) streamer \<Rightarrow> int \<times> ('r, 'b) streamer"
where
  "Stream_ProcessStreamData L buffer s =
     (case buffer of
        None \<Rightarrow> (-1, s)
      | Some bytes \<Rightarrow>
          if BUFFER_SIZE < length bytes then (-1, s)
          else case l_Push L bytes (sp_ringBuffer s) of
                 (ok, r) \<Rightarrow> (if ok then 0 else -1, s\<lparr>sp_ringBuffer := r\<rparr>))"

section \<open>StreamInstallerManagerHelper\<close>

text \<open>
  The helper's status manager is the one it gives the processer, so both are the processer's
  field \<open>sp_statusManager\<close> and the helper's calls act on the processer.
\<close>

definition StreamHelper_SysInstallerInit :: "('r, 'b) streamer \<Rightarrow> int \<times> ('r, 'b) streamer" where
  "StreamHelper_SysInstallerInit p =
     (let st = (case sp_statusManager p of None \<Rightarrow> StreamStatusManager_new | Some st \<Rightarrow> st)
      in (0, p\<lparr>sp_statusManager := Some (StreamStatus_Init st)\<rparr>))"

definition StreamHelper_StartStreamUpdate ::
  "('r, 'b) streamlib \<Rightarrow> ('r, 'b) streamer \<Rightarrow> int \<times> ('r, 'b) streamer"
where
  "StreamHelper_StartStreamUpdate L p =
     (if sp_statusManager p = None then (-1, p)
      else if sp_isRunning p then (-1, p)
      else case Stream_Start L p of (r, p1) \<Rightarrow> (if r = -1 then -1 else 0, p1))"

definition StreamHelper_StopStreamUpdate ::
  "('r, 'b) streamlib \<Rightarrow> ('r, 'b) streamer \<Rightarrow> int \<times> ('r, 'b) streamer"
where
  "StreamHelper_StopStreamUpdate L p =
     (if sp_statusManager p = None then (-1, p)
      else if \<not> sp_isRunning p then (-1, p)
      else (0, Stream_Stop L p))"

definition StreamHelper_ProcessStreamData ::
  "('r, 'b) streamlib \<Rightarrow> u8 list option \<Rightarrow> ('r, 'b) streamer \<Rightarrow> int \<times> ('r, 'b) streamer"
where
  "StreamHelper_ProcessStreamData L buffer p = Stream_ProcessStreamData L buffer p"

definition StreamHelper_SetUpdateCallback ::
  "nat option \<Rightarrow> ('r, 'b) streamer \<Rightarrow> int \<times> ('r, 'b) streamer"
where
  "StreamHelper_SetUpdateCallback cb p =
     (case sp_statusManager p of
        None \<Rightarrow> (-1, p)
      | Some st \<Rightarrow>
          (case StreamStatus_SetUpdateCallback cb st of
             (r, st1) \<Rightarrow> (r, p\<lparr>sp_statusManager := Some st1\<rparr>)))"

definition StreamHelper_GetUpdateStatus :: "('r, 'b) streamer \<Rightarrow> int" where
  "StreamHelper_GetUpdateStatus p =
     (case sp_statusManager p of None \<Rightarrow> -1 | Some st \<Rightarrow> StreamStatus_GetUpdateStatus st)"

lemmas stream_helper_defs = StreamHelper_SysInstallerInit_def StreamHelper_StartStreamUpdate_def
  StreamHelper_StopStreamUpdate_def StreamHelper_ProcessStreamData_def
  StreamHelper_SetUpdateCallback_def StreamHelper_GetUpdateStatus_def

section \<open>StreamInstallerManager\<close>

text \<open>
  The manager's helper is created by the first \<open>SysInstallerInit\<close>; \<open>sm_helper\<close> says whether it
  is there, and every other call without one is refused.
\<close>

record ('r, 'b) stream_manager =
  sm_helper :: bool
  sm_streamer :: "('r, 'b) streamer"

definition Stream_RegisterDump :: "('r, 'b) stream_manager \<Rightarrow> ('r, 'b) stream_manager" where
  "Stream_RegisterDump m = m\<lparr>sm_helper := True\<rparr>"

definition Stream_SysInstallerInit :: "('r, 'b) stream_manager \<Rightarrow> int \<times> ('r, 'b) stream_manager" where
  "Stream_SysInstallerInit m =
     (let m1 = (if \<not> sm_helper m then Stream_RegisterDump m else m)
      in case StreamHelper_SysInstallerInit (sm_streamer m1) of (r, p) \<Rightarrow> (r, m1\<lparr>sm_streamer := p\<rparr>))"

definition StartStreamUpdate ::
  "('r, 'b) streamlib \<Rightarrow> ('r, 'b) stream_manager \<Rightarrow> int \<times> ('r, 'b) stream_manager"
where
  "StartStreamUpdate L m =
     (if \<not> sm_helper m then (-1, m)
      else case StreamHelper_StartStreamUpdate L (sm_streamer m) of (r, p) \<Rightarrow> (r, m\<lparr>sm_streamer := p\<rparr>))"

definition StopStreamUpdate ::
  "('r, 'b) streamlib \<Rightarrow> ('r, 'b) stream_manager \<Rightarrow> int \<times> ('r, 'b) stream_manager"
where
  "StopStreamUpdate L m =
     (if \<not> sm_helper m then (-1, m)
      else case StreamHelper_StopStreamUpdate L (sm_streamer m) of (r, p) \<Rightarrow> (r, m\<lparr>sm_streamer := p\<rparr>))"

definition ProcessStreamData ::
  "('r, 'b) streamlib \<Rightarrow> u8 list option \<Rightarrow> ('r, 'b) stream_manager \<Rightarrow> int \<times> ('r, 'b) stream_manager"
where
  "ProcessStreamData L buffer m =
     (if \<not> sm_helper m then (-1, m)
      else case StreamHelper_ProcessStreamData L buffer (sm_streamer m) of
             (r, p) \<Rightarrow> (r, m\<lparr>sm_streamer := p\<rparr>))"

definition Stream_SetUpdateCallback ::
  "nat option \<Rightarrow> ('r, 'b) stream_manager \<Rightarrow> int \<times> ('r, 'b) stream_manager"
where
  "Stream_SetUpdateCallback cb m =
     (if \<not> sm_helper m then (-1, m)
      else case StreamHelper_SetUpdateCallback cb (sm_streamer m) of (r, p) \<Rightarrow> (r, m\<lparr>sm_streamer := p\<rparr>))"

definition Stream_GetUpdateStatus :: "('r, 'b) stream_manager \<Rightarrow> int" where
  "Stream_GetUpdateStatus m =
     (if \<not> sm_helper m then -1 else StreamHelper_GetUpdateStatus (sm_streamer m))"

section \<open>Runs\<close>

text \<open>A client's calls and the rounds of the consumer thread, in any order.\<close>

datatype stream_op =
    SInit | SStart | SStop | SData "u8 list option" | SCallback "nat option" | SRound

fun stream_step ::
  "('r, 'b) streamlib \<Rightarrow> stream_op \<Rightarrow> ('r, 'b) stream_manager \<Rightarrow> ('r, 'b) stream_manager"
where
  "stream_step L SInit m = snd (Stream_SysInstallerInit m)"
| "stream_step L SStart m = snd (StartStreamUpdate L m)"
| "stream_step L SStop m = snd (StopStreamUpdate L m)"
| "stream_step L (SData b) m = snd (ProcessStreamData L b m)"
| "stream_step L (SCallback cb) m = snd (Stream_SetUpdateCallback cb m)"
| "stream_step L SRound m = m\<lparr>sm_streamer := ThreadExecuteFunc L (sm_streamer m)\<rparr>"

definition stream_new :: "'r \<Rightarrow> ('r, 'b) stream_manager" where
  "stream_new r =
     \<lparr>sm_helper = False,
      sm_streamer = \<lparr>sp_ringBuffer = r, sp_binChunkUpdate = None, sp_isExitThread = False,
        sp_thread = NoThread, sp_isRunning = False, sp_statusManager = None, sp_slots = 0\<rparr>\<rparr>"

definition stream_run ::
  "('r, 'b) streamlib \<Rightarrow> stream_op list \<Rightarrow> ('r, 'b) stream_manager \<Rightarrow> ('r, 'b) stream_manager"
where
  "stream_run L ops m = fold (stream_step L) ops m"

lemma stream_run_simps [simp]:
  "stream_run L [] m = m" "stream_run L (op # ops) m = stream_run L ops (stream_step L op m)"
  by (simp_all add: stream_run_def)

lemma UpdateResult_simps [simp]:
  "sp_slots (UpdateResult st n msg s) = sp_slots s" "sp_thread (UpdateResult st n msg s) = sp_thread s"
  "sp_isRunning (UpdateResult st n msg s) = sp_isRunning s"
  by (simp_all add: UpdateResult_def split: option.splits)

text \<open>A live thread belongs to a running processer, and each start buys at most one switch.\<close>

definition stream_inv :: "nat \<Rightarrow> ('r, 'b) stream_manager \<Rightarrow> bool" where
  "stream_inv starts m =
     (let s = sm_streamer m
      in (sp_thread s \<noteq> NoThread \<longrightarrow> sp_isRunning s)
       \<and> sp_slots s + (if sp_thread s = Consuming then 1 else 0) \<le> starts)"

lemma stream_inv_step:
  assumes "stream_inv n m"
  shows "stream_inv (n + (if op = SStart then 1 else 0)) (stream_step L op m)"
proof (cases op)
  case SStart
  then show ?thesis using assms
    by (auto simp: stream_helper_defs stream_inv_def StartStreamUpdate_def Stream_Start_def Let_def split: prod.splits)
next
  case SRound
  then show ?thesis using assms
    by (auto simp: stream_inv_def ThreadExecuteFunc_def Let_def split: prod.splits option.splits)
next
  case SStop
  then show ?thesis using assms
    by (auto simp: stream_helper_defs stream_inv_def StopStreamUpdate_def Stream_Stop_def ThreadExitProc_def Let_def
        split: if_splits)
qed (use assms in \<open>auto simp: stream_helper_defs Stream_RegisterDump_def stream_inv_def Stream_SysInstallerInit_def ProcessStreamData_def
      Stream_ProcessStreamData_def Stream_SetUpdateCallback_def Let_def split: prod.splits option.splits\<close>)

lemma stream_inv_run:
  "stream_inv n m \<Longrightarrow> stream_inv (n + count_list ops SStart) (stream_run L ops m)"
proof (induction ops arbitrary: n m)
  case (Cons op ops)
  show ?case
    using Cons.IH [OF stream_inv_step [OF Cons.prems, of op L]] by (simp split: if_splits)
qed simp

text \<open>The active slot is switched at most once for each start of a stream update, however
  the calls of the client and the rounds of the consumer thread interleave and however often
  the update reports its completion.\<close>

theorem Stream_switches_once:
  "sp_slots (sm_streamer (stream_run L ops (stream_new r))) \<le> count_list ops SStart"
proof -
  have "stream_inv (0 + count_list ops SStart) (stream_run L ops (stream_new r))"
    by (rule stream_inv_run) (simp add: stream_inv_def stream_new_def Let_def)
  then show ?thesis by (auto simp: stream_inv_def Let_def split: if_splits)
qed

text \<open>An ended stream blocks the next one: once the consumer thread has returned, after a
  completed or a failed update alike, every start is refused and every round does nothing
  until the client calls \<open>StopStreamUpdate\<close>, because only that clears \<open>isRunning_\<close>.\<close>

theorem Stream_ended_blocks_start:
  assumes "sp_thread (sm_streamer (stream_run L before (stream_new r))) = Returned"
    and "SStop \<notin> set ops"
  shows "let m = stream_run L ops (stream_run L before (stream_new r))
         in StartStreamUpdate L m = (-1, m) \<and> sp_slots (sm_streamer m)
              = sp_slots (sm_streamer (stream_run L before (stream_new r)))"
proof -
  let ?m0 = "stream_run L before (stream_new r)"
  let ?P = "\<lambda>m. sp_thread (sm_streamer m) = Returned \<and> sp_isRunning (sm_streamer m)
      \<and> sp_slots (sm_streamer m) = sp_slots (sm_streamer ?m0)"
  have step: "?P (stream_step L op m)" if "?P m" and "op \<noteq> SStop" for op m
    using that
    by (cases op)
      (auto simp: stream_helper_defs Stream_RegisterDump_def StartStreamUpdate_def ThreadExecuteFunc_def Stream_SysInstallerInit_def
        ProcessStreamData_def Stream_ProcessStreamData_def Stream_SetUpdateCallback_def Let_def
        split: prod.splits option.splits)
  have "stream_inv (0 + count_list before SStart) ?m0"
    by (rule stream_inv_run) (simp add: stream_inv_def stream_new_def Let_def)
  then have "?P ?m0" using assms(1) by (simp add: stream_inv_def Let_def)
  moreover have "?P m \<Longrightarrow> SStop \<notin> set ops \<Longrightarrow> ?P (stream_run L ops m)" for m ops
  proof (induction ops arbitrary: m)
    case (Cons op ops)
    have ne: "op \<noteq> SStop" "SStop \<notin> set ops" using Cons.prems(2) by auto
    show ?case
      using Cons.IH [OF step [OF Cons.prems(1) ne(1)] ne(2)] by simp
  qed simp
  ultimately have "?P (stream_run L ops ?m0)" using assms(2) by blast
  then show ?thesis by (simp add: stream_helper_defs StartStreamUpdate_def Let_def)
qed

definition done_lib :: "(unit, unit) streamlib" where
  "done_lib =
     \<lparr>l_SetUpdateSuffixParam = True, l_Init = (\<lambda>n k r. (True, r)), l_Push = (\<lambda>b r. (True, r)),
      l_Pop = (\<lambda>r. (Some [], r)), l_Stop = (\<lambda>r. r), l_Reset = (\<lambda>r. r),
      l_BinChunkUpdate = (\<lambda>n. ()), l_StartBinChunkUpdate = (\<lambda>bs b. ((STREAM_UPDATE_COMPLETE, 0), b)),
      l_new_thread = True\<rparr>"

theorem Stream_ended_blocks_start_witness:
  "let m = stream_run done_lib [SStart, SRound] (stream_run done_lib [SInit, SStart, SRound] (stream_new ()))
   in StartStreamUpdate done_lib m = (-1, m)"
proof -
  have "sp_thread (sm_streamer (stream_run done_lib [SInit, SStart, SRound] (stream_new ()))) = Returned"
    by (simp add: stream_helper_defs Stream_RegisterDump_def done_lib_def stream_new_def Stream_SysInstallerInit_def StartStreamUpdate_def
        Stream_Start_def ThreadExecuteFunc_def UpdateResult_def Let_def)
  from Stream_ended_blocks_start [OF this, of "[SStart, SRound]"]
  show ?thesis by (simp add: Let_def)
qed

end
