(* ===== verification/Installer_Timer.thy ===== *)
theory Installer_Timer
  imports Installer_Prelude
begin

text \<open>
  services/timer: timers of the time service. The service is the parameter \<open>T\<close>: whether its
  client object is there, the boot time it answers, the id it gives a timer (0 is failure),
  whether the timer starts and the flags of its timer types. The trace \<open>tm_live\<close> holds the
  timers that were created and not destroyed.
\<close>

record timer_info =
  ti_type :: u32
  ti_repeat :: bool
  ti_interval :: u64

text \<open>The fields start as those of the time service's class; every timer made here sets its type.\<close>

definition SysInstallerTimerInfo_new :: timer_info where
  "SysInstallerTimerInfo_new = \<lparr>ti_type = 0, ti_repeat = False, ti_interval = 0\<rparr>"

definition TimerInfo_SetType :: "u32 \<Rightarrow> timer_info \<Rightarrow> timer_info" where
  "TimerInfo_SetType type t = t\<lparr>ti_type := type\<rparr>"

definition TimerInfo_SetRepeat :: "bool \<Rightarrow> timer_info \<Rightarrow> timer_info" where
  "TimerInfo_SetRepeat repeats t = t\<lparr>ti_repeat := repeats\<rparr>"

definition TimerInfo_SetInterval :: "u64 \<Rightarrow> timer_info \<Rightarrow> timer_info" where
  "TimerInfo_SetInterval interval t = t\<lparr>ti_interval := interval\<rparr>"

definition TimerInfo_ToString :: "timer_info \<Rightarrow> string" where
  "TimerInfo_ToString t =
     ''TimerInfo [type:'' @ string_of_int (sint (ti_type t)) @ '', repeat:''
       @ (if ti_repeat t then ''true'' else ''false'') @ '', interval:''
       @ string_of_nat (unat (ti_interval t)) @ '']''"

record timesvc =
  ts_instance :: bool
  ts_GetBootTimeMs :: "int \<times> u64"
  ts_CreateTimer :: "timer_info \<Rightarrow> u64"
  ts_StartTimer :: "u64 \<Rightarrow> u64 \<Rightarrow> bool"
  ts_DestroyTimer :: "u64 \<Rightarrow> bool"
  ts_TIMER_TYPE_EXACT :: u32
  ts_TIMER_TYPE_WAKEUP :: u32
  ts_TIMER_TYPE_REALTIME :: u32

type_synonym live_timers = "(u64 \<times> timer_info) list"

definition timer_type :: "timesvc \<Rightarrow> u32" where
  "timer_type T = or (or (ts_TIMER_TYPE_EXACT T) (ts_TIMER_TYPE_WAKEUP T)) (ts_TIMER_TYPE_REALTIME T)"

definition StartCoreTimer :: "timesvc \<Rightarrow> u64 \<Rightarrow> u64 \<Rightarrow> live_timers \<Rightarrow> u64 \<times> live_timers" where
  "StartCoreTimer T triggerTime intervalMs live =
     (let repeats = (intervalMs \<noteq> 0);
          info1 = TimerInfo_SetRepeat repeats SysInstallerTimerInfo_new;
          info2 = (if repeats then TimerInfo_SetInterval intervalMs info1 else info1);
          info = TimerInfo_SetType (timer_type T) info2
      in if \<not> ts_instance T then (0, live)
         else let timerId = ts_CreateTimer T info
         in if timerId = 0 then (0, live)
            else if \<not> ts_StartTimer T timerId triggerTime then
              (0, if ts_DestroyTimer T timerId then live else (timerId, info) # live)
            else (timerId, (timerId, info) # live))"

definition GetSystemBootTime :: "timesvc \<Rightarrow> u64" where
  "GetSystemBootTime T =
     (if \<not> ts_instance T then 0
      else case ts_GetBootTimeMs T of (ret, currentTime) \<Rightarrow> if ret \<noteq> 0 then 0 else currentTime)"

definition RegisterTimer :: "timesvc \<Rightarrow> u64 \<Rightarrow> live_timers \<Rightarrow> u64 \<times> live_timers" where
  "RegisterTimer T delayMs live =
     (let now = GetSystemBootTime T
      in if now = 0 then (0, live) else StartCoreTimer T (now + delayMs) 0 live)"

definition RegisterRepeatTimer :: "timesvc \<Rightarrow> u64 \<Rightarrow> u64 \<Rightarrow> live_timers \<Rightarrow> u64 \<times> live_timers" where
  "RegisterRepeatTimer T delayMs intervalMs live =
     (if intervalMs = 0 then (0, live)
      else let now = GetSystemBootTime T
      in if now = 0 then (0, live) else StartCoreTimer T (now + delayMs) intervalMs live)"

definition UnRegisterTimer :: "timesvc \<Rightarrow> u64 \<Rightarrow> live_timers \<Rightarrow> live_timers" where
  "UnRegisterTimer T timerId live =
     (if \<not> ts_instance T then live
      else if \<not> ts_DestroyTimer T timerId then live
      else filter (\<lambda>(i, info). i \<noteq> timerId) live)"

text \<open>What a timer callback finds: \<open>OnTrigger\<close> calls it when there is one.\<close>

definition OnTrigger :: "('s \<Rightarrow> 's) option \<Rightarrow> 's \<Rightarrow> 's" where
  "OnTrigger callback s = (case callback of None \<Rightarrow> s | Some f \<Rightarrow> f s)"

text \<open>A registered timer is live, repeats when asked to and was given a positive interval.\<close>

lemma RegisterRepeatTimer_live:
  assumes "RegisterRepeatTimer T delayMs intervalMs live = (i, live1)" and "i \<noteq> 0"
  shows "intervalMs \<noteq> 0 \<and> live1 = (i, \<lparr>ti_type = timer_type T, ti_repeat = True, ti_interval = intervalMs\<rparr>) # live"
  using assms by (auto simp: RegisterRepeatTimer_def StartCoreTimer_def TimerInfo_SetRepeat_def
      TimerInfo_SetInterval_def TimerInfo_SetType_def SysInstallerTimerInfo_new_def Let_def split: if_splits)

end
