(* ===== verification/Installer_Server.thy ===== *)
theory Installer_Server
  imports Installer_Manager Stream_Install Installer_Timer "HOL-Library.Multiset"
begin

text \<open>
  frameworks/ipc_server/sys_installer_server.cpp: the system ability that guards every call
  against an exit, forwards it to the manager or the stream manager, and unloads itself after
  three idle checks of its timer.
\<close>

section \<open>The exit guard\<close>

definition MAX_RUNNING_SET_SIZE :: nat where
  "MAX_RUNNING_SET_SIZE = 256"

text \<open>The constructor answers whether the tag was inserted; \<open>erase(tag)\<close> removes every copy.\<close>

definition guard_enter :: "string \<Rightarrow> string multiset \<Rightarrow> bool \<times> string multiset" where
  "guard_enter tag runningSet =
     (if size runningSet < MAX_RUNNING_SET_SIZE then (True, add_mset tag runningSet)
      else (False, runningSet))"

definition guard_leave :: "bool \<Rightarrow> string \<Rightarrow> string multiset \<Rightarrow> string multiset" where
  "guard_leave isTagInserted tag runningSet =
     (if isTagInserted then filter_mset (\<lambda>t. t \<noteq> tag) runningSet else runningSet)"

section \<open>The server\<close>

record ('r, 'b) server =
  sv_manager :: manager
  sv_stream :: "('r, 'b) stream_manager"
  sv_bStreamUpgrade :: bool
  sv_runningSet :: "string multiset"
  sv_exitCheckTimerId :: u64
  sv_idleCounter :: u32
  sv_live :: live_timers
  sv_unloads :: nat

text \<open>\<open>DEFINE_EXIT_GUARD()\<close>: the guard lives as long as the call.\<close>

definition guarded ::
  "string \<Rightarrow> (('r, 'b) server \<Rightarrow> 'a \<times> ('r, 'b) server) \<Rightarrow> ('r, 'b) server \<Rightarrow> 'a \<times> ('r, 'b) server"
where
  "guarded tag call s =
     (case guard_enter tag (sv_runningSet s) of (inserted, running) \<Rightarrow>
      (case call (s\<lparr>sv_runningSet := running\<rparr>) of (ret, s1) \<Rightarrow>
         (ret, s1\<lparr>sv_runningSet := guard_leave inserted tag (sv_runningSet s1)\<rparr>)))"

definition on_manager ::
  "(manager \<Rightarrow> 'a \<times> manager) \<Rightarrow> ('r, 'b) server \<Rightarrow> 'a \<times> ('r, 'b) server"
where
  "on_manager f s = (case f (sv_manager s) of (r, m) \<Rightarrow> (r, s\<lparr>sv_manager := m\<rparr>))"

definition on_stream ::
  "(('r, 'b) stream_manager \<Rightarrow> 'a \<times> ('r, 'b) stream_manager) \<Rightarrow> ('r, 'b) server
   \<Rightarrow> 'a \<times> ('r, 'b) server"
where
  "on_stream f s = (case f (sv_stream s) of (r, m) \<Rightarrow> (r, s\<lparr>sv_stream := m\<rparr>))"

definition Server_SysInstallerInit ::
  "(manager \<Rightarrow> manager) list \<Rightarrow> string \<Rightarrow> bool \<Rightarrow> ('r, 'b) server \<Rightarrow> int \<times> ('r, 'b) server"
where
  "Server_SysInstallerInit H taskId bStreamUpgrade =
     guarded ''SysInstallerInit'' (\<lambda>s.
       let s1 = s\<lparr>sv_bStreamUpgrade := bStreamUpgrade\<rparr>
       in if bStreamUpgrade then (0, snd (on_stream Stream_SysInstallerInit s1))
          else (0, snd (on_manager (Manager_SysInstallerInit H taskId) s1)))"

definition Server_StartUpdatePackageZip ::
  "updlib \<Rightarrow> string \<Rightarrow> string \<Rightarrow> ('r, 'b) server \<Rightarrow> int \<times> ('r, 'b) server"
where
  "Server_StartUpdatePackageZip U taskId pkgPath =
     guarded ''StartUpdatePackageZip'' (on_manager (Manager_StartUpdatePackageZip U taskId pkgPath))"

definition Server_StartStreamUpdate ::
  "('r, 'b) streamlib \<Rightarrow> ('r, 'b) server \<Rightarrow> int \<times> ('r, 'b) server"
where
  "Server_StartStreamUpdate L = guarded ''StartStreamUpdate'' (on_stream (StartStreamUpdate L))"

definition Server_StopStreamUpdate ::
  "('r, 'b) streamlib \<Rightarrow> ('r, 'b) server \<Rightarrow> int \<times> ('r, 'b) server"
where
  "Server_StopStreamUpdate L = guarded ''StopStreamUpdate'' (on_stream (StopStreamUpdate L))"

definition Server_ProcessStreamData ::
  "('r, 'b) streamlib \<Rightarrow> u8 list option \<Rightarrow> ('r, 'b) server \<Rightarrow> int \<times> ('r, 'b) server"
where
  "Server_ProcessStreamData L buffer = guarded ''ProcessStreamData'' (on_stream (ProcessStreamData L buffer))"

definition Server_SetUpdateCallback ::
  "string \<Rightarrow> nat option \<Rightarrow> ('r, 'b) server \<Rightarrow> int \<times> ('r, 'b) server"
where
  "Server_SetUpdateCallback taskId cb =
     guarded ''SetUpdateCallback'' (\<lambda>s.
       if sv_bStreamUpgrade s then on_stream (Stream_SetUpdateCallback cb) s
       else on_manager (Manager_SetUpdateCallback taskId cb) s)"

definition Server_GetUpdateStatus :: "string \<Rightarrow> ('r, 'b) server \<Rightarrow> int \<times> ('r, 'b) server" where
  "Server_GetUpdateStatus taskId =
     guarded ''GetUpdateStatus'' (\<lambda>s.
       (if sv_bStreamUpgrade s then Stream_GetUpdateStatus (sv_stream s)
        else Manager_GetUpdateStatus taskId (sv_manager s), s))"

fun package_tag :: "package_call \<Rightarrow> string" where
  "package_tag StartUpdateParaZip = ''StartUpdateParaZip''"
| "package_tag StartDeleteParaZip = ''StartDeleteParaZip''"
| "package_tag AccDecompressAndVerifyPkg = ''AccDecompressAndVerifyPkg''"
| "package_tag AccDeleteDir = ''AccDeleteDir''"
| "package_tag StartUpdateVabPackageZip = ''StartUpdateVabPackageZip''"
| "package_tag StartUpdateSingularPackageZip = ''StartUpdateSingularPackageZip''"
| "package_tag StartUpdateABPackageZip = ''StartUpdateABPackageZip''"
| "package_tag CancelUpdateVabPackageZip = ''CancelUpdateVabPackageZip''"
| "package_tag GetPartitionAvailableSize = ''GetPartitionAvailableSize''"
| "package_tag StartVabMerge = ''StartVabMerge''"
| "package_tag CreateVabSnapshotCowImg = ''CreateVabSnapshotCowImg''"
| "package_tag ClearVabMetadataAndCow = ''ClearVabMetadataAndCow''"

fun vendor_tag :: "vendor_call \<Rightarrow> string" where
  "vendor_tag VabUpdateActive = ''VabUpdateActive''"
| "vendor_tag GetMetadataResult = ''GetMetadataResult''"
| "vendor_tag StartAbSync = ''StartAbSync''"
| "vendor_tag SetAiMergeState = ''SetAiMergeState''"
| "vendor_tag SetUpdateVabMode = ''SetUpdateVabMode''"
| "vendor_tag InstallCloudRom = ''InstallCloudRom''"
| "vendor_tag UninstallCloudRom = ''UninstallCloudRom''"
| "vendor_tag GetFeatureStatus = ''GetFeatureStatus''"
| "vendor_tag GetAllFeatureStatus = ''GetAllFeatureStatus''"
| "vendor_tag ClearCloudRom = ''ClearCloudRom''"
| "vendor_tag UpdateCloudRomVersion = ''UpdateCloudRomVersion''"
| "vendor_tag ClearVabPatch = ''ClearVabPatch''"
| "vendor_tag GetPartitionStashSize = ''GetPartitionStashSize''"

definition Server_package_call :: "package_call \<Rightarrow> ('r, 'b) server \<Rightarrow> int \<times> ('r, 'b) server" where
  "Server_package_call c = guarded (package_tag c) (\<lambda>s. (Manager_package_call c (sv_manager s), s))"

definition Server_vendor_call :: "vendor_call \<Rightarrow> ('r, 'b) server \<Rightarrow> int \<times> ('r, 'b) server" where
  "Server_vendor_call c = guarded (vendor_tag c) (\<lambda>s. (Manager_vendor_call c (sv_manager s), s))"

text \<open>The calls of the second group that stand apart in the file.\<close>

definition Server_StartAbSync where "Server_StartAbSync = Server_vendor_call StartAbSync"
definition Server_SetAiMergeState where "Server_SetAiMergeState = Server_vendor_call SetAiMergeState"
definition Server_SetUpdateVabMode where "Server_SetUpdateVabMode = Server_vendor_call SetUpdateVabMode"
definition Server_ClearVabPatch where "Server_ClearVabPatch = Server_vendor_call ClearVabPatch"
definition Server_GetPartitionStashSize where
  "Server_GetPartitionStashSize = Server_vendor_call GetPartitionStashSize"

definition Server_GetUpdateResult ::
  "string \<Rightarrow> ('r, 'b) server \<Rightarrow> (int \<times> string) \<times> ('r, 'b) server"
where
  "Server_GetUpdateResult taskId =
     guarded ''GetUpdateResult'' (\<lambda>s.
       case on_manager (Manager_GetUpdateResult taskId) s of (r, s1) \<Rightarrow> ((0, r), s1))"

definition IsTaskRunning :: "('r, 'b) server \<Rightarrow> bool" where
  "IsTaskRunning s = (sv_runningSet s \<noteq> {#} \<or> Manager_IsTaskRunning (sv_manager s))"

text \<open>
  \<open>samgr\<close> says whether the system ability manager is there; an unload that fails is only
  logged, so every request to unload counts.
\<close>

definition ExitSysInstaller :: "bool \<Rightarrow> ('r, 'b) server \<Rightarrow> int \<times> ('r, 'b) server" where
  "ExitSysInstaller samgr s =
     (if IsTaskRunning s then (-1, s)
      else if \<not> samgr then (0, s)
      else (0, s\<lparr>sv_unloads := sv_unloads s + 1\<rparr>))"

section \<open>Permissions\<close>

text \<open>The caller: its uid and whether its token has ohos.permission.UPDATE_SYSTEM.\<close>

record caller =
  ca_uid :: int
  ca_granted :: bool

definition IsPermissionGranted :: "caller \<Rightarrow> bool" where
  "IsPermissionGranted c = ca_granted c"

definition CheckCallingPerm :: "int \<Rightarrow> caller \<Rightarrow> bool" where
  "CheckCallingPerm USER_UPDATE_AUTHORITY c =
     (if ca_uid c = 0 then True else ca_uid c = USER_UPDATE_AUTHORITY \<and> IsPermissionGranted c)"

definition CallbackEnter :: "int \<Rightarrow> int \<Rightarrow> int \<Rightarrow> caller \<Rightarrow> int" where
  "CallbackEnter USER_UPDATE_AUTHORITY ERR_INVALID_VALUE ERR_NONE c =
     (if \<not> CheckCallingPerm USER_UPDATE_AUTHORITY c then ERR_INVALID_VALUE else ERR_NONE)"

definition CallbackExit :: "int \<Rightarrow> int" where
  "CallbackExit ERR_NONE = ERR_NONE"

section \<open>The idle check\<close>

definition EXIT_CHECK_INTERVAL_MS :: u64 where
  "EXIT_CHECK_INTERVAL_MS = 20 * 60 * 1000"

definition EXIT_CHECK_IDLE_COUNT_THRESHOLD :: u32 where
  "EXIT_CHECK_IDLE_COUNT_THRESHOLD = 3"

text \<open>
  The interval is a parameter only on root builds: \<open>param\<close> is None on the others, and otherwise
  the answer of \<open>GetParameter\<close> with the number the text converts to.
\<close>

definition GetCheckIntervalMs :: "(int \<times> 32 word) option \<Rightarrow> u64" where
  "GetCheckIntervalMs param =
     (case param of
        None \<Rightarrow> EXIT_CHECK_INTERVAL_MS
      | Some (ret, checkInterval) \<Rightarrow>
          if ret \<le> 0 then EXIT_CHECK_INTERVAL_MS
          else if sint checkInterval \<le> 0 then EXIT_CHECK_INTERVAL_MS
          else let checkIntervalMs = scast checkInterval * 1000
               in if checkIntervalMs > EXIT_CHECK_INTERVAL_MS then EXIT_CHECK_INTERVAL_MS
                  else checkIntervalMs)"

text \<open>The timer's callback.\<close>

definition exit_check :: "bool \<Rightarrow> ('r, 'b) server \<Rightarrow> ('r, 'b) server" where
  "exit_check samgr s =
     (let s1 = s\<lparr>sv_idleCounter := (if IsTaskRunning s then 0 else sv_idleCounter s + 1)\<rparr>
      in if sv_idleCounter s1 \<ge> EXIT_CHECK_IDLE_COUNT_THRESHOLD then snd (ExitSysInstaller samgr s1)
         else s1)"

definition StartExitCheckTimer ::
  "timesvc \<Rightarrow> (int \<times> 32 word) option \<Rightarrow> ('r, 'b) server \<Rightarrow> u64 \<times> ('r, 'b) server"
where
  "StartExitCheckTimer T param s =
     (let checkIntervalMs = GetCheckIntervalMs param
      in case RegisterRepeatTimer T checkIntervalMs checkIntervalMs (sv_live s) of
           (timerId, live) \<Rightarrow> (timerId, s\<lparr>sv_live := live\<rparr>))"

definition Server_OnStart ::
  "timesvc \<Rightarrow> (int \<times> 32 word) option \<Rightarrow> ('r, 'b) server \<Rightarrow> ('r, 'b) server"
where
  "Server_OnStart T param s =
     (if sv_exitCheckTimerId s = 0 then
        (case StartExitCheckTimer T param s of (timerId, s1) \<Rightarrow> s1\<lparr>sv_exitCheckTimerId := timerId\<rparr>)
      else s)"

definition Server_OnStop :: "timesvc \<Rightarrow> ('r, 'b) server \<Rightarrow> ('r, 'b) server" where
  "Server_OnStop T s =
     (if sv_exitCheckTimerId s \<noteq> 0 then
        s\<lparr>sv_live := UnRegisterTimer T (sv_exitCheckTimerId s) (sv_live s), sv_exitCheckTimerId := 0\<rparr>
      else s)"

section \<open>Calls in flight\<close>

text \<open>
  Binder threads serve calls at the same time. A call in flight is its tag and whether its guard
  inserted it; a call may start at any time and any of those in flight may return.
\<close>

type_synonym flight = "(string \<times> bool) multiset \<times> string multiset"

inductive guard_step :: "flight \<Rightarrow> flight \<Rightarrow> bool" where
  call_starts: "guard_enter tag running = (ins, running1) \<Longrightarrow>
     guard_step (calls, running) (add_mset (tag, ins) calls, running1)"
| call_returns: "guard_leave ins tag running = running1 \<Longrightarrow>
     guard_step (add_mset (tag, ins) calls, running) (calls, running1)"

inductive in_flight :: "flight \<Rightarrow> bool" where
  none: "in_flight ({#}, {#})"
| then_step: "in_flight s \<Longrightarrow> guard_step s t \<Longrightarrow> in_flight t"

text \<open>Every copy of a tag belongs to a call of that tag that inserted it and is still in flight.\<close>

lemma filter_mset_neq_subset:
  "A \<subseteq># add_mset x B \<Longrightarrow> filter_mset (\<lambda>t. t \<noteq> x) A \<subseteq># B"
proof -
  assume "A \<subseteq># add_mset x B"
  then have "filter_mset (\<lambda>t. t \<noteq> x) A \<subseteq># filter_mset (\<lambda>t. t \<noteq> x) (add_mset x B)"
    by (rule multiset_filter_mono)
  also have "\<dots> \<subseteq># B" by simp
  finally show ?thesis .
qed

lemma in_flight_covered:
  "in_flight s \<Longrightarrow> snd s \<subseteq># image_mset fst (filter_mset snd (fst s))"
proof (induction rule: in_flight.induct)
  case none
  show ?case by simp
next
  case (then_step s t)
  from then_step.hyps(2) then_step.IH show ?case
  proof cases
    case (call_starts tag running ins running1 calls)
    then show ?thesis using then_step.IH by (auto simp: guard_enter_def split: if_splits)
  next
    case (call_returns ins tag running running1 calls)
    then show ?thesis using then_step.IH
      by (auto simp: guard_leave_def filter_mset_neq_subset split: if_splits)
  qed
qed

lemma in_flight_bounded: "in_flight s \<Longrightarrow> size (snd s) \<le> MAX_RUNNING_SET_SIZE"
proof (induction rule: in_flight.induct)
  case (then_step s t)
  from then_step.hyps(2) show ?case
  proof cases
    case (call_starts tag running ins running1 calls)
    then show ?thesis using then_step.IH by (auto simp: guard_enter_def split: if_splits)
  next
    case (call_returns ins tag running running1 calls)
    have "size (filter_mset (\<lambda>t. t \<noteq> tag) running) \<le> size running"
      by (rule size_filter_mset_lesseq)
    with then_step.IH call_returns show ?thesis
      using le_trans [of "size {#t \<in># running. t \<noteq> tag#}" "size running"]
      by (auto simp: guard_leave_def split: if_splits)
  qed
qed simp

text \<open>C32. When no call is in flight the running set is empty, so a finished call never keeps the
  service alive; and the set never holds more than 256 tags.\<close>

theorem Guard_releases:
  assumes "in_flight (calls, running)"
  shows "running \<subseteq># image_mset fst (filter_mset snd calls) \<and> size running \<le> 256
     \<and> (calls = {#} \<longrightarrow> running = {#})"
  using in_flight_covered [OF assms] in_flight_bounded [OF assms]
  by (auto simp: MAX_RUNNING_SET_SIZE_def)

text \<open>Two calls of the same operation start and the first returns.\<close>

lemma two_in_flight: "in_flight ({#(tag, True), (tag, True)#}, {#tag, tag#})"
proof -
  have 1: "in_flight ({#(tag, True)#}, {#tag#})"
    by (rule in_flight.then_step [OF in_flight.none call_starts]) (simp add: guard_enter_def MAX_RUNNING_SET_SIZE_def)
  show ?thesis
    by (rule in_flight.then_step [OF 1 call_starts]) (simp add: guard_enter_def MAX_RUNNING_SET_SIZE_def)
qed

lemma one_forgotten: "in_flight ({#(tag, True)#}, {#})"
  by (rule in_flight.then_step [OF two_in_flight call_returns]) (simp add: guard_leave_def)

theorem Guard_releases_witness:
  "size {#''SysInstallerInit'', ''SysInstallerInit''#} \<le> (256::nat)"
  using Guard_releases [OF two_in_flight [of "''SysInstallerInit''"]] by simp

text \<open>The guard does not do its job: when two calls of one operation overlap, the first that
  returns erases the tag of the other, and \<open>ExitSysInstaller\<close> unloads the service while the
  other call is still in flight, whatever the operation and the idle manager.\<close>

theorem Exit_during_call:
  fixes s :: "('r, 'b) server"
  shows "in_flight ({#(tag, True)#}, {#})
     \<and> ExitSysInstaller True (s\<lparr>sv_runningSet := {#}\<rparr>)
         = (if Manager_IsTaskRunning (sv_manager s) then (-1, s\<lparr>sv_runningSet := {#}\<rparr>)
            else (0, s\<lparr>sv_runningSet := {#}, sv_unloads := sv_unloads s + 1\<rparr>))"
  using one_forgotten by (auto simp: ExitSysInstaller_def IsTaskRunning_def)

section \<open>The idle check\<close>

fun idle_ticks :: "nat \<Rightarrow> ('r, 'b) server \<Rightarrow> ('r, 'b) server" where
  "idle_ticks 0 s = s"
| "idle_ticks (Suc n) s = exit_check True (idle_ticks n s)"

lemma idle_ticks_frame [simp]:
  "sv_runningSet (idle_ticks n s) = sv_runningSet s \<and> sv_manager (idle_ticks n s) = sv_manager s"
  by (induction n) (auto simp: exit_check_def ExitSysInstaller_def Let_def IsTaskRunning_def)

lemma idle_ticks_running [simp]: "IsTaskRunning (idle_ticks n s) = IsTaskRunning s"
  by (simp add: IsTaskRunning_def)

lemma idle_ticks_counts:
  assumes "\<not> IsTaskRunning s" and "sv_idleCounter s = 0" and "n < 2 ^ 32"
  shows "unat (sv_idleCounter (idle_ticks n s)) = n
     \<and> sv_unloads (idle_ticks n s) = sv_unloads s + (n - 2)"
  using assms(3)
proof (induction n)
  case 0
  then show ?case using assms by simp
next
  case (Suc n)
  let ?s = "idle_ticks n s"
  have IH: "unat (sv_idleCounter ?s) = n" "sv_unloads ?s = sv_unloads s + (n - 2)"
    using Suc by simp_all
  have u: "unat (sv_idleCounter ?s + 1) = Suc n"
    using IH(1) Suc.prems by (simp add: unat_add_lem [THEN iffD1] unat_word_ariths)
  have idle: "\<not> IsTaskRunning (?s\<lparr>sv_idleCounter := c\<rparr>)" for c
    using assms(1) by (simp add: IsTaskRunning_def)
  have le: "(EXIT_CHECK_IDLE_COUNT_THRESHOLD \<le> sv_idleCounter ?s + 1) = (3 \<le> Suc n)"
    using u by (simp add: EXIT_CHECK_IDLE_COUNT_THRESHOLD_def word_le_nat_alt)
  show ?case
    using assms(1) IH u le idle
    by (auto simp: exit_check_def Let_def ExitSysInstaller_def)
qed

text \<open>C33. An idle service asks to be unloaded at the third check in a row that finds it idle and
  at every one after it, and at none before; a check that finds it at work resets the count.\<close>

theorem Idle_exit:
  fixes s :: "('r, 'b) server"
  assumes "\<not> IsTaskRunning s" and "sv_idleCounter s = 0" and "n < 2 ^ 32"
  shows "sv_unloads (idle_ticks n s) = sv_unloads s + (n - 2)
     \<and> (\<forall>busy :: ('r, 'b) server. IsTaskRunning busy \<longrightarrow>
          exit_check True busy = busy\<lparr>sv_idleCounter := 0\<rparr>)"
  using idle_ticks_counts [OF assms]
  by (auto simp: exit_check_def Let_def EXIT_CHECK_IDLE_COUNT_THRESHOLD_def)

definition server_new :: "'r \<Rightarrow> ('r, 'b) server" where
  "server_new r =
     \<lparr>sv_manager = None, sv_stream = stream_new r, sv_bStreamUpgrade = False, sv_runningSet = {#},
      sv_exitCheckTimerId = 0, sv_idleCounter = 0, sv_live = [], sv_unloads = 0\<rparr>"

theorem Idle_exit_witness:
  "sv_unloads (idle_ticks 5 (server_new () :: (unit, unit) server)) = 3"
  using Idle_exit [of "server_new () :: (unit, unit) server" 5]
  by (simp add: server_new_def IsTaskRunning_def Manager_IsTaskRunning_def)

lemma seconds_to_ms:
  fixes w :: "32 word"
  assumes "0 < sint w"
  shows "uint (scast w * 1000 :: u64) = sint w * 1000"
proof -
  have b: "sint w < 2147483648" using sint_lt [of w] by simp
  have t: "take_bit 64 (sint w) = sint w"
    by (rule take_bit_int_eq_self) (use assms b in simp_all)
  have "uint (scast w :: u64) = sint w"
    using assms by (simp only: scast_eq unsigned_of_int) (simp add: t)
  then have "uint (scast w * 1000 :: u64) = sint w * 1000 mod 2 ^ 64"
    by (simp add: uint_mult_lem uint_word_ariths(3))
  then show ?thesis using assms b by (simp add: mod_pos_pos_trivial)
qed

text \<open>Whatever the parameter says, the interval of the check is between a second and twenty
  minutes.\<close>

theorem GetCheckIntervalMs_bounds:
  "1000 \<le> uint (GetCheckIntervalMs param) \<and> uint (GetCheckIntervalMs param) \<le> 1200000"
proof -
  have "1000 \<le> uint (scast w * 1000 :: u64)" if "0 < sint (w :: 32 word)" for w
    using that by (simp add: seconds_to_ms)
  then show ?thesis
    by (auto simp: GetCheckIntervalMs_def EXIT_CHECK_INTERVAL_MS_def word_less_def Let_def not_le
        split: option.split prod.split)
qed

end
