(* ===== verification/Module_Proxy.thy ===== *)
theory Module_Proxy
  imports Module_Ipc Installer_Server Sample_Package
begin

text \<open>
  The two ends of the module update interface: ipc_client's \<open>ModuleUpdateProxy\<close> and
  ipc_server's \<open>ModuleUpdateStub\<close>. \<open>IModuleUpdate\<close> is a record of operations over the state of
  whoever implements it: the service does, and so does the proxy, which only knows how to send a
  request. \<open>E\<close> holds the error codes of the IPC library, \<open>iface_cast\<close> its cast of a remote
  object to a callback, \<open>base\<close> the request handler of the stub's base class.
\<close>

record ('o, 's) imodule_update =
  im_InstallModulePackage :: "string \<Rightarrow> 's \<Rightarrow> int \<times> 's"
  im_UninstallModulePackage :: "string \<Rightarrow> 's \<Rightarrow> int \<times> 's"
  im_GetModulePackageInfo ::
    "string \<Rightarrow> ModulePackageInfo list \<Rightarrow> 's \<Rightarrow> (int \<times> ModulePackageInfo list) \<times> 's"
  im_ExitModuleUpdate :: "'s \<Rightarrow> int \<times> 's"
  im_GetHmpVersionInfo :: "'s \<Rightarrow> HmpVersionInfo list \<times> 's"
  im_StartUpdateHmpPackage :: "string \<Rightarrow> 'o option \<Rightarrow> 's \<Rightarrow> int \<times> 's"
  im_GetHmpUpdateResult :: "'s \<Rightarrow> HmpUpdateInfo list \<times> 's"

record ipc_codes =
  e_ERR_OK :: int
  e_ERR_FLATTEN_OBJECT :: int
  e_ERR_INVALID_VALUE :: int
  e_ERR_NULL_OBJECT :: int

definition descriptor :: u16string where
  "descriptor = List.map (\<lambda>c. word_of_nat (of_char c)) ''OHOS.Updater.IModuleUpdate''"

datatype ModuleUpdateInterfaceCode =
    INSTALL_MODULE_PACKAGE
  | UNINSTALL_MODULE_PACKAGE
  | GET_MODULE_PACKAGE_INFO
  | REPORT_MODULE_UPDATE_STATUS
  | EXIT_MODULE_UPDATE
  | GET_HMP_VERSION_INFO
  | START_UPDATE_HMP_PACKAGE
  | GET_HMP_UPDATE_RESULT

fun request :: "ModuleUpdateInterfaceCode \<Rightarrow> u32" where
  "request INSTALL_MODULE_PACKAGE = 1"
| "request UNINSTALL_MODULE_PACKAGE = 2"
| "request GET_MODULE_PACKAGE_INFO = 3"
| "request REPORT_MODULE_UPDATE_STATUS = 4"
| "request EXIT_MODULE_UPDATE = 5"
| "request GET_HMP_VERSION_INFO = 6"
| "request START_UPDATE_HMP_PACKAGE = 7"
| "request GET_HMP_UPDATE_RESULT = 8"

section \<open>The stub\<close>

type_synonym ('p, 's) handler = "'p \<Rightarrow> 'p \<Rightarrow> 's \<Rightarrow> int \<times> 'p \<times> 's"

text \<open>A handler gets the request's parcel and the reply; it answers its result, the reply and the
  service. It is called with the stub itself, which is never null.\<close>

definition InstallModulePackageStub ::
  "('p, 'o) parcel_ops \<Rightarrow> ('o, 's) imodule_update \<Rightarrow> ('p, 's) handler"
where
  "InstallModulePackageStub P service data reply s =
     (case ReadString P data of (pkgPath, d1) \<Rightarrow>
      case im_InstallModulePackage service pkgPath s of (ret, s1) \<Rightarrow>
        (0, snd (pc_WriteInt32 P ret reply), s1))"

definition UninstallModulePackageStub ::
  "('p, 'o) parcel_ops \<Rightarrow> ('o, 's) imodule_update \<Rightarrow> ('p, 's) handler"
where
  "UninstallModulePackageStub P service data reply s =
     (case ReadString P data of (hmpName, d1) \<Rightarrow>
      case im_UninstallModulePackage service hmpName s of (ret, s1) \<Rightarrow>
        (0, snd (pc_WriteInt32 P ret reply), s1))"

definition GetModulePackageInfoStub ::
  "('p, 'o) parcel_ops \<Rightarrow> ('o, 's) imodule_update \<Rightarrow> ('p, 's) handler"
where
  "GetModulePackageInfoStub P service data reply s =
     (case ReadString P data of (hmpName, d1) \<Rightarrow>
      case im_GetModulePackageInfo service hmpName [] s of ((ret, infos), s1) \<Rightarrow>
        (0, snd (pc_WriteInt32 P ret (WriteModulePackageInfos P infos reply)), s1))"

definition ExitModuleUpdateStub ::
  "('p, 'o) parcel_ops \<Rightarrow> ('o, 's) imodule_update \<Rightarrow> ('p, 's) handler"
where
  "ExitModuleUpdateStub P service data reply s =
     (case im_ExitModuleUpdate service s of (ret, s1) \<Rightarrow> (0, snd (pc_WriteInt32 P ret reply), s1))"

definition GetHmpVersionInfoStub ::
  "('p, 'o) parcel_ops \<Rightarrow> ('o, 's) imodule_update \<Rightarrow> ('p, 's) handler"
where
  "GetHmpVersionInfoStub P service data reply s =
     (case im_GetHmpVersionInfo service s of (versionInfo, s1) \<Rightarrow>
        (0, fold (\<lambda>info p. snd (pc_WriteParcelable P (HmpVersionInfo_Marshalling P info) p)) versionInfo
              (snd (pc_WriteInt32 P (size_int32 (length versionInfo)) reply)), s1))"

definition StartUpdateHmpPackageStub ::
  "('p, 'o) parcel_ops \<Rightarrow> ipc_codes \<Rightarrow> ('o \<Rightarrow> 'o option) \<Rightarrow> ('o, 's) imodule_update \<Rightarrow> ('p, 's) handler"
where
  "StartUpdateHmpPackageStub P E iface_cast service data reply s =
     (case pc_ReadRemoteObject P data of (object, d1) \<Rightarrow>
      case object of None \<Rightarrow> (-1, reply, s) | Some ob \<Rightarrow>
      case iface_cast ob of None \<Rightarrow> (e_ERR_NULL_OBJECT E, reply, s) | Some updateCallback \<Rightarrow>
      case ReadString P d1 of (path, d2) \<Rightarrow>
      case im_StartUpdateHmpPackage service path (Some updateCallback) s of (ret, s1) \<Rightarrow>
        (0, snd (pc_WriteInt32 P ret reply), s1))"

definition GetHmpUpdateResultStub ::
  "('p, 'o) parcel_ops \<Rightarrow> ('o, 's) imodule_update \<Rightarrow> ('p, 's) handler"
where
  "GetHmpUpdateResultStub P service data reply s =
     (case im_GetHmpUpdateResult service s of (updateInfo, s1) \<Rightarrow>
        (0, fold (\<lambda>info p. snd (pc_WriteParcelable P (HmpUpdateInfo_Marshalling P info) p)) updateInfo
              (snd (pc_WriteInt32 P (size_int32 (length updateInfo)) reply)), s1))"

text \<open>The constructor's table: there is no handler of \<open>REPORT_MODULE_UPDATE_STATUS\<close>.\<close>

definition requestFuncMap ::
  "('p, 'o) parcel_ops \<Rightarrow> ipc_codes \<Rightarrow> ('o \<Rightarrow> 'o option) \<Rightarrow> ('o, 's) imodule_update
   \<Rightarrow> (u32 \<times> ('p, 's) handler) list"
where
  "requestFuncMap P E iface_cast service =
     [(request INSTALL_MODULE_PACKAGE, InstallModulePackageStub P service),
      (request UNINSTALL_MODULE_PACKAGE, UninstallModulePackageStub P service),
      (request GET_MODULE_PACKAGE_INFO, GetModulePackageInfoStub P service),
      (request EXIT_MODULE_UPDATE, ExitModuleUpdateStub P service),
      (request GET_HMP_VERSION_INFO, GetHmpVersionInfoStub P service),
      (request START_UPDATE_HMP_PACKAGE, StartUpdateHmpPackageStub P E iface_cast service),
      (request GET_HMP_UPDATE_RESULT, GetHmpUpdateResultStub P service)]"

definition USER_UPDATE_AUTHORITY :: int where
  "USER_UPDATE_AUTHORITY = 6666"

definition Stub_IsPermissionGranted :: "caller \<Rightarrow> bool" where
  "Stub_IsPermissionGranted c = ca_granted c"

definition Stub_CheckCallingPerm :: "caller \<Rightarrow> bool" where
  "Stub_CheckCallingPerm c =
     (if ca_uid c = 0 then True else ca_uid c = USER_UPDATE_AUTHORITY \<and> Stub_IsPermissionGranted c)"

definition OnRemoteRequest ::
  "('p, 'o) parcel_ops \<Rightarrow> ipc_codes \<Rightarrow> ('o \<Rightarrow> 'o option) \<Rightarrow> (u32 \<Rightarrow> 'p \<Rightarrow> 'p \<Rightarrow> int \<times> 'p)
   \<Rightarrow> caller \<Rightarrow> ('o, 's) imodule_update \<Rightarrow> u32 \<Rightarrow> ('p, 's) handler"
where
  "OnRemoteRequest P E iface_cast base c service req data reply s =
     (case pc_ReadInterfaceToken P data of (token, d1) \<Rightarrow>
      if token \<noteq> descriptor then (-1, reply, s)
      else case map_of (requestFuncMap P E iface_cast service) req of
          Some handle \<Rightarrow>
            if \<not> Stub_CheckCallingPerm c then (-1, reply, s)
            else handle d1 reply s
        | None \<Rightarrow> (case base req d1 reply of (ret, reply1) \<Rightarrow> (ret, reply1, s)))"

section \<open>The proxy\<close>

text \<open>\<open>SendRequest\<close> of a remote object: the result, the reply and the far side.\<close>

type_synonym ('p, 's) remote = "u32 \<Rightarrow> 'p \<Rightarrow> 's \<Rightarrow> (int \<times> 'p) \<times> 's"

definition send_string ::
  "('p, 'o) parcel_ops \<Rightarrow> ipc_codes \<Rightarrow> u32 \<Rightarrow> ('p, 's) remote option \<Rightarrow> string \<Rightarrow> 's \<Rightarrow> 'p option \<times> 's"
where
  "send_string P E req remote str s =
     (case remote of None \<Rightarrow> (None, s) | Some SendRequest \<Rightarrow>
      case pc_WriteInterfaceToken P descriptor (pc_new P) of (written, data) \<Rightarrow>
      if \<not> written then (None, s)
      else case SendRequest req (WriteString P str data) s of ((ret, reply), s1) \<Rightarrow>
        (if ret \<noteq> e_ERR_OK E then None else Some reply, s1))"

definition send_empty ::
  "('p, 'o) parcel_ops \<Rightarrow> ipc_codes \<Rightarrow> u32 \<Rightarrow> ('p, 's) remote option \<Rightarrow> 's \<Rightarrow> 'p option \<times> 's"
where
  "send_empty P E req remote s =
     (case remote of None \<Rightarrow> (None, s) | Some SendRequest \<Rightarrow>
      case pc_WriteInterfaceToken P descriptor (pc_new P) of (written, data) \<Rightarrow>
      if \<not> written then (None, s)
      else case SendRequest req data s of ((ret, reply), s1) \<Rightarrow>
        (if ret \<noteq> e_ERR_OK E then None else Some reply, s1))"

definition Proxy_InstallModulePackage ::
  "('p, 'o) parcel_ops \<Rightarrow> ipc_codes \<Rightarrow> ('p, 's) remote option \<Rightarrow> string \<Rightarrow> 's \<Rightarrow> int \<times> 's"
where
  "Proxy_InstallModulePackage P E remote pkgPath s =
     (case send_string P E (request INSTALL_MODULE_PACKAGE) remote pkgPath s of
        (None, s1) \<Rightarrow> (e_ERR_FLATTEN_OBJECT E, s1)
      | (Some reply, s1) \<Rightarrow> (fst (pc_ReadInt32 P reply), s1))"

definition Proxy_UninstallModulePackage ::
  "('p, 'o) parcel_ops \<Rightarrow> ipc_codes \<Rightarrow> ('p, 's) remote option \<Rightarrow> string \<Rightarrow> 's \<Rightarrow> int \<times> 's"
where
  "Proxy_UninstallModulePackage P E remote hmpName s =
     (case send_string P E (request UNINSTALL_MODULE_PACKAGE) remote hmpName s of
        (None, s1) \<Rightarrow> (e_ERR_FLATTEN_OBJECT E, s1)
      | (Some reply, s1) \<Rightarrow> (fst (pc_ReadInt32 P reply), s1))"

definition Proxy_GetModulePackageInfo ::
  "('p, 'o) parcel_ops \<Rightarrow> ipc_codes \<Rightarrow> ('p, 's) remote option \<Rightarrow> string \<Rightarrow> ModulePackageInfo list \<Rightarrow> 's
   \<Rightarrow> (int \<times> ModulePackageInfo list) \<times> 's"
where
  "Proxy_GetModulePackageInfo P E remote hmpName infos s =
     (case send_string P E (request GET_MODULE_PACKAGE_INFO) remote hmpName s of
        (None, s1) \<Rightarrow> ((e_ERR_FLATTEN_OBJECT E, infos), s1)
      | (Some reply, s1) \<Rightarrow>
          (case ReadModulePackageInfos P infos reply of (infos1, r1) \<Rightarrow>
             ((fst (pc_ReadInt32 P r1), infos1), s1)))"

definition Proxy_ExitModuleUpdate ::
  "('p, 'o) parcel_ops \<Rightarrow> ipc_codes \<Rightarrow> ('p, 's) remote option \<Rightarrow> 's \<Rightarrow> int \<times> 's"
where
  "Proxy_ExitModuleUpdate P E remote s =
     (case send_empty P E (request EXIT_MODULE_UPDATE) remote s of
        (None, s1) \<Rightarrow> (e_ERR_FLATTEN_OBJECT E, s1)
      | (Some reply, s1) \<Rightarrow> (fst (pc_ReadInt32 P reply), s1))"

text \<open>The loop of \<open>count\<close> reads; a null answer is left out.\<close>

fun read_parcelables :: "nat \<Rightarrow> ('p \<Rightarrow> 'a option \<times> 'p) \<Rightarrow> 'a list \<Rightarrow> 'p \<Rightarrow> 'a list" where
  "read_parcelables 0 rd xs reply = xs"
| "read_parcelables (Suc n) rd xs reply =
     (case rd reply of
        (None, r1) \<Rightarrow> read_parcelables n rd xs r1
      | (Some x, r1) \<Rightarrow> read_parcelables n rd (xs @ [x]) r1)"

definition read_counted ::
  "('p, 'o) parcel_ops \<Rightarrow> ('p \<Rightarrow> 'a option \<times> 'p) \<Rightarrow> 'p \<Rightarrow> 'a list"
where
  "read_counted P rd reply =
     (case pc_ReadInt32 P reply of (n, r1) \<Rightarrow>
        if n > IPC_MAX_SIZE \<or> n < IPC_MIN_SIZE then []
        else read_parcelables (nat n) rd [] r1)"

definition Proxy_GetHmpVersionInfo ::
  "('p, 'o) parcel_ops \<Rightarrow> ipc_codes \<Rightarrow> ('p, 's) remote option \<Rightarrow> 's \<Rightarrow> HmpVersionInfo list \<times> 's"
where
  "Proxy_GetHmpVersionInfo P E remote s =
     (case send_empty P E (request GET_HMP_VERSION_INFO) remote s of
        (None, s1) \<Rightarrow> ([], s1)
      | (Some reply, s1) \<Rightarrow>
          (read_counted P (pc_ReadParcelable_HmpVersionInfo P (HmpVersionInfo_Unmarshalling P)) reply, s1))"

definition Proxy_StartUpdateHmpPackage ::
  "('p, 'o) parcel_ops \<Rightarrow> ipc_codes \<Rightarrow> ('p, 's) remote option \<Rightarrow> string \<Rightarrow> 'o option \<Rightarrow> 's \<Rightarrow> int \<times> 's"
where
  "Proxy_StartUpdateHmpPackage P E remote path updateCallback s =
     (case updateCallback of None \<Rightarrow> (e_ERR_INVALID_VALUE E, s) | Some ob \<Rightarrow>
      case remote of None \<Rightarrow> (e_ERR_FLATTEN_OBJECT E, s) | Some SendRequest \<Rightarrow>
      case pc_WriteInterfaceToken P descriptor (pc_new P) of (written, data) \<Rightarrow>
      if \<not> written then (e_ERR_FLATTEN_OBJECT E, s)
      else case pc_WriteRemoteObject P ob data of (objectWritten, data1) \<Rightarrow>
      if \<not> objectWritten then (e_ERR_FLATTEN_OBJECT E, s)
      else case SendRequest (request START_UPDATE_HMP_PACKAGE) (WriteString P path data1) s of
             ((ret, reply), s1) \<Rightarrow>
        if ret \<noteq> e_ERR_OK E then (e_ERR_FLATTEN_OBJECT E, s1)
        else (fst (pc_ReadInt32 P reply), s1))"

definition Proxy_GetHmpUpdateResult ::
  "('p, 'o) parcel_ops \<Rightarrow> ipc_codes \<Rightarrow> ('p, 's) remote option \<Rightarrow> 's \<Rightarrow> HmpUpdateInfo list \<times> 's"
where
  "Proxy_GetHmpUpdateResult P E remote s =
     (case send_empty P E (request GET_HMP_UPDATE_RESULT) remote s of
        (None, s1) \<Rightarrow> ([], s1)
      | (Some reply, s1) \<Rightarrow>
          (read_counted P (pc_ReadParcelable_HmpUpdateInfo P (HmpUpdateInfo_Unmarshalling P)) reply, s1))"

definition proxy ::
  "('p, 'o) parcel_ops \<Rightarrow> ipc_codes \<Rightarrow> ('p, 's) remote option \<Rightarrow> ('o, 's) imodule_update"
where
  "proxy P E remote = \<lparr>
     im_InstallModulePackage = Proxy_InstallModulePackage P E remote,
     im_UninstallModulePackage = Proxy_UninstallModulePackage P E remote,
     im_GetModulePackageInfo = Proxy_GetModulePackageInfo P E remote,
     im_ExitModuleUpdate = Proxy_ExitModuleUpdate P E remote,
     im_GetHmpVersionInfo = Proxy_GetHmpVersionInfo P E remote,
     im_StartUpdateHmpPackage = Proxy_StartUpdateHmpPackage P E remote,
     im_GetHmpUpdateResult = Proxy_GetHmpUpdateResult P E remote\<rparr>"

section \<open>The service behind the stub\<close>

definition module_service :: "('j, 'h) ext \<Rightarrow> ('o, mmain) imodule_update" where
  "module_service X = \<lparr>
     im_InstallModulePackage = Service_InstallModulePackage X,
     im_UninstallModulePackage = Service_UninstallModulePackage X,
     im_GetModulePackageInfo = (\<lambda>hmpName infos m. (Service_GetModulePackageInfo X m hmpName infos, m)),
     im_ExitModuleUpdate = Service_ExitModuleUpdate,
     im_GetHmpVersionInfo = Service_GetHmpVersionInfo X,
     im_StartUpdateHmpPackage = (\<lambda>path cb m. StartUpdateHmpPackage X path (cb \<noteq> None) m),
     im_GetHmpUpdateResult =
       (\<lambda>m. case GetHmpUpdateResult X (mm_w m) of (infos, w) \<Rightarrow> (infos, m\<lparr>mm_w := w\<rparr>))\<rparr>"

text \<open>A transport that delivers the request to the stub with an empty reply.\<close>

definition deliver ::
  "('p, 'o) parcel_ops \<Rightarrow> ipc_codes \<Rightarrow> ('o \<Rightarrow> 'o option) \<Rightarrow> (u32 \<Rightarrow> 'p \<Rightarrow> 'p \<Rightarrow> int \<times> 'p)
   \<Rightarrow> caller \<Rightarrow> ('o, 's) imodule_update \<Rightarrow> ('p, 's) remote"
where
  "deliver P E iface_cast base c service req data s =
     (case OnRemoteRequest P E iface_cast base c service req data (pc_new P) s of
        (ret, reply, s1) \<Rightarrow> ((ret, reply), s1))"

section \<open>Lemmas\<close>

lemma parsesD: "parses items f xs a \<Longrightarrow> items p = xs @ r \<Longrightarrow> \<exists>p1. f p = (a, p1) \<and> items p1 = r"
  by (simp add: parses_def)

lemma fold_appends:
  "(\<And>x. appends items (w x) (enc x)) \<Longrightarrow>
     items (fold (\<lambda>x p. snd (w x p)) xs p) = items p @ concat (map enc xs)"
  by (induction xs arbitrary: p) (simp_all add: appends_def)

lemma read_parcelables_parses:
  assumes "\<And>x. ok x \<Longrightarrow> parses items rd (enc x) (Some x)"
  shows "list_all ok xs \<Longrightarrow> items p = concat (map enc xs) @ r \<Longrightarrow>
           read_parcelables (length xs) rd ys p = ys @ xs"
proof (induction xs arbitrary: ys p)
  case Nil
  then show ?case by simp
next
  case (Cons x xs)
  then obtain p1 where "rd p = (Some x, p1)" "items p1 = concat (map enc xs) @ r"
    using assms [of x, THEN parsesD, of p "concat (map enc xs) @ r"] by auto
  then show ?case using Cons by simp
qed

lemma read_counted_parses:
  assumes c: "parcel_contract P items v8"
    and "\<And>x. ok x \<Longrightarrow> parses items rd (enc x) (Some x)"
    and "list_all ok xs" and "length xs \<le> 128"
    and "items p = PInt32 (size_int32 (length xs)) # concat (map enc xs)"
  shows "read_counted P rd p = xs"
proof -
  have n: "size_int32 (length xs) = int (length xs)" "int32 (int (length xs))"
    using assms(4) by (auto simp: int32_size int32_def)
  obtain p1 where "pc_ReadInt32 P p = (int (length xs), p1)" "items p1 = concat (map enc xs)"
    using contract_parses(1) [OF c n(2), THEN parsesD, of p] assms(5) n(1) by fastforce
  then show ?thesis
    using read_parcelables_parses [OF assms(2), where xs = xs and p = p1 and r = "[]" and ys = "[]"] assms(3,4)
    by (simp add: read_counted_def IPC_MAX_SIZE_def IPC_MIN_SIZE_def)
qed

lemma request_table [simp]:
  "map_of (requestFuncMap P E iface_cast service) (request INSTALL_MODULE_PACKAGE)
     = Some (InstallModulePackageStub P service)"
  "map_of (requestFuncMap P E iface_cast service) (request UNINSTALL_MODULE_PACKAGE)
     = Some (UninstallModulePackageStub P service)"
  "map_of (requestFuncMap P E iface_cast service) (request GET_MODULE_PACKAGE_INFO)
     = Some (GetModulePackageInfoStub P service)"
  "map_of (requestFuncMap P E iface_cast service) (request EXIT_MODULE_UPDATE)
     = Some (ExitModuleUpdateStub P service)"
  "map_of (requestFuncMap P E iface_cast service) (request GET_HMP_VERSION_INFO)
     = Some (GetHmpVersionInfoStub P service)"
  "map_of (requestFuncMap P E iface_cast service) (request START_UPDATE_HMP_PACKAGE)
     = Some (StartUpdateHmpPackageStub P E iface_cast service)"
  "map_of (requestFuncMap P E iface_cast service) (request GET_HMP_UPDATE_RESULT)
     = Some (GetHmpUpdateResultStub P service)"
  "map_of (requestFuncMap P E iface_cast service) (request REPORT_MODULE_UPDATE_STATUS) = None"
  by (simp_all add: requestFuncMap_def)

text \<open>A request whose content starts with the descriptor reaches its handler.\<close>

lemma deliver_handled:
  assumes c: "parcel_contract P items v8" and "Stub_CheckCallingPerm cl"
    and "map_of (requestFuncMap P E iface_cast service) req = Some handle"
    and "items data = PToken descriptor # rest"
  shows "\<exists>d1. items d1 = rest \<and> deliver P E iface_cast base cl service req data s
           = (case handle d1 (pc_new P) s of (ret, reply, s1) \<Rightarrow> ((ret, reply), s1))"
proof -
  obtain d1 where "pc_ReadInterfaceToken P data = (descriptor, d1)" "items d1 = rest"
    using contract_parses(4) [OF c, THEN parsesD, of data descriptor rest] assms(4) by auto
  then show ?thesis using assms(2,3) by (auto simp: deliver_def OnRemoteRequest_def)
qed

lemma send_string_handled:
  assumes c: "parcel_contract P items v8" and "Stub_CheckCallingPerm cl" and "e_ERR_OK E = 0"
    and "map_of (requestFuncMap P E iface_cast service) req = Some handle" and "v8 str"
    and "\<And>d1 d2. ReadString P d1 = (str, d2) \<Longrightarrow> handle d1 (pc_new P) s = (0, reply, s1)"
  shows "send_string P E req (Some (deliver P E iface_cast base cl service)) str s = (Some reply, s1)"
proof -
  obtain written data where w: "pc_WriteInterfaceToken P descriptor (pc_new P) = (written, data)"
    by (rule prod.exhaust)
  then have wd: "written" "items data = [PToken descriptor]"
    using contract_simps(6) [OF c, of descriptor "pc_new P"] contract_simps(1) [OF c] by auto
  obtain d1 where d1: "items d1 = [PString16 (pc_Str8ToStr16 P str)]"
      "deliver P E iface_cast base cl service req (WriteString P str data) s
         = (case handle d1 (pc_new P) s of (ret, reply, s1) \<Rightarrow> ((ret, reply), s1))"
    using deliver_handled [OF c assms(2,4), where data = "WriteString P str data" and base = base and s = s
        and rest = "[PString16 (pc_Str8ToStr16 P str)]"] wd
    by (simp add: contract_simps(5) [OF c]) blast
  obtain d2 where "ReadString P d1 = (str, d2)"
    using ReadString_parses [OF c assms(5), THEN parsesD, of d1 "[]"] d1(1) by auto
  then show ?thesis using assms(3,6) d1(2) w wd by (simp add: send_string_def)
qed

lemma send_empty_handled:
  assumes c: "parcel_contract P items v8" and "Stub_CheckCallingPerm cl" and "e_ERR_OK E = 0"
    and "map_of (requestFuncMap P E iface_cast service) req = Some handle"
    and "\<And>d1. handle d1 (pc_new P) s = (0, reply, s1)"
  shows "send_empty P E req (Some (deliver P E iface_cast base cl service)) s = (Some reply, s1)"
proof -
  obtain written data where w: "pc_WriteInterfaceToken P descriptor (pc_new P) = (written, data)"
    by (rule prod.exhaust)
  then have wd: "written" "items data = [PToken descriptor]"
    using contract_simps(6) [OF c, of descriptor "pc_new P"] contract_simps(1) [OF c] by auto
  obtain d1 where "deliver P E iface_cast base cl service req data s
      = (case handle d1 (pc_new P) s of (ret, reply, s1) \<Rightarrow> ((ret, reply), s1))"
    using deliver_handled [OF c assms(2,4), where data = data and base = base and s = s and rest = "[]"] wd(2)
    by blast
  then show ?thesis using assms(3,5) w wd by (simp add: send_empty_def)
qed

lemma read_ret:
  assumes c: "parcel_contract P items v8" and "int32 ret" and "items p = PInt32 ret # r"
  shows "fst (pc_ReadInt32 P p) = ret"
  using contract_parses(1) [OF c assms(2), THEN parsesD, of p r] assms(3) by auto

text \<open>What the answers of the service in a state need to fit the wire.\<close>

definition list_fits :: "('a \<Rightarrow> bool) \<Rightarrow> 'a list \<Rightarrow> bool" where
  "list_fits ok xs \<longleftrightarrow> list_all ok xs \<and> length xs \<le> 128"

definition info_fits :: "(string \<Rightarrow> bool) \<Rightarrow> (int \<times> ModulePackageInfo list) \<times> 's \<Rightarrow> bool" where
  "info_fits v8 answer =
     (case answer of ((ret, infos), s1) \<Rightarrow>
        int32 ret \<and> list_all (ModulePackageInfo_ok v8) infos \<and> length infos \<le> 128)"

definition answers_fit ::
  "(string \<Rightarrow> bool) \<Rightarrow> ('o \<Rightarrow> 'o option) \<Rightarrow> ('o, 's) imodule_update \<Rightarrow> string \<Rightarrow> 'o \<Rightarrow> 's \<Rightarrow> bool"
where
  "answers_fit v8 iface_cast service str ob s =
     (v8 str \<and> iface_cast ob = Some ob
      \<and> int32 (fst (im_InstallModulePackage service str s))
      \<and> int32 (fst (im_UninstallModulePackage service str s))
      \<and> int32 (fst (im_ExitModuleUpdate service s))
      \<and> int32 (fst (im_StartUpdateHmpPackage service str (Some ob) s))
      \<and> info_fits v8 (im_GetModulePackageInfo service str [] s)
      \<and> list_fits (HmpVersionInfo_ok v8) (fst (im_GetHmpVersionInfo service s))
      \<and> list_fits (HmpUpdateInfo_ok v8) (fst (im_GetHmpUpdateResult service s)))"

lemma answers_fitD:
  assumes "answers_fit v8 iface_cast service str ob s"
  shows "v8 str" and "iface_cast ob = Some ob"
    and "int32 (fst (im_InstallModulePackage service str s))"
    and "int32 (fst (im_UninstallModulePackage service str s))"
    and "int32 (fst (im_ExitModuleUpdate service s))"
    and "int32 (fst (im_StartUpdateHmpPackage service str (Some ob) s))"
    and "info_fits v8 (im_GetModulePackageInfo service str [] s)"
    and "list_fits (HmpVersionInfo_ok v8) (fst (im_GetHmpVersionInfo service s))"
    and "list_fits (HmpUpdateInfo_ok v8) (fst (im_GetHmpUpdateResult service s))"
  using assms by (simp_all add: answers_fit_def)

lemma Proxy_Install:
  assumes c: "parcel_contract P items v8" and "Stub_CheckCallingPerm cl" and "e_ERR_OK E = 0"
    and fit: "v8 str" "int32 (fst (im_InstallModulePackage service str s))"
  shows "Proxy_InstallModulePackage P E (Some (deliver P E iface_cast base cl service)) str s
           = im_InstallModulePackage service str s"
proof -
  obtain ret s1 where r: "im_InstallModulePackage service str s = (ret, s1)" by (rule prod.exhaust)
  then have "send_string P E (request INSTALL_MODULE_PACKAGE)
      (Some (deliver P E iface_cast base cl service)) str s
      = (Some (snd (pc_WriteInt32 P ret (pc_new P))), s1)"
    using fit by (intro send_string_handled [OF c assms(2,3) request_table(1)])
      (auto simp: InstallModulePackageStub_def)
  moreover have "int32 ret" using fit r by simp
  ultimately show ?thesis
    using r by (simp add: Proxy_InstallModulePackage_def read_ret [OF c] contract_simps(1,2) [OF c])
qed

lemma Proxy_Uninstall:
  assumes c: "parcel_contract P items v8" and "Stub_CheckCallingPerm cl" and "e_ERR_OK E = 0"
    and fit: "v8 str" "int32 (fst (im_UninstallModulePackage service str s))"
  shows "Proxy_UninstallModulePackage P E (Some (deliver P E iface_cast base cl service)) str s
           = im_UninstallModulePackage service str s"
proof -
  obtain ret s1 where r: "im_UninstallModulePackage service str s = (ret, s1)" by (rule prod.exhaust)
  then have "send_string P E (request UNINSTALL_MODULE_PACKAGE)
      (Some (deliver P E iface_cast base cl service)) str s
      = (Some (snd (pc_WriteInt32 P ret (pc_new P))), s1)"
    using fit by (intro send_string_handled [OF c assms(2,3) request_table(2)])
      (auto simp: UninstallModulePackageStub_def)
  moreover have "int32 ret" using fit r by simp
  ultimately show ?thesis
    using r by (simp add: Proxy_UninstallModulePackage_def read_ret [OF c] contract_simps(1,2) [OF c])
qed

lemma Proxy_Exit:
  assumes c: "parcel_contract P items v8" and "Stub_CheckCallingPerm cl" and "e_ERR_OK E = 0"
    and fit: "int32 (fst (im_ExitModuleUpdate service s))"
  shows "Proxy_ExitModuleUpdate P E (Some (deliver P E iface_cast base cl service)) s
           = im_ExitModuleUpdate service s"
proof -
  obtain ret s1 where r: "im_ExitModuleUpdate service s = (ret, s1)" by (rule prod.exhaust)
  then have "send_empty P E (request EXIT_MODULE_UPDATE)
      (Some (deliver P E iface_cast base cl service)) s
      = (Some (snd (pc_WriteInt32 P ret (pc_new P))), s1)"
    by (intro send_empty_handled [OF c assms(2,3) request_table(4)]) (auto simp: ExitModuleUpdateStub_def)
  moreover have "int32 ret" using fit r by simp
  ultimately show ?thesis
    using r by (simp add: Proxy_ExitModuleUpdate_def read_ret [OF c] contract_simps(1,2) [OF c])
qed

lemma Proxy_Info:
  assumes c: "parcel_contract P items v8" and "Stub_CheckCallingPerm cl" and "e_ERR_OK E = 0"
    and str: "v8 str" and answers: "info_fits v8 (im_GetModulePackageInfo service str [] s)"
  shows "Proxy_GetModulePackageInfo P E (Some (deliver P E iface_cast base cl service)) str acc s
           = (case im_GetModulePackageInfo service str [] s of ((ret, infos), s1) \<Rightarrow>
                ((ret, acc @ map drop_displayVersion infos), s1))"
proof -
  obtain ret infos s1 where r: "im_GetModulePackageInfo service str [] s = ((ret, infos), s1)"
    by (metis prod.exhaust)
  let ?reply = "snd (pc_WriteInt32 P ret (WriteModulePackageInfos P infos (pc_new P)))"
  have fit: "int32 ret" "list_all (ModulePackageInfo_ok v8) infos" "length infos \<le> 128"
    using answers r by (simp_all add: info_fits_def)
  have "send_string P E (request GET_MODULE_PACKAGE_INFO)
      (Some (deliver P E iface_cast base cl service)) str s = (Some ?reply, s1)"
    using str r by (intro send_string_handled [OF c assms(2,3) request_table(3)])
      (auto simp: GetModulePackageInfoStub_def)
  moreover have "items ?reply = enc_list enc_ModulePackageInfo P infos @ [PInt32 ret]"
    by (simp add: contract_simps(1,2) [OF c] WriteModulePackageInfos_def pkg.WriteList_writes [OF c])
  then obtain p1 where "ReadModulePackageInfos P acc ?reply = (acc @ map drop_displayVersion infos, p1)"
      "items p1 = [PInt32 ret]"
    using pkg.ReadList_parses [OF c fit(2,3), of acc, THEN parsesD]
    by (auto simp: ReadModulePackageInfos_def)
  ultimately show ?thesis
    using r fit(1) by (simp add: Proxy_GetModulePackageInfo_def read_ret [OF c])
qed

lemma Proxy_Versions:
  assumes c: "parcel_contract P items v8" and "Stub_CheckCallingPerm cl" and "e_ERR_OK E = 0"
    and fit: "list_fits (HmpVersionInfo_ok v8) (fst (im_GetHmpVersionInfo service s))"
  shows "Proxy_GetHmpVersionInfo P E (Some (deliver P E iface_cast base cl service)) s
           = im_GetHmpVersionInfo service s"
proof -
  obtain infos s1 where r: "im_GetHmpVersionInfo service s = (infos, s1)" by (rule prod.exhaust)
  let ?reply = "fold (\<lambda>info p. snd (pc_WriteParcelable P (HmpVersionInfo_Marshalling P info) p)) infos
        (snd (pc_WriteInt32 P (size_int32 (length infos)) (pc_new P)))"
  have "send_empty P E (request GET_HMP_VERSION_INFO)
      (Some (deliver P E iface_cast base cl service)) s = (Some ?reply, s1)"
    using r by (intro send_empty_handled [OF c assms(2,3) request_table(5)]) (auto simp: GetHmpVersionInfoStub_def)
  moreover have "items ?reply = PInt32 (size_int32 (length infos)) # concat (map (enc_HmpVersionInfo P) infos)"
    by (simp add: fold_appends [OF HmpVersionInfo_appends [OF c]] contract_simps(1,2) [OF c])
  then have "read_counted P (pc_ReadParcelable_HmpVersionInfo P (HmpVersionInfo_Unmarshalling P)) ?reply = infos"
    using fit r
    by (intro read_counted_parses [OF c HmpVersionInfo_parses [OF c]]) (auto simp: list_fits_def)
  ultimately show ?thesis using r by (simp add: Proxy_GetHmpVersionInfo_def)
qed

lemma Proxy_Results:
  assumes c: "parcel_contract P items v8" and "Stub_CheckCallingPerm cl" and "e_ERR_OK E = 0"
    and fit: "list_fits (HmpUpdateInfo_ok v8) (fst (im_GetHmpUpdateResult service s))"
  shows "Proxy_GetHmpUpdateResult P E (Some (deliver P E iface_cast base cl service)) s
           = im_GetHmpUpdateResult service s"
proof -
  obtain infos s1 where r: "im_GetHmpUpdateResult service s = (infos, s1)" by (rule prod.exhaust)
  let ?reply = "fold (\<lambda>info p. snd (pc_WriteParcelable P (HmpUpdateInfo_Marshalling P info) p)) infos
        (snd (pc_WriteInt32 P (size_int32 (length infos)) (pc_new P)))"
  have "send_empty P E (request GET_HMP_UPDATE_RESULT)
      (Some (deliver P E iface_cast base cl service)) s = (Some ?reply, s1)"
    using r by (intro send_empty_handled [OF c assms(2,3) request_table(7)]) (auto simp: GetHmpUpdateResultStub_def)
  moreover have "items ?reply = PInt32 (size_int32 (length infos)) # concat (map (enc_HmpUpdateInfo P) infos)"
    by (simp add: fold_appends [OF HmpUpdateInfo_appends [OF c]] contract_simps(1,2) [OF c])
  then have "read_counted P (pc_ReadParcelable_HmpUpdateInfo P (HmpUpdateInfo_Unmarshalling P)) ?reply = infos"
    using fit r
    by (intro read_counted_parses [OF c HmpUpdateInfo_parses [OF c]]) (auto simp: list_fits_def)
  ultimately show ?thesis using r by (simp add: Proxy_GetHmpUpdateResult_def)
qed

lemma Proxy_Start:
  assumes c: "parcel_contract P items v8" and "Stub_CheckCallingPerm cl" and "e_ERR_OK E = 0"
    and fits: "v8 str" "iface_cast ob = Some ob" "int32 (fst (im_StartUpdateHmpPackage service str (Some ob) s))"
  shows "Proxy_StartUpdateHmpPackage P E (Some (deliver P E iface_cast base cl service)) str (Some ob) s
           = im_StartUpdateHmpPackage service str (Some ob) s"
proof -
  obtain ret s1 where r: "im_StartUpdateHmpPackage service str (Some ob) s = (ret, s1)"
    by (rule prod.exhaust)
  have fit: "v8 str" "iface_cast ob = Some ob" "int32 ret" using fits r by auto
  obtain written data where w: "pc_WriteInterfaceToken P descriptor (pc_new P) = (written, data)"
    by (rule prod.exhaust)
  then have wd: "written" "items data = [PToken descriptor]"
    using contract_simps(6) [OF c, of descriptor "pc_new P"] contract_simps(1) [OF c] by auto
  obtain ow data1 where o: "pc_WriteRemoteObject P ob data = (ow, data1)" by (rule prod.exhaust)
  then have od: "ow" "items data1 = [PToken descriptor, PRemote ob]"
    using contract_simps(7) [OF c, of ob data] wd by auto
  obtain d1 where d1: "items d1 = [PRemote ob, PString16 (pc_Str8ToStr16 P str)]"
      "deliver P E iface_cast base cl service (request START_UPDATE_HMP_PACKAGE) (WriteString P str data1) s
         = (case StartUpdateHmpPackageStub P E iface_cast service d1 (pc_new P) s of
              (ret, reply, s1) \<Rightarrow> ((ret, reply), s1))"
    using deliver_handled [OF c assms(2) request_table(6), where data = "WriteString P str data1"
        and base = base and s = s and rest = "[PRemote ob, PString16 (pc_Str8ToStr16 P str)]"] od
    by (simp add: contract_simps(5) [OF c]) blast
  obtain d2 where d2: "pc_ReadRemoteObject P d1 = (Some ob, d2)" "items d2 = [PString16 (pc_Str8ToStr16 P str)]"
    using contract_parses(5) [OF c, THEN parsesD, of d1 ob] d1(1) by fastforce
  obtain d3 where "ReadString P d2 = (str, d3)"
    using ReadString_parses [OF c fit(1), THEN parsesD, of d2 "[]"] d2(2) by auto
  then show ?thesis
    using d1(2) d2(1) fit(2,3) r w wd o od assms(3)
    by (simp add: Proxy_StartUpdateHmpPackage_def StartUpdateHmpPackageStub_def read_ret [OF c]
        contract_simps(1,2) [OF c])
qed

section \<open>A service\<close>

lemma ParseHmpVersionInfo_main_length:
  "length (fst (ParseHmpVersionInfo_main X a b acc)) \<le> Suc (length (fst acc))"
  by (cases acc) (simp add: ParseHmpVersionInfo_main_def Let_def split: prod.splits bool.splits)

lemma empty_versions:
  "length (fst (version_infos sample0 w [''h1''] ([], []))) \<le> 128"
  using ParseHmpVersionInfo_main_length [of sample0 "or_init (GetHmpVersion sample0 w (preinstall_path ''h1''))"
      "or_init (GetHmpVersion sample0 w (active_path ''h1''))" "([], [])"]
  by simp

lemma empty_world_simps:
  "x_GetDirFiles sample0 (w_fs (world0 [])) d = []"
  "read_file (world0 []) p = None"
  "list_all (HmpVersionInfo_ok (\<lambda>s. True)) xs"
  by (simp_all add: sample_defs world0_def read_file_def HmpVersionInfo_ok_def list_all_iff)

lemma empty_answers_fit:
  "answers_fit (\<lambda>s. True) Some (module_service sample0) ''h'' () (mmain0 (world0 []))"
  using empty_versions
  by (simp add: answers_fit_def info_fits_def list_fits_def module_service_def Service_InstallModulePackage_def int32_def
      Service_ExitModuleUpdate_def Service_GetModulePackageInfo_def Main_GetModulePackageInfo_def
      mmain0_def CheckFileSuffix_def HMP_PACKAGE_SUFFIX_def StartUpdateHmpPackage_def Let_def
      Service_UninstallModulePackage_def Main_UninstallModulePackage_def Service_GetHmpVersionInfo_def
      GetHmpUpdateResult_def GetHmpVersionInfo_def ScanPreInstalledHmp_def empty_world_simps case_prod_unfold)

definition sample_codes :: ipc_codes where
  "sample_codes = \<lparr>e_ERR_OK = 0, e_ERR_FLATTEN_OBJECT = 4, e_ERR_INVALID_VALUE = 5, e_ERR_NULL_OBJECT = 7\<rparr>"

section \<open>Properties\<close>

text \<open>C11. A client of the proxy sees the service: with an allowed caller and answers that fit the
  wire every operation of the proxy has the result and the effect of the service's own, but for
  the display versions.\<close>

theorem Proxy_is_service:
  assumes "parcel_contract P items v8" and "Stub_CheckCallingPerm cl" and "e_ERR_OK E = 0"
    and "answers_fit v8 iface_cast service str ob s"
  shows "let p = proxy P E (Some (deliver P E iface_cast base cl service)) in
      im_InstallModulePackage p str s = im_InstallModulePackage service str s
    \<and> im_UninstallModulePackage p str s = im_UninstallModulePackage service str s
    \<and> im_GetModulePackageInfo p str acc s =
        (case im_GetModulePackageInfo service str [] s of ((ret, infos), s1) \<Rightarrow>
           ((ret, acc @ map drop_displayVersion infos), s1))
    \<and> im_ExitModuleUpdate p s = im_ExitModuleUpdate service s
    \<and> im_GetHmpVersionInfo p s = im_GetHmpVersionInfo service s
    \<and> im_StartUpdateHmpPackage p str (Some ob) s = im_StartUpdateHmpPackage service str (Some ob) s
    \<and> im_GetHmpUpdateResult p s = im_GetHmpUpdateResult service s"
  using answers_fitD [OF assms(4)]
  by (simp add: Let_def proxy_def Proxy_Install [OF assms(1-3)] Proxy_Uninstall [OF assms(1-3)]
      Proxy_Info [OF assms(1-3)] Proxy_Exit [OF assms(1-3)] Proxy_Versions [OF assms(1-3)]
      Proxy_Start [OF assms(1-3)] Proxy_Results [OF assms(1-3)])

text \<open>C13. The stub lets nobody else in: the service is touched only by a request with the
  interface's descriptor and a code of the table, from root or from the update user holding the
  permission; every other request leaves it as it is.\<close>

theorem Stub_needs_permission:
  "(\<exists>handle. map_of (requestFuncMap P E iface_cast service) req = Some handle
      \<and> fst (pc_ReadInterfaceToken P data) = descriptor
      \<and> (ca_uid cl = 0 \<or> ca_uid cl = 6666 \<and> ca_granted cl)
      \<and> OnRemoteRequest P E iface_cast base cl service req data reply s
          = handle (snd (pc_ReadInterfaceToken P data)) reply s)
   \<or> snd (snd (OnRemoteRequest P E iface_cast base cl service req data reply s)) = s"
  by (auto simp: OnRemoteRequest_def Stub_CheckCallingPerm_def Stub_IsPermissionGranted_def
      USER_UPDATE_AUTHORITY_def split: prod.splits option.splits if_splits)

theorem Proxy_is_service_witness:
  "im_InstallModulePackage
     (proxy list_parcel sample_codes
        (Some (deliver list_parcel sample_codes (Some :: unit \<Rightarrow> unit option) (\<lambda>req d reply. (-1, reply))
           \<lparr>ca_uid = 6666, ca_granted = True\<rparr> (module_service sample0))))
     ''h'' (mmain0 (world0 [])) = (code ERR_INVALID_PATH, mmain0 (world0 []))"
proof -
  have cl: "Stub_CheckCallingPerm \<lparr>ca_uid = 6666, ca_granted = True\<rparr>" "e_ERR_OK sample_codes = 0"
    by (simp_all add: Stub_CheckCallingPerm_def Stub_IsPermissionGranted_def USER_UPDATE_AUTHORITY_def
        sample_codes_def)
  have r: "im_InstallModulePackage (module_service sample0) ''h'' (mmain0 (world0 []))
      = (code ERR_INVALID_PATH, mmain0 (world0 []))"
    by (simp add: module_service_def Service_InstallModulePackage_def CheckFileSuffix_def HMP_PACKAGE_SUFFIX_def)
  show ?thesis
    by (rule trans [OF conjunct1 [OF Proxy_is_service
            [OF list_parcel_contract cl empty_answers_fit, unfolded Let_def]] r])
qed

end
