(* ===== verification/Module_Kits.thy ===== *)
theory Module_Kits
  imports Module_Proxy
begin

text \<open>
  interfaces/innerkits/ipc_client/src/module_update_kits_impl.cpp: the client of module update,
  which caches the service's interface, counts its users and drops the cache when the service
  dies; module_update_load_callback.cpp, and services/module_update/service/main.cpp, the
  process that starts the service at boot.

  The system ability manager is the parameter \<open>A\<close>: whether it is there, the remote object of
  the service, the interface that \<open>iface_cast\<close> makes of it, whether the object is a proxy that
  takes a death recipient, and the result of a load request. A remote object is a number. The
  wait for the load callback ends by a notification or after three seconds and changes nothing.
\<close>

record 'svc samgr =
  sg_samgr :: bool
  sg_GetSystemAbility :: "nat option"
  sg_iface_cast :: "nat \<Rightarrow> 'svc option"
  sg_IsProxyObject :: "nat \<Rightarrow> bool"
  sg_AddDeathRecipient :: "nat \<Rightarrow> bool"
  sg_LoadSystemAbility :: int
  sg_CheckSystemAbility :: bool

text \<open>
  \<open>mk_links\<close>: the remote objects that will report their death. \<open>g_request\<close> is an atomic long;
  it would take \<open>2 ^ 63\<close> calls to wrap.
\<close>

record 'svc module_kits =
  mk_moduleUpdate :: "(nat \<times> 'svc) option"
  mk_deathRecipient :: bool
  mk_links :: "nat list"
  mk_updateCallBack :: "nat option"
  mk_request :: int

definition ModuleKits_new :: "'svc module_kits" where
  "ModuleKits_new = \<lparr>mk_moduleUpdate = None, mk_deathRecipient = False, mk_links = [],
     mk_updateCallBack = None, mk_request = 0\<rparr>"

definition ModuleKits_ResetService :: "nat \<Rightarrow> 'svc module_kits \<Rightarrow> 'svc module_kits" where
  "ModuleKits_ResetService remote k =
     (case mk_moduleUpdate k of
        None \<Rightarrow> k
      | Some (object, svc) \<Rightarrow>
          if remote = object
          then k\<lparr>mk_links := removeAll object (mk_links k), mk_moduleUpdate := None\<rparr>
          else k)"

definition ModuleKits_GetService ::
  "'svc samgr \<Rightarrow> 'svc module_kits \<Rightarrow> 'svc option \<times> 'svc module_kits"
where
  "ModuleKits_GetService A k =
     (case mk_moduleUpdate k of
        Some (object, svc) \<Rightarrow> (Some svc, k)
      | None \<Rightarrow>
          if \<not> sg_samgr A then (None, k)
          else case sg_GetSystemAbility A of
            None \<Rightarrow> (None, k)
          | Some object \<Rightarrow>
              let k1 = k\<lparr>mk_deathRecipient := True\<rparr>;
                  k2 = (if sg_IsProxyObject A object \<and> sg_AddDeathRecipient A object
                        then k1\<lparr>mk_links := object # mk_links k1\<rparr> else k1)
              in case sg_iface_cast A object of
                   None \<Rightarrow> (None, k2\<lparr>mk_moduleUpdate := None\<rparr>)
                 | Some svc \<Rightarrow> (Some svc, k2\<lparr>mk_moduleUpdate := Some (object, svc)\<rparr>))"

definition OnRemoteDied :: "nat \<Rightarrow> 'svc module_kits \<Rightarrow> 'svc module_kits" where
  "OnRemoteDied remote k = ModuleKits_ResetService remote k"

definition ModuleKits_InstallModulePackage ::
  "('o, 's) imodule_update samgr \<Rightarrow> string \<Rightarrow> ('o, 's) imodule_update module_kits \<times> 's
   \<Rightarrow> int \<times> ('o, 's) imodule_update module_kits \<times> 's"
where
  "ModuleKits_InstallModulePackage A pkgPath = (\<lambda>(k, s).
     case ModuleKits_GetService A k of
       (None, k1) \<Rightarrow> (code ERR_SERVICE_NOT_FOUND, k1, s)
     | (Some moduleUpdate, k1) \<Rightarrow>
         (case im_InstallModulePackage moduleUpdate pkgPath s of (ret, s1) \<Rightarrow> (ret, k1, s1)))"

definition ModuleKits_UninstallModulePackage ::
  "('o, 's) imodule_update samgr \<Rightarrow> string \<Rightarrow> ('o, 's) imodule_update module_kits \<times> 's
   \<Rightarrow> int \<times> ('o, 's) imodule_update module_kits \<times> 's"
where
  "ModuleKits_UninstallModulePackage A hmpName = (\<lambda>(k, s).
     case ModuleKits_GetService A k of
       (None, k1) \<Rightarrow> (code ERR_SERVICE_NOT_FOUND, k1, s)
     | (Some moduleUpdate, k1) \<Rightarrow>
         (case im_UninstallModulePackage moduleUpdate hmpName s of (ret, s1) \<Rightarrow> (ret, k1, s1)))"

definition ModuleKits_GetModulePackageInfo ::
  "('o, 's) imodule_update samgr \<Rightarrow> string \<Rightarrow> ModulePackageInfo list
   \<Rightarrow> ('o, 's) imodule_update module_kits \<times> 's
   \<Rightarrow> (int \<times> ModulePackageInfo list) \<times> ('o, 's) imodule_update module_kits \<times> 's"
where
  "ModuleKits_GetModulePackageInfo A hmpName infos = (\<lambda>(k, s).
     case ModuleKits_GetService A k of
       (None, k1) \<Rightarrow> ((code ERR_SERVICE_NOT_FOUND, infos), k1, s)
     | (Some moduleUpdate, k1) \<Rightarrow>
         (case im_GetModulePackageInfo moduleUpdate hmpName infos s of (ret, s1) \<Rightarrow> (ret, k1, s1)))"

text \<open>\<open>--g_request <= 0\<close>.\<close>

definition ModuleKits_ExitModuleUpdate ::
  "('o, 's) imodule_update samgr \<Rightarrow> ('o, 's) imodule_update module_kits \<times> 's
   \<Rightarrow> int \<times> ('o, 's) imodule_update module_kits \<times> 's"
where
  "ModuleKits_ExitModuleUpdate A = (\<lambda>(k, s).
     case ModuleKits_GetService A k of
       (None, k1) \<Rightarrow> (code ERR_SERVICE_NOT_FOUND, k1, s)
     | (Some moduleUpdate, k1) \<Rightarrow>
         let k2 = k1\<lparr>mk_request := mk_request k1 - 1\<rparr>
         in if mk_request k2 \<le> 0
            then (case im_ExitModuleUpdate moduleUpdate s of (ret, s1) \<Rightarrow> (ret, k2, s1))
            else (0, k2, s))"

definition ModuleKits_Init :: "'svc samgr \<Rightarrow> 'svc module_kits \<Rightarrow> int" where
  "ModuleKits_Init A k =
     (if mk_moduleUpdate k \<noteq> None then 0
      else if \<not> sg_samgr A then -1
      else if sg_LoadSystemAbility A \<noteq> 0 then -1
      else 0)"

definition ModuleKits_InitModuleUpdate :: "'svc samgr \<Rightarrow> 'svc module_kits \<Rightarrow> int \<times> 'svc module_kits" where
  "ModuleKits_InitModuleUpdate A k =
     (let ret = ModuleKits_Init A k
      in if ret \<noteq> 0 then (ret, k)
         else case ModuleKits_GetService A k of
                (None, k1) \<Rightarrow> (-1, k1)
              | (Some svc, k1) \<Rightarrow> (code MODULE_UPDATE_SUCCESS, k1\<lparr>mk_request := mk_request k1 + 1\<rparr>))"

definition ModuleKits_GetHmpVersionInfo ::
  "('o, 's) imodule_update samgr \<Rightarrow> ('o, 's) imodule_update module_kits \<times> 's
   \<Rightarrow> HmpVersionInfo list \<times> ('o, 's) imodule_update module_kits \<times> 's"
where
  "ModuleKits_GetHmpVersionInfo A = (\<lambda>(k, s).
     case ModuleKits_GetService A k of
       (None, k1) \<Rightarrow> ([], k1, s)
     | (Some moduleUpdate, k1) \<Rightarrow>
         (case im_GetHmpVersionInfo moduleUpdate s of (infos, s1) \<Rightarrow> (infos, k1, s1)))"

text \<open>
  The one \<open>SysInstallerCallback\<close> of the client forwards to the callback registered last;
  \<open>wrapper\<close> is that object as the service receives it.
\<close>

definition ModuleKits_StartUpdateHmpPackage ::
  "('o, 's) imodule_update samgr \<Rightarrow> 'o \<Rightarrow> string \<Rightarrow> nat option
   \<Rightarrow> ('o, 's) imodule_update module_kits \<times> 's
   \<Rightarrow> int \<times> ('o, 's) imodule_update module_kits \<times> 's"
where
  "ModuleKits_StartUpdateHmpPackage A wrapper path callback = (\<lambda>(k, s).
     case callback of None \<Rightarrow> (code ERR_SERVICE_PARA_ERROR, k, s) | Some cb \<Rightarrow>
     (case ModuleKits_GetService A k of
        (None, k1) \<Rightarrow> (code ERR_SERVICE_NOT_FOUND, k1, s)
      | (Some moduleUpdate, k1) \<Rightarrow>
          let k2 = k1\<lparr>mk_updateCallBack := Some cb\<rparr>
          in case im_StartUpdateHmpPackage moduleUpdate path (Some wrapper) s of
               (ret, s1) \<Rightarrow> (ret, k2, s1)))"

definition ModuleKits_GetHmpUpdateResult ::
  "('o, 's) imodule_update samgr \<Rightarrow> ('o, 's) imodule_update module_kits \<times> 's
   \<Rightarrow> HmpUpdateInfo list \<times> ('o, 's) imodule_update module_kits \<times> 's"
where
  "ModuleKits_GetHmpUpdateResult A = (\<lambda>(k, s).
     case ModuleKits_GetService A k of
       (None, k1) \<Rightarrow> ([], k1, s)
     | (Some moduleUpdate, k1) \<Rightarrow>
         (case im_GetHmpUpdateResult moduleUpdate s of (infos, s1) \<Rightarrow> (infos, k1, s1)))"

text \<open>Whether the load callback notifies the waiting client.\<close>

definition Module_OnLoadSystemAbilitySuccess :: "int \<Rightarrow> int \<Rightarrow> nat option \<Rightarrow> bool" where
  "Module_OnLoadSystemAbilitySuccess MODULE_UPDATE_SERVICE_ID systemAbilityId remoteObject =
     (if systemAbilityId \<noteq> MODULE_UPDATE_SERVICE_ID then False
      else if remoteObject = None then False else True)"

definition Module_OnLoadSystemAbilityFail :: "int \<Rightarrow> int \<Rightarrow> bool" where
  "Module_OnLoadSystemAbilityFail MODULE_UPDATE_SERVICE_ID systemAbilityId =
     (if systemAbilityId \<noteq> MODULE_UPDATE_SERVICE_ID then False else True)"

text \<open>
  The starting process: up to thirty tries a tenth of a second apart; \<open>samgr\<close> lists what each
  try finds, the answer is the result and the number of tries.
\<close>

fun wait_samgr :: "nat \<Rightarrow> bool list \<Rightarrow> bool \<times> nat" where
  "wait_samgr 0 samgr = (False, 0)"
| "wait_samgr (Suc tries) samgr =
     (case samgr of
        True # rest \<Rightarrow> (True, 1)
      | _ \<Rightarrow> (case wait_samgr tries (tl samgr) of (found, n) \<Rightarrow> (found, Suc n)))"

definition ModuleUpdaterClient_main ::
  "bool list \<Rightarrow> 'svc samgr \<Rightarrow> 'svc module_kits \<Rightarrow> int \<times> 'svc module_kits"
where
  "ModuleUpdaterClient_main samgr A k =
     (case wait_samgr 30 samgr of (found, n) \<Rightarrow>
        if \<not> found then (-1, k) else ModuleKits_InitModuleUpdate A k)"

section \<open>Lemmas\<close>

lemma GetService_request [simp]: "mk_request (snd (ModuleKits_GetService A k)) = mk_request k"
  by (auto simp: ModuleKits_GetService_def Let_def split: option.split prod.split)

text \<open>A cached interface is what the object of the service casts to.\<close>

definition kits_inv :: "'svc samgr \<Rightarrow> 'svc module_kits \<Rightarrow> bool" where
  "kits_inv A k = (\<forall>object svc. mk_moduleUpdate k = Some (object, svc) \<longrightarrow> sg_iface_cast A object = Some svc)"

lemma GetService_inv: "kits_inv A k \<Longrightarrow> kits_inv A (snd (ModuleKits_GetService A k))"
  by (auto simp: kits_inv_def ModuleKits_GetService_def Let_def split: option.splits)

lemma GetService_there:
  assumes "sg_samgr A" and "sg_GetSystemAbility A = Some object" and "sg_iface_cast A object = Some svc"
    and "mk_moduleUpdate k = None \<or> mk_moduleUpdate k = Some (object, svc)"
  shows "fst (ModuleKits_GetService A k) = Some svc
     \<and> mk_moduleUpdate (snd (ModuleKits_GetService A k)) = Some (object, svc)"
  using assms by (auto simp: ModuleKits_GetService_def Let_def)

text \<open>What the users of one client process do.\<close>

datatype user_call = UInit | UExit

definition user_step ::
  "('o, 's) imodule_update samgr \<Rightarrow> user_call \<Rightarrow> ('o, 's) imodule_update module_kits \<times> 's
   \<Rightarrow> ('o, 's) imodule_update module_kits \<times> 's"
where
  "user_step A e = (\<lambda>(k, s). case e of
       UInit \<Rightarrow> (snd (ModuleKits_InitModuleUpdate A k), s)
     | UExit \<Rightarrow> snd (ModuleKits_ExitModuleUpdate A (k, s)))"

definition inits :: "user_call list \<Rightarrow> int" where
  "inits es = int (length (filter (\<lambda>e. e = UInit) es))"

definition exits :: "user_call list \<Rightarrow> int" where
  "exits es = int (length (filter (\<lambda>e. e = UExit) es))"

lemma user_step_counts:
  assumes A: "sg_samgr A" "sg_GetSystemAbility A = Some object" "sg_iface_cast A object = Some svc"
      "sg_LoadSystemAbility A = 0"
    and k: "mk_moduleUpdate k = None \<or> mk_moduleUpdate k = Some (object, svc)"
  shows "mk_request (fst (user_step A e (k, s))) = mk_request k + inits [e] - exits [e]
     \<and> mk_moduleUpdate (fst (user_step A e (k, s))) = Some (object, svc)"
proof -
  obtain k1 where k1: "ModuleKits_GetService A k = (Some svc, k1)"
      "mk_moduleUpdate k1 = Some (object, svc)"
    using GetService_there [OF A(1-3) k] by (metis prod.collapse)
  then have "mk_request k1 = mk_request k" using GetService_request [of A k] by simp
  moreover have "ModuleKits_Init A k = 0" using A k by (auto simp: ModuleKits_Init_def)
  ultimately show ?thesis
    using k1 by (cases e) (auto simp: user_step_def ModuleKits_InitModuleUpdate_def
        ModuleKits_ExitModuleUpdate_def inits_def exits_def Let_def split: prod.split)
qed

lemma users_count:
  assumes A: "sg_samgr A" "sg_GetSystemAbility A = Some object" "sg_iface_cast A object = Some svc"
      "sg_LoadSystemAbility A = 0"
  shows "mk_moduleUpdate k = None \<or> mk_moduleUpdate k = Some (object, svc) \<Longrightarrow>
     mk_request (fst (fold (user_step A) es (k, s))) = mk_request k + inits es - exits es
     \<and> (mk_moduleUpdate (fst (fold (user_step A) es (k, s))) = None
        \<or> mk_moduleUpdate (fst (fold (user_step A) es (k, s))) = Some (object, svc))"
proof (induction es arbitrary: k s)
  case Nil
  then show ?case by (simp add: inits_def exits_def)
next
  case (Cons e es)
  obtain k1 s1 where s: "user_step A e (k, s) = (k1, s1)" by (rule prod.exhaust)
  have 1: "mk_request k1 = mk_request k + inits [e] - exits [e]" "mk_moduleUpdate k1 = Some (object, svc)"
    using user_step_counts [OF A Cons.prems, of e s] s by simp_all
  have "inits (e # es) = inits [e] + inits es" "exits (e # es) = exits [e] + exits es"
    by (simp_all add: inits_def exits_def)
  with 1 Cons.IH [of k1 s1] show ?case by (simp add: s)
qed

section \<open>Properties\<close>

text \<open>C31. An exit reaches the service exactly when it makes the exits of this process at least as
  many as the inits: with matched calls only the last user's exit stops the service, and every
  unmatched exit lets a later one stop it under a user that is still there.\<close>

theorem Exit_reaches_service:
  assumes A: "sg_samgr A" "sg_GetSystemAbility A = Some object" "sg_iface_cast A object = Some svc"
      "sg_LoadSystemAbility A = 0"
  shows "snd (snd (ModuleKits_ExitModuleUpdate A (fold (user_step A) es (ModuleKits_new, s))))
      = (let s1 = snd (fold (user_step A) es (ModuleKits_new, s))
         in if inits es \<le> exits es + 1 then snd (im_ExitModuleUpdate svc s1) else s1)"
proof -
  obtain k1 s1 where f: "fold (user_step A) es (ModuleKits_new, s) = (k1, s1)" by (rule prod.exhaust)
  have c: "mk_request k1 = inits es - exits es"
      "mk_moduleUpdate k1 = None \<or> mk_moduleUpdate k1 = Some (object, svc)"
    using users_count [OF A, of ModuleKits_new es s] f by (simp_all add: ModuleKits_new_def)
  obtain k2 where k2: "ModuleKits_GetService A k1 = (Some svc, k2)"
    using GetService_there [OF A(1-3) c(2)] by (metis prod.collapse)
  then have "mk_request k2 = mk_request k1" using GetService_request [of A k1] by simp
  then show ?thesis
    using c(1) k2 f by (auto simp: ModuleKits_ExitModuleUpdate_def Let_def split: prod.split)
qed

text \<open>When the service dies and its death is reported, the next call asks the system ability
  manager again and talks to whatever object it names then.\<close>

theorem Kits_recover:
  assumes "mk_moduleUpdate k = Some (object, svc)" and "sg_samgr B"
    and "sg_GetSystemAbility B = Some object2" and "sg_iface_cast B object2 = Some svc2"
  shows "fst (ModuleKits_GetService B k) = Some svc
     \<and> fst (ModuleKits_GetService B (OnRemoteDied object k)) = Some svc2
     \<and> mk_request (OnRemoteDied object k) = mk_request k"
  using assms by (auto simp: ModuleKits_GetService_def OnRemoteDied_def ModuleKits_ResetService_def Let_def)

section \<open>A client\<close>

definition sample_samgr :: "'svc \<Rightarrow> 'svc samgr" where
  "sample_samgr svc = \<lparr>sg_samgr = True, sg_GetSystemAbility = Some 1, sg_iface_cast = (\<lambda>ob. Some svc),
     sg_IsProxyObject = (\<lambda>ob. True), sg_AddDeathRecipient = (\<lambda>ob. True), sg_LoadSystemAbility = 0,
     sg_CheckSystemAbility = True\<rparr>"

text \<open>Two users, and one exit before the first: the first of them to leave stops the service.\<close>

theorem Exit_reaches_service_witness:
  "mm_exit (snd (snd (ModuleKits_ExitModuleUpdate (sample_samgr (module_service sample0 :: (unit, mmain) imodule_update))
     (fold (user_step (sample_samgr (module_service sample0))) [UExit, UInit, UInit]
        (ModuleKits_new, mmain0 (world0 []))))))"
proof -
  let ?A = "sample_samgr (module_service sample0 :: (unit, mmain) imodule_update)"
  have A: "sg_samgr ?A" "sg_GetSystemAbility ?A = Some 1" "sg_iface_cast ?A 1 = Some (module_service sample0)"
      "sg_LoadSystemAbility ?A = 0"
    by (simp_all add: sample_samgr_def)
  show ?thesis
    unfolding Exit_reaches_service [OF A, of "[UExit, UInit, UInit]"]
    by (simp add: inits_def exits_def Let_def module_service_def Service_ExitModuleUpdate_def
        Main_ExitModuleUpdate_def Main_Stop_def)
qed

theorem Kits_recover_witness:
  "fst (ModuleKits_GetService (sample_samgr ''new'')
     (OnRemoteDied 1 (snd (ModuleKits_GetService (sample_samgr ''old'') ModuleKits_new)))) = Some ''new''"
proof -
  have "mk_moduleUpdate (snd (ModuleKits_GetService (sample_samgr ''old'') ModuleKits_new)) = Some (1, ''old'')"
    by (simp add: ModuleKits_GetService_def ModuleKits_new_def sample_samgr_def Let_def)
  from Kits_recover [OF this, of "sample_samgr ''new''" 1 "''new''"] show ?thesis
    by (simp add: sample_samgr_def)
qed

end
