(* ===== verification/Module_Session.thy ===== *)
theory Module_Session
  imports Module_Kits
begin

text \<open>
  Whole sessions of a client of module update: what a hostile or broken remote can put into its
  lists, and the composition of Module_Kits, Module_Proxy and Module_Service over any sequence
  of calls.
\<close>

section \<open>What a reader can produce\<close>

text \<open>The shape of a package record that came over the wire, whatever was on the wire.\<close>

definition module_bounded :: "string \<times> ModuleInfo \<Rightarrow> bool" where
  "module_bounded kv \<longleftrightarrow> length (mi_saInfoList (snd kv)) \<le> 128 \<and> length (mi_bundleInfoList (snd kv)) \<le> 128"

definition package_bounded :: "ModulePackageInfo \<Rightarrow> bool" where
  "package_bounded i \<longleftrightarrow>
     length (mp_moduleMap i) \<le> 128 \<and> distinct (map fst (mp_moduleMap i)) \<and> list_all module_bounded (mp_moduleMap i)"

lemma read_items_grows:
  assumes "\<And>p. good (fst (rd p))"
  shows "\<exists>ys. fst (read_items n rd xs p) = xs @ ys \<and> length ys = n \<and> list_all good ys"
proof (induction n arbitrary: xs p)
  case (Suc n)
  obtain x p1 where "rd p = (x, p1)" by fastforce
  then show ?case using Suc [of "xs @ [x]" p1] assms [of p] by (auto intro: exI [of _ "x # ys" for ys])
qed simp

lemma ReadList_grows:
  assumes "\<And>p. good (fst (rd P fresh p))"
  shows "\<exists>ys. fst (ReadList P rd fresh xs p) = xs @ ys \<and> length ys \<le> 128 \<and> list_all good ys"
proof -
  obtain n p1 where "pc_ReadInt32 P p = (n, p1)" by fastforce
  then show ?thesis
    using read_items_grows [of good "rd P fresh" "nat n" xs p1] assms
    by (fastforce simp: ReadList_def IPC_MAX_SIZE_def IPC_MIN_SIZE_def)
qed

lemma ReadModule_bounded: "module_bounded (fst (ReadModule P ([], ModuleInfo_init) p))"
proof -
  have "length (fst (ReadList P ReadSaInfo SaInfo_init [] q)) \<le> 128"
    "length (fst (ReadList P ReadBundleInfo BundleInfo_init [] q)) \<le> 128" for q
    using ReadList_grows [of "\<lambda>x. True" ReadSaInfo P SaInfo_init "[]" q]
      ReadList_grows [of "\<lambda>x. True" ReadBundleInfo P BundleInfo_init "[]" q] by auto
  then show ?thesis
    by (simp add: ReadModule_def module_bounded_def ModuleInfo_init_def case_prod_unfold)
qed

lemma emplace_bounded:
  assumes "module_bounded (k, v)" and "distinct (map fst m)" and "list_all module_bounded m"
  shows "distinct (map fst (emplace k v m)) \<and> list_all module_bounded (emplace k v m)
     \<and> length (emplace k v m) \<le> Suc (length m)"
  using assms by (auto simp: emplace_def map_of_eq_None_iff split: option.split)

lemma read_modules_bounded:
  assumes "distinct (map fst m)" and "list_all module_bounded m"
  shows "distinct (map fst (fst (read_modules P n m p))) \<and> list_all module_bounded (fst (read_modules P n m p))
     \<and> length (fst (read_modules P n m p)) \<le> length m + n"
  using assms
proof (induction n arbitrary: m p)
  case (Suc n)
  obtain k v p1 where r: "ReadModule P ([], ModuleInfo_init) p = ((k, v), p1)" by (metis prod.exhaust)
  then have "module_bounded (k, v)" using ReadModule_bounded [of P p] by simp
  from emplace_bounded [OF this Suc.prems] Suc.IH [of "emplace k v m" p1] show ?case by (auto simp: r)
qed simp

lemma ReadModulePackageInfo_bounded: "package_bounded (fst (ReadModulePackageInfo P ModulePackageInfo_init p))"
proof -
  have "length (fst (read_modules P (nat k) [] q)) \<le> 128" if "k \<le> 128" for k q
    using read_modules_bounded [of "[]" P "nat k" q] that by simp linarith
  then show ?thesis
    using read_modules_bounded [of "[]" P]
    by (simp add: ReadModulePackageInfo_def package_bounded_def ModulePackageInfo_init_def case_prod_unfold Let_def
        IPC_MAX_SIZE_def IPC_MIN_SIZE_def)
qed

lemma read_parcelables_grows: "length (read_parcelables n rd xs p) \<le> length xs + n"
proof (induction n arbitrary: xs p)
  case (Suc n)
  then show ?case
    using Suc [of xs "snd (rd p)"] Suc [of "xs @ [x]" "snd (rd p)" for x]
    by (auto simp: case_prod_unfold intro: le_SucI split: option.split)
qed simp

lemma read_counted_bounded: "length (read_counted P rd p) \<le> 128"
  using read_parcelables_grows [of "nat (fst (pc_ReadInt32 P p))" rd "[]" "snd (pc_ReadInt32 P p)"]
  by (auto simp: read_counted_def IPC_MAX_SIZE_def IPC_MIN_SIZE_def case_prod_unfold)


section \<open>Sessions\<close>

text \<open>
  The calls of a client, with the notices of a remote object's death that reach it in between.
  The answer of a call is its result; a notice has none.
\<close>

datatype module_call =
    CallInit
  | CallInstall string
  | CallUninstall string
  | CallInfo string
  | CallVersions
  | CallUpdate string nat
  | CallResults
  | CallExit
  | RemoteDied nat

datatype answer =
    AnsCode int
  | AnsInfo int "ModulePackageInfo list"
  | AnsVersions "HmpVersionInfo list"
  | AnsResults "HmpUpdateInfo list"
  | AnsNone

text \<open>The client library: what the calls do to its state and, through the interface, to the far side.\<close>

fun kits_call ::
  "('o, 's) imodule_update samgr \<Rightarrow> 'o \<Rightarrow> module_call \<Rightarrow> ('o, 's) imodule_update module_kits \<times> 's
   \<Rightarrow> answer \<times> ('o, 's) imodule_update module_kits \<times> 's"
where
  "kits_call A wrapper CallInit (k, s) =
     (case ModuleKits_InitModuleUpdate A k of (ret, k1) \<Rightarrow> (AnsCode ret, k1, s))"
| "kits_call A wrapper (CallInstall path) c = apfst AnsCode (ModuleKits_InstallModulePackage A path c)"
| "kits_call A wrapper (CallUninstall h) c = apfst AnsCode (ModuleKits_UninstallModulePackage A h c)"
| "kits_call A wrapper (CallInfo h) c =
     apfst (\<lambda>(ret, infos). AnsInfo ret infos) (ModuleKits_GetModulePackageInfo A h [] c)"
| "kits_call A wrapper CallVersions c = apfst AnsVersions (ModuleKits_GetHmpVersionInfo A c)"
| "kits_call A wrapper (CallUpdate path cb) c =
     apfst AnsCode (ModuleKits_StartUpdateHmpPackage A wrapper path (Some cb) c)"
| "kits_call A wrapper CallResults c = apfst AnsResults (ModuleKits_GetHmpUpdateResult A c)"
| "kits_call A wrapper CallExit c = apfst AnsCode (ModuleKits_ExitModuleUpdate A c)"
| "kits_call A wrapper (RemoteDied remote) (k, s) = (AnsNone, OnRemoteDied remote k, s)"

text \<open>The abstract client: a count of users in front of the service itself.\<close>

fun direct_call ::
  "('o, 's) imodule_update \<Rightarrow> 'o \<Rightarrow> module_call \<Rightarrow> int \<times> 's \<Rightarrow> answer \<times> int \<times> 's"
where
  "direct_call service wrapper CallInit (n, s) = (AnsCode 0, n + 1, s)"
| "direct_call service wrapper (CallInstall path) (n, s) =
     (case im_InstallModulePackage service path s of (ret, s1) \<Rightarrow> (AnsCode ret, n, s1))"
| "direct_call service wrapper (CallUninstall h) (n, s) =
     (case im_UninstallModulePackage service h s of (ret, s1) \<Rightarrow> (AnsCode ret, n, s1))"
| "direct_call service wrapper (CallInfo h) (n, s) =
     (case im_GetModulePackageInfo service h [] s of
        ((ret, infos), s1) \<Rightarrow> (AnsInfo ret (List.map drop_displayVersion infos), n, s1))"
| "direct_call service wrapper CallVersions (n, s) =
     (case im_GetHmpVersionInfo service s of (infos, s1) \<Rightarrow> (AnsVersions infos, n, s1))"
| "direct_call service wrapper (CallUpdate path cb) (n, s) =
     (case im_StartUpdateHmpPackage service path (Some wrapper) s of (ret, s1) \<Rightarrow> (AnsCode ret, n, s1))"
| "direct_call service wrapper CallResults (n, s) =
     (case im_GetHmpUpdateResult service s of (infos, s1) \<Rightarrow> (AnsResults infos, n, s1))"
| "direct_call service wrapper CallExit (n, s) =
     (if n - 1 \<le> 0 then (case im_ExitModuleUpdate service s of (ret, s1) \<Rightarrow> (AnsCode ret, n - 1, s1))
      else (AnsCode 0, n - 1, s))"
| "direct_call service wrapper (RemoteDied remote) (n, s) = (AnsNone, n, s)"

fun run_calls :: "('call \<Rightarrow> 'c \<Rightarrow> 'a \<times> 'c) \<Rightarrow> 'call list \<Rightarrow> 'c \<Rightarrow> 'a list \<times> 'c" where
  "run_calls step [] c = ([], c)"
| "run_calls step (e # es) c =
     (case step e c of (a, c1) \<Rightarrow> case run_calls step es c1 of (as, c2) \<Rightarrow> (a # as, c2))"

text \<open>The arguments of a call and the service's answer to it fit the wire.\<close>

fun call_fits ::
  "(string \<Rightarrow> bool) \<Rightarrow> ('o, 's) imodule_update \<Rightarrow> 'o \<Rightarrow> module_call \<Rightarrow> 's \<Rightarrow> bool"
where
  "call_fits v8 service wrapper (CallInstall path) s =
     (v8 path \<and> int32 (fst (im_InstallModulePackage service path s)))"
| "call_fits v8 service wrapper (CallUninstall h) s =
     (v8 h \<and> int32 (fst (im_UninstallModulePackage service h s)))"
| "call_fits v8 service wrapper (CallInfo h) s =
     (v8 h \<and> info_fits v8 (im_GetModulePackageInfo service h [] s))"
| "call_fits v8 service wrapper CallVersions s =
     list_fits (HmpVersionInfo_ok v8) (fst (im_GetHmpVersionInfo service s))"
| "call_fits v8 service wrapper (CallUpdate path cb) s =
     (v8 path \<and> int32 (fst (im_StartUpdateHmpPackage service path (Some wrapper) s)))"
| "call_fits v8 service wrapper CallResults s =
     list_fits (HmpUpdateInfo_ok v8) (fst (im_GetHmpUpdateResult service s))"
| "call_fits v8 service wrapper CallExit s = int32 (fst (im_ExitModuleUpdate service s))"
| "call_fits v8 service wrapper e s = True"

fun session_fits ::
  "(string \<Rightarrow> bool) \<Rightarrow> ('o, 's) imodule_update \<Rightarrow> 'o \<Rightarrow> module_call list \<Rightarrow> int \<times> 's \<Rightarrow> bool"
where
  "session_fits v8 service wrapper [] c = True"
| "session_fits v8 service wrapper (e # es) c =
     (call_fits v8 service wrapper e (snd c)
      \<and> session_fits v8 service wrapper es (snd (direct_call service wrapper e c)))"

text \<open>The client library implements the abstract client: its count is the count, and an interface
  it has cached is the one of the service's object.\<close>

definition kits_abs ::
  "nat \<Rightarrow> 'svc \<Rightarrow> 'svc module_kits \<times> 's \<Rightarrow> int \<times> 's \<Rightarrow> bool"
where
  "kits_abs object svc c d \<longleftrightarrow>
     (mk_moduleUpdate (fst c) = None \<or> mk_moduleUpdate (fst c) = Some (object, svc))
     \<and> d = (mk_request (fst c), snd c)"

lemma kits_call_simulates:
  assumes c: "parcel_contract P items v8" and cl: "Stub_CheckCallingPerm cl" and E: "e_ERR_OK E = 0"
    and svc: "svc = proxy P E (Some (deliver P E iface_cast base cl service))"
    and A: "sg_samgr A" "sg_GetSystemAbility A = Some object" "sg_iface_cast A object = Some svc"
      "sg_LoadSystemAbility A = 0"
    and wrapper: "iface_cast wrapper = Some wrapper"
    and abs: "kits_abs object svc (k, s) d" and fits: "call_fits v8 service wrapper e (snd d)"
  shows "fst (kits_call A wrapper e (k, s)) = fst (direct_call service wrapper e d)
     \<and> kits_abs object svc (snd (kits_call A wrapper e (k, s))) (snd (direct_call service wrapper e d))"
proof -
  have d: "d = (mk_request k, s)" and k: "mk_moduleUpdate k = None \<or> mk_moduleUpdate k = Some (object, svc)"
    using abs by (simp_all add: kits_abs_def)
  obtain k1 where g: "ModuleKits_GetService A k = (Some svc, k1)"
      "mk_moduleUpdate k1 = Some (object, svc)" "mk_request k1 = mk_request k"
    using GetService_there [OF A(1-3) k] GetService_request [of A k] by (metis prod.collapse)
  note calls = Proxy_Install [OF c cl E] Proxy_Uninstall [OF c cl E] Proxy_Info [OF c cl E]
    Proxy_Exit [OF c cl E] Proxy_Versions [OF c cl E] Proxy_Start [OF c cl E] Proxy_Results [OF c cl E]
  show ?thesis
  proof (cases e)
    case CallInit
    have "ModuleKits_Init A k = 0" using A(1,4) by (simp add: ModuleKits_Init_def)
    then show ?thesis using CallInit g d
      by (simp add: ModuleKits_InitModuleUpdate_def kits_abs_def)
  next
    case (RemoteDied remote)
    then show ?thesis using k d
      by (auto simp: OnRemoteDied_def ModuleKits_ResetService_def kits_abs_def split: option.split)
  qed (use fits g d wrapper in \<open>auto simp: calls svc proxy_def kits_abs_def Let_def ModuleKits_InstallModulePackage_def
        ModuleKits_UninstallModulePackage_def ModuleKits_GetModulePackageInfo_def
        ModuleKits_ExitModuleUpdate_def ModuleKits_GetHmpVersionInfo_def
        ModuleKits_StartUpdateHmpPackage_def ModuleKits_GetHmpUpdateResult_def split: prod.splits\<close>)
qed


lemma run_calls_simulates:
  assumes "parcel_contract P items v8" and "Stub_CheckCallingPerm cl" and "e_ERR_OK E = 0"
    and "svc = proxy P E (Some (deliver P E iface_cast base cl service))"
    and "sg_samgr A" and "sg_GetSystemAbility A = Some object" and "sg_iface_cast A object = Some svc"
    and "sg_LoadSystemAbility A = 0" and "iface_cast wrapper = Some wrapper"
  shows "kits_abs object svc c d \<Longrightarrow> session_fits v8 service wrapper es d \<Longrightarrow>
     fst (run_calls (kits_call A wrapper) es c) = fst (run_calls (direct_call service wrapper) es d)
     \<and> kits_abs object svc (snd (run_calls (kits_call A wrapper) es c))
         (snd (run_calls (direct_call service wrapper) es d))"
proof (induction es arbitrary: c d)
  case (Cons e es)
  obtain k s where c: "c = (k, s)" by (rule prod.exhaust)
  from Cons.prems have "call_fits v8 service wrapper e (snd d)"
      "session_fits v8 service wrapper es (snd (direct_call service wrapper e d))" by simp_all
  with kits_call_simulates [OF assms Cons.prems(1) [unfolded c], of e] Cons.IH
  show ?case unfolding c by (auto simp: case_prod_unfold)
qed simp

section \<open>Properties\<close>

text \<open>C29. Whatever a remote object answers, however malformed, the lists of the client grow by at most
  128 records; each record has at most 128 modules with distinct names, and each of those at most
  128 system abilities and 128 bundles. Nothing is asked of the parcel.\<close>

theorem Proxy_answers_bounded:
  "(\<exists>new. snd (fst (Proxy_GetModulePackageInfo P E remote hmpName infos s)) = infos @ new
      \<and> length new \<le> 128 \<and> list_all package_bounded new)
   \<and> length (fst (Proxy_GetHmpVersionInfo P E remote s)) \<le> 128
   \<and> length (fst (Proxy_GetHmpUpdateResult P E remote s)) \<le> 128"
proof -
  have "\<exists>new. fst (ReadModulePackageInfos P infos p) = infos @ new \<and> length new \<le> 128 \<and> list_all package_bounded new" for p
    unfolding ReadModulePackageInfos_def by (rule ReadList_grows) (rule ReadModulePackageInfo_bounded)
  then show ?thesis
    by (auto simp: Proxy_GetModulePackageInfo_def Proxy_GetHmpVersionInfo_def Proxy_GetHmpUpdateResult_def
        case_prod_unfold read_counted_bounded split: option.split)
qed

text \<open>C12. For every sequence of calls the client library over the proxy, the parcel, the stub and the
  service has the answers and the effects of calls made on the service itself behind a count of
  users: the display versions are dropped, an exit reaches the service only when the count is not
  above zero after it, and notices of deaths in between, true or not, change nothing while the
  system ability manager still names the service.\<close>

theorem Session_is_service:
  assumes "parcel_contract P items v8" and "Stub_CheckCallingPerm cl" and "e_ERR_OK E = 0"
    and "svc = proxy P E (Some (deliver P E iface_cast base cl service))"
    and "sg_samgr A" and "sg_GetSystemAbility A = Some object" and "sg_iface_cast A object = Some svc"
    and "sg_LoadSystemAbility A = 0" and "iface_cast wrapper = Some wrapper"
    and "session_fits v8 service wrapper es (0, s)"
  shows "fst (run_calls (kits_call A wrapper) es (ModuleKits_new, s))
      = fst (run_calls (direct_call service wrapper) es (0, s))
    \<and> snd (snd (run_calls (kits_call A wrapper) es (ModuleKits_new, s)))
      = snd (snd (run_calls (direct_call service wrapper) es (0, s)))
    \<and> mk_request (fst (snd (run_calls (kits_call A wrapper) es (ModuleKits_new, s))))
      = fst (snd (run_calls (direct_call service wrapper) es (0, s)))"
proof -
  have "kits_abs object svc (ModuleKits_new, s) (0, s)" by (simp add: kits_abs_def ModuleKits_new_def)
  from run_calls_simulates [OF assms(1-9) this assms(10)] show ?thesis by (auto simp: kits_abs_def)
qed

text \<open>Two users, of whom the first leaves after a refused installation and the second after the
  client was told that the service had died.\<close>

theorem Session_is_service_witness:
  "let p = proxy list_parcel sample_codes
        (Some (deliver list_parcel sample_codes (Some :: unit \<Rightarrow> unit option) (\<lambda>req d reply. (-1, reply))
           \<lparr>ca_uid = 0, ca_granted = False\<rparr> (module_service sample0)));
     R = run_calls (kits_call (sample_samgr p) ())
        [CallInit, CallInit, CallInstall ''h'', CallExit, RemoteDied 1, CallExit]
        (ModuleKits_new, mmain0 (world0 []))
   in fst R = [AnsCode 0, AnsCode 0, AnsCode (code ERR_INVALID_PATH), AnsCode 0, AnsNone,
               AnsCode (fst (Service_ExitModuleUpdate (mmain0 (world0 []))))]
     \<and> mm_exit (snd (snd R)) \<and> mk_request (fst (snd R)) = 0"
proof -
  let ?service = "module_service sample0 :: (unit, mmain) imodule_update"
  let ?es = "[CallInit, CallInit, CallInstall ''h'', CallExit, RemoteDied 1, CallExit]"
  let ?p = "proxy list_parcel sample_codes
        (Some (deliver list_parcel sample_codes Some (\<lambda>req d reply. (-1, reply))
           \<lparr>ca_uid = 0, ca_granted = False\<rparr> ?service))"
  have cl: "Stub_CheckCallingPerm \<lparr>ca_uid = 0, ca_granted = False\<rparr>" "e_ERR_OK sample_codes = 0"
    by (simp_all add: Stub_CheckCallingPerm_def sample_codes_def)
  have A: "sg_samgr (sample_samgr ?p)" "sg_GetSystemAbility (sample_samgr ?p) = Some 1"
      "sg_iface_cast (sample_samgr ?p) 1 = Some ?p" "sg_LoadSystemAbility (sample_samgr ?p) = 0"
    by (simp_all add: sample_samgr_def)
  have ops: "im_InstallModulePackage ?service ''h'' m = (code ERR_INVALID_PATH, m)"
      "im_ExitModuleUpdate ?service m = Service_ExitModuleUpdate m" for m
    by (simp_all add: module_service_def Service_InstallModulePackage_def CheckFileSuffix_def HMP_PACKAGE_SUFFIX_def)
  have exit: "int32 (fst (Service_ExitModuleUpdate m))" "mm_exit (snd (Service_ExitModuleUpdate m))" for m
    by (simp_all add: Service_ExitModuleUpdate_def Main_ExitModuleUpdate_def Main_Stop_def int32_def)
  have run: "run_calls (direct_call ?service ()) ?es (0, mmain0 (world0 []))
      = ([AnsCode 0, AnsCode 0, AnsCode (code ERR_INVALID_PATH), AnsCode 0, AnsNone,
          AnsCode (fst (Service_ExitModuleUpdate (mmain0 (world0 []))))],
         0, snd (Service_ExitModuleUpdate (mmain0 (world0 []))))"
    by (simp add: ops case_prod_unfold)
  have fits: "session_fits (\<lambda>s. True) ?service () ?es (0, mmain0 (world0 []))"
    by (simp add: ops exit case_prod_unfold) (simp add: int32_def)
  from Session_is_service [OF list_parcel_contract cl refl A refl fits] show ?thesis
    unfolding run Let_def by (simp add: exit)
qed

end
