(* ===== verification/Module_Tool.thy ===== *)
theory Module_Tool
  imports Module_Kits
begin

text \<open>
  tools/module_update_tool/main.cpp: the command line tool of module update. What it prints is a
  list of lines, each without its line break. \<open>argv\<close> is the command line, the program's name
  included. The lines of \<open>ProcessCallback\<close> are printed when the service calls back, on a thread
  of its own; they are not part of the list.
\<close>

definition MIN_PARAM_NUM :: nat where "MIN_PARAM_NUM = 2"
definition MAX_PARAM_NUM :: nat where "MAX_PARAM_NUM = 3"
definition INSTALL_PARAM :: string where "INSTALL_PARAM = ''install''"
definition UNINSTALL_PARAM :: string where "UNINSTALL_PARAM = ''uninstall''"
definition SHOW_INFO :: string where "SHOW_INFO = ''show''"
definition UPDATE_PARAM :: string where "UPDATE_PARAM = ''update''"
definition GET_HMP_VERSION :: string where "GET_HMP_VERSION = ''get_hmp_version''"
definition GET_RESULT :: string where "GET_RESULT = ''get_result''"
definition RET_FAILED :: int where "RET_FAILED = -1"

definition HELP_MSG :: "string list" where
  "HELP_MSG =
     [''usage: module_update_tool'',
      ''example: ./module_update_tool install /data/tmp/xxx.hmp '',
      ''command list:'',
      ''  install         : upgrade some SA via hmp package'',
      ''  uninstall       : degrade some SA via hmp name'',
      ''  update          : upgrade SA via hmp package'',
      ''  get_hmp_version : get hmp package version'',
      ''  get_result      : get hmp upgrade result'',
      ''  show hmpname    : show upgrade sa info, if hmp name is null, show all'']"

definition Tool_CheckParam :: "nat \<Rightarrow> bool \<times> string list" where
  "Tool_CheckParam argc =
     (if argc < MIN_PARAM_NUM \<or> argc > MAX_PARAM_NUM
      then (False, ''Invalid module update command'' # HELP_MSG) else (True, []))"

definition GetFailReasonByErrCode :: "int \<Rightarrow> string" where
  "GetFailReasonByErrCode err =
     (if err = 0 then ''success''
      else if err = code ERR_SERVICE_NOT_FOUND then ''ERR_SERVICE_NOT_FOUND''
      else if err = code ERR_INVALID_PATH then ''ERR_INVALID_PATH''
      else if err = code ERR_LOWER_VERSION then ''ERR_LOWER_VERSION''
      else if err = code ERR_VERIFY_FAIL then ''ERR_VERIFY_FAIL''
      else if err = code ERR_INSTALL_FAIL then ''ERR_INSTALL_FAIL''
      else if err = code ERR_UNINSTALL_FAIL then ''ERR_UNINSTALL_FAIL''
      else if err = code ERR_REPORT_STATUS_FAIL then ''ERR_REPORT_STATUS_FAIL''
      else ''Unknown Error, number is '' @ string_of_int err)"

definition sa_lines :: "SaInfo \<Rightarrow> string list" where
  "sa_lines sa =
     [''SA: '', '' {saName:'' @ si_saName sa @ '' saId:'' @ string_of_int (si_saId sa)
        @ '' version:'' @ SaVersion_string (si_version sa) @ ''}'']"

definition bundle_lines :: "BundleInfo \<Rightarrow> string list" where
  "bundle_lines b =
     [''Bundle: '', ''{bundleName:'' @ bi_bundleName b @ '' version:'' @ bi_bundleVersion b @ ''}'']"

definition module_lines :: "string \<times> ModuleInfo \<Rightarrow> string list" where
  "module_lines = (\<lambda>(key, value).
     (''module: '' @ key) # concat (List.map sa_lines (mi_saInfoList value))
       @ concat (List.map bundle_lines (mi_bundleInfoList value)))"

definition package_lines :: "ModulePackageInfo \<Rightarrow> string list" where
  "package_lines i =
     [mp_hmpName i @ '', '' @ mp_version i @ '', '' @ mp_saSdkVersion i @ '', '' @ mp_type i
        @ '', apiversion: '' @ string_of_int (mp_apiVersion i)]
     @ concat (List.map module_lines (mp_moduleMap i)) @ ['' '']"

definition PrintUpgradeInfo :: "ModulePackageInfo list \<Rightarrow> string list" where
  "PrintUpgradeInfo infos =
     (''Got '' @ string_of_nat (length infos) @ '' upgraded modules info'')
       # concat (List.map package_lines infos)"

definition Tool_OnUpgradeProgress :: "UpdateStatus \<Rightarrow> int \<Rightarrow> string \<Rightarrow> string" where
  "Tool_OnUpgradeProgress updateStatus percent resultMsg =
     ''ProgressCallback progress '' @ string_of_nat (status_value updateStatus) @ '' percent ''
       @ string_of_int percent @ '' msg '' @ resultMsg"

definition Tool_OnUpgradeDealLen :: "UpdateStatus \<Rightarrow> int \<Rightarrow> string \<Rightarrow> string" where
  "Tool_OnUpgradeDealLen updateStatus dealLen resultMsg =
     ''ProgressCallback progress '' @ string_of_nat (status_value updateStatus) @ '' dealLen ''
       @ string_of_int dealLen @ '' msg '' @ resultMsg"

type_synonym ('o, 's) client = "('o, 's) imodule_update module_kits \<times> 's"

definition Tool_UpdateModulePackage ::
  "('o, 's) imodule_update samgr \<Rightarrow> 'o \<Rightarrow> string \<Rightarrow> ('o, 's) client \<Rightarrow> (int \<times> string list) \<times> ('o, 's) client"
where
  "Tool_UpdateModulePackage A wrapper path c =
     (case ModuleKits_StartUpdateHmpPackage A wrapper path (Some 0) c of
        (ret, c1) \<Rightarrow>
          ((ret, [''try to update an upgrade package'', GetFailReasonByErrCode ret]), c1))"

definition tool_version_line :: "HmpVersionInfo \<Rightarrow> string" where
  "tool_version_line i =
     ''name:'' @ hv_name i @ '' laneCode:'' @ hv_laneCode i @ '' compatibleVersion:''
       @ hv_compatibleVersion i @ '' version:'' @ hv_version i"

definition Tool_GetHmpVersion ::
  "('o, 's) imodule_update samgr \<Rightarrow> ('o, 's) client \<Rightarrow> (int \<times> string list) \<times> ('o, 's) client"
where
  "Tool_GetHmpVersion A c =
     (case ModuleKits_GetHmpVersionInfo A c of
        (infos, c1) \<Rightarrow> ((0, ''try to get hmp version'' # List.map tool_version_line infos), c1))"

definition tool_result_line :: "HmpUpdateInfo \<Rightarrow> string" where
  "tool_result_line i =
     ''path:'' @ hu_path i @ '' result:'' @ string_of_int (hu_result i) @ '' resultMsg:'' @ hu_resultMsg i"

definition Tool_GetResult ::
  "('o, 's) imodule_update samgr \<Rightarrow> ('o, 's) client \<Rightarrow> (int \<times> string list) \<times> ('o, 's) client"
where
  "Tool_GetResult A c =
     (case ModuleKits_GetHmpUpdateResult A c of
        (infos, c1) \<Rightarrow> ((0, ''try to get hmp result'' # List.map tool_result_line infos), c1))"

definition Tool_ShowInfo ::
  "('o, 's) imodule_update samgr \<Rightarrow> string \<Rightarrow> ('o, 's) client \<Rightarrow> (int \<times> string list) \<times> ('o, 's) client"
where
  "Tool_ShowInfo A hmpStr c =
     (case ModuleKits_GetModulePackageInfo A hmpStr [] c of
        ((ret, infos), c1) \<Rightarrow>
          ((ret, ''try to show module update info'' # PrintUpgradeInfo infos @ [GetFailReasonByErrCode ret]), c1))"

definition Tool_command ::
  "('o, 's) imodule_update samgr \<Rightarrow> 'o \<Rightarrow> string list \<Rightarrow> ('o, 's) client
   \<Rightarrow> (int \<times> string list) \<times> ('o, 's) client"
where
  "Tool_command A wrapper argv c =
     (let argc = length argv
      in if argv ! 1 = INSTALL_PARAM \<and> argc = MAX_PARAM_NUM then
           (case ModuleKits_InstallModulePackage A (argv ! MIN_PARAM_NUM) c of
              (ret, c1) \<Rightarrow> ((ret, [''try to update a module'', GetFailReasonByErrCode ret]), c1))
         else if argv ! 1 = UNINSTALL_PARAM \<and> argc = MAX_PARAM_NUM then
           (case ModuleKits_UninstallModulePackage A (argv ! MIN_PARAM_NUM) c of
              (ret, c1) \<Rightarrow> ((ret, [''try to uninstall an upgrade package'', GetFailReasonByErrCode ret]), c1))
         else if argv ! 1 = UPDATE_PARAM \<and> argc = MAX_PARAM_NUM then
           Tool_UpdateModulePackage A wrapper (argv ! MIN_PARAM_NUM) c
         else if argv ! 1 = GET_HMP_VERSION then Tool_GetHmpVersion A c
         else if argv ! 1 = GET_RESULT then Tool_GetResult A c
         else if argv ! 1 = SHOW_INFO then
           Tool_ShowInfo A (if argc \<noteq> MIN_PARAM_NUM then argv ! MIN_PARAM_NUM else []) c
         else ((0, ''invalid command. '' # HELP_MSG), c))"

text \<open>Once the parameters are counted, \<open>ON_SCOPE_EXIT\<close> runs on every way out.\<close>

definition Tool_main ::
  "('o, 's) imodule_update samgr \<Rightarrow> 'o \<Rightarrow> string list \<Rightarrow> ('o, 's) client
   \<Rightarrow> (int \<times> string list) \<times> ('o, 's) client"
where
  "Tool_main A wrapper argv = (\<lambda>(k, s).
     case Tool_CheckParam (length argv) of (ok, lines) \<Rightarrow>
     if \<not> ok then ((RET_FAILED, lines), (k, s))
     else case ModuleKits_InitModuleUpdate A k of
       (ret, k1) \<Rightarrow>
         (case (if ret \<noteq> 0 then ((ret, [GetFailReasonByErrCode ret]), (k1, s))
                else Tool_command A wrapper argv (k1, s)) of
            (out, c) \<Rightarrow> (out, snd (ModuleKits_ExitModuleUpdate A c))))"

section \<open>Lemmas\<close>

text \<open>A client whose interface is cached keeps it, and its count, over every call but an exit.\<close>

definition cached :: "int \<Rightarrow> nat \<times> ('o, 's) imodule_update \<Rightarrow> ('o, 's) client \<Rightarrow> bool" where
  "cached n m c \<longleftrightarrow> mk_request (fst c) = n \<and> mk_moduleUpdate (fst c) = Some m"

lemma cached_service: "cached n m (k, s) \<Longrightarrow> ModuleKits_GetService A k = (Some (snd m), k)"
  by (cases m) (simp add: cached_def ModuleKits_GetService_def)

lemma kits_calls_keep:
  assumes "cached n m c"
  shows "cached n m (snd (ModuleKits_InstallModulePackage A path c))"
    and "cached n m (snd (ModuleKits_UninstallModulePackage A h c))"
    and "cached n m (snd (ModuleKits_StartUpdateHmpPackage A wrapper path cb c))"
    and "cached n m (snd (ModuleKits_GetHmpVersionInfo A c))"
    and "cached n m (snd (ModuleKits_GetHmpUpdateResult A c))"
    and "cached n m (snd (ModuleKits_GetModulePackageInfo A h infos c))"
proof -
  obtain k s where c: "c = (k, s)" by (rule prod.exhaust)
  note g = cached_service [OF assms [unfolded c], of A]
  show "cached n m (snd (ModuleKits_InstallModulePackage A path c))"
    using assms by (simp add: ModuleKits_InstallModulePackage_def c g cached_def case_prod_unfold)
  show "cached n m (snd (ModuleKits_UninstallModulePackage A h c))"
    using assms by (simp add: ModuleKits_UninstallModulePackage_def c g cached_def case_prod_unfold)
  show "cached n m (snd (ModuleKits_StartUpdateHmpPackage A wrapper path cb c))"
    using assms by (cases cb)
      (simp_all add: ModuleKits_StartUpdateHmpPackage_def c g cached_def case_prod_unfold Let_def)
  show "cached n m (snd (ModuleKits_GetHmpVersionInfo A c))"
    using assms by (simp add: ModuleKits_GetHmpVersionInfo_def c g cached_def case_prod_unfold)
  show "cached n m (snd (ModuleKits_GetHmpUpdateResult A c))"
    using assms by (simp add: ModuleKits_GetHmpUpdateResult_def c g cached_def case_prod_unfold)
  show "cached n m (snd (ModuleKits_GetModulePackageInfo A h infos c))"
    using assms by (simp add: ModuleKits_GetModulePackageInfo_def c g cached_def case_prod_unfold)
qed

lemma Tool_command_keeps:
  assumes "cached n m c"
  shows "cached n m (snd (Tool_command A wrapper argv c))"
  using kits_calls_keep [OF assms] assms
  by (simp add: Tool_command_def Let_def Tool_UpdateModulePackage_def Tool_GetHmpVersion_def
      Tool_GetResult_def Tool_ShowInfo_def case_prod_unfold)

section \<open>Properties\<close>

text \<open>C40. Every run of the tool that reaches the service stops it, a query included: the last thing
  the run does is the service's exit, since the count of users is this process's own and the
  tool is its only user. Other clients of the service are not asked.\<close>

theorem Tool_stops_service:
  assumes A: "sg_samgr A" "sg_GetSystemAbility A = Some object" "sg_iface_cast A object = Some svc"
      "sg_LoadSystemAbility A = 0"
    and argc: "length argv = 2 \<or> length argv = 3"
  shows "\<exists>k s1. snd (snd (Tool_main A wrapper argv (ModuleKits_new, s))) = snd (im_ExitModuleUpdate svc s1)
     \<and> s1 = snd (snd (Tool_command A wrapper argv (k, s)))"
proof -
  have new: "mk_moduleUpdate ModuleKits_new = None" "mk_request ModuleKits_new = 0"
    by (simp_all add: ModuleKits_new_def)
  obtain k0 where k0: "ModuleKits_GetService A ModuleKits_new = (Some svc, k0)"
      "mk_moduleUpdate k0 = Some (object, svc)" "mk_request k0 = 0"
    using GetService_there [OF A(1-3), of ModuleKits_new] GetService_request [of A ModuleKits_new] new
    by (metis prod.collapse)
  define k where "k = k0\<lparr>mk_request := 1\<rparr>"
  have init: "ModuleKits_InitModuleUpdate A ModuleKits_new = (0, k)"
    using A new k0 by (simp add: ModuleKits_InitModuleUpdate_def ModuleKits_Init_def k_def)
  have k: "mk_moduleUpdate k = Some (object, svc)" "mk_request k = 1" using k0 by (simp_all add: k_def)
  obtain out k2 s1 where c: "Tool_command A wrapper argv (k, s) = (out, k2, s1)" by (metis prod.exhaust)
  then have k2: "mk_request k2 = 1" "mk_moduleUpdate k2 = Some (object, svc)"
    using Tool_command_keeps [of 1 "(object, svc)" "(k, s)" A wrapper argv] k by (simp_all add: cached_def)
  have "snd (snd (Tool_main A wrapper argv (ModuleKits_new, s))) = snd (im_ExitModuleUpdate svc s1)"
    using argc init c k2
    by (auto simp: Tool_main_def Tool_CheckParam_def MIN_PARAM_NUM_def MAX_PARAM_NUM_def
        ModuleKits_ExitModuleUpdate_def ModuleKits_GetService_def Let_def split: prod.split)
  then show ?thesis using c by (intro exI [of _ k] exI [of _ s1]) simp
qed

theorem Tool_stops_service_witness:
  "mm_exit (snd (snd (Tool_main (sample_samgr (module_service sample0 :: (unit, mmain) imodule_update)) ()
     [''module_update_tool'', ''get_result''] (ModuleKits_new, mmain0 (world0 [])))))"
proof -
  let ?A = "sample_samgr (module_service sample0 :: (unit, mmain) imodule_update)"
  have A: "sg_samgr ?A" "sg_GetSystemAbility ?A = Some 1" "sg_iface_cast ?A 1 = Some (module_service sample0)"
      "sg_LoadSystemAbility ?A = 0"
    by (simp_all add: sample_samgr_def)
  have "mm_exit (snd (im_ExitModuleUpdate (module_service sample0 :: (unit, mmain) imodule_update) m))" for m
    by (simp add: module_service_def Service_ExitModuleUpdate_def Main_ExitModuleUpdate_def Main_Stop_def)
  with Tool_stops_service [OF A, of "[''module_update_tool'', ''get_result'']" "()" "mmain0 (world0 [])"]
  show ?thesis by auto
qed

end
