(* ===== verification/Installer_Kits.thy ===== *)
theory Installer_Kits
  imports Module_Kits
begin

text \<open>
  interfaces/innerkits/ipc_client: \<open>SysInstallerKitsImpl\<close>, the client of the installer service,
  its load callback, \<open>SysInstallerCallback\<close> and \<open>BufferInfoParcel\<close>. The interface of the
  service, whose proxy and stub are generated, is a record of operations over the service's
  state; \<open>sys_service\<close> is the one of the server of the theory Installer_Server.
\<close>

section \<open>The buffer on the wire\<close>

record buffer_info =
  bu_buffer :: "u8 list option"
  bu_size :: u32

definition BufferInfoParcel_Marshalling :: "('p, 'o) parcel_ops \<Rightarrow> buffer_info \<Rightarrow> 'p \<Rightarrow> bool \<times> 'p" where
  "BufferInfoParcel_Marshalling P i p =
     (case pc_WriteUint32 P (bu_size i) p of (ok1, p1) \<Rightarrow>
      if \<not> ok1 then (False, p1) else
      case bu_buffer i of
        None \<Rightarrow> (False, p1)
      | Some b \<Rightarrow>
          (case pc_WriteBuffer P b (bu_size i) p1 of (ok2, p2) \<Rightarrow>
           if \<not> ok2 then (False, p2) else (True, p2)))"

definition BufferInfoParcel_Unmarshalling ::
  "('p, 'o) parcel_ops \<Rightarrow> 'p \<Rightarrow> buffer_info option \<times> 'p"
where
  "BufferInfoParcel_Unmarshalling P p =
     (case pc_ReadUint32 P p of (sz, p1) \<Rightarrow>
      case pc_ReadBuffer P sz p1 of (b, p2) \<Rightarrow> (Some \<lparr>bu_buffer = b, bu_size = sz\<rparr>, p2))"

lemma BufferInfoParcel_parses:
  assumes c: "parcel_contract P items v8" and "length b = unat n"
  shows "appends items (BufferInfoParcel_Marshalling P \<lparr>bu_buffer = Some b, bu_size = n\<rparr>) [PUint32 n, PBuffer b]"
    and "parses items (BufferInfoParcel_Unmarshalling P) [PUint32 n, PBuffer b]
           (Some \<lparr>bu_buffer = Some b, bu_size = n\<rparr>)"
proof -
  have "unat n \<le> length b" using assms(2) by simp
  then have "appends items (pc_WriteBuffer P b n) [PBuffer (take (unat n) b)]"
    using c unfolding parcel_contract_def by blast
  then have w: "appends items (pc_WriteUint32 P n) [PUint32 n]" "appends items (pc_WriteBuffer P b n) [PBuffer b]"
    using c assms(2) by (simp_all add: parcel_contract_def)
  then show "appends items (BufferInfoParcel_Marshalling P \<lparr>bu_buffer = Some b, bu_size = n\<rparr>) [PUint32 n, PBuffer b]"
    by (auto simp: appends_def BufferInfoParcel_Marshalling_def case_prod_unfold)
  have r: "parses items (pc_ReadBuffer P n) [PBuffer b] (Some b)"
    using c assms(2) by (simp add: parcel_contract_def)
  show "parses items (BufferInfoParcel_Unmarshalling P) [PUint32 n, PBuffer b]
           (Some \<lparr>bu_buffer = Some b, bu_size = n\<rparr>)"
    unfolding BufferInfoParcel_Unmarshalling_def
    by (intro parses_cons [OF contract_parses(2) [OF c]] parses_map [OF r]) simp
qed

section \<open>The callback object\<close>

text \<open>
  \<open>SysInstallerCallback\<close> passes what the service reports to the callback it holds, if any.
  \<open>cb_heard\<close> is what that callback has been told.
\<close>

datatype 'f report =
    Progress int int string
  | DealLen int int string
  | Feature 'f

record 'f callback =
  cb_callback :: "nat option"
  cb_heard :: "(nat \<times> 'f report) list"

definition tell :: "'f report \<Rightarrow> 'f callback \<Rightarrow> int \<times> 'f callback" where
  "tell r c = (case cb_callback c of
      None \<Rightarrow> (0, c)
    | Some cb \<Rightarrow> (0, c\<lparr>cb_heard := cb_heard c @ [(cb, r)]\<rparr>))"

definition Callback_OnUpgradeProgress :: "int \<Rightarrow> int \<Rightarrow> string \<Rightarrow> 'f callback \<Rightarrow> int \<times> 'f callback" where
  "Callback_OnUpgradeProgress updateStatus percent resultMsg c = tell (Progress updateStatus percent resultMsg) c"

definition Callback_OnUpgradeDealLen :: "int \<Rightarrow> int \<Rightarrow> string \<Rightarrow> 'f callback \<Rightarrow> int \<times> 'f callback" where
  "Callback_OnUpgradeDealLen updateStatus dealLen resultMsg c = tell (DealLen updateStatus dealLen resultMsg) c"

definition Callback_OnUpgradeFeatureStatus :: "'f \<Rightarrow> 'f callback \<Rightarrow> int \<times> 'f callback" where
  "Callback_OnUpgradeFeatureStatus statusInfo c = tell (Feature statusInfo) c"

definition RegisterCallback :: "nat option \<Rightarrow> 'f callback \<Rightarrow> 'f callback" where
  "RegisterCallback cb c = c\<lparr>cb_callback := cb\<rparr>"

section \<open>The client\<close>

record 's isys_installer =
  ii_SysInstallerInit :: "string \<Rightarrow> bool \<Rightarrow> 's \<Rightarrow> int \<times> 's"
  ii_StartUpdatePackageZip :: "string \<Rightarrow> string \<Rightarrow> 's \<Rightarrow> int \<times> 's"
  ii_StartStreamUpdate :: "'s \<Rightarrow> int \<times> 's"
  ii_StopStreamUpdate :: "'s \<Rightarrow> int \<times> 's"
  ii_ProcessStreamData :: "buffer_info \<Rightarrow> 's \<Rightarrow> int \<times> 's"
  ii_SetUpdateCallback :: "string \<Rightarrow> nat option \<Rightarrow> 's \<Rightarrow> int \<times> 's"
  ii_GetUpdateStatus :: "string \<Rightarrow> 's \<Rightarrow> int \<times> 's"
  ii_package_call :: "package_call \<Rightarrow> 's \<Rightarrow> int \<times> 's"
  ii_vendor_call :: "vendor_call \<Rightarrow> 's \<Rightarrow> int \<times> 's"
  ii_GetUpdateResult :: "string \<Rightarrow> 's \<Rightarrow> (int \<times> string) \<times> 's"
  ii_ExitSysInstaller :: "'s \<Rightarrow> int \<times> 's"

definition sys_service ::
  "(manager \<Rightarrow> manager) list \<Rightarrow> updlib \<Rightarrow> ('r, 'b) streamlib \<Rightarrow> bool \<Rightarrow> ('r, 'b) server isys_installer"
where
  "sys_service H U L samgr = \<lparr>
     ii_SysInstallerInit = Server_SysInstallerInit H,
     ii_StartUpdatePackageZip = Server_StartUpdatePackageZip U,
     ii_StartStreamUpdate = Server_StartStreamUpdate L,
     ii_StopStreamUpdate = Server_StopStreamUpdate L,
     ii_ProcessStreamData = (\<lambda>i. Server_ProcessStreamData L (bu_buffer i)),
     ii_SetUpdateCallback = Server_SetUpdateCallback,
     ii_GetUpdateStatus = Server_GetUpdateStatus,
     ii_package_call = Server_package_call,
     ii_vendor_call = Server_vendor_call,
     ii_GetUpdateResult = Server_GetUpdateResult,
     ii_ExitSysInstaller = ExitSysInstaller samgr\<rparr>"

record 'svc sys_kits =
  sk_sysInstaller :: "(nat \<times> 'svc) option"
  sk_deathRecipient :: bool
  sk_links :: "nat list"

definition SysKits_new :: "'svc sys_kits" where
  "SysKits_new = \<lparr>sk_sysInstaller = None, sk_deathRecipient = False, sk_links = []\<rparr>"

definition SysKits_ResetService :: "nat \<Rightarrow> 'svc sys_kits \<Rightarrow> 'svc sys_kits" where
  "SysKits_ResetService remote k =
     (case sk_sysInstaller k of
        None \<Rightarrow> k
      | Some (object, svc) \<Rightarrow>
          if remote = object
          then k\<lparr>sk_links := removeAll object (sk_links k), sk_sysInstaller := None\<rparr>
          else k)"

definition SysKits_GetService :: "'svc samgr \<Rightarrow> 'svc sys_kits \<Rightarrow> 'svc option \<times> 'svc sys_kits" where
  "SysKits_GetService A k =
     (case sk_sysInstaller k of
        Some (object, svc) \<Rightarrow> (Some svc, k)
      | None \<Rightarrow>
          if \<not> sg_samgr A then (None, k)
          else case sg_GetSystemAbility A of
            None \<Rightarrow> (None, k)
          | Some object \<Rightarrow>
              let k1 = k\<lparr>sk_deathRecipient := True\<rparr>;
                  k2 = (if sg_IsProxyObject A object \<and> sg_AddDeathRecipient A object
                        then k1\<lparr>sk_links := object # sk_links k1\<rparr> else k1)
              in case sg_iface_cast A object of
                   None \<Rightarrow> (None, k2\<lparr>sk_sysInstaller := None\<rparr>)
                 | Some svc \<Rightarrow> (Some svc, k2\<lparr>sk_sysInstaller := Some (object, svc)\<rparr>))"

definition SysKits_OnRemoteDied :: "nat \<Rightarrow> 'svc sys_kits \<Rightarrow> 'svc sys_kits" where
  "SysKits_OnRemoteDied remote k = SysKits_ResetService remote k"

definition SysKits_Init :: "'svc samgr \<Rightarrow> 'svc sys_kits \<Rightarrow> int" where
  "SysKits_Init A k =
     (if sk_sysInstaller k \<noteq> None then 0
      else if \<not> sg_samgr A then -1
      else if sg_LoadSystemAbility A \<noteq> 0 then -1
      else 0)"

text \<open>The service's own answer is dropped.\<close>

definition SysKits_SysInstallerInit ::
  "'s isys_installer samgr \<Rightarrow> string \<Rightarrow> bool \<Rightarrow> 's isys_installer sys_kits \<times> 's
   \<Rightarrow> int \<times> 's isys_installer sys_kits \<times> 's"
where
  "SysKits_SysInstallerInit A taskId bStreamUpgrade = (\<lambda>(k, s).
     let ret = SysKits_Init A k
     in if ret \<noteq> 0 then (ret, k, s)
        else case SysKits_GetService A k of
          (None, k1) \<Rightarrow> (-1, k1, s)
        | (Some updateService, k1) \<Rightarrow>
            (case ii_SysInstallerInit updateService taskId bStreamUpgrade s of (r, s1) \<Rightarrow> (0, k1, s1)))"

text \<open>The shape of the other calls: the service, or -1.\<close>

definition SysKits_call ::
  "'s isys_installer samgr \<Rightarrow> ('s isys_installer \<Rightarrow> 's \<Rightarrow> int \<times> 's) \<Rightarrow> 's isys_installer sys_kits \<times> 's
   \<Rightarrow> int \<times> 's isys_installer sys_kits \<times> 's"
where
  "SysKits_call A call = (\<lambda>(k, s).
     case SysKits_GetService A k of
       (None, k1) \<Rightarrow> (-1, k1, s)
     | (Some updateService, k1) \<Rightarrow> (case call updateService s of (ret, s1) \<Rightarrow> (ret, k1, s1)))"

definition SysKits_StartUpdatePackageZip where
  "SysKits_StartUpdatePackageZip A taskId pkgPath =
     SysKits_call A (\<lambda>updateService. ii_StartUpdatePackageZip updateService taskId pkgPath)"

definition SysKits_StartStreamUpdate where
  "SysKits_StartStreamUpdate A = SysKits_call A ii_StartStreamUpdate"

definition SysKits_StopStreamUpdate where
  "SysKits_StopStreamUpdate A = SysKits_call A ii_StopStreamUpdate"

definition SysKits_ProcessStreamData where
  "SysKits_ProcessStreamData A buffer n =
     SysKits_call A (\<lambda>updateService.
       ii_ProcessStreamData updateService \<lparr>bu_buffer = buffer, bu_size = n\<rparr>)"

text \<open>\<open>wrapper\<close>: the \<open>SysInstallerCallback\<close> made around the callback.\<close>

definition SysKits_SetUpdateCallback ::
  "'s isys_installer samgr \<Rightarrow> (nat \<Rightarrow> nat option) \<Rightarrow> string \<Rightarrow> nat option \<Rightarrow> 's isys_installer sys_kits \<times> 's
   \<Rightarrow> int \<times> 's isys_installer sys_kits \<times> 's"
where
  "SysKits_SetUpdateCallback A wrapper taskId callback = (\<lambda>(k, s).
     case callback of None \<Rightarrow> (-1, k, s) | Some cb \<Rightarrow>
     (case SysKits_GetService A k of
        (None, k1) \<Rightarrow> (-1, k1, s)
      | (Some updateService, k1) \<Rightarrow>
          (case wrapper cb of None \<Rightarrow> (-1, k1, s) | Some w \<Rightarrow>
           case ii_SetUpdateCallback updateService taskId (Some w) s of (ret, s1) \<Rightarrow> (ret, k1, s1))))"

definition SysKits_GetUpdateStatus where
  "SysKits_GetUpdateStatus A taskId =
     SysKits_call A (\<lambda>updateService. ii_GetUpdateStatus updateService taskId)"

definition SysKits_package_call where
  "SysKits_package_call A c = SysKits_call A (\<lambda>updateService. ii_package_call updateService c)"

definition SysKits_vendor_call where
  "SysKits_vendor_call A c = SysKits_call A (\<lambda>updateService. ii_vendor_call updateService c)"

text \<open>The calls at the end of the first group, and those of the second that stand apart in the file.\<close>

definition SysKits_CreateVabSnapshotCowImg where
  "SysKits_CreateVabSnapshotCowImg A = SysKits_package_call A CreateVabSnapshotCowImg"

definition SysKits_GetPartitionAvailableSize where
  "SysKits_GetPartitionAvailableSize A = SysKits_package_call A GetPartitionAvailableSize"

definition SysKits_StartVabMerge where
  "SysKits_StartVabMerge A = SysKits_package_call A StartVabMerge"

definition SysKits_ClearVabMetadataAndCow where
  "SysKits_ClearVabMetadataAndCow A = SysKits_package_call A ClearVabMetadataAndCow"

definition SysKits_VabUpdateActive where
  "SysKits_VabUpdateActive A = SysKits_vendor_call A VabUpdateActive"

definition SysKits_GetMetadataResult where
  "SysKits_GetMetadataResult A = SysKits_vendor_call A GetMetadataResult"

definition SysKits_StartAbSync where
  "SysKits_StartAbSync A = SysKits_vendor_call A StartAbSync"

definition SysKits_SetAiMergeState where
  "SysKits_SetAiMergeState A = SysKits_vendor_call A SetAiMergeState"

definition SysKits_SetUpdateVabMode where
  "SysKits_SetUpdateVabMode A = SysKits_vendor_call A SetUpdateVabMode"

definition SysKits_ClearVabPatch where
  "SysKits_ClearVabPatch A = SysKits_vendor_call A ClearVabPatch"

definition SysKits_GetPartitionStashSize where
  "SysKits_GetPartitionStashSize A = SysKits_vendor_call A GetPartitionStashSize"

definition SysKits_GetUpdateResult ::
  "'s isys_installer samgr \<Rightarrow> string \<Rightarrow> 's isys_installer sys_kits \<times> 's
   \<Rightarrow> string \<times> 's isys_installer sys_kits \<times> 's"
where
  "SysKits_GetUpdateResult A taskId = (\<lambda>(k, s).
     case SysKits_GetService A k of
       (None, k1) \<Rightarrow> ([], k1, s)
     | (Some updateService, k1) \<Rightarrow>
         (case ii_GetUpdateResult updateService taskId s of ((ret, updateResult), s1) \<Rightarrow>
            (if ret \<noteq> 0 then [] else updateResult, k1, s1)))"

definition SysKits_ExitSysInstaller ::
  "'s isys_installer samgr \<Rightarrow> 's isys_installer sys_kits \<times> 's \<Rightarrow> int \<times> 's isys_installer sys_kits \<times> 's"
where
  "SysKits_ExitSysInstaller A = (\<lambda>(k, s).
     if \<not> sg_samgr A then (-1, k, s)
     else if \<not> sg_CheckSystemAbility A then (0, k, s)
     else SysKits_call A ii_ExitSysInstaller (k, s))"

definition Sys_OnLoadSystemAbilitySuccess :: "int \<Rightarrow> int \<Rightarrow> nat option \<Rightarrow> bool" where
  "Sys_OnLoadSystemAbilitySuccess SYS_INSTALLER_DISTRIBUTED_SERVICE_ID systemAbilityId remoteObject =
     (if systemAbilityId \<noteq> SYS_INSTALLER_DISTRIBUTED_SERVICE_ID then False
      else if remoteObject = None then False else True)"

definition Sys_OnLoadSystemAbilityFail :: "int \<Rightarrow> int \<Rightarrow> bool" where
  "Sys_OnLoadSystemAbilityFail SYS_INSTALLER_DISTRIBUTED_SERVICE_ID systemAbilityId =
     (if systemAbilityId \<noteq> SYS_INSTALLER_DISTRIBUTED_SERVICE_ID then False else True)"

section \<open>Lemmas\<close>

text \<open>Without a service a call answers -1 and nothing on the far side changes.\<close>

lemma SysKits_call_unreachable:
  "fst (SysKits_GetService A k) = None \<Longrightarrow>
     fst (SysKits_call A call (k, s)) = -1 \<and> snd (snd (SysKits_call A call (k, s))) = s"
  by (auto simp: SysKits_call_def split: prod.split)

lemma SysKits_GetService_there:
  assumes "sg_samgr A" and "sg_GetSystemAbility A = Some object" and "sg_iface_cast A object = Some svc"
  shows "\<exists>k1. SysKits_GetService A SysKits_new = (Some svc, k1) \<and> sk_sysInstaller k1 = Some (object, svc)"
  using assms by (auto simp: SysKits_GetService_def SysKits_new_def Let_def)

section \<open>Properties\<close>

text \<open>A client's initialisation succeeds whatever the service answers: the result of the
  service's own \<open>SysInstallerInit\<close> is dropped, while its effect stays.\<close>

theorem SysInit_hides_result:
  assumes "sg_samgr A" and "sg_LoadSystemAbility A = 0" and "sg_GetSystemAbility A = Some object"
    and "sg_iface_cast A object = Some svc"
  shows "\<exists>k1. SysKits_SysInstallerInit A taskId stream (SysKits_new, s)
           = (0, k1, snd (ii_SysInstallerInit svc taskId stream s))"
proof -
  have "SysKits_Init A SysKits_new = 0" using assms by (simp add: SysKits_Init_def)
  then show ?thesis
    using SysKits_GetService_there [OF assms(1,3,4)]
    by (auto simp: SysKits_SysInstallerInit_def split: prod.split)
qed

theorem SysInit_hides_result_witness:
  "fst (SysKits_SysInstallerInit (sample_samgr (\<lparr>
       ii_SysInstallerInit = (\<lambda>t b s. (-1, s)), ii_StartUpdatePackageZip = (\<lambda>t p s. (0, s)),
       ii_StartStreamUpdate = Pair 0, ii_StopStreamUpdate = Pair 0, ii_ProcessStreamData = (\<lambda>i s. (0, s)),
       ii_SetUpdateCallback = (\<lambda>t c s. (0, s)), ii_GetUpdateStatus = (\<lambda>t s. (0, s)),
       ii_package_call = (\<lambda>c s. (0, s)), ii_vendor_call = (\<lambda>c s. (0, s)),
       ii_GetUpdateResult = (\<lambda>t s. ((0, []), s)), ii_ExitSysInstaller = Pair 0\<rparr> :: nat isys_installer))
     ''t'' False (SysKits_new, 0)) = 0"
proof -
  let ?svc = "\<lparr>
       ii_SysInstallerInit = (\<lambda>t b s. (-1, s)), ii_StartUpdatePackageZip = (\<lambda>t p s. (0, s)),
       ii_StartStreamUpdate = Pair 0, ii_StopStreamUpdate = Pair 0, ii_ProcessStreamData = (\<lambda>i s. (0, s)),
       ii_SetUpdateCallback = (\<lambda>t c s. (0, s)), ii_GetUpdateStatus = (\<lambda>t s. (0, s)),
       ii_package_call = (\<lambda>c s. (0, s)), ii_vendor_call = (\<lambda>c s. (0, s)),
       ii_GetUpdateResult = (\<lambda>t s. ((0, []), s)), ii_ExitSysInstaller = Pair 0\<rparr> :: nat isys_installer"
  have A: "sg_samgr (sample_samgr ?svc)" "sg_LoadSystemAbility (sample_samgr ?svc) = 0"
      "sg_GetSystemAbility (sample_samgr ?svc) = Some 1" "sg_iface_cast (sample_samgr ?svc) 1 = Some ?svc"
    by (simp_all add: sample_samgr_def)
  from SysInit_hides_result [OF A, of "''t''" False 0] show ?thesis by fastforce
qed

end
