(* ===== verification/Installer_Session.thy ===== *)
theory Installer_Session
  imports Installer_Kits
begin

text \<open>
  The installer as a whole: any number of client processes, each with its own client library,
  make calls on one service, in any order and with the rounds of the stream update's consumer
  thread in between. What is counted is the switches of the active slot.
\<close>

section \<open>Calls\<close>

datatype sys_call =
    KInit string bool
  | KStart string string
  | KCallback string "nat option"
  | KStatus string
  | KResult string
  | KStreamStart
  | KStreamStop
  | KStreamData "u8 list option" u32
  | KPackage package_call
  | KVendor vendor_call
  | KExit
  | KDied nat

fun sys_kits_call ::
  "'s isys_installer samgr \<Rightarrow> (nat \<Rightarrow> nat option) \<Rightarrow> sys_call \<Rightarrow> 's isys_installer sys_kits \<times> 's
   \<Rightarrow> 's isys_installer sys_kits \<times> 's"
where
  "sys_kits_call A wrapper (KInit t stream) c = snd (SysKits_SysInstallerInit A t stream c)"
| "sys_kits_call A wrapper (KStart t pkg) c = snd (SysKits_StartUpdatePackageZip A t pkg c)"
| "sys_kits_call A wrapper (KCallback t cb) c = snd (SysKits_SetUpdateCallback A wrapper t cb c)"
| "sys_kits_call A wrapper (KStatus t) c = snd (SysKits_GetUpdateStatus A t c)"
| "sys_kits_call A wrapper (KResult t) c = snd (SysKits_GetUpdateResult A t c)"
| "sys_kits_call A wrapper KStreamStart c = snd (SysKits_StartStreamUpdate A c)"
| "sys_kits_call A wrapper KStreamStop c = snd (SysKits_StopStreamUpdate A c)"
| "sys_kits_call A wrapper (KStreamData buffer n) c = snd (SysKits_ProcessStreamData A buffer n c)"
| "sys_kits_call A wrapper (KPackage p) c = snd (SysKits_package_call A p c)"
| "sys_kits_call A wrapper (KVendor v) c = snd (SysKits_vendor_call A v c)"
| "sys_kits_call A wrapper KExit c = snd (SysKits_ExitSysInstaller A c)"
| "sys_kits_call A wrapper (KDied remote) (k, s) = (SysKits_OnRemoteDied remote k, s)"

text \<open>An event of the system: a call of one client, or a round of the consumer thread.\<close>

datatype sys_event = ClientCall nat sys_call | ConsumerRound

type_synonym ('r, 'b) system = "(nat \<Rightarrow> ('r, 'b) server isys_installer sys_kits) \<times> ('r, 'b) server"

fun system_step ::
  "('r, 'b) server isys_installer samgr \<Rightarrow> (nat \<Rightarrow> nat option) \<Rightarrow> ('r, 'b) streamlib
   \<Rightarrow> sys_event \<Rightarrow> ('r, 'b) system \<Rightarrow> ('r, 'b) system"
where
  "system_step A wrapper L (ClientCall i e) (K, s) =
     (case sys_kits_call A wrapper e (K i, s) of (k, s1) \<Rightarrow> (K(i := k), s1))"
| "system_step A wrapper L ConsumerRound (K, s) =
     (K, s\<lparr>sv_stream := stream_step L SRound (sv_stream s)\<rparr>)"

definition system_run ::
  "('r, 'b) server isys_installer samgr \<Rightarrow> (nat \<Rightarrow> nat option) \<Rightarrow> ('r, 'b) streamlib
   \<Rightarrow> sys_event list \<Rightarrow> ('r, 'b) system \<Rightarrow> ('r, 'b) system"
where
  "system_run A wrapper L es c = fold (system_step A wrapper L) es c"

definition system_new :: "'r \<Rightarrow> ('r, 'b) system" where
  "system_new r = (\<lambda>i. SysKits_new, server_new r)"

section \<open>What the service keeps\<close>

text \<open>How often the slot was switched by package updates.\<close>

definition package_slots :: "manager \<Rightarrow> nat" where
  "package_slots m = (case m of None \<Rightarrow> 0 | Some h \<Rightarrow> in_slots (hp_in h))"

definition stream_slots :: "('r, 'b) server \<Rightarrow> nat" where
  "stream_slots s = sp_slots (sm_streamer (sv_stream s))"

text \<open>\<open>n\<close> switches are paid for by packages, \<open>m\<close> by stream updates; \<open>I\<close> is what the manager keeps.\<close>

definition manager_inv :: "nat \<Rightarrow> manager \<Rightarrow> bool" where
  "manager_inv n m = (case m of None \<Rightarrow> True | Some h \<Rightarrow> helper_ok h \<and> in_slots (hp_in h) \<le> n)"

definition server_inv ::
  "(nat \<Rightarrow> manager \<Rightarrow> bool) \<Rightarrow> nat \<Rightarrow> nat \<Rightarrow> ('r, 'b) server \<Rightarrow> bool"
where
  "server_inv I n m s \<longleftrightarrow> I n (sv_manager s) \<and> stream_inv m (sv_stream s)"

lemma guarded_inv:
  assumes "\<And>s1. server_inv I n m s1 \<Longrightarrow> server_inv I n' m' (snd (call s1))" and "server_inv I n m s"
  shows "server_inv I n' m' (snd (guarded tag call s))"
proof -
  let ?s = "s\<lparr>sv_runningSet := snd (guard_enter tag (sv_runningSet s))\<rparr>"
  have "server_inv I n m ?s" using assms(2) by (simp add: server_inv_def)
  then have "server_inv I n' m' (snd (call ?s))" by (rule assms(1))
  then show ?thesis by (simp add: guarded_def case_prod_unfold server_inv_def)
qed

lemma on_manager_inv:
  assumes "\<And>x. I n x \<Longrightarrow> I n' (snd (f x))" and "server_inv I n m s"
  shows "server_inv I n' m (snd (on_manager f s))"
  using assms by (simp add: on_manager_def server_inv_def case_prod_unfold)

lemma on_stream_inv:
  assumes "\<And>x. stream_inv m x \<Longrightarrow> stream_inv m' (snd (f x))" and "server_inv I n m s"
  shows "server_inv I n m' (snd (on_stream f s))"
  using assms by (simp add: on_stream_def server_inv_def case_prod_unfold)

lemma Stream_inv:
  "stream_inv m x \<Longrightarrow> stream_inv m (snd (Stream_SysInstallerInit x))"
  "stream_inv m x \<Longrightarrow> stream_inv (Suc m) (snd (StartStreamUpdate L x))"
  "stream_inv m x \<Longrightarrow> stream_inv m (snd (StopStreamUpdate L x))"
  "stream_inv m x \<Longrightarrow> stream_inv m (snd (ProcessStreamData L b x))"
  "stream_inv m x \<Longrightarrow> stream_inv m (snd (Stream_SetUpdateCallback cb x))"
  "stream_inv m x \<Longrightarrow> stream_inv m (stream_step L SRound x)"
  using stream_inv_step [of m x SInit undefined] stream_inv_step [of m x SStart L] stream_inv_step [of m x SStop L]
    stream_inv_step [of m x "SData b" L] stream_inv_step [of m x "SCallback cb" undefined]
    stream_inv_step [of m x SRound L]
  by simp_all

text \<open>What a call pays for: packages, streams.\<close>

fun package_pay :: "updlib \<Rightarrow> sys_call \<Rightarrow> nat" where
  "package_pay U (KStart t pkg) = pays U pkg"
| "package_pay U e = 0"

fun stream_pay :: "sys_call \<Rightarrow> nat" where
  "stream_pay KStreamStart = 1"
| "stream_pay e = 0"

text \<open>A client library that only ever finds the one service.\<close>

definition kits_only :: "'svc \<Rightarrow> 'svc sys_kits \<Rightarrow> bool" where
  "kits_only svc k \<longleftrightarrow> map_option snd (sk_sysInstaller k) \<in> {None, Some svc}"

definition finds_only :: "'svc samgr \<Rightarrow> 'svc \<Rightarrow> bool" where
  "finds_only A svc \<longleftrightarrow> (\<forall>ob. sg_iface_cast A ob \<in> {None, Some svc})"

lemma finds_onlyD: "finds_only A svc \<Longrightarrow> sg_iface_cast A ob = Some x \<Longrightarrow> x = svc"
  unfolding finds_only_def by (metis insert_iff option.distinct(1) option.inject singletonD)

lemma GetService_only:
  assumes "finds_only A svc" and "kits_only svc k"
  obtains k1 where "kits_only svc k1"
    and "SysKits_GetService A k = (None, k1) \<or> SysKits_GetService A k = (Some svc, k1)"
proof
  show "kits_only svc (snd (SysKits_GetService A k))"
    and "SysKits_GetService A k = (None, snd (SysKits_GetService A k))
      \<or> SysKits_GetService A k = (Some svc, snd (SysKits_GetService A k))"
    using assms
    by (auto simp: SysKits_GetService_def kits_only_def Let_def dest: finds_onlyD split: option.splits)
qed

text \<open>The events that pay for a switch.\<close>

fun paid_package :: "updlib \<Rightarrow> sys_event \<Rightarrow> bool" where
  "paid_package U (ClientCall i (KStart t pkg)) = (pkg = [] \<or> signed U pkg)"
| "paid_package U e = False"

fun paid_stream :: "sys_event \<Rightarrow> bool" where
  "paid_stream (ClientCall i KStreamStart) = True"
| "paid_stream e = False"

section \<open>What every session keeps\<close>

text \<open>
  The interface between the manager and the sessions: \<open>I n\<close> holds of a manager when \<open>n\<close> switches
  are paid for, and its four operations that change state keep it. The session keeps it then.
\<close>

locale manager_invariant =
  fixes U :: updlib and I :: "nat \<Rightarrow> manager \<Rightarrow> bool"
  assumes mono: "I n x \<Longrightarrow> n \<le> n' \<Longrightarrow> I n' x"
    and init: "I n x \<Longrightarrow> I n (snd (Manager_SysInstallerInit [] t x))"
    and start: "I n x \<Longrightarrow> I (n + pays U pkg) (snd (Manager_StartUpdatePackageZip U t pkg x))"
    and register: "I n x \<Longrightarrow> I n (snd (Manager_SetUpdateCallback t cb x))"
    and result: "I n x \<Longrightarrow> I n (snd (Manager_GetUpdateResult t x))"
begin

lemma server_inv_mono: "server_inv I n m s \<Longrightarrow> n \<le> n' \<Longrightarrow> m \<le> m' \<Longrightarrow> server_inv I n' m' s"
  using mono [of n "sv_manager s" n']
  by (auto simp: server_inv_def stream_inv_def Let_def split: option.splits if_splits)

lemma Server_inv:
  assumes "server_inv I n m s"
  shows "server_inv I n m (snd (Server_SysInstallerInit [] t stream s))"
    and "server_inv I (n + pays U pkg) m (snd (Server_StartUpdatePackageZip U t pkg s))"
    and "server_inv I n m (snd (Server_SetUpdateCallback t cb s))"
    and "server_inv I n m (snd (Server_GetUpdateStatus t s))"
    and "server_inv I n m (snd (Server_GetUpdateResult t s))"
    and "server_inv I n (Suc m) (snd (Server_StartStreamUpdate L s))"
    and "server_inv I n m (snd (Server_StopStreamUpdate L s))"
    and "server_inv I n m (snd (Server_ProcessStreamData L b s))"
    and "server_inv I n m (snd (Server_package_call p s))"
    and "server_inv I n m (snd (Server_vendor_call v s))"
    and "server_inv I n m (snd (ExitSysInstaller samgr s))"
proof -
  have mode: "server_inv I n m (s1\<lparr>sv_bStreamUpgrade := x\<rparr>) = server_inv I n m s1"
    for s1 :: "('a, 'b) server" and x by (simp add: server_inv_def)
  note m = on_manager_inv [where I = I, OF init] on_manager_inv [where I = I, OF start]
    on_manager_inv [where I = I, OF register] on_manager_inv [where I = I, OF result]
  note st = on_stream_inv [OF Stream_inv(1)] on_stream_inv [OF Stream_inv(2)] on_stream_inv [OF Stream_inv(3)]
    on_stream_inv [OF Stream_inv(4)] on_stream_inv [OF Stream_inv(5)]
  show "server_inv I n m (snd (Server_SysInstallerInit [] t stream s))"
    unfolding Server_SysInstallerInit_def Let_def
    by (rule guarded_inv [OF _ assms]) (simp add: m(1) st(1) mode)
  show "server_inv I (n + pays U pkg) m (snd (Server_StartUpdatePackageZip U t pkg s))"
    unfolding Server_StartUpdatePackageZip_def by (rule guarded_inv [OF m(2) assms])
  show "server_inv I n m (snd (Server_SetUpdateCallback t cb s))"
    unfolding Server_SetUpdateCallback_def by (rule guarded_inv [OF _ assms]) (simp add: m(3) st(5))
  show "server_inv I n m (snd (Server_GetUpdateStatus t s))"
    unfolding Server_GetUpdateStatus_def by (rule guarded_inv [OF _ assms]) simp
  show "server_inv I n m (snd (Server_GetUpdateResult t s))"
    unfolding Server_GetUpdateResult_def by (rule guarded_inv [OF _ assms]) (simp add: m(4) case_prod_unfold)
  show "server_inv I n (Suc m) (snd (Server_StartStreamUpdate L s))"
    unfolding Server_StartStreamUpdate_def by (rule guarded_inv [OF st(2) assms])
  show "server_inv I n m (snd (Server_StopStreamUpdate L s))"
    unfolding Server_StopStreamUpdate_def by (rule guarded_inv [OF st(3) assms])
  show "server_inv I n m (snd (Server_ProcessStreamData L b s))"
    unfolding Server_ProcessStreamData_def by (rule guarded_inv [OF st(4) assms])
  show "server_inv I n m (snd (Server_package_call p s))"
    unfolding Server_package_call_def by (rule guarded_inv [OF _ assms]) simp
  show "server_inv I n m (snd (Server_vendor_call v s))"
    unfolding Server_vendor_call_def by (rule guarded_inv [OF _ assms]) simp
  show "server_inv I n m (snd (ExitSysInstaller samgr s))"
    using assms by (simp add: ExitSysInstaller_def server_inv_def)
qed

lemma sys_kits_call_inv:
  assumes A: "finds_only A svc" and svc: "svc = sys_service [] U L g"
    and k: "kits_only svc k" and s: "server_inv I n m s"
  shows "kits_only svc (fst (sys_kits_call A wrapper e (k, s)))
     \<and> server_inv I (n + package_pay U e) (m + stream_pay e) (snd (sys_kits_call A wrapper e (k, s)))"
proof -
  obtain k1 where k1: "kits_only svc k1"
    and g: "SysKits_GetService A k = (None, k1) \<or> SysKits_GetService A k = (Some svc, k1)"
    by (rule GetService_only [OF A k])
  have more: "server_inv I (n + x) m s" "server_inv I n (Suc m) s" for x
    by (rule server_inv_mono [OF s]; simp)+
  note inv = Server_inv [OF s]
  show ?thesis
  proof (cases e)
    case (KDied remote)
    then show ?thesis using k s
      by (auto simp: SysKits_OnRemoteDied_def SysKits_ResetService_def kits_only_def split: option.splits)
  next
    case (KCallback t cb)
    then show ?thesis using g k k1 s inv(3)
      by (auto simp: SysKits_SetUpdateCallback_def svc sys_service_def case_prod_unfold split: option.split)
  qed (use g k k1 s more inv in \<open>auto simp: SysKits_SysInstallerInit_def
      SysKits_StartUpdatePackageZip_def SysKits_GetUpdateStatus_def SysKits_GetUpdateResult_def
      SysKits_StartStreamUpdate_def SysKits_StopStreamUpdate_def SysKits_ProcessStreamData_def
      SysKits_package_call_def SysKits_vendor_call_def SysKits_ExitSysInstaller_def SysKits_call_def
      svc sys_service_def case_prod_unfold Let_def\<close>)
qed

lemma system_step_inv:
  assumes A: "finds_only A svc" and svc: "svc = sys_service [] U L g"
    and c: "\<And>i. kits_only svc (fst c i)" "server_inv I n m (snd c)"
  shows "(\<forall>i. kits_only svc (fst (system_step A wrapper L e c) i))
     \<and> server_inv I (n + (if paid_package U e then 1 else 0)) (m + (if paid_stream e then 1 else 0))
         (snd (system_step A wrapper L e c))"
proof -
  obtain K s where c': "c = (K, s)" by (rule prod.exhaust)
  show ?thesis
  proof (cases e)
    case (ClientCall i x)
    have "package_pay U x = (if paid_package U e then 1 else 0)" "stream_pay x = (if paid_stream e then 1 else 0)"
      by (cases x; simp add: ClientCall pays_def)+
    with sys_kits_call_inv [OF A svc, of "K i" n m s wrapper x] c show ?thesis
      by (simp add: c' ClientCall case_prod_unfold)
  next
    case ConsumerRound
    then show ?thesis using c Stream_inv(6) [of m "sv_stream s" L] by (simp add: c' server_inv_def)
  qed
qed

lemma system_run_inv:
  assumes A: "finds_only A svc" and svc: "svc = sys_service [] U L g"
  shows "\<forall>i. kits_only svc (fst c i) \<Longrightarrow> server_inv I n m (snd c) \<Longrightarrow>
     server_inv I (n + length (filter (paid_package U) es)) (m + length (filter paid_stream es))
       (snd (system_run A wrapper L es c))"
proof (induction es arbitrary: c n m)
  case (Cons e es)
  note step = system_step_inv [OF A svc, of c n m wrapper e]
  show ?case
    using Cons.IH [of "system_step A wrapper L e c"] step Cons.prems
    by (fastforce simp: system_run_def)
qed (simp add: system_run_def)

lemma session_keeps:
  assumes A: "finds_only A (sys_service [] U L g)" and new: "I 0 None"
  shows "server_inv I (length (filter (paid_package U) es)) (length (filter paid_stream es))
     (snd (system_run A wrapper L es (system_new r)))"
proof -
  have "kits_only svc (fst (system_new r :: ('a, 'b) system) i)" "server_inv I 0 0 (snd (system_new r :: ('a, 'b) system))"
    for i and svc :: "('a, 'b) server isys_installer"
    by (simp_all add: system_new_def kits_only_def SysKits_new_def server_inv_def server_new_def new
        stream_inv_def stream_new_def Let_def)
  with system_run_inv [OF A refl, of "system_new r" 0 0 es wrapper] show ?thesis by simp
qed

end

lemma manager_inv_mono: "manager_inv n x \<Longrightarrow> n \<le> n' \<Longrightarrow> manager_inv n' x"
  by (auto simp: manager_inv_def split: option.splits)

lemma Manager_inv:
  "manager_inv n x \<Longrightarrow> manager_inv n (snd (Manager_SysInstallerInit [] t x))"
  "manager_inv n x \<Longrightarrow> manager_inv (n + pays U pkg) (snd (Manager_StartUpdatePackageZip U t pkg x))"
  "manager_inv n x \<Longrightarrow> manager_inv n (snd (Manager_SetUpdateCallback t cb x))"
  "manager_inv n x \<Longrightarrow> manager_inv n (snd (Manager_GetUpdateResult t x))"
proof -
  have new: "in_slots (hp_in Helper_new) = 0" by (simp add: Helper_new_def)
  show "manager_inv n x \<Longrightarrow> manager_inv n (snd (Manager_SysInstallerInit [] t x))"
    using helper_ok_new new
    by (auto simp: Manager_SysInstallerInit_def manager_inv_def RegisterDump_def Let_def case_prod_unfold
        helper_ok_Init other_calls_slots split: option.splits)
  show "manager_inv n x \<Longrightarrow> manager_inv (n + pays U pkg) (snd (Manager_StartUpdatePackageZip U t pkg x))"
    using Start_slots [of _ U t pkg]
    by (fastforce simp: Manager_StartUpdatePackageZip_def manager_inv_def case_prod_unfold helper_ok_Start
        split: option.splits)
  show "manager_inv n x \<Longrightarrow> manager_inv n (snd (Manager_SetUpdateCallback t cb x))"
    by (auto simp: Manager_SetUpdateCallback_def manager_inv_def case_prod_unfold helper_ok_Callback
        other_calls_slots split: option.splits)
  show "manager_inv n x \<Longrightarrow> manager_inv n (snd (Manager_GetUpdateResult t x))"
    by (auto simp: Manager_GetUpdateResult_def manager_inv_def case_prod_unfold helper_ok_Result
        other_calls_slots split: option.splits)
qed

interpretation slots: manager_invariant U manager_inv for U
  by unfold_locales (erule (1) manager_inv_mono | erule Manager_inv)+

section \<open>Properties\<close>


text \<open>Two clients: one starts a signed package, the other one that is refused.\<close>

definition picky_updlib :: updlib where
  "picky_updlib = good_updlib\<lparr>u_VerifyPackage := (\<lambda>p. if p = ''/bad.zip'' then 1 else 0)\<rparr>"


end
