(* ===== verification/Installer_Progress.thy ===== *)
theory Installer_Progress
  imports Installer_Session
begin

text \<open>
  What the clients of the installer hear of a task, through whole sessions: the invariant of a
  status manager, kept by the two actions, the processer and the helper, is handed to
  \<open>manager_invariant\<close>, which carries it through every sequence of calls.
\<close>

section \<open>A status manager that reports ends at 100\<close>

definition ended :: "UpdateStatus \<Rightarrow> bool" where
  "ended st = (st = UPDATE_STATE_SUCCESSFUL \<or> st = UPDATE_STATE_FAILED)"

definition progress_ok :: "StatusManager \<Rightarrow> bool" where
  "progress_ok m =
     (status_ok m \<and> (ended (sm_updateStatus m) \<longrightarrow> sm_percent m = 100)
      \<and> (\<forall>(c, st, p, msg) \<in> set (sm_told m). ended st \<longrightarrow> p = 100))"

lemma ended_simps [simp]:
  "\<not> ended UPDATE_STATE_INIT" "\<not> ended UPDATE_STATE_ONGOING"
  "ended UPDATE_STATE_FAILED" "ended UPDATE_STATE_SUCCESSFUL"
  by (simp_all add: ended_def)

lemma progress_ok_new: "progress_ok StatusManager_new" "progress_ok (Status_Init StatusManager_new)"
  by (simp_all add: progress_ok_def status_ok_new StatusManager_new_def Status_Init_def
      status_ok_def percents_def)

lemma progress_ok_update: "progress_ok m \<Longrightarrow> progress_ok (Status_UpdateCallback st n msg m)"
  using status_ok_update [of m st n msg]
  by (auto simp: progress_ok_def Status_UpdateCallback_def OnUpgradeProgress_def Let_def ended_def
      split: option.splits if_splits)

lemma progress_ok_percent: "progress_ok m \<Longrightarrow> progress_ok (SetUpdatePercent n m)"
  by (simp add: SetUpdatePercent_def progress_ok_update)

lemma progress_ok_register: "progress_ok m \<Longrightarrow> progress_ok (snd (Status_SetUpdateCallback cb m))"
  using status_ok_register [of m cb]
  by (auto simp: progress_ok_def Status_SetUpdateCallback_def OnUpgradeProgress_def split: option.splits)

section \<open>The actions and the processer\<close>

definition heap_ok :: "installer \<Rightarrow> bool" where
  "heap_ok s = (\<forall>a. progress_ok (in_heap s a))"

lemma heap_ok_update:
  "heap_ok s \<Longrightarrow> (\<And>m. progress_ok m \<Longrightarrow> progress_ok (f m)) \<Longrightarrow> heap_ok (heap_update a f s)"
  by (simp add: heap_ok_def)

lemma heap_ok_outside [simp]:
  "heap_ok (s\<lparr>in_certs := c\<rparr>) = heap_ok s" "heap_ok (s\<lparr>in_packages := k\<rparr>) = heap_ok s"
  "heap_ok (s\<lparr>in_slots := l\<rparr>) = heap_ok s" "heap_ok (InvokeEvent e s) = heap_ok s"
  by (simp_all add: heap_ok_def InvokeEvent_def)

lemma heap_ok_percent [simp]: "heap_ok s \<Longrightarrow> heap_ok (heap_update a (SetUpdatePercent n) s)"
  by (simp add: heap_ok_update progress_ok_percent)

lemma heap_ok_callback [simp]: "heap_ok s \<Longrightarrow> heap_ok (heap_update a (Status_UpdateCallback st n msg) s)"
  by (simp add: heap_ok_update progress_ok_update)

lemma heap_ok_verify_pkgs: "heap_ok s \<Longrightarrow> heap_ok (snd (verify_pkgs U a n ps k s))"
  by (induction U a n ps k s rule: verify_pkgs.induct) (auto simp: Let_def split: option.splits)

lemma heap_ok_Verify: "heap_ok s \<Longrightarrow> heap_ok (snd (Verify U m ps s))"
proof (cases m)
  case (Some a)
  assume ok: "heap_ok s"
  let ?l = "filter (\<lambda>pkg. pkg \<noteq> []) ps"
  let ?s = "heap_update a (SetUpdatePercent 1) (s\<lparr>in_certs := in_certs s + 1\<rparr>)"
  obtain r s2 where v: "verify_pkgs U a (length ?l) ?l 0 ?s = (r, s2)" by (rule prod.exhaust)
  have "heap_ok s2" using heap_ok_verify_pkgs [of ?s U a "length ?l" ?l 0] ok v by auto
  then show ?thesis using Some ok v by (auto simp: Verify_def Let_def)
qed (simp add: Verify_def)

lemma heap_ok_SetProgress: "heap_ok s \<Longrightarrow> heap_ok (fold (SetProgress m) vs s)"
  by (induction vs arbitrary: s) (auto simp: SetProgress_def split: option.split)

lemma heap_ok_StartABUpdate: "heap_ok s \<Longrightarrow> heap_ok (snd (StartABUpdate U m pkg s))"
  by (auto simp: StartABUpdate_def Let_def heap_ok_SetProgress split: option.split prod.split)

lemma heap_ok_PerformAction: "heap_ok s \<Longrightarrow> heap_ok (snd (PerformAction U x s))"
  using heap_ok_Verify [of s U] heap_ok_StartABUpdate [of s U]
  by (cases x) (simp_all add: PkgVerify_PerformAction_def ABUpdate_PerformAction_def case_prod_unfold)

lemma heap_ok_in_order: "heap_ok s \<Longrightarrow> heap_ok (in_order U m xs e s)"
proof (induction xs arbitrary: e s)
  case (Cons x xs)
  obtain e1 msg s1 where pa: "PerformAction U x s = ((e1, msg), s1)" by (metis prod.exhaust)
  then have "heap_ok s1" using heap_ok_PerformAction [OF Cons.prems, of U x] by simp
  then show ?case using Cons.IH pa by auto
qed auto

section \<open>The helper and the manager\<close>

lemma Helper_heap_ok:
  "heap_ok (hp_in Helper_new)"
  "heap_ok (hp_in h) \<Longrightarrow> heap_ok (hp_in (snd (Helper_SysInstallerInit t h)))"
  "heap_ok (hp_in h) \<Longrightarrow> heap_ok (hp_in (snd (Helper_SetUpdateCallback t cb h)))"
  "heap_ok (hp_in h) \<Longrightarrow> heap_ok (hp_in (snd (Helper_GetUpdateResult t h)))"
  by (simp_all add: Helper_new_def heap_ok_def progress_ok_new Helper_SysInstallerInit_def init_status_def
      init_processer_def Helper_SetUpdateCallback_def Helper_GetUpdateResult_def erase_status_def
      erase_processer_def progress_ok_register Let_def split: option.split)

lemma Helper_Start_heap_ok:
  assumes ok: "helper_ok h" and hp: "heap_ok (hp_in h)"
  shows "heap_ok (hp_in (snd (Helper_StartUpdatePackageZip U t pkg h)))"
proof (cases "GetStatusManager t h")
  case None
  then show ?thesis using hp by (simp add: Helper_StartUpdatePackageZip_def)
next
  case (Some a)
  obtain p where p: "GetActionProcesser t h = Some p" "idle p = p" using helper_okD [OF ok Some] by blast
  show ?thesis using hp by (auto simp: Helper_Start_idle [OF Some p] simp del: in_order.simps intro!: heap_ok_in_order)
qed

definition manager_progress :: "nat \<Rightarrow> manager \<Rightarrow> bool" where
  "manager_progress n m = (case m of None \<Rightarrow> True | Some h \<Rightarrow> helper_ok h \<and> heap_ok (hp_in h))"

lemma Manager_progress:
  assumes "manager_progress n x"
  shows "manager_progress n (snd (Manager_SysInstallerInit [] t x))"
    and "manager_progress n' (snd (Manager_StartUpdatePackageZip U t pkg x))"
    and "manager_progress n (snd (Manager_SetUpdateCallback t cb x))"
    and "manager_progress n (snd (Manager_GetUpdateResult t x))"
  using assms helper_ok_new
  by (auto simp: manager_progress_def Manager_SysInstallerInit_def Manager_StartUpdatePackageZip_def
      Manager_SetUpdateCallback_def Manager_GetUpdateResult_def RegisterDump_def Let_def case_prod_unfold
      helper_ok_Init helper_ok_Start helper_ok_Callback helper_ok_Result Helper_heap_ok Helper_Start_heap_ok
      split: option.splits)

interpretation progress: manager_invariant U manager_progress for U
  by unfold_locales (simp_all add: Manager_progress, simp add: manager_progress_def)

section \<open>Properties\<close>

text \<open>C23. What a client hears of its task is a progress, whatever any number of clients call and in any
  order: in the reports of every status manager the service has made, erased ones included, the
  percentages lie between 0 and 100 and do not go down, every status is a named one, and a report of success or
  failure carries 100, as does every report after it. The last clause is why a package started
  again on a task that has ended is reported at 100 from its first moment on.\<close>

theorem Session_reports_monotone:
  assumes "finds_only A (sys_service [] U L g)"
    and "sv_manager (snd (system_run A wrapper L es (system_new r))) = Some h"
    and "m = in_heap (hp_in h) a"
  shows "sorted (percents m @ [sm_percent m]) \<and> set (percents m) \<subseteq> {0..100}
    \<and> (\<lambda>(c, st, p, msg). st) ` set (sm_told m) \<subseteq> {..UPDATE_STATE_MAX}
    \<and> (\<forall>before c st p msg after. sm_told m = before @ (c, st, p, msg) # after \<longrightarrow> ended st
        \<longrightarrow> p = 100 \<and> (\<forall>(c', st', p', msg') \<in> set after. p' = 100))"
proof -
  have "progress_ok m"
    using progress.session_keeps [OF assms(1), of es wrapper r] assms(2,3)
    by (simp add: server_inv_def manager_progress_def heap_ok_def)
  then have ok: "status_ok m" "\<forall>(c, st, p, msg) \<in> set (sm_told m). ended st \<longrightarrow> p = 100"
    by (simp_all add: progress_ok_def)
  from ok(1) have range: "sorted (percents m @ [sm_percent m])" "set (percents m) \<subseteq> {0..100}"
    "(\<lambda>(c, st, p, msg). st) ` set (sm_told m) \<subseteq> {..UPDATE_STATE_MAX}"
    by (fastforce simp: status_ok_def sorted_append)+
  have "p = 100 \<and> (\<forall>(c', st', p', msg') \<in> set after. p' = 100)"
    if told: "sm_told m = before @ (c, st, p, msg) # after" and "ended st" for before c st p msg after
  proof -
    have p: "p = 100" using ok(2) that by auto
    have "\<forall>q \<in> set (map (\<lambda>(c, st, p, msg). p) after). q = 100"
      using range(1,2) told p by (fastforce simp: percents_def sorted_append)
    then show ?thesis using p by fastforce
  qed
  with range show ?thesis by blast
qed

section \<open>Sessions of clients that find the service\<close>

text \<open>Where every client finds the service and no stream was asked for, the calls of the clients are
  those of the manager: \<open>ready M c\<close> says that the manager is \<open>M\<close>.\<close>

abbreviation found_service :: "updlib \<Rightarrow> (unit, unit) server isys_installer" where
  "found_service U \<equiv> sys_service [] U done_lib True"

definition ready :: "updlib \<Rightarrow> manager \<Rightarrow> (unit, unit) system \<Rightarrow> bool" where
  "ready U M c \<longleftrightarrow> (\<forall>i. kits_only (found_service U) (fst c i)) \<and> sv_manager (snd c) = M
     \<and> \<not> sv_bStreamUpgrade (snd c)"

lemma ready_new: "ready U None (system_new ())"
  by (simp add: ready_def system_new_def kits_only_def SysKits_new_def server_new_def)

lemma sample_finds:
  assumes "kits_only svc k"
  obtains k1 where "SysKits_GetService (sample_samgr svc) k = (Some svc, k1)" and "kits_only svc k1"
  using assms
  by (cases "sk_sysInstaller k") (auto simp: SysKits_GetService_def sample_samgr_def kits_only_def Let_def)

lemma sample_init: "SysKits_Init (sample_samgr svc) k = 0"
  by (simp add: SysKits_Init_def sample_samgr_def)

lemma server_calls_manager:
  "\<not> stream \<Longrightarrow> sv_manager (snd (Server_SysInstallerInit [] t stream s)) = snd (Manager_SysInstallerInit [] t (sv_manager s))"
  "sv_manager (snd (Server_StartUpdatePackageZip U t pkg s)) = snd (Manager_StartUpdatePackageZip U t pkg (sv_manager s))"
  "\<not> sv_bStreamUpgrade s \<Longrightarrow>
   sv_manager (snd (Server_SetUpdateCallback t cb s)) = snd (Manager_SetUpdateCallback t cb (sv_manager s))"
  "sv_bStreamUpgrade (snd (Server_SysInstallerInit [] t stream s)) = stream"
  "sv_bStreamUpgrade (snd (Server_StartUpdatePackageZip U t pkg s)) = sv_bStreamUpgrade s"
  "sv_bStreamUpgrade (snd (Server_SetUpdateCallback t cb s)) = sv_bStreamUpgrade s"
  by (simp_all add: Server_SysInstallerInit_def Server_StartUpdatePackageZip_def Server_SetUpdateCallback_def
      guarded_def on_manager_def on_stream_def case_prod_unfold Let_def)

lemma ready_calls:
  assumes c: "ready U M c"
  shows "ready U (snd (Manager_SysInstallerInit [] t M))
      (system_step (sample_samgr (found_service U)) Some done_lib (ClientCall i (KInit t False)) c)"
    and "ready U (snd (Manager_StartUpdatePackageZip U t pkg M))
      (system_step (sample_samgr (found_service U)) Some done_lib (ClientCall i (KStart t pkg)) c)"
    and "ready U (snd (Manager_SetUpdateCallback t (Some cb) M))
      (system_step (sample_samgr (found_service U)) Some done_lib (ClientCall i (KCallback t (Some cb))) c)"
proof -
  obtain K s where c': "c = (K, s)" by (rule prod.exhaust)
  have k: "kits_only (found_service U) (K i)" and M: "sv_manager s = M" "\<not> sv_bStreamUpgrade s"
    using c by (simp_all add: ready_def c')
  obtain k1 where g: "SysKits_GetService (sample_samgr (found_service U)) (K i) = (Some (found_service U), k1)"
    and k1: "kits_only (found_service U) k1" by (rule sample_finds [OF k])
  have s: "ii_SysInstallerInit (found_service U) = Server_SysInstallerInit []"
    "ii_StartUpdatePackageZip (found_service U) = Server_StartUpdatePackageZip U"
    "ii_SetUpdateCallback (found_service U) = Server_SetUpdateCallback" by (simp_all add: sys_service_def)
  note eval = ready_def c' g k1 M s server_calls_manager sample_init SysKits_SysInstallerInit_def
    SysKits_StartUpdatePackageZip_def SysKits_SetUpdateCallback_def SysKits_call_def case_prod_unfold
  show "ready U (snd (Manager_SysInstallerInit [] t M))
      (system_step (sample_samgr (found_service U)) Some done_lib (ClientCall i (KInit t False)) c)"
    using c by (simp add: eval)
  show "ready U (snd (Manager_StartUpdatePackageZip U t pkg M))
      (system_step (sample_samgr (found_service U)) Some done_lib (ClientCall i (KStart t pkg)) c)"
    using c by (simp add: eval)
  show "ready U (snd (Manager_SetUpdateCallback t (Some cb) M))
      (system_step (sample_samgr (found_service U)) Some done_lib (ClientCall i (KCallback t (Some cb))) c)"
    using c by (simp add: eval)
qed

text \<open>The mode of the last initialisation is one flag for all clients: when one client has asked for
  a stream, the callback another registers for its task replaces the one of the stream and the
  task never gets it, and a query for the status of the task is answered with that of the stream.\<close>

lemma Stream_init_redirects:
  assumes "s1 = snd (Server_SysInstallerInit [] u True s)"
  shows "sv_manager (snd (Server_SetUpdateCallback t cb s1)) = sv_manager s
    \<and> sv_stream (snd (Server_SetUpdateCallback t cb s1)) = snd (Stream_SetUpdateCallback cb (sv_stream s1))
    \<and> fst (Server_GetUpdateStatus t s1) = Stream_GetUpdateStatus (sv_stream s1)"
  by (simp add: assms Server_SysInstallerInit_def Server_SetUpdateCallback_def Server_GetUpdateStatus_def
      guarded_def on_stream_def case_prod_unfold Let_def)

text \<open>A client starts a package whose signature is refused, and then a good one on the same task: the
  client is told that the second start is ongoing, and always at 100.\<close>

definition restart_events :: "sys_event list" where
  "restart_events =
     [ClientCall 0 (KInit ''a'' False), ClientCall 0 (KCallback ''a'' (Some 7)),
      ClientCall 0 (KStart ''a'' ''/bad.zip''), ClientCall 0 (KStart ''a'' ''/p.zip'')]"

definition restart_run :: "(unit, unit) system" where
  "restart_run = system_run (sample_samgr (sys_service [] picky_updlib done_lib True)) Some done_lib
     restart_events (system_new ())"

definition restart_status :: StatusManager where
  "restart_status = in_heap (hp_in (the (sv_manager (snd restart_run)))) 0"

definition restart_helper :: helper where
  "restart_helper = helper_run picky_updlib
     [HInit ''a'', HCallback ''a'' (Some 7), HStart ''a'' ''/bad.zip'', HStart ''a'' ''/p.zip''] Helper_new"

lemma restart_manager: "sv_manager (snd restart_run) = Some restart_helper"
proof -
  let ?U = picky_updlib
  have "ready ?U (snd (Manager_StartUpdatePackageZip ?U ''a'' ''/p.zip''
      (snd (Manager_StartUpdatePackageZip ?U ''a'' ''/bad.zip''
        (snd (Manager_SetUpdateCallback ''a'' (Some 7) (snd (Manager_SysInstallerInit [] ''a'' None)))))))) restart_run"
    unfolding restart_run_def restart_events_def system_run_def fold_simps comp_def id_def
    by (intro ready_calls ready_new)
  then show ?thesis
    by (simp add: ready_def restart_helper_def helper_run_def Manager_SysInstallerInit_def
        Manager_StartUpdatePackageZip_def Manager_SetUpdateCallback_def RegisterDump_def case_prod_unfold)
qed

text \<open>What the two starts do to the task's status manager.\<close>

lemma refused_start:
  assumes "GetStatusManager t h = Some a" and "GetActionProcesser t h = Some p" and "idle p = p"
    and "ap_statusManager p = a" and "pkg \<noteq> []"
    and "u_PathToRealPath U pkg = Some rp" and "u_VerifyPackage U rp = ret" and "ret \<noteq> 0"
  shows "in_heap (hp_in (snd (Helper_StartUpdatePackageZip U t pkg h))) a
    = Status_UpdateCallback UPDATE_STATE_FAILED 100 (string_of_int ret)
        (SetUpdatePercent 1 (Status_UpdateCallback UPDATE_STATE_ONGOING 0 [] (in_heap (hp_in h) a)))"
  using assms(4-)
  by (simp add: Helper_Start_idle [OF assms(1-3)] PkgVerify_PerformAction_def Verify_def failed_code_def
      InvokeEvent_def)

lemma plain_start:
  assumes "GetStatusManager t h = Some a" and "GetActionProcesser t h = Some p" and "idle p = p"
    and "ap_statusManager p = a" and "pkg \<noteq> []" and "\<not> contains_str PATCH_PACKAGE_NAME pkg"
    and "u_PathToRealPath U pkg = Some rp" and "u_VerifyPackage U rp = 0" and "u_CreatePackageInstance U"
    and "u_SetUpdateSuffixParam U = u_UPDATE_SUCCESS U"
    and "\<forall>n. u_DoInstallUpdaterPackage U pkg n = ([], u_UPDATE_SUCCESS U)"
  shows "in_heap (hp_in (snd (Helper_StartUpdatePackageZip U t pkg h))) a
    = Status_UpdateCallback UPDATE_STATE_SUCCESSFUL 100 []
        (SetUpdatePercent 5 (SetUpdatePercent 5
          (SetUpdatePercent 1 (Status_UpdateCallback UPDATE_STATE_ONGOING 0 [] (in_heap (hp_in h) a)))))"
  using assms(4-)
  by (simp add: Helper_Start_idle [OF assms(1-3)] PkgVerify_PerformAction_def Verify_def failed_code_def
      ABUpdate_PerformAction_def StartABUpdate_def PKG_VERIFY_PERCENT_def InvokeEvent_def Let_def)

lemma start_keeps:
  assumes "GetStatusManager t h = Some a" and "GetActionProcesser t h = Some p" and "idle p = p"
  shows "GetStatusManager t (snd (Helper_StartUpdatePackageZip U t pkg h)) = Some a"
    and "GetActionProcesser t (snd (Helper_StartUpdatePackageZip U t pkg h)) = Some p"
  using assms(1,2) unfolding Helper_Start_idle [OF assms]
  by (simp_all add: GetStatusManager_def GetActionProcesser_def update_conv' del: in_order.simps)

text \<open>What a client with a callback hears: status and percentage of each report.\<close>

definition heard :: "StatusManager \<Rightarrow> UpdateStatus \<times> int \<times> (UpdateStatus \<times> int) list" where
  "heard m = (sm_updateStatus m, sm_percent m, map (\<lambda>(c, st, p, msg). (st, p)) (sm_told m))"

lemma heard_update:
  assumes "sm_updateCallback m = Some cb" and "heard m = (st0, p0, rs)" and "st \<le> UPDATE_STATE_MAX"
    and "st0 \<noteq> st \<or> n \<noteq> p0"
    and "p = (if ended st then 100 else if 0 \<le> n \<and> n \<le> 100 \<and> p0 < n then n else p0)"
  shows "heard (Status_UpdateCallback st n msg m) = (st, p, rs @ [(st, p)])"
    and "sm_updateCallback (Status_UpdateCallback st n msg m) = Some cb"
  using assms
  by (auto simp: heard_def Status_UpdateCallback_def OnUpgradeProgress_def Let_def ended_def not_less)

lemma heard_percent:
  assumes "sm_updateCallback m = Some cb" and "heard m = (st0, p0, rs)" and "st0 \<le> UPDATE_STATE_MAX"
    and "n \<noteq> p0"
    and "p = (if ended st0 then 100 else if 0 \<le> n \<and> n \<le> 100 \<and> p0 < n then n else p0)"
  shows "heard (SetUpdatePercent n m) = (st0, p, rs @ [(st0, p)])"
    and "sm_updateCallback (SetUpdatePercent n m) = Some cb"
  using heard_update [OF assms(1-3) _ assms(5)] assms(2,4) by (simp_all add: SetUpdatePercent_def heard_def)

lemma restart_reports:
  "map (\<lambda>(c, st, p, msg). (st, p)) (sm_told (in_heap (hp_in restart_helper) 0))
   = [(UPDATE_STATE_INIT, 0), (UPDATE_STATE_ONGOING, 0), (UPDATE_STATE_ONGOING, 1), (UPDATE_STATE_FAILED, 100),
      (UPDATE_STATE_ONGOING, 100), (UPDATE_STATE_ONGOING, 100), (UPDATE_STATE_ONGOING, 100),
      (UPDATE_STATE_ONGOING, 100), (UPDATE_STATE_SUCCESSFUL, 100)]"
proof -
  let ?U = picky_updlib and ?p = "ActionProcesser_new 0"
  let ?h = "helper_run ?U [HInit ''a'', HCallback ''a'' (Some 7)] Helper_new"
  have g: "GetStatusManager ''a'' ?h = Some 0" "GetActionProcesser ''a'' ?h = Some ?p"
    and m: "in_heap (hp_in ?h) 0 = \<lparr>sm_updateStatus = UPDATE_STATE_INIT, sm_resultMsg = [], sm_percent = 0,
      sm_updateCallback = Some 7, sm_told = [(7, UPDATE_STATE_INIT, 0, [])]\<rparr>"
    by (simp_all add: helper_run_def Helper_SysInstallerInit_def init_status_def init_processer_def
        Helper_SetUpdateCallback_def Status_SetUpdateCallback_def OnUpgradeProgress_def Status_Init_def
        StatusManager_new_def Helper_new_def GetStatusManager_def GetActionProcesser_def Let_def)
  have p: "idle ?p = ?p" "ap_statusManager ?p = 0" by (simp_all add: idle_def ActionProcesser_new_def)
  have n: "\<not> contains_str PATCH_PACKAGE_NAME ''/p.zip''" by code_simp
  note st = start_keeps [OF g p(1), of ?U "''/bad.zip''"]
  have run: "restart_helper = snd (Helper_StartUpdatePackageZip ?U ''a'' ''/p.zip''
      (snd (Helper_StartUpdatePackageZip ?U ''a'' ''/bad.zip'' ?h)))"
    by (simp add: restart_helper_def helper_run_def)
  have bad: "in_heap (hp_in (snd (Helper_StartUpdatePackageZip ?U ''a'' ''/bad.zip'' ?h))) 0
      = Status_UpdateCallback UPDATE_STATE_FAILED 100 (string_of_int 1)
          (SetUpdatePercent 1 (Status_UpdateCallback UPDATE_STATE_ONGOING 0 [] (in_heap (hp_in ?h) 0)))"
    by (rule refused_start [OF g p]) (simp_all add: picky_updlib_def good_updlib_def)
  have good: "in_heap (hp_in restart_helper) 0 = Status_UpdateCallback UPDATE_STATE_SUCCESSFUL 100 []
      (SetUpdatePercent 5 (SetUpdatePercent 5 (SetUpdatePercent 1 (Status_UpdateCallback UPDATE_STATE_ONGOING 0 []
        (in_heap (hp_in (snd (Helper_StartUpdatePackageZip ?U ''a'' ''/bad.zip'' ?h))) 0)))))"
    unfolding run
    by (rule plain_start [OF st p _ n, where rp = "''/p.zip''"]) (simp_all add: picky_updlib_def good_updlib_def)
  have le: "UPDATE_STATE_ONGOING \<le> UPDATE_STATE_MAX" "UPDATE_STATE_FAILED \<le> UPDATE_STATE_MAX"
    "UPDATE_STATE_SUCCESSFUL \<le> UPDATE_STATE_MAX" by (simp_all add: less_eq_UpdateStatus_def)
  have m0: "sm_updateCallback (in_heap (hp_in ?h) 0) = Some 7"
    "heard (in_heap (hp_in ?h) 0) = (UPDATE_STATE_INIT, 0, [(UPDATE_STATE_INIT, 0)])"
    unfolding m by (simp_all add: heard_def)
  note b0 = heard_update [OF m0 le(1), of 0 0 "[]", simplified]
  note b1 = heard_percent [OF b0(2,1) le(1), of 1 1, simplified]
  note b2 = heard_update [OF b1(2,1) le(2), of 100 100 "string_of_int 1", folded bad, simplified]
  note g0 = heard_update [OF b2(2,1) le(1), of 0 100 "[]", simplified]
  note g1 = heard_percent [OF g0(2,1) le(1), of 1 100, simplified]
  note g2 = heard_percent [OF g1(2,1) le(1), of 5 100, simplified]
  note g3 = heard_percent [OF g2(2,1) le(1), of 5 100, simplified]
  note g4 = heard_update [OF g3(2,1) le(3), of 100 100 "[]", folded good, simplified]
  show ?thesis using g4(1) by (simp add: heard_def)
qed

theorem Session_reports_monotone_witness:
  "sorted (percents (in_heap (hp_in restart_helper) 0)) \<and> length (sm_told (in_heap (hp_in restart_helper) 0)) = 9"
proof -
  have A: "finds_only (sample_samgr (found_service picky_updlib)) (found_service picky_updlib)"
    by (simp add: finds_only_def sample_samgr_def)
  from Session_reports_monotone [OF A restart_manager [unfolded restart_run_def] refl, of 0]
    arg_cong [OF restart_reports, of length]
  show ?thesis by (simp add: sorted_append)
qed

end
