(* ===== verification/Installer_Client.thy ===== *)
theory Installer_Client
  imports Installer_Kits
begin

text \<open>
  interfaces/innerkits/ipc_client/src/sys_installer_client.cpp: the demonstration client of the
  installer, a command line that makes one call for each number. What it prints is a list of
  lines, each without its line break; the lines of its callback are printed on a thread of their
  own and are not part of the list. \<open>argv\<close> is the command line, the program's name included.
\<close>

datatype SysInstallerInterfaceCode =
    SYS_INSTALLER_INIT | UPDATE_PACKAGE | START_STREAM_UPDATE | STOP_STREAM_UPDATE
  | PROCESS_STREAM_DATA | SET_UPDATE_CALLBACK | GET_UPDATE_STATUS | UPDATE_PARA_PACKAGE
  | DELETE_PARA_PACKAGE | DECOMPRESS_ACC_PACKAGE | DELETE_ACC_PACKAGE | DELETE_UPDATE_RESULT
  | EXIT_SYS_INSTALLER

definition interface_codes :: "SysInstallerInterfaceCode list" where
  "interface_codes =
     [SYS_INSTALLER_INIT, UPDATE_PACKAGE, START_STREAM_UPDATE, STOP_STREAM_UPDATE,
      PROCESS_STREAM_DATA, SET_UPDATE_CALLBACK, GET_UPDATE_STATUS, UPDATE_PARA_PACKAGE,
      DELETE_PARA_PACKAGE, DECOMPRESS_ACC_PACKAGE, DELETE_ACC_PACKAGE, DELETE_UPDATE_RESULT,
      EXIT_SYS_INSTALLER]"

text \<open>The enumeration starts at 1; any other number names no call.\<close>

definition interface_code :: "int \<Rightarrow> SysInstallerInterfaceCode option" where
  "interface_code n =
     (if 1 \<le> n \<and> n \<le> int (length interface_codes) then Some (interface_codes ! nat (n - 1)) else None)"

text \<open>
  The C library's \<open>atoi\<close> on a text whose number fits an int: white space, a sign, and as many
  digits as there are.
\<close>

definition atoi :: "string \<Rightarrow> int" where
  "atoi s =
     (let t = dropWhile (\<lambda>c. of_char c = (32 :: nat) \<or> (9 \<le> (of_char c :: nat) \<and> (of_char c :: nat) \<le> 13)) s;
          (neg, u) = (case t of
              [] \<Rightarrow> (False, [])
            | c # r \<Rightarrow> if c = CHR ''-'' then (True, r) else if c = CHR ''+'' then (False, r) else (False, t));
          digits = takeWhile (\<lambda>c. 48 \<le> (of_char c :: nat) \<and> (of_char c :: nat) \<le> 57) u;
          n = foldl (\<lambda>a c. 10 * a + (of_char c - 48 :: int)) 0 digits
      in if neg then - n else n)"

text \<open>
  \<open>updateResult = ExitSysInstaller()\<close> assigns an int to a string: the string becomes the one
  character the int is cut to, and \<open>printf\<close> stops at a zero.
\<close>

definition string_of_assigned_int :: "int \<Rightarrow> string" where
  "string_of_assigned_int n = [char_of (nat (n mod 256))]"

definition c_str :: "string \<Rightarrow> string" where
  "c_str s = takeWhile (\<lambda>c. of_char c \<noteq> (0 :: nat)) s"

type_synonym 's installer_client = "'s isys_installer sys_kits \<times> 's"

definition Client_switch ::
  "'s isys_installer samgr \<Rightarrow> int \<Rightarrow> string \<Rightarrow> int \<Rightarrow> 's installer_client
   \<Rightarrow> (int \<times> string) \<times> 's installer_client"
where
  "Client_switch A n taskId ret c =
     (let keep = (\<lambda>(r, c1). ((r, []), c1))
      in case interface_code n of
        Some UPDATE_PACKAGE \<Rightarrow>
          keep (SysKits_StartUpdatePackageZip A taskId ''/data/ota_package/update.zip'' c)
      | Some GET_UPDATE_STATUS \<Rightarrow> keep (SysKits_GetUpdateStatus A taskId c)
      | Some UPDATE_PARA_PACKAGE \<Rightarrow> keep (SysKits_package_call A StartUpdateParaZip c)
      | Some DELETE_PARA_PACKAGE \<Rightarrow> keep (SysKits_package_call A StartDeleteParaZip c)
      | Some DECOMPRESS_ACC_PACKAGE \<Rightarrow> keep (SysKits_package_call A AccDecompressAndVerifyPkg c)
      | Some DELETE_ACC_PACKAGE \<Rightarrow> keep (SysKits_package_call A AccDeleteDir c)
      | Some DELETE_UPDATE_RESULT \<Rightarrow>
          (case SysKits_GetUpdateResult A taskId c of (updateResult, c1) \<Rightarrow> ((ret, updateResult), c1))
      | Some EXIT_SYS_INSTALLER \<Rightarrow>
          (case SysKits_ExitSysInstaller A c of (r, c1) \<Rightarrow> ((ret, string_of_assigned_int r), c1))
      | _ \<Rightarrow> ((ret, []), c))"

definition Client_main ::
  "'s isys_installer samgr \<Rightarrow> (nat \<Rightarrow> nat option) \<Rightarrow> string list \<Rightarrow> 's installer_client
   \<Rightarrow> (int \<times> string list) \<times> 's installer_client"
where
  "Client_main A wrapper argv c =
     (if length argv \<noteq> 3 then ((-1, [''argc para error'']), c)
      else let taskId = argv ! 2
      in case SysKits_SysInstallerInit A taskId False c of
        (ret, c1) \<Rightarrow>
      (case SysKits_SetUpdateCallback A wrapper taskId (Some 0) c1 of
        (ignored, c2) \<Rightarrow>
      (case Client_switch A (atoi (argv ! 1)) taskId ret c2 of
        ((ret1, updateResult), c3) \<Rightarrow>
          ((ret1, [''SysInstallerInit ret:'' @ string_of_int ret @ '' taskId '' @ taskId,
                   ''argv[1]:'' @ string_of_int (atoi (argv ! 1)),
                   ''updateResult '' @ c_str updateResult]), c3))))"

section \<open>Properties\<close>

lemma interface_code_13: "interface_code 13 = Some EXIT_SYS_INSTALLER"
  by (simp add: interface_code_def interface_codes_def)

text \<open>
  A refused exit is not reported: whatever the service answers to the exit of number 13, the
  client's result is that of its initialisation, and the answer is printed as one character, of
  which an accepted exit shows nothing.
\<close>

theorem Client_exit_unreported:
  assumes "length argv = 3" and "atoi (argv ! 1) = 13"
    and "SysKits_SysInstallerInit A (argv ! 2) False c = (ret, c1)"
    and "SysKits_SetUpdateCallback A wrapper (argv ! 2) (Some 0) c1 = (r2, c2)"
    and "SysKits_ExitSysInstaller A c2 = (r, c3)"
  shows "fst (fst (Client_main A wrapper argv c)) = ret
     \<and> last (snd (fst (Client_main A wrapper argv c))) = ''updateResult '' @ c_str [char_of (nat (r mod 256))]"
  using assms
  by (simp add: Client_main_def Client_switch_def interface_code_13 Let_def string_of_assigned_int_def)

end
